(* ===== verification/Prelude.thy ===== *)
theory Prelude
  imports Main
begin

text \<open>
  Shared vocabulary of the development.

  \<^item> Error values. The Go code builds every error with \<open>fmt.Errorf\<close>; such an error is
    kept here as its format string and its arguments (\<open>Errorf fmt args\<close>), so an error site
    of the model can be compared with the source character by character. Texts that the code
    formats only to show them (\<open>fmt.Sprintf\<close> lines that end in an error, writes to a log)
    have the same shape. An error that a library returned is \<open>Ext\<close>: its text and the status
    and reason the code can inspect. \<open>Joined\<close> is \<open>errors.Join\<close>.
  \<^item> The process state \<open>sys\<close>: the outside world (any type), the monotonic clock in
    nanoseconds, the history of the requests the process has issued together with what came
    back, and the lines it has written. A request to a service is an \<open>api\<close> function: it
    returns a response, how long the response took, and the world after it.
  \<^item> Named collections: \<open>sys_simps\<close> for evaluating the state operations and
    \<open>go_defs\<close> for the definitions that only name a piece of the source.
\<close>

named_theorems sys_simps "evaluation of the operations on the process state"
named_theorems go_defs "definitions that name a piece of the source"
named_theorems hist_simps "what an operation appends to the request history"

subsection \<open>Errors and formatted texts\<close>

record ext_error =
  emsg :: string
  estatus :: "int option"
  ereason :: string

text \<open>A JSON document, as parsed; an object is the list of its members.\<close>

datatype json =
    JNull
  | JBool bool
  | JNum string
  | JStr string
  | JArr "json list"
  | JObj "(string \<times> json) list"

datatype go_error =
    Errorf string "go_arg list"
  | Ext ext_error
  | Joined "go_error list"
and go_arg =
    AStr string
  | AInt int
  | ABool bool
  | AStrs "string list"
  | AErr "go_error option"
  | ALines "go_error list"
  | APairs "(string \<times> string) list"
  | AJson "json option"

abbreviation Sprintf :: "string \<Rightarrow> go_arg list \<Rightarrow> go_error" where
  "Sprintf \<equiv> Errorf"

abbreviation AExt :: "ext_error \<Rightarrow> go_arg" where
  "AExt e \<equiv> AErr (Some (Ext e))"

abbreviation AWrap :: "go_error \<Rightarrow> go_arg" where
  "AWrap e \<equiv> AErr (Some e)"

text \<open>A plain library error with a message only, for concrete inputs.\<close>

definition plain_error :: "string \<Rightarrow> ext_error" where
  [go_defs]: "plain_error m = \<lparr>emsg = m, estatus = None, ereason = []\<rparr>"

lemma emsg_plain_error [simp]: "emsg (plain_error m) = m"
  and estatus_plain_error [simp]: "estatus (plain_error m) = None"
  and ereason_plain_error [simp]: "ereason (plain_error m) = []"
  by (simp_all add: plain_error_def)

subsection \<open>The process state\<close>

type_synonym ('w, 'a) api = "'w \<Rightarrow> ('a \<times> nat) \<times> 'w"

record ('w, 'ev) sys =
  ext :: 'w
  now :: nat
  hist :: "'ev list"
  out :: "go_error list"

definition call :: "('a \<Rightarrow> 'ev) \<Rightarrow> ('w, 'a) api \<Rightarrow> ('w, 'ev) sys \<Rightarrow> 'a \<times> ('w, 'ev) sys" where
  "call ev f s =
     (case f (ext s) of ((a, d), w) \<Rightarrow>
        (a, s\<lparr>ext := w, now := now s + d, hist := hist s @ [ev a]\<rparr>))"

definition printf :: "string \<Rightarrow> go_arg list \<Rightarrow> ('w, 'ev) sys \<Rightarrow> ('w, 'ev) sys" where
  "printf fmt args s = s\<lparr>out := out s @ [Sprintf fmt args]\<rparr>"

lemma call_result: "fst (call ev f s) = fst (fst (f (ext s)))"
  by (simp add: call_def split: prod.splits)

lemma hist_call [hist_simps]: "call ev f s = (a, s') \<Longrightarrow> hist s' = hist s @ [ev a]"
  by (auto simp: call_def split: prod.splits)

lemma now_call: "call ev f s = (a, s') \<Longrightarrow> now s \<le> now s'"
  by (auto simp: call_def split: prod.splits)

lemma out_call: "call ev f s = (a, s') \<Longrightarrow> out s' = out s"
  by (auto simp: call_def split: prod.splits)

lemma hist_printf [simp, sys_simps]: "hist (printf fmt args s) = hist s"
  and now_printf [simp, sys_simps]: "now (printf fmt args s) = now s"
  and ext_printf [simp, sys_simps]: "ext (printf fmt args s) = ext s"
  and out_printf [simp, sys_simps]: "out (printf fmt args s) = out s @ [Sprintf fmt args]"
  by (simp_all add: printf_def)

text \<open>An operation only issued requests that satisfy \<open>P\<close>.\<close>

definition appends :: "('ev \<Rightarrow> bool) \<Rightarrow> ('w, 'ev) sys \<Rightarrow> ('w, 'ev) sys \<Rightarrow> bool" where
  "appends P s s' \<longleftrightarrow> (\<exists>evs. hist s' = hist s @ evs \<and> list_all P evs)"

lemma appends_same: "hist s' = hist s \<Longrightarrow> appends P s s'"
  by (simp add: appends_def)

lemma appends_refl [simp]: "appends P s s"
  by (simp add: appends_same)

lemma appends_printf [simp]: "appends P s (printf fmt args s') = appends P s s'"
  by (simp add: appends_def)

lemma appends_trans: "appends P s s1 \<Longrightarrow> appends P s1 s2 \<Longrightarrow> appends P s s2"
  by (force simp: appends_def)

lemma appends_call: "call ev f s = (a, s') \<Longrightarrow> P (ev a) \<Longrightarrow> appends P s s'"
  by (auto simp: appends_def dest: hist_call)

lemma appends_weaken: "appends P s s' \<Longrightarrow> (\<And>e. P e \<Longrightarrow> Q e) \<Longrightarrow> appends Q s s'"
  by (auto simp: appends_def list_all_iff)

lemma appendsD: "appends P s s' \<Longrightarrow> hist s' = hist s @ evs \<Longrightarrow> list_all P evs"
  by (auto simp: appends_def)

text \<open>An empty state around a world, for concrete inputs.\<close>

definition start :: "'w \<Rightarrow> ('w, 'ev) sys" where
  [go_defs]: "start w = \<lparr>ext = w, now = 0, hist = [], out = []\<rparr>"

lemma start_simps [simp]:
  "ext (start w) = w" "now (start w) = 0" "hist (start w) = []" "out (start w) = []"
  by (simp_all add: start_def)

subsection \<open>Waiting\<close>

text \<open>
  \<open>select { case <-ctx.Done(): ... case <-time.After(d): ... }\<close>: the environment decides
  which channel fires. With \<open>None\<close> the timer fired, no earlier than \<open>d\<close> (the number is
  the scheduling delay beyond \<open>d\<close>); with \<open>Some e\<close> the context was done first, after the
  given time, and \<open>e\<close> is \<open>ctx.Err()\<close>. \<open>time.Sleep\<close> has no such choice.
\<close>

record 'w timing =
  await :: "nat \<Rightarrow> ('w, go_error option) api"
  oversleep :: "('w, unit) api"

definition sleep_or_done ::
  "'w timing \<Rightarrow> nat \<Rightarrow> ('w, 'ev) sys \<Rightarrow> go_error option \<times> ('w, 'ev) sys" where
  "sleep_or_done c d s =
     (case await c d (ext s) of
        ((None, x), w) \<Rightarrow> (None, s\<lparr>ext := w, now := now s + d + x\<rparr>)
      | ((Some e, x), w) \<Rightarrow> (Some e, s\<lparr>ext := w, now := now s + x\<rparr>))"

definition sleep :: "'w timing \<Rightarrow> nat \<Rightarrow> ('w, 'ev) sys \<Rightarrow> ('w, 'ev) sys" where
  "sleep c d s = (case oversleep c (ext s) of ((_, x), w) \<Rightarrow> s\<lparr>ext := w, now := now s + d + x\<rparr>)"

lemma hist_sleep_or_done [hist_simps]: "sleep_or_done c d s = (r, s') \<Longrightarrow> hist s' = hist s"
  by (auto simp: sleep_or_done_def split: prod.splits option.splits)

lemma out_sleep_or_done: "sleep_or_done c d s = (r, s') \<Longrightarrow> out s' = out s"
  by (auto simp: sleep_or_done_def split: prod.splits option.splits)

lemma now_sleep_or_done: "sleep_or_done c d s = (r, s') \<Longrightarrow> now s \<le> now s'"
  by (auto simp: sleep_or_done_def split: prod.splits option.splits)

lemma now_sleep_fired: "sleep_or_done c d s = (None, s') \<Longrightarrow> now s + d \<le> now s'"
  by (auto simp: sleep_or_done_def split: prod.splits option.splits)

lemma hist_sleep [simp, sys_simps]: "hist (sleep c d s) = hist s"
  and out_sleep [simp, sys_simps]: "out (sleep c d s) = out s"
  and now_sleep: "now s + d \<le> now (sleep c d s)"
  by (simp_all add: sleep_def split: prod.splits)

text \<open>A punctual environment that never cancels, for concrete inputs.\<close>

definition punctual :: "'w timing" where
  [go_defs]: "punctual = \<lparr>await = (\<lambda>d w. ((None, 0), w)), oversleep = (\<lambda>w. (((), 0), w))\<rparr>"

lemma sleep_or_done_punctual [simp]:
  "sleep_or_done punctual d s = (None, s\<lparr>now := now s + d\<rparr>)"
  by (simp add: sleep_or_done_def punctual_def)

lemma sleep_punctual [simp]: "sleep punctual d s = s\<lparr>now := now s + d\<rparr>"
  by (simp add: sleep_def punctual_def)

subsection \<open>Durations in nanoseconds\<close>

definition seconds :: "nat \<Rightarrow> nat" where
  "seconds n = n * 1000000000"

definition minutes :: "nat \<Rightarrow> nat" where
  "minutes n = seconds (60 * n)"

lemma seconds_pos [simp]: "0 < seconds n \<longleftrightarrow> 0 < n"
  by (simp add: seconds_def)

lemma seconds_mono [simp]: "seconds m \<le> seconds n \<longleftrightarrow> m \<le> n"
  by (simp add: seconds_def)

lemma seconds_add: "seconds (m + n) = seconds m + seconds n"
  by (simp add: seconds_def)

subsection \<open>Ranks of events: one phase after the other\<close>

text \<open>
  Statements of the form "all requests of kind A are issued before any of kind B" are
  \<open>sorted (map rank evs)\<close>. A stretch of events of one rank is sorted, and concatenation
  keeps sortedness when the ranks on the left are bounded by those on the right.
\<close>

lemma sorted_map_const: "list_all (\<lambda>e. rank e = k) es \<Longrightarrow> sorted (map (rank :: 'e \<Rightarrow> nat) es)"
  by (induction es) (auto simp: list_all_iff)

lemma sorted_map_append:
  "sorted (map (rank :: 'e \<Rightarrow> nat) xs) \<Longrightarrow> sorted (map rank ys) \<Longrightarrow>
   list_all (\<lambda>e. rank e \<le> k) xs \<Longrightarrow> list_all (\<lambda>e. k \<le> rank e) ys \<Longrightarrow>
   sorted (map rank (xs @ ys))"
  by (auto simp: sorted_append list_all_iff intro: order_trans)

end
