(* ===== verification/Polling.thy ===== *)
theory Polling
  imports Prelude
begin

text \<open>
  The two polling loops of the program, once each.

  \<^item> \<open>poll_deadline\<close> is the loop of \<open>waitForENIAvailable\<close>, \<open>waitForOAuthPodReadiness\<close> and
    \<open>waitForOAuthWellKnownEndpoint\<close>: test the deadline, probe, then wait for the poll
    interval or the context.
  \<^item> \<open>poll_ticker\<close> is the loop of \<open>WaitForClusterReady\<close> and \<open>WaitForUpgradeComplete\<close>: a
    \<open>select\<close> over a context with a timeout and a ticker, and a probe on every tick.

  Both are partial functions into \<open>option\<close>: \<open>None\<close> is a loop that never returns, so that
  returning is something to prove. The probe is the body of the loop up to the point where
  it goes round again: \<open>Some r\<close> returns \<open>r\<close>, \<open>None\<close> goes on. The locale \<open>single_probe\<close>
  is what the loops rely on: one request per round (\<open>request a\<close> is its record with the
  answer \<open>a\<close>), and the answer alone decides whether the loop returns (\<open>verdict\<close>);
  its lemmas say when the loops return and with what.
\<close>

subsection \<open>A loop with a deadline and a sleep\<close>

partial_function (option) poll_deadline ::
  "'w timing \<Rightarrow> nat \<Rightarrow> nat \<Rightarrow> (go_error \<Rightarrow> 'r) \<Rightarrow> 'r \<Rightarrow>
   (('w, 'ev) sys \<Rightarrow> 'r option \<times> ('w, 'ev) sys) \<Rightarrow> ('w, 'ev) sys \<Rightarrow>
   ('r \<times> ('w, 'ev) sys) option" where
  "poll_deadline c poll deadline cancelled timedout body s =
     (if deadline < now s then Some (timedout, s)
      else (case body s of (v, s1) \<Rightarrow>
        (case v of
           Some r \<Rightarrow> Some (r, s1)
         | None \<Rightarrow>
             (case sleep_or_done c poll s1 of (d, s2) \<Rightarrow>
                (case d of
                   Some e \<Rightarrow> Some (cancelled e, s2)
                 | None \<Rightarrow> poll_deadline c poll deadline cancelled timedout body s2)))))"

subsection \<open>A loop over a context with a timeout and a ticker\<close>

text \<open>
  \<open>select { case <-ctx.Done(): ... case <-ticker.C: ... }\<close>. When neither channel is ready
  the process blocks until the earlier of the two instants, and is woken with some delay
  (\<open>slack\<close>); when both are ready Go picks one at random (\<open>coin\<close>, true for the context).
  The result is true when the tick was received.
\<close>

record 'w runtime =
  slack :: "'w \<Rightarrow> nat \<times> 'w"
  coin :: "'w \<Rightarrow> bool \<times> 'w"

definition block_until :: "'w runtime \<Rightarrow> nat \<Rightarrow> nat \<Rightarrow> ('w, 'ev) sys \<Rightarrow> ('w, 'ev) sys" where
  "block_until rt deadline tick s =
     (if deadline \<le> now s \<or> tick \<le> now s then s
      else case slack rt (ext s) of (x, w) \<Rightarrow> s\<lparr>ext := w, now := min deadline tick + x\<rparr>)"

definition tick_select ::
  "'w runtime \<Rightarrow> nat \<Rightarrow> nat \<Rightarrow> ('w, 'ev) sys \<Rightarrow> bool \<times> ('w, 'ev) sys" where
  "tick_select rt deadline tick s =
     (let s1 = block_until rt deadline tick s
      in if deadline \<le> now s1 \<and> tick \<le> now s1
         then (case coin rt (ext s1) of (d, w) \<Rightarrow> (\<not> d, s1\<lparr>ext := w\<rparr>))
         else (tick \<le> now s1, s1))"

text \<open>A ticker drops the ticks nobody received: the next one is the first in the future.\<close>

definition next_tick :: "nat \<Rightarrow> nat \<Rightarrow> nat \<Rightarrow> nat" where
  "next_tick period tick t = tick + period * ((t - tick) div period + 1)"

partial_function (option) poll_ticker ::
  "'w runtime \<Rightarrow> nat \<Rightarrow> nat \<Rightarrow> 'r \<Rightarrow>
   (('w, 'ev) sys \<Rightarrow> 'r option \<times> ('w, 'ev) sys) \<Rightarrow> nat \<Rightarrow> ('w, 'ev) sys \<Rightarrow>
   ('r \<times> ('w, 'ev) sys) option" where
  "poll_ticker rt period deadline timedout body tick s =
     (case tick_select rt deadline tick s of (ticked, s1) \<Rightarrow>
        if \<not> ticked then Some (timedout, s1)
        else (case body s1 of (v, s2) \<Rightarrow>
          (case v of
             Some r \<Rightarrow> Some (r, s2)
           | None \<Rightarrow>
               poll_ticker rt period deadline timedout body
                 (next_tick period tick (now s1)) s2)))"

subsection \<open>The abstract specification: the first decisive observation\<close>

fun first_verdict :: "('a \<Rightarrow> 'r option) \<Rightarrow> 'a list \<Rightarrow> 'r option" where
  "first_verdict verdict [] = None"
| "first_verdict verdict (e # es) =
     (case verdict e of Some r \<Rightarrow> Some r | None \<Rightarrow> first_verdict verdict es)"

lemma first_verdict_None_iff:
  "first_verdict verdict es = None \<longleftrightarrow> list_all (\<lambda>e. verdict e = None) es"
  by (induction es) (auto split: option.splits)

lemma first_verdict_append:
  "first_verdict verdict (xs @ ys) =
     (case first_verdict verdict xs of Some r \<Rightarrow> Some r | None \<Rightarrow> first_verdict verdict ys)"
  by (induction xs) (auto split: option.splits)

lemma first_verdict_Some_in:
  "first_verdict verdict es = Some r \<Longrightarrow> \<exists>e \<in> set es. verdict e = Some r"
  by (induction es) (auto split: option.splits)

text \<open>
  What a finished run of a loop has done: the observations \<open>evs\<close> it made, all but the
  last undecided, and the result; \<open>rest r\<close> says which results are possible when no
  observation decided.
\<close>

definition polled ::
  "('a \<Rightarrow> 'r option) \<Rightarrow> ('r \<Rightarrow> bool) \<Rightarrow> 'a list \<Rightarrow> 'r \<Rightarrow> bool" where
  "polled verdict rest evs r \<longleftrightarrow>
     list_all (\<lambda>e. verdict e = None) (butlast evs) \<and>
     (case first_verdict verdict evs of Some v \<Rightarrow> r = v | None \<Rightarrow> rest r)"

lemma polled_Nil [simp]: "polled verdict rest [] r = rest r"
  by (simp add: polled_def)

lemma polled_decided: "verdict e = Some r \<Longrightarrow> polled verdict rest [e] r"
  by (simp add: polled_def)

lemma polled_undecided: "verdict e = None \<Longrightarrow> rest r \<Longrightarrow> polled verdict rest [e] r"
  by (simp add: polled_def)

lemma polled_Cons:
  "verdict e = None \<Longrightarrow> polled verdict rest evs r \<Longrightarrow> polled verdict rest (e # evs) r"
  by (auto simp: polled_def)

lemma polled_result:
  "polled verdict rest evs r \<Longrightarrow> \<not> rest r \<Longrightarrow> \<exists>es e. evs = es @ [e] \<and> verdict e = Some r"
proof (induction evs rule: rev_induct)
  case (snoc e es)
  then have "first_verdict verdict es = None"
    by (simp add: polled_def first_verdict_None_iff)
  with snoc.prems show ?case
    by (auto simp: polled_def first_verdict_append split: option.splits)
qed simp

subsection \<open>Progress of the ticker\<close>

text \<open>The number of ticks strictly before the deadline, from the next tick on.\<close>

definition ticks_before :: "nat \<Rightarrow> nat \<Rightarrow> nat \<Rightarrow> nat" where
  "ticks_before period deadline tick = (deadline - tick + (period - 1)) div period"

definition fair :: "'w runtime \<Rightarrow> ('w \<Rightarrow> nat) \<Rightarrow> bool" where
  "fair rt m \<longleftrightarrow>
     (\<forall>w. m (snd (slack rt w)) \<le> m w) \<and>
     (\<forall>w. \<not> fst (coin rt w) \<longrightarrow> m (snd (coin rt w)) < m w)"

lemma next_tick_gt: "0 < period \<Longrightarrow> t < next_tick period tick t"
proof -
  assume p: "0 < period"
  have "t - tick < period * ((t - tick) div period + 1)"
    using p dividend_less_times_div by simp
  then show ?thesis by (simp add: next_tick_def)
qed

lemma next_tick_step: "tick + period \<le> next_tick period tick t"
  by (simp add: next_tick_def)

lemma ticks_before_mono:
  "0 < period \<Longrightarrow> tick \<le> tick' \<Longrightarrow> ticks_before period deadline tick' \<le> ticks_before period deadline tick"
  by (auto simp: ticks_before_def intro!: div_le_mono)

lemma ticks_before_step:
  assumes "0 < period" "tick < deadline" "tick + period \<le> tick'"
  shows "ticks_before period deadline tick' < ticks_before period deadline tick"
proof -
  have "deadline - tick' + (period - 1) + period \<le> deadline - tick + (period - 1) + 0 \<or> deadline - tick' = 0"
    using assms by auto
  then show ?thesis
  proof
    assume "deadline - tick' + (period - 1) + period \<le> deadline - tick + (period - 1) + 0"
    then have "(deadline - tick' + (period - 1) + period) div period \<le> ticks_before period deadline tick"
      unfolding ticks_before_def by (intro div_le_mono) simp
    moreover have "(deadline - tick' + (period - 1) + period) div period
        = ticks_before period deadline tick' + 1"
      using assms(1) by (simp only: ticks_before_def div_add_self2)
    ultimately show ?thesis by simp
  next
    assume z: "deadline - tick' = 0"
    have "1 \<le> ticks_before period deadline tick"
      using assms by (simp add: ticks_before_def div_greater_zero_iff Suc_le_eq)
    with z assms(1) show ?thesis by (simp add: ticks_before_def)
  qed
qed

lemma hist_block_until [simp]: "hist (block_until rt d k s) = hist s"
  by (simp add: block_until_def split: prod.splits)

lemma hist_tick_select: "tick_select rt d k s = (b, s') \<Longrightarrow> hist s' = hist s"
  by (auto simp: tick_select_def Let_def split: if_splits prod.splits)

lemma block_until_ready: "d \<le> now (block_until rt d k s) \<or> k \<le> now (block_until rt d k s)"
  by (auto simp: block_until_def split: prod.splits)

lemma tick_select_done: "tick_select rt d k s = (False, s') \<Longrightarrow> d \<le> now s'"
  using block_until_ready [of d rt k s]
  by (auto simp: tick_select_def Let_def split: if_splits prod.splits)

lemma tick_select_tick: "tick_select rt d k s = (True, s') \<Longrightarrow> k \<le> now s'"
  by (auto simp: tick_select_def Let_def split: if_splits prod.splits)

lemma fair_block: "fair rt m \<Longrightarrow> m (ext (block_until rt d k s)) \<le> m (ext s)"
  by (auto simp: block_until_def fair_def split: prod.splits) (metis snd_conv)

lemma fair_coin: "fair rt m \<Longrightarrow> coin rt w = (False, w') \<Longrightarrow> m w' < m w"
  by (metis fair_def fst_conv snd_conv)

lemma tick_progress:
  assumes p: "0 < period" and f: "fair rt m" and sel: "tick_select rt d k s = (True, s1)"
  shows "ticks_before period d (next_tick period k (now s1)) + m (ext s1)
           < ticks_before period d k + m (ext s)"
proof (cases "d \<le> now (block_until rt d k s) \<and> k \<le> now (block_until rt d k s)")
  case True
  then obtain w where "coin rt (ext (block_until rt d k s)) = (False, w)"
      and s1: "s1 = (block_until rt d k s)\<lparr>ext := w\<rparr>"
    using sel by (auto simp: tick_select_def Let_def split: prod.splits)
  then have "m (ext s1) < m (ext s)"
    using fair_coin [OF f] fair_block [OF f, of d k s] by fastforce
  moreover have "ticks_before period d (next_tick period k (now s1)) \<le> ticks_before period d k"
    by (rule ticks_before_mono [OF p]) (simp add: next_tick_def)
  ultimately show ?thesis by simp
next
  case False
  with sel have s1: "s1 = block_until rt d k s" and k: "k \<le> now s1"
    by (auto simp: tick_select_def Let_def split: if_splits)
  with False have "k < d" by auto
  then have "ticks_before period d (next_tick period k (now s1)) < ticks_before period d k"
    by (rule ticks_before_step [OF p _ next_tick_step])
  moreover have "m (ext s1) \<le> m (ext s)" unfolding s1 by (rule fair_block [OF f])
  ultimately show ?thesis by simp
qed

subsection \<open>What the loops rely on\<close>

text \<open>What a run of the loop with a deadline has done when it returns \<open>r\<close> in \<open>s'\<close>.\<close>

definition deadline_outcome ::
  "('a \<Rightarrow> 'ev) \<Rightarrow> ('a \<Rightarrow> 'r option) \<Rightarrow> nat \<Rightarrow> nat \<Rightarrow> (go_error \<Rightarrow> 'r) \<Rightarrow> 'r \<Rightarrow> ('w, 'ev) sys \<Rightarrow> 'r \<Rightarrow>
   ('w, 'ev) sys \<Rightarrow> bool" where
  "deadline_outcome request verdict p d ca t s r s' \<longleftrightarrow>
     (\<exists>evs. hist s' = hist s @ map request evs \<and> now s \<le> now s' \<and>
        polled verdict (\<lambda>r. r = t \<and> d < now s' \<or> (\<exists>e. r = ca e)) evs r \<and>
        (evs \<noteq> [] \<longrightarrow> now s + p * (length evs - 1) \<le> d))"

text \<open>The same for the ticker loop.\<close>

definition ticker_outcome ::
  "('a \<Rightarrow> 'ev) \<Rightarrow> ('a \<Rightarrow> 'r option) \<Rightarrow> nat \<Rightarrow> 'r \<Rightarrow> ('w, 'ev) sys \<Rightarrow> 'r \<Rightarrow> ('w, 'ev) sys \<Rightarrow> bool" where
  "ticker_outcome request verdict d t s r s' \<longleftrightarrow>
     (\<exists>evs. hist s' = hist s @ map request evs \<and> polled verdict (\<lambda>r. r = t \<and> d \<le> now s') evs r)"

locale single_probe =
  fixes body :: "('w, 'ev) sys \<Rightarrow> 'r option \<times> ('w, 'ev) sys"
    and request :: "'a \<Rightarrow> 'ev"
    and verdict :: "'a \<Rightarrow> 'r option"
  assumes probe_event: "body s = (v, s') \<Longrightarrow> \<exists>e. hist s' = hist s @ [request e] \<and> verdict e = v"
    and probe_time: "body s = (v, s') \<Longrightarrow> now s \<le> now s'"
begin

text \<open>
  One round of the loop with a deadline, whatever it goes on with: if that has an outcome,
  so has the round.
\<close>

lemma deadline_round:
  assumes round: "(if d < now s then Some (t, s)
          else (case body s of (v, s1) \<Rightarrow>
            (case v of
               Some r \<Rightarrow> Some (r, s1)
             | None \<Rightarrow> (case sleep_or_done c p s1 of (x, s2) \<Rightarrow>
                 (case x of Some e \<Rightarrow> Some (ca e, s2) | None \<Rightarrow> go_on s2))))) = Some (r, s')"
    and rec: "\<And>s2. go_on s2 = Some (r, s') \<Longrightarrow> deadline_outcome request verdict p d ca t s2 r s'"
  shows "deadline_outcome request verdict p d ca t s r s'"
proof (cases "d < now s")
  case True
  with round show ?thesis by (auto simp: deadline_outcome_def)
next
  case in_time: False
  obtain v s1 where b: "body s = (v, s1)" by (cases "body s")
  obtain e where e: "hist s1 = hist s @ [request e]" "verdict e = v" using probe_event [OF b] by blast
  have t1: "now s \<le> now s1" by (rule probe_time [OF b])
  obtain x s2 where sl: "sleep_or_done c p s1 = (x, s2)" by (cases "sleep_or_done c p s1")
  have h2: "hist s2 = hist s1" and t2: "now s1 \<le> now s2"
    using hist_sleep_or_done [OF sl] now_sleep_or_done [OF sl] by auto
  consider r0 where "v = Some r0" | err where "v = None" "x = Some err" | "v = None" "x = None"
    by (cases v; cases x) auto
  then show ?thesis
  proof cases
    case 1
    with round in_time b have "r0 = r" "s1 = s'" by auto
    with 1 e t1 in_time show ?thesis
      unfolding deadline_outcome_def by (intro exI [where x = "[e]"]) (simp add: polled_decided)
  next
    case 2
    with round in_time b sl have "r = ca err" "s' = s2" by auto
    with 2 e h2 t1 t2 in_time show ?thesis
      unfolding deadline_outcome_def by (intro exI [where x = "[e]"]) (auto intro: polled_undecided)
  next
    case 3
    with round in_time b sl have "go_on s2 = Some (r, s')" by simp
    from rec [OF this] obtain evs where evs: "hist s' = hist s2 @ map request evs" "now s2 \<le> now s'"
        "polled verdict (\<lambda>r. r = t \<and> d < now s' \<or> (\<exists>e. r = ca e)) evs r"
        "evs \<noteq> [] \<longrightarrow> now s2 + p * (length evs - 1) \<le> d"
      by (auto simp: deadline_outcome_def)
    have "now s1 + p \<le> now s2" using now_sleep_fired sl 3 by blast
    then have "now s + p * length evs \<le> d"
      using evs(4) t1 in_time by (cases evs) auto
    then show ?thesis
      using evs e h2 3 t1 t2 unfolding deadline_outcome_def
      by (intro exI [where x = "e # evs"]) (auto intro: polled_Cons)
  qed
qed

lemma deadline_run:
  assumes run: "poll_deadline c poll deadline cancelled timedout body s = Some (r, s')"
  shows "\<exists>evs. hist s' = hist s @ map request evs \<and> now s \<le> now s' \<and>
           polled verdict (\<lambda>r. r = timedout \<and> deadline < now s' \<or> (\<exists>e. r = cancelled e)) evs r \<and>
           (evs \<noteq> [] \<longrightarrow> now s + poll * (length evs - 1) \<le> deadline)"
proof -
  let ?Q = "\<lambda>c p d ca t b s rs. b = body \<longrightarrow> deadline_outcome request verdict p d ca t s (fst rs) (snd rs)"
  have "?Q c poll deadline cancelled timedout body s (r, s')"
  proof (rule poll_deadline.raw_induct [where P = ?Q, OF _ run], intro impI, goal_cases)
    case (1 f c p d ca t b s rs)
    obtain r s' where rs: "rs = (r, s')" by (cases rs)
    from 1(2) [unfolded rs \<open>b = body\<close>] show ?case
      unfolding rs fst_conv snd_conv
      by (rule deadline_round) (use 1(1) in \<open>fastforce\<close>)
  qed
  then show ?thesis by (simp add: deadline_outcome_def)
qed

lemma deadline_returns:
  assumes poll: "0 < poll"
  shows "\<exists>r s'. poll_deadline c poll deadline cancelled timedout body s = Some (r, s')"
proof (induction "Suc deadline - now s" arbitrary: s rule: less_induct)
  case (less s)
  show ?case
  proof (cases "deadline < now s")
    case True
    then show ?thesis by (simp add: poll_deadline.simps)
  next
    case False
    obtain v s1 where b: "body s = (v, s1)" by (cases "body s")
    obtain x s2 where sl: "sleep_or_done c poll s1 = (x, s2)" by (cases "sleep_or_done c poll s1")
    have "now s < now s2" if "x = None"
      using now_sleep_fired [of c poll s1 s2] sl that poll probe_time [OF b] by simp
    with False have "x = None \<longrightarrow> Suc deadline - now s2 < Suc deadline - now s" by auto
    then have "x = None \<longrightarrow>
        (\<exists>r s'. poll_deadline c poll deadline cancelled timedout body s2 = Some (r, s'))"
      using less by blast
    then show ?thesis
      using False b sl by (subst poll_deadline.simps) (auto split: option.splits)
  qed
qed

text \<open>
  The ticker loop: the same structure; the deadline result is the only one an undecided
  run can have, and it is given only when the deadline has passed.
\<close>

lemma ticker_round:
  assumes round: "(case tick_select rt d k s of (ticked, s1) \<Rightarrow>
          if \<not> ticked then Some (t, s1)
          else (case body s1 of (v, s2) \<Rightarrow>
            (case v of Some r \<Rightarrow> Some (r, s2) | None \<Rightarrow> go_on s1 s2))) = Some (r, s')"
    and rec: "\<And>s1 s2. go_on s1 s2 = Some (r, s') \<Longrightarrow> ticker_outcome request verdict d t s2 r s'"
  shows "ticker_outcome request verdict d t s r s'"
proof -
  obtain ticked s1 where sel: "tick_select rt d k s = (ticked, s1)" by (cases "tick_select rt d k s")
  have h1: "hist s1 = hist s" by (rule hist_tick_select [OF sel])
  obtain v s2 where b: "body s1 = (v, s2)" by (cases "body s1")
  obtain e where e: "hist s2 = hist s1 @ [request e]" "verdict e = v" using probe_event [OF b] by blast
  consider "\<not> ticked" | r0 where ticked "v = Some r0" | ticked "v = None" by (cases v) auto
  then show ?thesis
  proof cases
    case 1
    then have "d \<le> now s1" using tick_select_done [of rt d k s s1] sel by simp
    with round sel 1 h1 show ?thesis by (auto simp: ticker_outcome_def)
  next
    case 2
    with round sel b have "r0 = r" "s2 = s'" by auto
    with 2 e h1 show ?thesis
      unfolding ticker_outcome_def by (intro exI [where x = "[e]"]) (simp add: polled_decided)
  next
    case 3
    with round sel b have "go_on s1 s2 = Some (r, s')" by simp
    from rec [OF this] e h1 3 show ?thesis
      unfolding ticker_outcome_def by (elim exE, intro exI [where x = "e # _"]) (auto intro: polled_Cons)
  qed
qed

lemma ticker_run:
  assumes run: "poll_ticker rt period deadline timedout body tick s = Some (r, s')"
  shows "\<exists>evs. hist s' = hist s @ map request evs \<and>
           polled verdict (\<lambda>r. r = timedout \<and> deadline \<le> now s') evs r"
proof -
  let ?Q = "\<lambda>rt p d t b k s rs. b = body \<longrightarrow> ticker_outcome request verdict d t s (fst rs) (snd rs)"
  have "?Q rt period deadline timedout body tick s (r, s')"
  proof (rule poll_ticker.raw_induct [where P = ?Q, OF _ run], intro impI, goal_cases)
    case (1 f rt p d t b k s rs)
    obtain r s' where rs: "rs = (r, s')" by (cases rs)
    from 1(2) [unfolded rs \<open>b = body\<close>] show ?case
      unfolding rs fst_conv snd_conv
      by (rule ticker_round) (use 1(1) in \<open>fastforce\<close>)
  qed
  then show ?thesis by (simp add: ticker_outcome_def)
qed

text \<open>
  The ticker loop returns, and within a bounded number of probes: one for every tick before
  the deadline, plus the times the runtime picks the ticker although the context is done.
  The last are counted by \<open>m\<close>, a measure on the world that each such pick decreases and
  nothing increases (Go's random choice between ready channels does not favour one for ever).
\<close>

text \<open>One round: it returns, with at most one probe, or goes on with less of the bound left.\<close>

lemma ticker_advances:
  assumes period: "0 < period"
    and fair: "fair rt m" "\<And>s. m (ext (snd (body s))) \<le> m (ext s)"
  obtains r s' evs where "poll_ticker rt period deadline timedout body tick s = Some (r, s')"
      "hist s' = hist s @ map request evs" "length evs \<le> ticks_before period deadline tick + m (ext s)"
    | e k s2 where "poll_ticker rt period deadline timedout body tick s =
        poll_ticker rt period deadline timedout body k s2" "hist s2 = hist s @ [request e]"
      "ticks_before period deadline k + m (ext s2) < ticks_before period deadline tick + m (ext s)"
proof -
  obtain ticked s1 where sel: "tick_select rt deadline tick s = (ticked, s1)"
    by (cases "tick_select rt deadline tick s")
  have h1: "hist s1 = hist s" by (rule hist_tick_select [OF sel])
  obtain v s2 where b: "body s1 = (v, s2)" by (cases "body s1")
  obtain e where e: "hist s2 = hist s1 @ [request e]" using probe_event [OF b] by blast
  let ?k = "next_tick period tick (now s1)"
  have dec: "ticks_before period deadline ?k + m (ext s2) < ticks_before period deadline tick + m (ext s)"
    if ticked
    using tick_progress [OF period fair(1), of deadline tick s s1] fair(2) [of s1] sel that b by simp
  consider "\<not> ticked" | r where ticked "v = Some r" | ticked "v = None" by (cases v) auto
  then show ?thesis
  proof cases
    case 1
    with sel h1 show ?thesis by (intro that(1) [of timedout s1 "[]"]) (simp_all add: poll_ticker.simps)
  next
    case 2
    with sel b h1 e dec show ?thesis
      by (intro that(1) [of r s2 "[e]"]) (simp_all add: poll_ticker.simps)
  next
    case 3
    with sel b h1 e dec show ?thesis
      by (intro that(2) [of ?k s2 e])
        (simp_all add: poll_ticker.simps [of rt period deadline timedout body tick s])
  qed
qed

lemma ticker_returns:
  assumes period: "0 < period"
    and fair: "fair rt m" "\<And>s. m (ext (snd (body s))) \<le> m (ext s)"
  shows "\<exists>r s' evs. poll_ticker rt period deadline timedout body tick s = Some (r, s') \<and>
           hist s' = hist s @ map request evs \<and>
           length evs \<le> ticks_before period deadline tick + m (ext s)"
proof (induction "ticks_before period deadline tick + m (ext s)" arbitrary: tick s rule: less_induct)
  case (less tick s)
  show ?case
  proof (rule ticker_advances [OF assms, of deadline timedout tick s], goal_cases)
    case (2 e k s2)
    from less [OF 2(3)] obtain r s' evs where
      "poll_ticker rt period deadline timedout body k s2 = Some (r, s')"
      "hist s' = hist s2 @ map request evs"
      "length evs \<le> ticks_before period deadline k + m (ext s2)" by blast
    with 2 show ?thesis
      by (intro exI [where x = r] exI [where x = s'] exI [where x = "e # evs"]) simp
  qed blast
qed

text \<open>Both facts about one run of the ticker loop.\<close>

lemma ticker_total:
  assumes period: "0 < period"
    and fair: "fair rt m" "\<And>s. m (ext (snd (body s))) \<le> m (ext s)"
  shows "\<exists>r s' evs. poll_ticker rt period deadline timedout body tick s = Some (r, s') \<and>
           hist s' = hist s @ map request evs \<and>
           length evs \<le> ticks_before period deadline tick + m (ext s) \<and>
           polled verdict (\<lambda>r. r = timedout \<and> deadline \<le> now s') evs r"
proof -
  obtain r s' evs where run: "poll_ticker rt period deadline timedout body tick s = Some (r, s')"
      and h: "hist s' = hist s @ map request evs"
      and l: "length evs \<le> ticks_before period deadline tick + m (ext s)"
    using ticker_returns [OF assms] by blast
  obtain evs' where h': "hist s' = hist s @ map request evs'"
      and p: "polled verdict (\<lambda>r. r = timedout \<and> deadline \<le> now s') evs' r"
    using ticker_run [OF run] by blast
  from h h' have "map request evs = map request evs'" by simp
  then have "length evs' = length evs" by (metis length_map)
  with run h' l p show ?thesis by metis
qed

end

lemma ticks_before_timeout:
  assumes "0 < period"
  shows "ticks_before period (t + timeout) (t + period) \<le> (timeout - 1) div period"
proof (cases "timeout < period")
  case True
  with assms show ?thesis by (simp add: ticks_before_def)
next
  case False
  with assms show ?thesis unfolding ticks_before_def by (intro div_le_mono) auto
qed

end
