(* ===== verification/VpcCleanup.thy ===== *)
theory VpcCleanup
  imports GoStrings Polling
begin

text \<open>
  \<^verbatim>\<open>pkg/framework/vpc_cleanup.go\<close>: deletion of what is left in a VPC, in the order network
  interfaces, security groups, subnets. The EC2 client (the interface \<open>EC2VPCClient\<close>) is a
  record of \<open>api\<close> functions on an arbitrary world; a paginator of the AWS SDK is the list
  of the results its \<open>NextPage\<close> gives, one per page. Every request is recorded in the
  history as an \<open>ec2_event\<close> with its parameters and its answer. A wait for an interface to
  detach is a loop with a deadline, hence the \<open>option\<close> around the results that depend on it
  (\<open>None\<close>: does not return).
\<close>

subsection \<open>EC2 objects, client and requests\<close>

record network_interface =
  NetworkInterfaceId :: "string option"
  NIStatus :: string
  Attachment :: "string option option" \<comment> \<open>nil, or a struct with its \<open>AttachmentId\<close>\<close>

record security_group =
  GroupId :: "string option"
  GroupName :: "string option"
  IpPermissions :: "string list"
  IpPermissionsEgress :: "string list"

record subnet =
  SubnetId :: "string option"

definition NetworkInterfaceStatusAvailable :: string where
  [go_defs]: "NetworkInterfaceStatusAvailable = ''available''"

text \<open>\<open>aws.ToString\<close>: a nil pointer reads as the empty string.\<close>

definition ToString :: "string option \<Rightarrow> string" where
  "ToString p = (case p of None \<Rightarrow> [] | Some s \<Rightarrow> s)"

record 'w EC2VPCClient =
  DescribeNetworkInterfacesPages :: "string \<Rightarrow> ('w, (ext_error + network_interface list) list) api"
  DescribeNetworkInterfaces :: "string \<Rightarrow> ('w, ext_error + network_interface list) api"
  DetachNetworkInterface :: "string \<Rightarrow> bool \<Rightarrow> ('w, ext_error option) api"
  DeleteNetworkInterface :: "string \<Rightarrow> ('w, ext_error option) api"
  DescribeSecurityGroupsPages :: "string \<Rightarrow> ('w, (ext_error + security_group list) list) api"
  RevokeSecurityGroupIngress :: "string option \<Rightarrow> string list \<Rightarrow> ('w, ext_error option) api"
  RevokeSecurityGroupEgress :: "string option \<Rightarrow> string list \<Rightarrow> ('w, ext_error option) api"
  DeleteSecurityGroup :: "string option \<Rightarrow> ('w, ext_error option) api"
  DescribeSubnetsPages :: "string \<Rightarrow> ('w, (ext_error + subnet list) list) api"
  DeleteSubnet :: "string option \<Rightarrow> ('w, ext_error option) api"

datatype ec2_event =
    EvListENIs string "(ext_error + network_interface list) list"
  | EvDetachENI string bool "ext_error option"
  | EvDescribeENI string "ext_error + network_interface list"
  | EvDeleteENI string "ext_error option"
  | EvListSGs string "(ext_error + security_group list) list"
  | EvRevokeIngress "string option" "ext_error option"
  | EvRevokeEgress "string option" "ext_error option"
  | EvDeleteSG "string option" "ext_error option"
  | EvListSubnets string "(ext_error + subnet list) list"
  | EvDeleteSubnet "string option" "ext_error option"

type_synonym 'w ec2_sys = "('w, ec2_event) sys"

text \<open>The package variables that hold the timing configuration.\<close>

record eni_timing =
  eniDetachTimeout :: nat
  eniDetachPollInterval :: nat
  eniDeleteMaxRetries :: nat
  eniDeleteRetryDelay :: nat

definition default_eni_timing :: eni_timing where
  "default_eni_timing =
     \<lparr>eniDetachTimeout = minutes 2, eniDetachPollInterval = seconds 5,
      eniDeleteMaxRetries = 5, eniDeleteRetryDelay = seconds 3\<rparr>"

text \<open>
  \<open>for paginator.HasMorePages() { page, err := NextPage(); if err != nil { return };
  append }\<close>, keeping the items that pass a test.
\<close>

fun collect_pages :: "('a \<Rightarrow> bool) \<Rightarrow> (ext_error + 'a list) list \<Rightarrow> ext_error + 'a list" where
  "collect_pages keep [] = Inr []"
| "collect_pages keep (Inl e # pages) = Inl e"
| "collect_pages keep (Inr items # pages) =
     (case collect_pages keep pages of
        Inl e \<Rightarrow> Inl e
      | Inr rest \<Rightarrow> Inr (filter keep items @ rest))"

subsection \<open>Network interfaces\<close>

definition eni_missing :: "ext_error \<Rightarrow> bool" where
  "eni_missing e = Contains (emsg e) ''InvalidNetworkInterfaceID''"

text \<open>What the answer to one \<open>DescribeNetworkInterfaces\<close> makes the wait return, if anything.\<close>

definition eni_wait_verdict ::
  "string \<Rightarrow> ext_error + network_interface list \<Rightarrow> go_error option option" where
  "eni_wait_verdict eniID resp =
     (case resp of
        Inl e \<Rightarrow>
          if eni_missing e then Some None
          else Some (Some (Errorf ''describing ENI %s: %w'' [AStr eniID, AExt e]))
      | Inr [] \<Rightarrow> Some None
      | Inr (ni # _) \<Rightarrow> if NIStatus ni = NetworkInterfaceStatusAvailable then Some None else None)"

definition eni_probe ::
  "'w EC2VPCClient \<Rightarrow> string \<Rightarrow> 'w ec2_sys \<Rightarrow> go_error option option \<times> 'w ec2_sys" where
  "eni_probe client eniID s =
     (case call (EvDescribeENI eniID) (DescribeNetworkInterfaces client eniID) s of
        (resp, s1) \<Rightarrow> (eni_wait_verdict eniID resp, s1))"

definition waitForENIAvailable ::
  "'w timing \<Rightarrow> eni_timing \<Rightarrow> 'w EC2VPCClient \<Rightarrow> string \<Rightarrow> 'w ec2_sys \<Rightarrow>
   (go_error option \<times> 'w ec2_sys) option" where
  "waitForENIAvailable c tm client eniID s =
     (let deadline = now s + eniDetachTimeout tm
      in poll_deadline c (eniDetachPollInterval tm) deadline Some
           (Some (Errorf ''timed out after %v waiting for ENI %s to reach available state''
                    [AInt (int (eniDetachTimeout tm)), AStr eniID]))
           (eni_probe client eniID) s)"

text \<open>
  The attempts of \<open>deleteENIWithRetry\<close>, counted down from \<open>eniDeleteMaxRetries\<close>; the
  result is an error or whether the interface was already gone.
\<close>

fun delete_eni_attempts ::
  "'w timing \<Rightarrow> eni_timing \<Rightarrow> 'w EC2VPCClient \<Rightarrow> string \<Rightarrow> nat \<Rightarrow> go_error option \<Rightarrow>
   'w ec2_sys \<Rightarrow> (go_error + bool) \<times> 'w ec2_sys" where
  "delete_eni_attempts c tm client eniID 0 lastErr s =
     (Inl (Errorf ''after %d attempts: %w'' [AInt (int (eniDeleteMaxRetries tm)), AErr lastErr]), s)"
| "delete_eni_attempts c tm client eniID (Suc left) lastErr s =
     (case call (EvDeleteENI eniID) (DeleteNetworkInterface client eniID) s of
        (None, s1) \<Rightarrow> (Inr False, s1)
      | (Some e, s1) \<Rightarrow>
          if eni_missing e then (Inr True, s1)
          else if 0 < left
          then (case sleep_or_done c (eniDeleteRetryDelay tm) s1 of
                  (Some ctxErr, s2) \<Rightarrow> (Inl ctxErr, s2)
                | (None, s2) \<Rightarrow> delete_eni_attempts c tm client eniID left (Some (Ext e)) s2)
          else delete_eni_attempts c tm client eniID left (Some (Ext e)) s1)"

definition deleteENIWithRetry ::
  "'w timing \<Rightarrow> eni_timing \<Rightarrow> 'w EC2VPCClient \<Rightarrow> string \<Rightarrow> 'w ec2_sys \<Rightarrow>
   (go_error + bool) \<times> 'w ec2_sys" where
  "deleteENIWithRetry c tm client eniID s =
     delete_eni_attempts c tm client eniID (eniDeleteMaxRetries tm) None s"

text \<open>The part of the loop body of \<open>cleanupENIs\<close> that detaches an attached interface.\<close>

definition detach_eni ::
  "'w timing \<Rightarrow> eni_timing \<Rightarrow> 'w EC2VPCClient \<Rightarrow> network_interface \<Rightarrow> 'w ec2_sys \<Rightarrow>
   (go_error option \<times> 'w ec2_sys) option" where
  "detach_eni c tm client eni s =
     (let eniID = ToString (NetworkInterfaceId eni) in
      case Attachment eni of
        Some (Some attachmentID) \<Rightarrow>
          (let s1 = printf ''Detaching ENI %s (attachment: %s)\<newline>''
                      [AStr eniID, AStr attachmentID] s in
           case call (EvDetachENI attachmentID True)
                  (DetachNetworkInterface client attachmentID True) s1 of
             (Some e, s2) \<Rightarrow>
               Some (Some (Errorf ''detaching ENI %s (attachment %s): %w''
                             [AStr eniID, AStr attachmentID, AExt e]), s2)
           | (None, s2) \<Rightarrow>
               (case waitForENIAvailable c tm client eniID s2 of
                  None \<Rightarrow> None
                | Some (Some err, s3) \<Rightarrow>
                    Some (Some (Errorf ''waiting for ENI %s to detach: %w''
                                  [AStr eniID, AWrap err]), s3)
                | Some (None, s3) \<Rightarrow> Some (None, s3)))
      | _ \<Rightarrow> Some (None, s))"

fun cleanup_each_eni ::
  "'w timing \<Rightarrow> eni_timing \<Rightarrow> 'w EC2VPCClient \<Rightarrow> network_interface list \<Rightarrow> 'w ec2_sys \<Rightarrow>
   (go_error option \<times> 'w ec2_sys) option" where
  "cleanup_each_eni c tm client [] s = Some (None, s)"
| "cleanup_each_eni c tm client (eni # enis) s =
     (let eniID = ToString (NetworkInterfaceId eni) in
      case detach_eni c tm client eni s of
        None \<Rightarrow> None
      | Some (Some err, s1) \<Rightarrow> Some (Some err, s1)
      | Some (None, s1) \<Rightarrow>
          (case deleteENIWithRetry c tm client eniID s1 of
             (Inl err, s2) \<Rightarrow>
               Some (Some (Errorf ''deleting ENI %s: %w'' [AStr eniID, AWrap err]), s2)
           | (Inr alreadyGone, s2) \<Rightarrow>
               cleanup_each_eni c tm client enis
                 (printf (if alreadyGone then ''ENI %s already gone\<newline>''
                          else ''Deleted ENI %s\<newline>'') [AStr eniID] s2)))"

definition cleanupENIs ::
  "'w timing \<Rightarrow> eni_timing \<Rightarrow> 'w EC2VPCClient \<Rightarrow> string \<Rightarrow> 'w ec2_sys \<Rightarrow>
   (go_error option \<times> 'w ec2_sys) option" where
  "cleanupENIs c tm client vpcID s =
     (case call (EvListENIs vpcID) (DescribeNetworkInterfacesPages client vpcID) s of
        (pages, s1) \<Rightarrow>
          (case collect_pages (\<lambda>_. True) pages of
             Inl e \<Rightarrow> Some (Some (Errorf ''describing network interfaces: %w'' [AExt e]), s1)
           | Inr enis \<Rightarrow>
               if enis = [] then Some (None, s1)
               else cleanup_each_eni c tm client enis
                      (printf ''Found %d ENIs in VPC %s\<newline>''
                         [AInt (int (length enis)), AStr vpcID] s1)))"

subsection \<open>Security groups\<close>

definition not_default :: "security_group \<Rightarrow> bool" where
  "not_default sg = (ToString (GroupName sg) \<noteq> ''default'')"

definition revoke_ingress ::
  "'w EC2VPCClient \<Rightarrow> security_group \<Rightarrow> go_error list \<times> 'w ec2_sys \<Rightarrow> go_error list \<times> 'w ec2_sys" where
  "revoke_ingress client sg = (\<lambda>(errs, s).
     if IpPermissions sg = [] then (errs, s)
     else case call (EvRevokeIngress (GroupId sg))
                 (RevokeSecurityGroupIngress client (GroupId sg) (IpPermissions sg)) s of
            (None, s1) \<Rightarrow> (errs, s1)
          | (Some e, s1) \<Rightarrow>
              (errs @ [Sprintf ''ingress for SG %s: %v'' [AStr (ToString (GroupId sg)), AExt e]], s1))"

definition revoke_egress ::
  "'w EC2VPCClient \<Rightarrow> security_group \<Rightarrow> go_error list \<times> 'w ec2_sys \<Rightarrow> go_error list \<times> 'w ec2_sys" where
  "revoke_egress client sg = (\<lambda>(errs, s).
     if IpPermissionsEgress sg = [] then (errs, s)
     else case call (EvRevokeEgress (GroupId sg))
                 (RevokeSecurityGroupEgress client (GroupId sg) (IpPermissionsEgress sg)) s of
            (None, s1) \<Rightarrow> (errs, s1)
          | (Some e, s1) \<Rightarrow>
              (errs @ [Sprintf ''egress for SG %s: %v'' [AStr (ToString (GroupId sg)), AExt e]], s1))"

fun revoke_rules ::
  "'w EC2VPCClient \<Rightarrow> security_group list \<Rightarrow> go_error list \<times> 'w ec2_sys \<Rightarrow> go_error list \<times> 'w ec2_sys" where
  "revoke_rules client [] es = es"
| "revoke_rules client (sg # sgs) es =
     revoke_rules client sgs (revoke_egress client sg (revoke_ingress client sg es))"

fun delete_groups ::
  "'w EC2VPCClient \<Rightarrow> security_group list \<Rightarrow> go_error list \<Rightarrow> 'w ec2_sys \<Rightarrow> go_error list \<times> 'w ec2_sys" where
  "delete_groups client [] errs s = (errs, s)"
| "delete_groups client (sg # sgs) errs s =
     (let sgID = ToString (GroupId sg); sgName = ToString (GroupName sg) in
      case call (EvDeleteSG (GroupId sg)) (DeleteSecurityGroup client (GroupId sg)) s of
        (Some e, s1) \<Rightarrow>
          delete_groups client sgs
            (errs @ [Sprintf ''SG %s (%s): %v'' [AStr sgID, AStr sgName, AExt e]]) s1
      | (None, s1) \<Rightarrow>
          delete_groups client sgs errs
            (printf ''Deleted security group %s (%s)\<newline>'' [AStr sgID, AStr sgName] s1))"

definition cleanupSecurityGroups ::
  "'w EC2VPCClient \<Rightarrow> string \<Rightarrow> 'w ec2_sys \<Rightarrow> go_error option \<times> 'w ec2_sys" where
  "cleanupSecurityGroups client vpcID s =
     (case call (EvListSGs vpcID) (DescribeSecurityGroupsPages client vpcID) s of
        (pages, s1) \<Rightarrow>
          (case collect_pages not_default pages of
             Inl e \<Rightarrow> (Some (Errorf ''describing security groups: %w'' [AExt e]), s1)
           | Inr sgs \<Rightarrow>
               if sgs = [] then (None, s1)
               else
                 (let s2 = printf ''Found %d non-default security groups in VPC %s\<newline>''
                             [AInt (int (length sgs)), AStr vpcID] s1;
                      (revokeErrors, s3) = revoke_rules client sgs ([], s2);
                      (deleteErrors, s4) = delete_groups client sgs [] s3;
                      allErrors = revokeErrors @ deleteErrors
                  in (if allErrors = [] then None
                      else Some (Errorf ''failed to clean up %d security group issues:\<newline>%s''
                                   [AInt (int (length allErrors)), ALines allErrors]), s4))))"

subsection \<open>Subnets\<close>

fun delete_subnets ::
  "'w EC2VPCClient \<Rightarrow> subnet list \<Rightarrow> go_error list \<Rightarrow> 'w ec2_sys \<Rightarrow> go_error list \<times> 'w ec2_sys" where
  "delete_subnets client [] errs s = (errs, s)"
| "delete_subnets client (sn # sns) errs s =
     (let subnetID = ToString (SubnetId sn) in
      case call (EvDeleteSubnet (SubnetId sn)) (DeleteSubnet client (SubnetId sn)) s of
        (Some e, s1) \<Rightarrow>
          delete_subnets client sns (errs @ [Sprintf ''subnet %s: %v'' [AStr subnetID, AExt e]]) s1
      | (None, s1) \<Rightarrow>
          delete_subnets client sns errs (printf ''Deleted subnet %s\<newline>'' [AStr subnetID] s1))"

definition cleanupSubnets ::
  "'w EC2VPCClient \<Rightarrow> string \<Rightarrow> 'w ec2_sys \<Rightarrow> go_error option \<times> 'w ec2_sys" where
  "cleanupSubnets client vpcID s =
     (case call (EvListSubnets vpcID) (DescribeSubnetsPages client vpcID) s of
        (pages, s1) \<Rightarrow>
          (case collect_pages (\<lambda>_. True) pages of
             Inl e \<Rightarrow> (Some (Errorf ''describing subnets: %w'' [AExt e]), s1)
           | Inr subnets \<Rightarrow>
               if subnets = [] then (None, s1)
               else
                 (let s2 = printf ''Found %d subnets in VPC %s\<newline>''
                             [AInt (int (length subnets)), AStr vpcID] s1;
                      (deleteErrors, s3) = delete_subnets client subnets [] s2
                  in (if deleteErrors = [] then None
                      else Some (Errorf ''failed to delete %d subnets:\<newline>%s''
                                   [AInt (int (length deleteErrors)), ALines deleteErrors]), s3))))"

subsection \<open>The whole cleanup\<close>

definition CleanupVPCResources ::
  "'w timing \<Rightarrow> eni_timing \<Rightarrow> 'w EC2VPCClient \<Rightarrow> string \<Rightarrow> 'w ec2_sys \<Rightarrow>
   (go_error option \<times> 'w ec2_sys) option" where
  "CleanupVPCResources c tm client vpcID s =
     (case cleanupENIs c tm client vpcID s of
        None \<Rightarrow> None
      | Some (Some err, s1) \<Rightarrow>
          Some (Some (Errorf ''cleaning up ENIs in VPC %s: %w'' [AStr vpcID, AWrap err]), s1)
      | Some (None, s1) \<Rightarrow>
          (case cleanupSecurityGroups client vpcID s1 of
             (Some err, s2) \<Rightarrow>
               Some (Some (Errorf ''cleaning up security groups in VPC %s: %w''
                             [AStr vpcID, AWrap err]), s2)
           | (None, s2) \<Rightarrow>
               (case cleanupSubnets client vpcID s2 of
                  (Some err, s3) \<Rightarrow>
                    Some (Some (Errorf ''cleaning up subnets in VPC %s: %w''
                                  [AStr vpcID, AWrap err]), s3)
                | (None, s3) \<Rightarrow>
                    Some (None, printf ''VPC %s resource cleanup complete\<newline>'' [AStr vpcID] s3))))"

subsection \<open>Waiting for an interface to detach\<close>

interpretation eni_wait: single_probe "eni_probe client eniID" "EvDescribeENI eniID"
    "eni_wait_verdict eniID" for client :: "'w EC2VPCClient" and eniID
  by unfold_locales (auto simp: eni_probe_def dest: hist_call now_call split: prod.splits)

lemma waitForENIAvailable_run:
  assumes "waitForENIAvailable c tm client eniID s = Some (r, s')"
  shows "\<exists>resps. hist s' = hist s @ map (EvDescribeENI eniID) resps \<and>
           polled (eni_wait_verdict eniID) (\<lambda>r. r \<noteq> None) resps r \<and>
           (resps \<noteq> [] \<longrightarrow> eniDetachPollInterval tm * (length resps - 1) \<le> eniDetachTimeout tm)"
proof -
  note run = assms [unfolded waitForENIAvailable_def Let_def]
  from eni_wait.deadline_run [OF run] obtain resps where
    h: "hist s' = hist s @ map (EvDescribeENI eniID) resps" and
    p: "polled (eni_wait_verdict eniID)
          (\<lambda>r. r = Some (Errorf ''timed out after %v waiting for ENI %s to reach available state''
                    [AInt (int (eniDetachTimeout tm)), AStr eniID]) \<and>
               now s + eniDetachTimeout tm < now s' \<or> (\<exists>e. r = Some e)) resps r" and
    b: "resps \<noteq> [] \<longrightarrow>
          now s + eniDetachPollInterval tm * (length resps - 1) \<le> now s + eniDetachTimeout tm"
    by blast
  from p have "polled (eni_wait_verdict eniID) (\<lambda>r. r \<noteq> None) resps r"
    by (auto simp: polled_def split: option.splits)
  with h b show ?thesis by auto
qed

lemma waitForENIAvailable_returns:
  "0 < eniDetachPollInterval tm \<Longrightarrow> \<exists>r s'. waitForENIAvailable c tm client eniID s = Some (r, s')"
  by (simp add: waitForENIAvailable_def Let_def eni_wait.deadline_returns)

subsection \<open>Deleting an interface with retries\<close>

text \<open>What one answer to \<open>DeleteNetworkInterface\<close> decides: deleted, already gone, or try again.\<close>

definition eni_delete_verdict :: "ext_error option \<Rightarrow> (go_error + bool) option" where
  "eni_delete_verdict resp =
     (case resp of
        None \<Rightarrow> Some (Inr False)
      | Some e \<Rightarrow> if eni_missing e then Some (Inr True) else None)"

text \<open>
  What at most \<open>n\<close> attempts with the delay \<open>d\<close> between them have done when they return \<open>r\<close>
  in \<open>s'\<close>, and the three ways in which one attempt adds to it.
\<close>

definition deletes_outcome ::
  "nat \<Rightarrow> nat \<Rightarrow> string \<Rightarrow> 'w ec2_sys \<Rightarrow> go_error + bool \<Rightarrow> 'w ec2_sys \<Rightarrow> bool" where
  "deletes_outcome n d eniID s r s' \<longleftrightarrow>
     (\<exists>resps. hist s' = hist s @ map (EvDeleteENI eniID) resps \<and> length resps \<le> n \<and>
        polled eni_delete_verdict (\<lambda>r. \<exists>e. r = Inl e) resps r \<and>
        now s + d * (length resps - 1) \<le> now s')"

lemma deletes_decided:
  "\<lbrakk>hist s' = hist s @ [EvDeleteENI eniID resp]; now s \<le> now s'; eni_delete_verdict resp = Some r\<rbrakk>
   \<Longrightarrow> deletes_outcome (Suc n) d eniID s r s'"
  unfolding deletes_outcome_def by (intro exI [where x = "[resp]"]) (simp add: polled_decided)

lemma deletes_stopped:
  "\<lbrakk>hist s' = hist s @ [EvDeleteENI eniID resp]; now s \<le> now s'; eni_delete_verdict resp = None\<rbrakk>
   \<Longrightarrow> deletes_outcome (Suc n) d eniID s (Inl e) s'"
  unfolding deletes_outcome_def by (intro exI [where x = "[resp]"]) (auto intro: polled_undecided)

lemma deletes_again:
  assumes "hist s2 = hist s @ [EvDeleteENI eniID resp]" "now s + d \<le> now s2"
    and "eni_delete_verdict resp = None" and "deletes_outcome n d eniID s2 r s'"
  shows "deletes_outcome (Suc n) d eniID s r s'"
proof -
  from assms(4) obtain resps where "hist s' = hist s2 @ map (EvDeleteENI eniID) resps" "length resps \<le> n"
      "polled eni_delete_verdict (\<lambda>r. \<exists>e. r = Inl e) resps r" "now s2 + d * (length resps - 1) \<le> now s'"
    by (auto simp: deletes_outcome_def)
  with assms(1-3) show ?thesis
    unfolding deletes_outcome_def
    by (intro exI [where x = "resp # resps"]) (cases resps; auto intro: polled_Cons)
qed

lemma delete_eni_attempts_outcome:
  "delete_eni_attempts c tm client eniID left lastErr s = (r, s') \<Longrightarrow>
   deletes_outcome left (eniDeleteRetryDelay tm) eniID s r s'"
proof (induction left arbitrary: lastErr s)
  case 0
  then show ?case by (auto simp: deletes_outcome_def)
next
  case (Suc left)
  let ?d = "eniDeleteRetryDelay tm"
  obtain resp s1 where c: "call (EvDeleteENI eniID) (DeleteNetworkInterface client eniID) s = (resp, s1)"
    by (cases "call (EvDeleteENI eniID) (DeleteNetworkInterface client eniID) s")
  obtain d s2 where sl: "sleep_or_done c ?d s1 = (d, s2)" by (cases "sleep_or_done c ?d s1")
  have h: "hist s1 = hist s @ [EvDeleteENI eniID resp]" "hist s2 = hist s @ [EvDeleteENI eniID resp]"
    and t: "now s \<le> now s1" "now s \<le> now s2"
    using hist_call [OF c] now_call [OF c] hist_sleep_or_done [OF sl] now_sleep_or_done [OF sl] by auto
  show ?case
  proof (cases "eni_delete_verdict resp")
    case (Some v)
    with Suc.prems c have "r = v" "s' = s1"
      by (auto simp: eni_delete_verdict_def split: option.splits if_splits)
    with Some h(1) t(1) show ?thesis by (simp add: deletes_decided)
  next
    case None
    then obtain e where e: "resp = Some e" "\<not> eni_missing e"
      by (auto simp: eni_delete_verdict_def split: option.splits if_splits)
    consider "left = 0" | x where "0 < left" "d = Some x" | "0 < left" "d = None" by (cases d) auto
    then show ?thesis
    proof cases
      case 1
      with Suc.prems c e None h t show ?thesis by (auto intro!: deletes_stopped)
    next
      case 2
      with Suc.prems c e sl None h t show ?thesis by (auto intro!: deletes_stopped)
    next
      case 3
      with Suc.prems c e sl
      have "delete_eni_attempts c tm client eniID left (Some (Ext e)) s2 = (r, s')" by simp
      moreover have "now s1 + ?d \<le> now s2" using now_sleep_fired sl 3 by blast
      ultimately show ?thesis using Suc.IH h(2) t(1) None by (intro deletes_again) auto
    qed
  qed
qed

lemmas delete_eni_attempts_run = delete_eni_attempts_outcome [unfolded deletes_outcome_def]

subsection \<open>What one interface goes through\<close>

text \<open>
  The requests of a completed treatment of one interface: if it is attached, a forced
  detach that was accepted and then descriptions until one shows it available or gone;
  after that at most \<open>n\<close> delete requests, all but the last failing with an error that is
  worth a retry and the last accepted or answered that the interface does not exist.
\<close>

definition eni_detached :: "string \<Rightarrow> string option option \<Rightarrow> ec2_event list \<Rightarrow> bool" where
  "eni_detached eniID att evs \<longleftrightarrow>
     (case att of
        Some (Some a) \<Rightarrow>
          (\<exists>resps final. evs = EvDetachENI a True None # map (EvDescribeENI eniID) (resps @ [final]) \<and>
             list_all (\<lambda>x. eni_wait_verdict eniID x = None) resps \<and>
             eni_wait_verdict eniID final = Some None)
      | _ \<Rightarrow> evs = [])"

definition eni_deleted :: "nat \<Rightarrow> string \<Rightarrow> ec2_event list \<Rightarrow> bool" where
  "eni_deleted n eniID evs \<longleftrightarrow>
     (\<exists>resps final. evs = map (EvDeleteENI eniID) (resps @ [final]) \<and> length resps < n \<and>
        list_all (\<lambda>x. eni_delete_verdict x = None) resps \<and>
        (\<exists>gone. eni_delete_verdict final = Some (Inr gone)))"

definition eni_protocol :: "nat \<Rightarrow> network_interface \<Rightarrow> ec2_event list \<Rightarrow> bool" where
  "eni_protocol n eni evs \<longleftrightarrow>
     (let eniID = ToString (NetworkInterfaceId eni) in
      \<exists>pre post. evs = pre @ post \<and> eni_detached eniID (Attachment eni) pre \<and> eni_deleted n eniID post)"

text \<open>The requests that only concern network interfaces.\<close>

fun eni_event :: "ec2_event \<Rightarrow> bool" where
  "eni_event (EvListENIs _ _) = True"
| "eni_event (EvDetachENI _ _ _) = True"
| "eni_event (EvDescribeENI _ _) = True"
| "eni_event (EvDeleteENI _ _) = True"
| "eni_event _ = False"

lemma eni_events_map [simp]:
  "list_all eni_event (map (EvDescribeENI i) xs)" "list_all eni_event (map (EvDeleteENI i) ys)"
  by (induction xs) (simp_all, induction ys, simp_all)

lemma polled_split:
  "polled verdict rest evs r \<Longrightarrow> \<not> rest r \<Longrightarrow>
   \<exists>es e. evs = es @ [e] \<and> list_all (\<lambda>x. verdict x = None) es \<and> verdict e = Some r"
  using polled_result [of verdict rest evs r] by (auto simp: polled_def)

lemma deleteENIWithRetry_done:
  assumes "deleteENIWithRetry c tm client eniID s = (Inr gone, s')"
  shows "\<exists>evs. hist s' = hist s @ evs \<and> eni_deleted (eniDeleteMaxRetries tm) eniID evs"
proof -
  from delete_eni_attempts_run [OF assms [unfolded deleteENIWithRetry_def]] obtain resps where
    h: "hist s' = hist s @ map (EvDeleteENI eniID) resps" and l: "length resps \<le> eniDeleteMaxRetries tm" and
    p: "polled eni_delete_verdict (\<lambda>r. \<exists>e. r = Inl e) resps (Inr gone)" by blast
  from polled_split [OF p] obtain es e where "resps = es @ [e]"
    "list_all (\<lambda>x. eni_delete_verdict x = None) es" "eni_delete_verdict e = Some (Inr gone)" by auto
  with h l show ?thesis
    by (intro exI [where x = "map (EvDeleteENI eniID) resps"]) (auto simp: eni_deleted_def)
qed

lemma deleteENIWithRetry_events:
  assumes "deleteENIWithRetry c tm client eniID s = (r, s')"
  shows "\<exists>evs. hist s' = hist s @ evs \<and> list_all eni_event evs"
  using delete_eni_attempts_run [OF assms [unfolded deleteENIWithRetry_def]] by (metis eni_events_map(2))

lemma detach_eni_run:
  assumes "detach_eni c tm client eni s = Some (r, s')"
  shows "\<exists>evs. hist s' = hist s @ evs \<and> list_all eni_event evs \<and>
           (r = None \<longrightarrow> eni_detached (ToString (NetworkInterfaceId eni)) (Attachment eni) evs)"
proof (cases "\<exists>a. Attachment eni = Some (Some a)")
  case False
  with assms have "r = None" "s' = s"
    by (auto simp: detach_eni_def Let_def split: option.splits)
  with False show ?thesis by (auto simp: eni_detached_def split: option.splits)
next
  case True
  then obtain a where a: "Attachment eni = Some (Some a)" by blast
  let ?id = "ToString (NetworkInterfaceId eni)"
  let ?s1 = "printf ''Detaching ENI %s (attachment: %s)\<newline>'' [AStr ?id, AStr a] s"
  obtain d s2 where c: "call (EvDetachENI a True) (DetachNetworkInterface client a True) ?s1 = (d, s2)"
    by (cases "call (EvDetachENI a True) (DetachNetworkInterface client a True) ?s1")
  have h2: "hist s2 = hist s @ [EvDetachENI a True d]" using hist_call [OF c] by simp
  show ?thesis
  proof (cases d)
    case (Some e)
    with assms a c have "r \<noteq> None" "s' = s2" by (auto simp: detach_eni_def Let_def)
    with h2 show ?thesis by auto
  next
    case None
    then obtain w where w: "waitForENIAvailable c tm client ?id s2 = Some (w, s')" "r = None \<longleftrightarrow> w = None"
      using assms a c by (auto simp: detach_eni_def Let_def split: option.splits)
    obtain resps where resps: "hist s' = hist s2 @ map (EvDescribeENI ?id) resps"
        "polled (eni_wait_verdict ?id) (\<lambda>r. r \<noteq> None) resps w"
      using waitForENIAvailable_run [OF w(1)] by blast
    then have "hist s' = hist s @ (EvDetachENI a True None # map (EvDescribeENI ?id) resps)"
      using h2 None by simp
    moreover have "eni_detached ?id (Attachment eni) (EvDetachENI a True None # map (EvDescribeENI ?id) resps)"
      if "r = None"
      using polled_split [OF resps(2)] w(2) that a by (auto simp: eni_detached_def)
    ultimately show ?thesis
      by (intro exI [where x = "EvDetachENI a True None # map (EvDescribeENI ?id) resps"]) simp
  qed
qed

text \<open>One interface: it is treated to the end, or the loop stops with an error.\<close>

lemma cleanup_one_eni:
  assumes "cleanup_each_eni c tm client (eni # enis) s = Some (r, s')"
  obtains evs where "hist s' = hist s @ evs" "list_all eni_event evs" "r \<noteq> None"
    | evs s1 where "hist s1 = hist s @ evs" "list_all eni_event evs"
        "eni_protocol (eniDeleteMaxRetries tm) eni evs" "cleanup_each_eni c tm client enis s1 = Some (r, s')"
proof -
  let ?id = "ToString (NetworkInterfaceId eni)"
  obtain r1 s1 where d: "detach_eni c tm client eni s = Some (r1, s1)"
    using assms by (auto simp: Let_def split: option.splits)
  obtain evs1 where e1: "hist s1 = hist s @ evs1" "list_all eni_event evs1"
      "r1 = None \<longrightarrow> eni_detached ?id (Attachment eni) evs1"
    using detach_eni_run [OF d] by blast
  obtain r2 s2 where del: "deleteENIWithRetry c tm client ?id s1 = (r2, s2)"
    by (cases "deleteENIWithRetry c tm client ?id s1")
  consider err where "r1 = Some err" | err where "r1 = None" "r2 = Inl err" | gone where "r1 = None" "r2 = Inr gone"
    by (cases r1; cases r2) auto
  then show ?thesis
  proof cases
    case 1
    with assms d e1 show ?thesis by (intro that(1) [of evs1]) (auto simp: Let_def)
  next
    case 2
    obtain evs2 where "hist s2 = hist s1 @ evs2" "list_all eni_event evs2"
      using deleteENIWithRetry_events [OF del] by blast
    with assms d del e1 2 show ?thesis by (intro that(1) [of "evs1 @ evs2"]) (auto simp: Let_def)
  next
    case 3
    obtain evs2 where e2: "hist s2 = hist s1 @ evs2" "eni_deleted (eniDeleteMaxRetries tm) ?id evs2"
      using deleteENIWithRetry_done [OF del [unfolded 3]] by blast
    have "eni_protocol (eniDeleteMaxRetries tm) eni (evs1 @ evs2)"
      using e1(3) e2(2) 3 by (auto simp: eni_protocol_def Let_def)
    moreover have "list_all eni_event evs2" using e2(2) by (auto simp: eni_deleted_def)
    ultimately show ?thesis
      using assms d del e1 e2 3
      by (intro that(2) [of "printf (if gone then ''ENI %s already gone\<newline>''
          else ''Deleted ENI %s\<newline>'') [AStr ?id] s2" "evs1 @ evs2"]) (auto simp: Let_def)
  qed
qed

lemma cleanup_each_eni_run:
  "cleanup_each_eni c tm client enis s = Some (r, s') \<Longrightarrow>
   \<exists>evs. hist s' = hist s @ evs \<and> list_all eni_event evs \<and>
     (r = None \<longrightarrow> (\<exists>parts. evs = concat parts \<and>
        list_all2 (eni_protocol (eniDeleteMaxRetries tm)) enis parts))"
proof (induction enis arbitrary: s)
  case (Cons eni enis)
  from Cons.prems show ?case
  proof (cases rule: cleanup_one_eni)
    case (2 evs1 s1)
    from Cons.IH [OF 2(4)] obtain evs where evs: "hist s' = hist s1 @ evs" "list_all eni_event evs"
      and parts: "r = None \<longrightarrow> (\<exists>parts. evs = concat parts \<and>
             list_all2 (eni_protocol (eniDeleteMaxRetries tm)) enis parts)" by blast
    have "\<exists>parts. evs1 @ evs = concat parts \<and>
        list_all2 (eni_protocol (eniDeleteMaxRetries tm)) (eni # enis) parts" if "r = None"
      using parts that 2(3) by (metis concat.simps(2) list_all2_Cons)
    with evs 2(1,2) show ?thesis by (intro exI [where x = "evs1 @ evs"]) auto
  qed auto
qed auto

lemma cleanupENIs_run:
  assumes "cleanupENIs c tm client vpcID s = Some (r, s')"
  shows "\<exists>pages evs. hist s' = hist s @ EvListENIs vpcID pages # evs \<and> list_all eni_event evs \<and>
           (r = None \<longrightarrow> (\<exists>enis parts. collect_pages (\<lambda>_. True) pages = Inr enis \<and> evs = concat parts \<and>
              list_all2 (eni_protocol (eniDeleteMaxRetries tm)) enis parts))"
proof -
  obtain pages s1 where c:
    "call (EvListENIs vpcID) (DescribeNetworkInterfacesPages client vpcID) s = (pages, s1)"
    by (cases "call (EvListENIs vpcID) (DescribeNetworkInterfacesPages client vpcID) s")
  have h1: "hist s1 = hist s @ [EvListENIs vpcID pages]" by (rule hist_call [OF c])
  show ?thesis
  proof (cases "collect_pages (\<lambda>_. True) pages")
    case (Inl e)
    with assms c h1 show ?thesis by (auto simp: cleanupENIs_def)
  next
    case (Inr enis)
    show ?thesis
    proof (cases "enis = []")
      case True
      with assms c h1 Inr show ?thesis by (auto simp: cleanupENIs_def)
    next
      case False
      define s2 where "s2 = printf ''Found %d ENIs in VPC %s\<newline>''
          [AInt (int (length enis)), AStr vpcID] s1"
      have s2: "hist s2 = hist s1" "cleanup_each_eni c tm client enis s2 = Some (r, s')"
        using assms c Inr False by (simp_all add: cleanupENIs_def s2_def)
      from cleanup_each_eni_run [OF s2(2)] s2(1) h1 Inr show ?thesis by fastforce
    qed
  qed
qed

subsection \<open>Security groups and subnets: what the loops do\<close>

text \<open>An answer that the cleanup of groups and subnets collects as an error.\<close>

fun failed :: "ec2_event \<Rightarrow> bool" where
  "failed (EvRevokeIngress _ r) = (r \<noteq> None)"
| "failed (EvRevokeEgress _ r) = (r \<noteq> None)"
| "failed (EvDeleteSG _ r) = (r \<noteq> None)"
| "failed (EvDeleteSubnet _ r) = (r \<noteq> None)"
| "failed _ = False"

abbreviation failures :: "ec2_event list \<Rightarrow> nat" where
  "failures evs \<equiv> length (filter failed evs)"

fun revokes :: "security_group \<Rightarrow> ec2_event \<Rightarrow> bool" where
  "revokes sg (EvRevokeIngress g _) = (g = GroupId sg)"
| "revokes sg (EvRevokeEgress g _) = (g = GroupId sg)"
| "revokes sg _ = False"

lemma revoke_ingress_run:
  "revoke_ingress client sg (errs, s) = (errs', s') \<Longrightarrow>
   \<exists>evs. hist s' = hist s @ evs \<and> list_all (revokes sg) evs \<and>
     length errs' = length errs + failures evs \<and>
     (IpPermissions sg \<noteq> [] \<longleftrightarrow> (\<exists>r. evs = [EvRevokeIngress (GroupId sg) r])) \<and>
     (IpPermissions sg = [] \<longleftrightarrow> evs = [])"
  by (auto simp: revoke_ingress_def dest!: hist_call split: prod.splits option.splits if_splits)

lemma revoke_egress_run:
  "revoke_egress client sg (errs, s) = (errs', s') \<Longrightarrow>
   \<exists>evs. hist s' = hist s @ evs \<and> list_all (revokes sg) evs \<and>
     length errs' = length errs + failures evs \<and>
     (IpPermissionsEgress sg \<noteq> [] \<longleftrightarrow> (\<exists>r. evs = [EvRevokeEgress (GroupId sg) r])) \<and>
     (IpPermissionsEgress sg = [] \<longleftrightarrow> evs = [])"
  by (auto simp: revoke_egress_def dest!: hist_call split: prod.splits option.splits if_splits)

text \<open>The rules of one group are revoked by the requests for those it has, ingress first.\<close>

definition revoke_protocol :: "security_group \<Rightarrow> ec2_event list \<Rightarrow> bool" where
  "revoke_protocol sg evs \<longleftrightarrow>
     (\<exists>r1 r2. evs =
        (if IpPermissions sg = [] then [] else [EvRevokeIngress (GroupId sg) r1]) @
        (if IpPermissionsEgress sg = [] then [] else [EvRevokeEgress (GroupId sg) r2]))"

lemma revoke_rules_run:
  "revoke_rules client sgs (errs, s) = (errs', s') \<Longrightarrow>
   \<exists>parts. hist s' = hist s @ concat parts \<and> list_all2 revoke_protocol sgs parts \<and>
     length errs' = length errs + failures (concat parts)"
proof (induction sgs arbitrary: errs s)
  case (Cons sg sgs)
  obtain errs1 s1 where i: "revoke_ingress client sg (errs, s) = (errs1, s1)"
    by (cases "revoke_ingress client sg (errs, s)")
  obtain errs2 s2 where e: "revoke_egress client sg (errs1, s1) = (errs2, s2)"
    by (cases "revoke_egress client sg (errs1, s1)")
  obtain evs1 where e1: "hist s1 = hist s @ evs1" "length errs1 = length errs + failures evs1"
      "IpPermissions sg \<noteq> [] \<longleftrightarrow> (\<exists>r. evs1 = [EvRevokeIngress (GroupId sg) r])"
      "IpPermissions sg = [] \<longleftrightarrow> evs1 = []"
    using revoke_ingress_run [OF i] by auto
  obtain evs2 where e2: "hist s2 = hist s1 @ evs2" "length errs2 = length errs1 + failures evs2"
      "IpPermissionsEgress sg \<noteq> [] \<longleftrightarrow> (\<exists>r. evs2 = [EvRevokeEgress (GroupId sg) r])"
      "IpPermissionsEgress sg = [] \<longleftrightarrow> evs2 = []"
    using revoke_egress_run [OF e] by auto
  have prot: "revoke_protocol sg (evs1 @ evs2)"
    using e1(3,4) e2(3,4) by (fastforce simp: revoke_protocol_def)
  have "revoke_rules client sgs (errs2, s2) = (errs', s')" using Cons.prems i e by simp
  from Cons.IH [OF this] obtain parts where "hist s' = hist s2 @ concat parts"
      "list_all2 revoke_protocol sgs parts" "length errs' = length errs2 + failures (concat parts)"
    by blast
  with e1 e2 prot show ?case
    by (intro exI [where x = "(evs1 @ evs2) # parts"]) simp
qed simp

text \<open>
  The two deletion loops keep the same contract: every item is asked to be deleted once, in
  order, and an error is collected for each that fails.
\<close>

locale best_effort =
  fixes loop :: "'a list \<Rightarrow> go_error list \<Rightarrow> 'w ec2_sys \<Rightarrow> go_error list \<times> 'w ec2_sys"
    and request :: "'a \<Rightarrow> ext_error option \<Rightarrow> ec2_event"
  assumes no_items: "loop [] errs s = (errs, s)"
    and next_item: "loop (x # xs) errs s = (errs2, s2) \<Longrightarrow>
      \<exists>r errs1 s1. hist s1 = hist s @ [request x r] \<and>
        length errs1 = length errs + (if r = None then 0 else 1) \<and> loop xs errs1 s1 = (errs2, s2)"
    and failed_request: "failed (request x r) \<longleftrightarrow> r \<noteq> None"
begin

lemma all_requested:
  "loop xs errs s = (errs', s') \<Longrightarrow>
   \<exists>rs. length rs = length xs \<and> hist s' = hist s @ map2 request xs rs \<and>
     length errs' = length errs + failures (map2 request xs rs)"
proof (induction xs arbitrary: errs s)
  case (Cons x xs)
  from next_item [OF Cons.prems] obtain r errs1 s1 where
    one: "hist s1 = hist s @ [request x r]" "length errs1 = length errs + (if r = None then 0 else 1)"
    and rest: "loop xs errs1 s1 = (errs', s')" by blast
  from Cons.IH [OF rest] obtain rs where "length rs = length xs" "hist s' = hist s1 @ map2 request xs rs"
    "length errs' = length errs1 + failures (map2 request xs rs)" by blast
  with one show ?case by (intro exI [where x = "r # rs"]) (auto simp: failed_request)
qed (simp add: no_items)

end

lemma delete_groups_next:
  assumes "delete_groups client (x # xs) errs s = (errs2, s2)"
  shows "\<exists>r errs1 s1. hist s1 = hist s @ [EvDeleteSG (GroupId x) r] \<and>
     length errs1 = length errs + (if r = None then 0 else 1) \<and> delete_groups client xs errs1 s1 = (errs2, s2)"
proof -
  obtain r s1 where c: "call (EvDeleteSG (GroupId x)) (DeleteSecurityGroup client (GroupId x)) s = (r, s1)"
    by (cases "call (EvDeleteSG (GroupId x)) (DeleteSecurityGroup client (GroupId x)) s")
  obtain errs1 s3 where "delete_groups client xs errs1 s3 = (errs2, s2)" "hist s3 = hist s1"
      "length errs1 = length errs + (if r = None then 0 else 1)"
    using assms c by (fastforce simp: Let_def split: option.splits)
  with hist_call [OF c] show ?thesis by metis
qed

interpretation group_deletion: best_effort "delete_groups client" "\<lambda>x r. EvDeleteSG (GroupId x) r"
    for client :: "'w EC2VPCClient"
  by unfold_locales (simp, rule delete_groups_next, simp_all)

lemma delete_subnets_next:
  assumes "delete_subnets client (x # xs) errs s = (errs2, s2)"
  shows "\<exists>r errs1 s1. hist s1 = hist s @ [EvDeleteSubnet (SubnetId x) r] \<and>
     length errs1 = length errs + (if r = None then 0 else 1) \<and> delete_subnets client xs errs1 s1 = (errs2, s2)"
proof -
  obtain r s1 where c: "call (EvDeleteSubnet (SubnetId x)) (DeleteSubnet client (SubnetId x)) s = (r, s1)"
    by (cases "call (EvDeleteSubnet (SubnetId x)) (DeleteSubnet client (SubnetId x)) s")
  obtain errs1 s3 where "delete_subnets client xs errs1 s3 = (errs2, s2)" "hist s3 = hist s1"
      "length errs1 = length errs + (if r = None then 0 else 1)"
    using assms c by (fastforce simp: Let_def split: option.splits)
  with hist_call [OF c] show ?thesis by metis
qed

interpretation subnet_deletion: best_effort "delete_subnets client" "\<lambda>x r. EvDeleteSubnet (SubnetId x) r"
    for client :: "'w EC2VPCClient"
  by unfold_locales (simp, rule delete_subnets_next, simp_all)

lemma failures_map2_SG:
  "length rs = length sgs \<Longrightarrow>
   failures (map2 (\<lambda>sg r. EvDeleteSG (GroupId sg) r) sgs rs) = length (filter (\<lambda>r. r \<noteq> None) rs)"
  by (induction rs sgs rule: list_induct2) auto

text \<open>What a run of \<open>cleanupSecurityGroups\<close> has requested, and when it returns nil.\<close>

lemma group_requests:
  assumes r3: "revoke_rules client sgs ([], s2) = (e3, s3)" and r4: "delete_groups client sgs [] s3 = (e4, s4)"
  shows "\<exists>parts rs. hist s4 = hist s2 @ concat parts @ map2 (\<lambda>sg r. EvDeleteSG (GroupId sg) r) sgs rs \<and>
     list_all2 revoke_protocol sgs parts \<and> length rs = length sgs \<and>
     (e3 @ e4 = [] \<longleftrightarrow> failures (concat parts @ map2 (\<lambda>sg r. EvDeleteSG (GroupId sg) r) sgs rs) = 0)"
proof -
  from revoke_rules_run [OF r3] obtain parts where p: "hist s3 = hist s2 @ concat parts"
      "list_all2 revoke_protocol sgs parts" "length e3 = failures (concat parts)" by auto
  from group_deletion.all_requested [OF r4] obtain rs where d: "length rs = length sgs"
      "hist s4 = hist s3 @ map2 (\<lambda>sg r. EvDeleteSG (GroupId sg) r) sgs rs"
      "length e4 = failures (map2 (\<lambda>sg r. EvDeleteSG (GroupId sg) r) sgs rs)" by auto
  have "e3 @ e4 = [] \<longleftrightarrow> failures (concat parts @ map2 (\<lambda>sg r. EvDeleteSG (GroupId sg) r) sgs rs) = 0"
    using p(3) d(3) by (metis Nil_is_append_conv add_is_0 filter_append length_0_conv length_append)
  with p d show ?thesis by (intro exI [where x = parts] exI [where x = rs]) simp
qed

lemma cleanupSecurityGroups_run:
  assumes "cleanupSecurityGroups client vpcID s = (r, s')"
  shows "let pages = fst (fst (DescribeSecurityGroupsPages client vpcID (ext s))) in
   case collect_pages not_default pages of
     Inl e \<Rightarrow> hist s' = hist s @ [EvListSGs vpcID pages] \<and> r \<noteq> None
   | Inr sgs \<Rightarrow> \<exists>parts rs.
       hist s' = hist s @ EvListSGs vpcID pages # concat parts @
         map2 (\<lambda>sg r. EvDeleteSG (GroupId sg) r) sgs rs \<and>
       list_all2 revoke_protocol sgs parts \<and> length rs = length sgs \<and>
       (r = None \<longleftrightarrow> failures (concat parts @ map2 (\<lambda>sg r. EvDeleteSG (GroupId sg) r) sgs rs) = 0)"
proof -
  obtain pages s1 where c:
    "call (EvListSGs vpcID) (DescribeSecurityGroupsPages client vpcID) s = (pages, s1)"
    by (cases "call (EvListSGs vpcID) (DescribeSecurityGroupsPages client vpcID) s")
  have h1: "hist s1 = hist s @ [EvListSGs vpcID pages]" by (rule hist_call [OF c])
  have pages: "fst (fst (DescribeSecurityGroupsPages client vpcID (ext s))) = pages"
    using call_result [of "EvListSGs vpcID" "DescribeSecurityGroupsPages client vpcID" s] c by simp
  show ?thesis
  proof (cases "collect_pages not_default pages")
    case (Inl e)
    with assms c h1 show ?thesis
      by (auto simp: cleanupSecurityGroups_def pages)
  next
    case (Inr sgs)
    show ?thesis
    proof (cases "sgs = []")
      case True
      with assms c h1 Inr show ?thesis
        by (auto simp: cleanupSecurityGroups_def pages)
    next
      case False
      define s2 where "s2 = printf ''Found %d non-default security groups in VPC %s\<newline>''
          [AInt (int (length sgs)), AStr vpcID] s1"
      obtain e3 s3 where r3: "revoke_rules client sgs ([], s2) = (e3, s3)"
        by (cases "revoke_rules client sgs ([], s2)")
      obtain e4 s4 where r4: "delete_groups client sgs [] s3 = (e4, s4)"
        by (cases "delete_groups client sgs [] s3")
      have res: "s' = s4" "r = None \<longleftrightarrow> e3 @ e4 = []"
        using assms c Inr False r3 r4
        by (auto simp: cleanupSecurityGroups_def s2_def [symmetric] Let_def split: if_splits)
      moreover have "hist s2 = hist s1" by (simp add: s2_def)
      ultimately show ?thesis
        using group_requests [OF r3 r4] h1 Inr by (auto simp: pages)
    qed
  qed
qed

lemma cleanupSubnets_run:
  assumes "cleanupSubnets client vpcID s = (r, s')"
  shows "let pages = fst (fst (DescribeSubnetsPages client vpcID (ext s))) in
   case collect_pages (\<lambda>_. True) pages of
     Inl e \<Rightarrow> hist s' = hist s @ [EvListSubnets vpcID pages] \<and> r \<noteq> None
   | Inr sns \<Rightarrow> \<exists>rs.
       hist s' = hist s @ EvListSubnets vpcID pages # map2 (\<lambda>sn r. EvDeleteSubnet (SubnetId sn) r) sns rs \<and>
       length rs = length sns \<and>
       (r = None \<longleftrightarrow> failures (map2 (\<lambda>sn r. EvDeleteSubnet (SubnetId sn) r) sns rs) = 0)"
proof -
  obtain pages s1 where c: "call (EvListSubnets vpcID) (DescribeSubnetsPages client vpcID) s = (pages, s1)"
    by (cases "call (EvListSubnets vpcID) (DescribeSubnetsPages client vpcID) s")
  have h1: "hist s1 = hist s @ [EvListSubnets vpcID pages]" by (rule hist_call [OF c])
  have pages: "fst (fst (DescribeSubnetsPages client vpcID (ext s))) = pages"
    using call_result [of "EvListSubnets vpcID" "DescribeSubnetsPages client vpcID" s] c by simp
  show ?thesis
  proof (cases "collect_pages (\<lambda>_. True) pages")
    case (Inl e)
    with assms c h1 show ?thesis
      by (auto simp: cleanupSubnets_def pages)
  next
    case (Inr sns)
    show ?thesis
    proof (cases "sns = []")
      case True
      with assms c h1 Inr show ?thesis
        by (auto simp: cleanupSubnets_def pages)
    next
      case False
      define s2 where "s2 = printf ''Found %d subnets in VPC %s\<newline>''
          [AInt (int (length sns)), AStr vpcID] s1"
      obtain e3 s3 where r3: "delete_subnets client sns [] s2 = (e3, s3)"
        by (cases "delete_subnets client sns [] s2")
      have res: "s' = s3" "r = None \<longleftrightarrow> e3 = []"
        using assms c Inr False r3
        by (auto simp: cleanupSubnets_def s2_def [symmetric] Let_def split: if_splits)
      from subnet_deletion.all_requested [OF r3] obtain rs where "length rs = length sns"
          "hist s3 = hist s2 @ map2 (\<lambda>sn r. EvDeleteSubnet (SubnetId sn) r) sns rs"
          "length e3 = failures (map2 (\<lambda>sn r. EvDeleteSubnet (SubnetId sn) r) sns rs)" by auto
      moreover have "hist s2 = hist s1" by (simp add: s2_def)
      ultimately show ?thesis
        using res h1 Inr by (auto simp: pages intro!: exI [where x = rs])
    qed
  qed
qed

subsection \<open>The order of the requests\<close>

fun ec2_rank :: "ec2_event \<Rightarrow> nat" where
  "ec2_rank (EvListENIs _ _) = 0"
| "ec2_rank (EvDetachENI _ _ _) = 0"
| "ec2_rank (EvDescribeENI _ _) = 0"
| "ec2_rank (EvDeleteENI _ _) = 0"
| "ec2_rank (EvListSGs _ _) = 1"
| "ec2_rank (EvRevokeIngress _ _) = 2"
| "ec2_rank (EvRevokeEgress _ _) = 2"
| "ec2_rank (EvDeleteSG _ _) = 3"
| "ec2_rank (EvListSubnets _ _) = 4"
| "ec2_rank (EvDeleteSubnet _ _) = 5"

lemma eni_event_rank: "eni_event e \<longleftrightarrow> ec2_rank e = 0"
  by (cases e) auto

lemma eni_events_rank: "list_all eni_event evs \<longleftrightarrow> list_all (\<lambda>e. ec2_rank e = 0) evs"
  by (simp add: list_all_iff eni_event_rank)

lemma revoke_protocols_rank:
  "list_all2 revoke_protocol sgs parts \<Longrightarrow> list_all (\<lambda>e. ec2_rank e = 2) (concat parts)"
  by (induction rule: list_all2_induct) (auto simp: revoke_protocol_def)

lemma map2_rank:
  "list_all (\<lambda>e. ec2_rank e = 3) (map2 (\<lambda>sg r. EvDeleteSG (GroupId sg) r) sgs rs)"
  "list_all (\<lambda>e. ec2_rank e = 5) (map2 (\<lambda>sn r. EvDeleteSubnet (SubnetId sn) r) sns rs')"
  by (auto simp: list_all_iff)

lemma cleanupSecurityGroups_order:
  assumes "cleanupSecurityGroups client vpcID s = (r, s')"
  shows "\<exists>evs. hist s' = hist s @ evs \<and> sorted (map ec2_rank evs) \<and>
           list_all (\<lambda>e. 1 \<le> ec2_rank e \<and> ec2_rank e \<le> 3) evs"
proof -
  define pages where "pages = fst (fst (DescribeSecurityGroupsPages client vpcID (ext s)))"
  show ?thesis
  proof (cases "collect_pages not_default pages")
    case (Inl e)
    with cleanupSecurityGroups_run [OF assms] show ?thesis
      by (simp add: pages_def [symmetric])
  next
    case (Inr sgs)
    with cleanupSecurityGroups_run [OF assms] obtain parts rs where
      h: "hist s' = hist s @ EvListSGs vpcID pages # concat parts @
            map2 (\<lambda>sg r. EvDeleteSG (GroupId sg) r) sgs rs"
      and p: "list_all2 revoke_protocol sgs parts"
      by (auto simp: pages_def [symmetric])
    let ?ds = "map2 (\<lambda>sg r. EvDeleteSG (GroupId sg) r) sgs rs"
    note rk = revoke_protocols_rank [OF p] map2_rank(1) [of sgs rs]
    have "sorted (map ec2_rank (concat parts @ ?ds))"
      by (rule sorted_map_append [where k = 3])
        (use rk in \<open>auto intro: sorted_map_const simp: list_all_iff simp del: map_concat\<close>)
    with rk h show ?thesis
      by (intro exI [where x = "EvListSGs vpcID pages # concat parts @ ?ds"])
        (auto simp: list_all_iff)
  qed
qed

lemma cleanupSubnets_order:
  assumes "cleanupSubnets client vpcID s = (r, s')"
  shows "\<exists>evs. hist s' = hist s @ evs \<and> sorted (map ec2_rank evs) \<and>
           list_all (\<lambda>e. 4 \<le> ec2_rank e) evs"
proof -
  define pages where "pages = fst (fst (DescribeSubnetsPages client vpcID (ext s)))"
  show ?thesis
  proof (cases "collect_pages (\<lambda>_. True) pages")
    case (Inl e)
    with cleanupSubnets_run [OF assms] show ?thesis by (simp add: pages_def [symmetric])
  next
    case (Inr sns)
    with cleanupSubnets_run [OF assms] obtain rs where
      h: "hist s' = hist s @ EvListSubnets vpcID pages #
            map2 (\<lambda>sn r. EvDeleteSubnet (SubnetId sn) r) sns rs"
      by (auto simp: pages_def [symmetric])
    let ?ds = "map2 (\<lambda>sn r. EvDeleteSubnet (SubnetId sn) r) sns rs"
    have "sorted (map ec2_rank ?ds)" by (rule sorted_map_const [OF map2_rank(2)])
    with map2_rank(2) [of sns rs] h show ?thesis
      by (intro exI [where x = "EvListSubnets vpcID pages # ?ds"]) (auto simp: list_all_iff)
  qed
qed

text \<open>The three stages of a run, with the requests of the stages that were reached.\<close>

lemma CleanupVPCResources_stages:
  assumes "CleanupVPCResources c tm client vpcID s = Some (r, s')"
  obtains r1 s1 where "cleanupENIs c tm client vpcID s = Some (r1, s1)" "r1 \<noteq> None"
      "hist s' = hist s1" "r \<noteq> None"
    | s1 r2 s2 where "cleanupENIs c tm client vpcID s = Some (None, s1)"
      "cleanupSecurityGroups client vpcID s1 = (r2, s2)" "r2 \<noteq> None" "hist s' = hist s2" "r \<noteq> None"
    | s1 s2 r3 s3 where "cleanupENIs c tm client vpcID s = Some (None, s1)"
      "cleanupSecurityGroups client vpcID s1 = (None, s2)"
      "cleanupSubnets client vpcID s2 = (r3, s3)" "hist s' = hist s3" "r = None \<longleftrightarrow> r3 = None"
  using assms
  by (auto simp: CleanupVPCResources_def split: option.splits prod.splits)

end
