(* ===== verification/VpcProperties.thy ===== *)
theory VpcProperties
  imports VpcCleanup
begin

text \<open>
  The properties of the VPC cleanup, over the runs characterised in \<open>VpcCleanup\<close>, and a
  small VPC on which each of them is applied: one attached interface, the default security
  group and one other, two subnets.
\<close>

subsection \<open>A concrete VPC\<close>

definition demo_enis :: "network_interface list" where
  "demo_enis = [\<lparr>NetworkInterfaceId = Some ''eni-1'', NIStatus = ''in-use'', Attachment = Some (Some ''at-1'')\<rparr>]"

definition demo_sgs :: "security_group list" where
  "demo_sgs =
     [\<lparr>GroupId = Some ''sg-0'', GroupName = Some ''default'', IpPermissions = [''p''], IpPermissionsEgress = []\<rparr>,
      \<lparr>GroupId = Some ''sg-1'', GroupName = Some ''workers'', IpPermissions = [''p''], IpPermissionsEgress = [''q'']\<rparr>]"

definition demo_ec2 :: "ext_error option \<Rightarrow> unit EC2VPCClient" where
  "demo_ec2 sg_answer =
     \<lparr>DescribeNetworkInterfacesPages = (\<lambda>_ w. (([Inr demo_enis], 0), w)),
      DescribeNetworkInterfaces = (\<lambda>_ w. ((Inr [], 0), w)),
      DetachNetworkInterface = (\<lambda>_ _ w. ((None, 0), w)),
      DeleteNetworkInterface = (\<lambda>_ w. ((None, 0), w)),
      DescribeSecurityGroupsPages = (\<lambda>_ w. (([Inr demo_sgs], 0), w)),
      RevokeSecurityGroupIngress = (\<lambda>_ _ w. ((None, 0), w)),
      RevokeSecurityGroupEgress = (\<lambda>_ _ w. ((None, 0), w)),
      DeleteSecurityGroup = (\<lambda>_ w. ((sg_answer, 0), w)),
      DescribeSubnetsPages = (\<lambda>_ w. (([Inr [\<lparr>SubnetId = Some ''sn-1''\<rparr>], Inr [\<lparr>SubnetId = Some ''sn-2''\<rparr>]], 0), w)),
      DeleteSubnet = (\<lambda>_ w. ((None, 0), w))\<rparr>"

lemmas vpc_run_defs =
  CleanupVPCResources_def cleanupENIs_def detach_eni_def waitForENIAvailable_def eni_probe_def
  eni_wait_verdict_def deleteENIWithRetry_def cleanupSecurityGroups_def revoke_ingress_def
  revoke_egress_def cleanupSubnets_def default_eni_timing_def not_default_def ToString_def
  poll_deadline.simps call_def printf_def Let_def demo_ec2_def demo_enis_def demo_sgs_def eval_nat_numeral

lemma demo_cleanup_succeeds:
  "\<exists>s'. CleanupVPCResources punctual default_eni_timing (demo_ec2 None) ''vpc-1'' (start ()) = Some (None, s')"
  by (simp add: vpc_run_defs)

subsection \<open>Order\<close>

lemma eni_first:
  "list_all (\<lambda>e. ec2_rank e = 0) xs \<Longrightarrow> sorted (map ec2_rank ys) \<Longrightarrow> sorted (map ec2_rank (xs @ ys))"
  by (rule sorted_map_append [where k = 0]) (auto intro: sorted_map_const simp: list_all_iff)

text \<open>
  C2: the requests of a run come in the order the cleanup promises, whatever the service
  answers: everything about network interfaces first, then the security groups are listed,
  all their rules revoked before the first group is deleted, then the subnets.
\<close>

theorem CleanupVPCResources_order:
  assumes "CleanupVPCResources c tm client vpcID s = Some (r, s')"
  shows "\<exists>evs. hist s' = hist s @ evs \<and> sorted (map ec2_rank evs)"
  using assms
proof (cases rule: CleanupVPCResources_stages)
  case (1 r1 s1)
  from cleanupENIs_run [OF 1(1)] 1(3) show ?thesis
    by (force simp: eni_events_rank intro: sorted_map_const [where k = 0])
next
  case (2 s1 r2 s2)
  obtain p es where e: "hist s1 = hist s @ EvListENIs vpcID p # es" "list_all eni_event es"
    using cleanupENIs_run [OF 2(1)] by blast
  obtain gs where g: "hist s2 = hist s1 @ gs" "sorted (map ec2_rank gs)"
    using cleanupSecurityGroups_order [OF 2(2)] by blast
  from e(2) have "list_all (\<lambda>e. ec2_rank e = 0) (EvListENIs vpcID p # es)" by (simp add: eni_events_rank)
  then have "sorted (map ec2_rank ((EvListENIs vpcID p # es) @ gs))" using g(2) by (rule eni_first)
  with e g 2 show ?thesis by (intro exI [where x = "(EvListENIs vpcID p # es) @ gs"]) simp
next
  case (3 s1 s2 r3 s3)
  obtain p es where e: "hist s1 = hist s @ EvListENIs vpcID p # es" "list_all eni_event es"
    using cleanupENIs_run [OF 3(1)] by blast
  obtain gs where g: "hist s2 = hist s1 @ gs" "sorted (map ec2_rank gs)"
      "list_all (\<lambda>e. 1 \<le> ec2_rank e \<and> ec2_rank e \<le> 3) gs"
    using cleanupSecurityGroups_order [OF 3(2)] by blast
  obtain ns where n: "hist s3 = hist s2 @ ns" "sorted (map ec2_rank ns)" "list_all (\<lambda>e. 4 \<le> ec2_rank e) ns"
    using cleanupSubnets_order [OF 3(3)] by blast
  from e(2) have "list_all (\<lambda>e. ec2_rank e = 0) (EvListENIs vpcID p # es)" by (simp add: eni_events_rank)
  moreover have "sorted (map ec2_rank (gs @ ns))"
    by (rule sorted_map_append [where k = 3]) (use g n in \<open>auto simp: list_all_iff\<close>)
  ultimately have "sorted (map ec2_rank ((EvListENIs vpcID p # es) @ gs @ ns))"
    by (rule eni_first)
  with e g n 3 show ?thesis by (intro exI [where x = "(EvListENIs vpcID p # es) @ gs @ ns"]) simp
qed

theorem CleanupVPCResources_order_witness:
  "\<exists>s' evs. CleanupVPCResources punctual default_eni_timing (demo_ec2 None) ''vpc-1'' (start ()) = Some (None, s') \<and>
     hist s' = evs \<and> sorted (map ec2_rank evs)"
proof -
  obtain s' where run: "CleanupVPCResources punctual default_eni_timing (demo_ec2 None) ''vpc-1'' (start ()) = Some (None, s')"
    using demo_cleanup_succeeds by blast
  with CleanupVPCResources_order [OF run] show ?thesis by auto
qed

subsection \<open>The default security group\<close>

fun sg_target :: "ec2_event \<Rightarrow> string option option" where
  "sg_target (EvRevokeIngress g _) = Some g"
| "sg_target (EvRevokeEgress g _) = Some g"
| "sg_target (EvDeleteSG g _) = Some g"
| "sg_target _ = None"

lemma collect_pages_members:
  "collect_pages keep pages = Inr xs \<Longrightarrow>
   set xs = {x. keep x \<and> (\<exists>items. Inr items \<in> set pages \<and> x \<in> set items)}"
proof (induction keep pages arbitrary: xs rule: collect_pages.induct)
  case (3 keep items pages)
  then show ?case by (auto split: sum.splits)
qed auto

lemma revoke_protocols_target:
  "list_all2 revoke_protocol sgs parts \<Longrightarrow> e \<in> set (concat parts) \<Longrightarrow>
   \<exists>sg \<in> set sgs. sg_target e = Some (GroupId sg)"
  by (induction rule: list_all2_induct) (auto simp: revoke_protocol_def split: if_splits)

text \<open>
  C3: the cleanup never touches the default security group: each request that revokes the
  rules of a group or deletes one is about a group the service listed for this VPC under a
  name other than \<open>default\<close>.
\<close>

theorem cleanupSecurityGroups_spares_default:
  assumes "cleanupSecurityGroups client vpcID s = (r, s')" and "hist s' = hist s @ evs"
    and "e \<in> set evs" and "sg_target e = Some g"
  shows "\<exists>items sg. Inr items \<in> set (fst (fst (DescribeSecurityGroupsPages client vpcID (ext s)))) \<and>
           sg \<in> set items \<and> GroupId sg = g \<and> ToString (GroupName sg) \<noteq> ''default''"
proof -
  define pages where "pages = fst (fst (DescribeSecurityGroupsPages client vpcID (ext s)))"
  note run = cleanupSecurityGroups_run [OF assms(1), folded pages_def, unfolded Let_def]
  show ?thesis
  proof (cases "collect_pages not_default pages")
    case (Inl err)
    with run assms show ?thesis by simp
  next
    case (Inr sgs)
    with run obtain parts rs where
      h: "hist s' = hist s @ EvListSGs vpcID pages # concat parts @
            map2 (\<lambda>sg r. EvDeleteSG (GroupId sg) r) sgs rs"
      and p: "list_all2 revoke_protocol sgs parts" by auto
    from h assms(2,3,4) have "e \<in> set (concat parts) \<or>
        e \<in> set (map2 (\<lambda>sg r. EvDeleteSG (GroupId sg) r) sgs rs)" by auto
    then obtain sg where "sg \<in> set sgs" "GroupId sg = g"
      using revoke_protocols_target [OF p, of e] assms(4) by (auto dest: set_zip_leftD)
    with collect_pages_members [OF Inr] show ?thesis
      by (auto simp: not_default_def pages_def)
  qed
qed

theorem cleanupSecurityGroups_spares_default_witness:
  "\<exists>s'. cleanupSecurityGroups (demo_ec2 None) ''vpc-1'' (start ()) = (None, s') \<and>
     EvDeleteSG (Some ''sg-1'') None \<in> set (hist s') \<and>
     (\<exists>items sg. Inr items \<in> set (fst (fst (DescribeSecurityGroupsPages (demo_ec2 None) ''vpc-1'' ()))) \<and>
        sg \<in> set items \<and> GroupId sg = Some ''sg-1'' \<and> ToString (GroupName sg) \<noteq> ''default'')"
proof -
  have "\<exists>s'. cleanupSecurityGroups (demo_ec2 None) ''vpc-1'' (start ()) = (None, s') \<and>
      EvDeleteSG (Some ''sg-1'') None \<in> set (hist s')"
    by (simp add: vpc_run_defs)
  then obtain s' where run: "cleanupSecurityGroups (demo_ec2 None) ''vpc-1'' (start ()) = (None, s')"
      and ev: "EvDeleteSG (Some ''sg-1'') None \<in> set (hist s')" by blast
  have h: "hist s' = hist (start ()) @ hist s'" by simp
  from cleanupSecurityGroups_spares_default [OF run h ev] run ev show ?thesis by auto
qed

subsection \<open>Success\<close>

lemma no_failures:
  assumes "length rs = length xs" and "list_all (\<lambda>e. \<not> failed e) (map2 f xs rs)"
    and "\<And>x r. failed (f x r) = (r \<noteq> None)"
  shows "map2 f xs rs = map (\<lambda>x. f x None) xs"
  using assms by (induction rs xs rule: list_induct2) auto

lemma no_failures_delete_groups:
  "length rs = length sgs \<Longrightarrow> failures (map2 (\<lambda>sg r. EvDeleteSG (GroupId sg) r) sgs rs) = 0 \<Longrightarrow>
   map2 (\<lambda>sg r. EvDeleteSG (GroupId sg) r) sgs rs = map (\<lambda>sg. EvDeleteSG (GroupId sg) None) sgs"
  by (rule no_failures) (simp_all add: list_all_iff filter_empty_conv del: filter_map)

lemma no_failures_delete_subnets:
  "length qs = length sns \<Longrightarrow> failures (map2 (\<lambda>sn r. EvDeleteSubnet (SubnetId sn) r) sns qs) = 0 \<Longrightarrow>
   map2 (\<lambda>sn r. EvDeleteSubnet (SubnetId sn) r) sns qs = map (\<lambda>sn. EvDeleteSubnet (SubnetId sn) None) sns"
  by (rule no_failures) (simp_all add: list_all_iff filter_empty_conv del: filter_map)

lemma cleanupSecurityGroups_nil:
  assumes "cleanupSecurityGroups client vpcID s = (None, s')"
  shows "\<exists>pages sgs parts. collect_pages not_default pages = Inr sgs \<and>
           list_all2 revoke_protocol sgs parts \<and> failures (concat parts) = 0 \<and>
           hist s' = hist s @ EvListSGs vpcID pages # concat parts @ map (\<lambda>sg. EvDeleteSG (GroupId sg) None) sgs"
proof -
  define pages where "pages = fst (fst (DescribeSecurityGroupsPages client vpcID (ext s)))"
  note run = cleanupSecurityGroups_run [OF assms, folded pages_def, unfolded Let_def]
  then obtain sgs where sgs: "collect_pages not_default pages = Inr sgs"
    by (cases "collect_pages not_default pages") auto
  with run obtain parts rs where
    "hist s' = hist s @ EvListSGs vpcID pages # concat parts @ map2 (\<lambda>sg r. EvDeleteSG (GroupId sg) r) sgs rs"
    "list_all2 revoke_protocol sgs parts" "length rs = length sgs"
    "failures (concat parts) = 0" "failures (map2 (\<lambda>sg r. EvDeleteSG (GroupId sg) r) sgs rs) = 0" by auto
  with sgs no_failures_delete_groups [of rs sgs] show ?thesis by auto
qed

lemma cleanupSubnets_nil:
  assumes "cleanupSubnets client vpcID s = (None, s')"
  shows "\<exists>pages sns. collect_pages (\<lambda>_. True) pages = Inr sns \<and>
           hist s' = hist s @ EvListSubnets vpcID pages # map (\<lambda>sn. EvDeleteSubnet (SubnetId sn) None) sns"
proof -
  define pages where "pages = fst (fst (DescribeSubnetsPages client vpcID (ext s)))"
  note run = cleanupSubnets_run [OF assms, folded pages_def, unfolded Let_def]
  then obtain sns where sns: "collect_pages (\<lambda>_. True) pages = Inr sns"
    by (cases "collect_pages (\<lambda>_. True) pages") auto
  with run obtain rs where
    "hist s' = hist s @ EvListSubnets vpcID pages # map2 (\<lambda>sn r. EvDeleteSubnet (SubnetId sn) r) sns rs"
    "length rs = length sns" "failures (map2 (\<lambda>sn r. EvDeleteSubnet (SubnetId sn) r) sns rs) = 0" by auto
  with sns no_failures_delete_subnets [of rs sns] show ?thesis by auto
qed



fun deletes_group :: "ec2_event \<Rightarrow> string option option" where
  "deletes_group (EvDeleteSG g _) = Some g"
| "deletes_group _ = None"

lemma map_filter_append: "List.map_filter f (xs @ ys) = List.map_filter f xs @ List.map_filter f ys"
  by (simp add: List.map_filter_def)

lemma deletes_group_map2:
  "length rs = length sgs \<Longrightarrow>
   List.map_filter deletes_group (map2 (\<lambda>sg r. EvDeleteSG (GroupId sg) r) sgs rs) = map GroupId sgs"
  by (induction rs sgs rule: list_induct2) (simp_all add: map_filter_simps)

lemma deletes_group_revokes:
  "list_all2 revoke_protocol sgs parts \<Longrightarrow> List.map_filter deletes_group (concat parts) = []"
  by (induction rule: list_all2_induct)
    (auto simp: map_filter_simps revoke_protocol_def map_filter_def)

text \<open>
  The deletion of security groups is best effort and reports every failure: whatever
  the answers, each non-default group is asked to be deleted exactly once, in the order of
  the listing, and the result is nil exactly if no revoke or delete request failed.
\<close>

theorem cleanupSecurityGroups_best_effort:
  assumes "cleanupSecurityGroups client vpcID s = (r, s')" and "hist s' = hist s @ evs"
    and "collect_pages not_default (fst (fst (DescribeSecurityGroupsPages client vpcID (ext s)))) = Inr sgs"
  shows "List.map_filter deletes_group evs = map GroupId sgs \<and> (r = None \<longleftrightarrow> failures evs = 0)"
proof -
  define pages where "pages = fst (fst (DescribeSecurityGroupsPages client vpcID (ext s)))"
  from cleanupSecurityGroups_run [OF assms(1)] assms(3) obtain parts rs where
    h: "hist s' = hist s @ EvListSGs vpcID pages # concat parts @ map2 (\<lambda>sg r. EvDeleteSG (GroupId sg) r) sgs rs"
    and p: "list_all2 revoke_protocol sgs parts" "length rs = length sgs"
    and n: "r = None \<longleftrightarrow> failures (concat parts @ map2 (\<lambda>sg r. EvDeleteSG (GroupId sg) r) sgs rs) = 0"
    by (auto simp: pages_def)
  with assms(2) have "evs = EvListSGs vpcID pages # concat parts @ map2 (\<lambda>sg r. EvDeleteSG (GroupId sg) r) sgs rs"
    by simp
  with n show ?thesis
    using deletes_group_revokes [OF p(1)] deletes_group_map2 [OF p(2)]
    by (auto simp: map_filter_simps map_filter_append)
qed

theorem cleanupSecurityGroups_best_effort_witness:
  "\<exists>r s'. cleanupSecurityGroups (demo_ec2 (Some (plain_error ''DependencyViolation''))) ''vpc-1'' (start ()) = (r, s') \<and>
     List.map_filter deletes_group (hist s') = [Some ''sg-1''] \<and> (r = None \<longleftrightarrow> failures (hist s') = 0)"
proof -
  let ?c = "demo_ec2 (Some (plain_error ''DependencyViolation''))"
  obtain r s' where run: "cleanupSecurityGroups ?c ''vpc-1'' (start ()) = (r, s')"
    by (cases "cleanupSecurityGroups ?c ''vpc-1'' (start ())")
  have h: "hist s' = hist (start ()) @ hist s'" by simp
  have p: "collect_pages not_default (fst (fst (DescribeSecurityGroupsPages ?c ''vpc-1'' (ext (start ()))))) = Inr (tl demo_sgs)"
    by (simp add: demo_ec2_def demo_sgs_def not_default_def ToString_def)
  from cleanupSecurityGroups_best_effort [OF run h p] run show ?thesis by (simp add: demo_sgs_def)
qed

subsection \<open>Bounded waits and retries\<close>

text \<open>
  Deleting an interface is tried at most \<open>eniDeleteMaxRetries\<close> times, with at least the
  retry delay between two attempts, and stops at the first attempt that is accepted or that
  reports the interface missing; that attempt decides the result. If none does, the result
  is an error.
\<close>

theorem deleteENIWithRetry_bounded:
  assumes "deleteENIWithRetry c tm client eniID s = (r, s')"
  shows "\<exists>resps. hist s' = hist s @ map (EvDeleteENI eniID) resps \<and>
           length resps \<le> eniDeleteMaxRetries tm \<and>
           now s + eniDeleteRetryDelay tm * (length resps - 1) \<le> now s' \<and>
           list_all (\<lambda>x. eni_delete_verdict x = None) (butlast resps) \<and>
           (case first_verdict eni_delete_verdict resps of Some v \<Rightarrow> r = v | None \<Rightarrow> \<exists>e. r = Inl e)"
  using delete_eni_attempts_run [OF assms [unfolded deleteENIWithRetry_def]]
  unfolding polled_def by blast

definition busy_ec2 :: "unit EC2VPCClient" where
  "busy_ec2 = (demo_ec2 None)\<lparr>DeleteNetworkInterface :=
     (\<lambda>_ w. ((Some (plain_error ''InvalidParameterValue: in use''), 0), w))\<rparr>"

theorem deleteENIWithRetry_bounded_witness:
  "\<exists>e s'. deleteENIWithRetry punctual default_eni_timing busy_ec2 ''eni-1'' (start ()) = (Inl e, s') \<and>
     length (hist s') = 5 \<and> seconds 12 \<le> now s'"
proof -
  let ?run = "deleteENIWithRetry punctual default_eni_timing busy_ec2 ''eni-1'' (start ())"
  have "\<exists>e s'. ?run = (Inl e, s') \<and> length (hist s') = 5"
    by (simp add: vpc_run_defs busy_ec2_def eni_missing_def Contains_iff sublist_code)
  then obtain e s' where run: "?run = (Inl e, s')" and n: "length (hist s') = 5" by blast
  from deleteENIWithRetry_bounded [OF run] n have "seconds 12 \<le> now s'"
    by (auto simp: default_eni_timing_def seconds_def)
  with run n show ?thesis by blast
qed

text \<open>
  Waiting for an interface to detach returns, describes it once per poll interval at
  most and never after the timeout, and reports success exactly if some description showed
  it available, or gone, with none before it showing an error.
\<close>

theorem waitForENIAvailable_total:
  assumes "0 < eniDetachPollInterval tm"
  shows "\<exists>r s' resps. waitForENIAvailable c tm client eniID s = Some (r, s') \<and>
           hist s' = hist s @ map (EvDescribeENI eniID) resps \<and>
           length resps \<le> eniDetachTimeout tm div eniDetachPollInterval tm + 1 \<and>
           (r = None \<longleftrightarrow> first_verdict (eni_wait_verdict eniID) resps = Some None)"
proof -
  obtain r s' where run: "waitForENIAvailable c tm client eniID s = Some (r, s')"
    using waitForENIAvailable_returns [OF assms] by blast
  from waitForENIAvailable_run [OF run] obtain resps where
    h: "hist s' = hist s @ map (EvDescribeENI eniID) resps" and
    p: "polled (eni_wait_verdict eniID) (\<lambda>r. r \<noteq> None) resps r" and
    b: "resps \<noteq> [] \<longrightarrow> eniDetachPollInterval tm * (length resps - 1) \<le> eniDetachTimeout tm" by blast
  from b assms have "length resps - 1 \<le> eniDetachTimeout tm div eniDetachPollInterval tm"
    by (cases resps) (simp_all add: less_eq_div_iff_mult_less_eq mult.commute)
  moreover from p have "r = None \<longleftrightarrow> first_verdict (eni_wait_verdict eniID) resps = Some None"
    by (auto simp: polled_def split: option.splits)
  ultimately show ?thesis using run h by (intro exI [where x = r] exI [where x = s'] exI [where x = resps]) auto
qed

theorem waitForENIAvailable_total_witness:
  "\<exists>r s' resps. waitForENIAvailable punctual default_eni_timing (demo_ec2 None) ''eni-1'' (start ()) = Some (r, s') \<and>
     hist s' = map (EvDescribeENI ''eni-1'') resps \<and> length resps \<le> 25"
proof -
  have t: "0 < eniDetachPollInterval default_eni_timing" by (simp add: default_eni_timing_def)
  have n: "eniDetachTimeout default_eni_timing div eniDetachPollInterval default_eni_timing + 1 = 25"
    by (simp add: default_eni_timing_def minutes_def seconds_def)
  show ?thesis
    using waitForENIAvailable_total [OF t, of punctual "demo_ec2 None" "''eni-1''" "start ()"]
    unfolding n by auto
qed

lemma detach_eni_returns:
  assumes "0 < eniDetachPollInterval tm"
  shows "detach_eni c tm client eni s \<noteq> None"
proof -
  have "waitForENIAvailable c tm client i s' \<noteq> None" for i s'
    using waitForENIAvailable_returns [OF assms, of c client i s'] by auto
  then show ?thesis by (auto simp: detach_eni_def Let_def simp del: not_None_eq split: option.splits prod.splits)
qed

lemma cleanup_each_eni_returns:
  assumes "0 < eniDetachPollInterval tm"
  shows "cleanup_each_eni c tm client enis s \<noteq> None"
proof (induction enis arbitrary: s)
  case (Cons eni enis)
  then show ?case
    using detach_eni_returns [OF assms, of c client eni s]
    by (simp add: Let_def split: option.splits prod.splits sum.splits)
qed simp



end
