(* ===== verification/GoJson.thy ===== *)
theory GoJson
  imports GoStrings
begin

text \<open>
  JSON values and how \<open>encoding/json\<close> reads them into Go structures. A document is its
  parse tree; an object is the list of its members in the order of the text. A structure
  field takes the value of the last member whose key is the field's name up to case, null
  leaves a field at its zero value, members without a field are ignored, and a value of the
  wrong kind makes \<open>Unmarshal\<close> return an error (which the program never looks into, so
  only the two kinds are kept in it). An object that repeats a key, and a number beyond the
  range of a 64-bit float, which no interface value can hold, are outside the model.
\<close>

fun json_kind :: "json \<Rightarrow> string" where
  "json_kind JNull = ''null''"
| "json_kind (JBool _) = ''bool''"
| "json_kind (JNum _) = ''number''"
| "json_kind (JStr _) = ''string''"
| "json_kind (JArr _) = ''array''"
| "json_kind (JObj _) = ''object''"

definition unmarshal_type_error :: "json \<Rightarrow> string \<Rightarrow> go_error" where
  "unmarshal_type_error j ty =
     Errorf ''json: cannot unmarshal %s into Go value of type %s'' [AStr (json_kind j), AStr ty]"

definition json_member :: "string \<Rightarrow> (string \<times> json) list \<Rightarrow> json" where
  "json_member name ms =
     (case find (\<lambda>(k, _). EqualFold k name) (rev ms) of None \<Rightarrow> JNull | Some (_, v) \<Rightarrow> v)"

definition decode_string :: "json \<Rightarrow> go_error + string" where
  "decode_string j =
     (case j of JNull \<Rightarrow> Inr [] | JStr s \<Rightarrow> Inr s | _ \<Rightarrow> Inl (unmarshal_type_error j ''string''))"

definition decode_field :: "string \<Rightarrow> (json \<Rightarrow> go_error + 'a) \<Rightarrow> json \<Rightarrow> go_error + 'a" where
  "decode_field name dec j =
     (case j of
        JObj ms \<Rightarrow> dec (json_member name ms)
      | JNull \<Rightarrow> dec JNull
      | _ \<Rightarrow> Inl (unmarshal_type_error j ''struct''))"

fun decode_all :: "(json \<Rightarrow> go_error + 'a) \<Rightarrow> json list \<Rightarrow> go_error + 'a list" where
  "decode_all dec [] = Inr []"
| "decode_all dec (j # js) =
     (case dec j of
        Inl e \<Rightarrow> Inl e
      | Inr a \<Rightarrow> (case decode_all dec js of Inl e \<Rightarrow> Inl e | Inr as \<Rightarrow> Inr (a # as)))"

definition decode_list :: "(json \<Rightarrow> go_error + 'a) \<Rightarrow> json \<Rightarrow> go_error + 'a list" where
  "decode_list dec j =
     (case j of
        JNull \<Rightarrow> Inr []
      | JArr js \<Rightarrow> decode_all dec js
      | _ \<Rightarrow> Inl (unmarshal_type_error j ''slice''))"

text \<open>A structure with several fields fails if any of them does.\<close>

definition decode_pair ::
  "(json \<Rightarrow> go_error + 'a) \<Rightarrow> (json \<Rightarrow> go_error + 'b) \<Rightarrow> json \<Rightarrow> go_error + 'a \<times> 'b" where
  "decode_pair f g j =
     (case f j of
        Inl e \<Rightarrow> Inl e
      | Inr a \<Rightarrow> (case g j of Inl e \<Rightarrow> Inl e | Inr b \<Rightarrow> Inr (a, b)))"

lemma decode_all_Inr_iff:
  "decode_all dec js = Inr as \<longleftrightarrow> list_all2 (\<lambda>j a. dec j = Inr a) js as"
  by (induction js arbitrary: as) (auto simp: list_all2_Cons1 split: sum.splits, metis sum.inject(2))

lemma length_decode_all: "decode_all dec js = Inr as \<Longrightarrow> length as = length js"
  by (auto simp: decode_all_Inr_iff dest: list_all2_lengthD)

end
