(* ===== verification/Kube.thy ===== *)
theory Kube
  imports GoJson
begin

text \<open>
  What the verifiers read through client-go: unstructured objects (a name and a JSON object)
  with the accessors the repository defines on them, and the fields of the typed objects
  that the code looks at. A client gives one answer per request, a snapshot of the cluster.
\<close>

subsection \<open>Clients and objects\<close>

record gvr =
  Group :: string
  Version :: string
  Resource :: string

record uobject =
  uName :: string
  uObject :: "(string \<times> json) list"

record dynamic_client =
  ResourceList :: "gvr \<Rightarrow> string \<Rightarrow> ext_error + uobject list"
    \<comment> \<open>the namespace is empty for a list over the whole cluster\<close>
  ResourceGet :: "gvr \<Rightarrow> string \<Rightarrow> string \<Rightarrow> ext_error + uobject"

record deployment =
  depNamespace :: string
  depName :: string
  depAnnotations :: "(string \<times> string) list"
  depSpecReplicas :: "int option"
  depConditions :: "(string \<times> string) list"
  depReadyReplicas :: int
  depReplicas :: int

record node =
  nodeName :: string
  nodeConditions :: "(string \<times> string) list"

record kube_client =
  DeploymentGet :: "string \<Rightarrow> string \<Rightarrow> ext_error + deployment"
  DeploymentList :: "string \<Rightarrow> ext_error + deployment list"
  NodeList :: "string \<Rightarrow> ext_error + node list" \<comment> \<open>label selector\<close>
  PVCPhase :: "string \<Rightarrow> string \<Rightarrow> ext_error + string"

subsection \<open>Maps of interfaces\<close>

text \<open>\<open>m[k]\<close> and \<open>v, _ := m[k].(T)\<close> on a \<open>map[string]interface{}\<close>.\<close>

definition obj_get :: "(string \<times> json) list \<Rightarrow> string \<Rightarrow> json option" where
  "obj_get m k = map_of (rev m) k"

definition get_object :: "(string \<times> json) list \<Rightarrow> string \<Rightarrow> (string \<times> json) list option" where
  "get_object m k = (case obj_get m k of Some (JObj ms) \<Rightarrow> Some ms | _ \<Rightarrow> None)"

definition get_array :: "(string \<times> json) list \<Rightarrow> string \<Rightarrow> json list option" where
  "get_array m k = (case obj_get m k of Some (JArr a) \<Rightarrow> Some a | _ \<Rightarrow> None)"

definition get_string :: "(string \<times> json) list \<Rightarrow> string \<Rightarrow> string option" where
  "get_string m k = (case obj_get m k of Some (JStr s) \<Rightarrow> Some s | _ \<Rightarrow> None)"

definition get_bool :: "(string \<times> json) list \<Rightarrow> string \<Rightarrow> bool option" where
  "get_bool m k = (case obj_get m k of Some (JBool b) \<Rightarrow> Some b | _ \<Rightarrow> None)"

definition str_of :: "(string \<times> json) list \<Rightarrow> string \<Rightarrow> string" where
  "str_of m k = (case get_string m k of None \<Rightarrow> [] | Some s \<Rightarrow> s)"

definition as_object :: "json \<Rightarrow> (string \<times> json) list option" where
  "as_object j = (case j of JObj m \<Rightarrow> Some m | _ \<Rightarrow> None)"

subsection \<open>\<open>getConditions\<close>, \<open>getNestedField\<close> and \<open>getNestedValue\<close>\<close>

fun condition_maps :: "json list \<Rightarrow> go_error + (string \<times> json) list list" where
  "condition_maps [] = Inr []"
| "condition_maps (c # cs) =
     (case as_object c of
        None \<Rightarrow> Inl (Errorf ''condition is not a map'' [])
      | Some m \<Rightarrow> (case condition_maps cs of Inl e \<Rightarrow> Inl e | Inr ms \<Rightarrow> Inr (m # ms)))"

text \<open>\<open>Inr None\<close> is the result \<open>nil, false, nil\<close>.\<close>

definition getConditions :: "(string \<times> json) list \<Rightarrow> go_error + (string \<times> json) list list option" where
  "getConditions obj =
     (case get_object obj ''status'' of
        None \<Rightarrow> Inr None
      | Some status \<Rightarrow>
          (case get_array status ''conditions'' of
             None \<Rightarrow> Inr None
           | Some conditions \<Rightarrow>
               (case condition_maps conditions of Inl e \<Rightarrow> Inl e | Inr ms \<Rightarrow> Inr (Some ms))))"

fun getNestedValue :: "(string \<times> json) list \<Rightarrow> string list \<Rightarrow> go_error + json option" where
  "getNestedValue current [] = Inr None"
| "getNestedValue current [field] = Inr (obj_get current field)"
| "getNestedValue current (field # f # fs) =
     (case obj_get current field of
        None \<Rightarrow> Inr None
      | Some next \<Rightarrow>
          (case as_object next of
             None \<Rightarrow> Inl (Errorf ''field %s is not a map'' [AStr field])
           | Some m \<Rightarrow> getNestedValue m (f # fs)))"

definition getNestedField :: "(string \<times> json) list \<Rightarrow> string list \<Rightarrow> go_error + string option" where
  "getNestedField obj path =
     (case getNestedValue obj path of
        Inl e \<Rightarrow> Inl e
      | Inr None \<Rightarrow> Inr None
      | Inr (Some (JStr s)) \<Rightarrow> Inr (Some s)
      | Inr (Some _) \<Rightarrow> Inl (Errorf ''field %v is not a string'' [AStrs path]))"

lemma condition_maps_objects [simp]: "condition_maps (map JObj ms) = Inr ms"
  by (induction ms) (simp_all add: as_object_def)

lemma condition_maps_iff: "condition_maps cs = Inr ms \<longleftrightarrow> cs = map JObj ms"
proof
  assume "condition_maps cs = Inr ms"
  then show "cs = map JObj ms"
    by (induction cs arbitrary: ms) (auto simp: as_object_def split: json.splits sum.splits)
qed simp

lemma map_JObj_inject [simp]: "map JObj xs = map JObj ys \<longleftrightarrow> xs = ys"
  by (simp add: inj_map_eq_map inj_def)

lemma getConditions_found:
  "getConditions obj = Inr (Some ms) \<longleftrightarrow>
     (\<exists>status. get_object obj ''status'' = Some status \<and> get_array status ''conditions'' = Some (map JObj ms))"
  by (auto simp: getConditions_def condition_maps_iff split: option.splits sum.splits)

end
