(* ===== verification/Readiness.thy ===== *)
theory Readiness
  imports Kube Polling "HOL-Library.Product_Lexorder" "HOL-Library.List_Lexorder" "HOL-Library.Char_ord"
begin

text \<open>
  The verifiers that observe the cluster over time: \<^verbatim>\<open>pkg/verifiers/oauth_readiness.go\<close>, two
  loops with a deadline one after the other, and \<^verbatim>\<open>pkg/verifiers/revision.go\<close>, two snapshots
  an observation period apart.
\<close>

subsection \<open>Requests\<close>

datatype watch_event =
    EvPods "ext_error + bool list list" \<comment> \<open>per pod, whether each container is ready\<close>
  | EvGet string "ext_error + int"
  | EvDeployments string "ext_error + deployment list"

type_synonym 'w watch_sys = "('w, watch_event) sys"

record 'w watch_client =
  ListPods :: "('w, ext_error + bool list list) api"
  NewRequest :: "string \<Rightarrow> ext_error option"
  HttpDo :: "string \<Rightarrow> ('w, ext_error + int) api"
  ListDeployments :: "string \<Rightarrow> ('w, ext_error + deployment list) api"

subsection \<open>OAuth server readiness\<close>

fun all_true :: "bool list \<Rightarrow> bool" where
  "all_true [] = True"
| "all_true (r # rs) = (if \<not> r then False else all_true rs)"

definition isPodContainersReady :: "bool list \<Rightarrow> bool" where
  "isPodContainersReady sts = (if sts = [] then False else all_true sts)"

fun pods_ready :: "bool list list \<Rightarrow> bool" where
  "pods_ready [] = True"
| "pods_ready (pod # pods) = (if \<not> isPodContainersReady pod then False else pods_ready pods)"

definition oauth_pods_verdict :: "ext_error + bool list list \<Rightarrow> go_error option option" where
  "oauth_pods_verdict resp =
     (case resp of
        Inl e \<Rightarrow> Some (Some (Errorf ''listing oauth-apiserver pods: %w'' [AExt e]))
      | Inr pods \<Rightarrow> if pods = [] then None else if pods_ready pods then Some None else None)"

definition oauth_pods_probe ::
  "'w watch_client \<Rightarrow> 'w watch_sys \<Rightarrow> go_error option option \<times> 'w watch_sys" where
  "oauth_pods_probe cl s =
     (case call EvPods (ListPods cl) s of (resp, s1) \<Rightarrow> (oauth_pods_verdict resp, s1))"

definition waitForOAuthPodReadiness ::
  "'w timing \<Rightarrow> 'w watch_client \<Rightarrow> nat \<Rightarrow> 'w watch_sys \<Rightarrow> (go_error option \<times> 'w watch_sys) option" where
  "waitForOAuthPodReadiness c cl timeout s =
     poll_deadline c (seconds 15) (now s + timeout) Some
       (Some (Errorf ''timed out after %s waiting for oauth-apiserver pods to be ready'' [AInt (int timeout)]))
       (oauth_pods_probe cl) s"

definition oauthWellKnownPath :: string where
  [go_defs]: "oauthWellKnownPath = ''/.well-known/oauth-authorization-server''"

definition well_known_endpoint :: "string \<Rightarrow> string" where
  "well_known_endpoint apiServerURL = TrimRight apiServerURL (CHR ''/'') @ oauthWellKnownPath"

definition well_known_verdict :: "ext_error + int \<Rightarrow> go_error option option" where
  "well_known_verdict resp = (case resp of Inl _ \<Rightarrow> None | Inr status \<Rightarrow> if status = 200 then Some None else None)"

definition well_known_request ::
  "'w watch_client \<Rightarrow> string \<Rightarrow> 'w watch_sys \<Rightarrow> go_error option option \<times> 'w watch_sys" where
  "well_known_request cl endpoint s =
     (case call (EvGet endpoint) (HttpDo cl endpoint) s of (resp, s1) \<Rightarrow> (well_known_verdict resp, s1))"

definition well_known_probe ::
  "'w watch_client \<Rightarrow> string \<Rightarrow> 'w watch_sys \<Rightarrow> go_error option option \<times> 'w watch_sys" where
  "well_known_probe cl endpoint s =
     (case NewRequest cl endpoint of
        Some e \<Rightarrow> (Some (Some (Errorf ''creating request for %s: %w'' [AStr endpoint, AExt e])), s)
      | None \<Rightarrow> well_known_request cl endpoint s)"

definition waitForOAuthWellKnownEndpoint ::
  "'w timing \<Rightarrow> 'w watch_client \<Rightarrow> string \<Rightarrow> nat \<Rightarrow> 'w watch_sys \<Rightarrow>
   (go_error option \<times> 'w watch_sys) option" where
  "waitForOAuthWellKnownEndpoint c cl apiServerURL timeout s =
     (let endpoint = well_known_endpoint apiServerURL in
      poll_deadline c (seconds 10) (now s + timeout) Some
        (Some (Errorf ''timed out after %s waiting for OAuth well-known endpoint at %s''
                 [AInt (int timeout), AStr endpoint]))
        (well_known_probe cl endpoint) s)"

definition VerifyOAuthServerReadiness ::
  "'w timing \<Rightarrow> 'w watch_client \<Rightarrow> string \<Rightarrow> nat \<Rightarrow> 'w watch_sys \<Rightarrow>
   (go_error option \<times> 'w watch_sys) option" where
  "VerifyOAuthServerReadiness c cl apiServerURL timeout s =
     (case waitForOAuthPodReadiness c cl timeout s of
        None \<Rightarrow> None
      | Some (Some err, s1) \<Rightarrow> Some (Some (Errorf ''oauth-apiserver pod readiness: %w'' [AWrap err]), s1)
      | Some (None, s1) \<Rightarrow>
          (case waitForOAuthWellKnownEndpoint c cl apiServerURL timeout s1 of
             None \<Rightarrow> None
           | Some (Some err, s2) \<Rightarrow> Some (Some (Errorf ''oauth well-known endpoint: %w'' [AWrap err]), s2)
           | Some (None, s2) \<Rightarrow> Some (None, s2)))"

subsection \<open>Deployment revisions\<close>

datatype deploymentRef = Ref (refNamespace: string) (refName: string)

text \<open>References ordered by namespace and name: one order in which the map can be iterated.\<close>

instantiation deploymentRef :: linorder
begin

definition less_eq_deploymentRef :: "deploymentRef \<Rightarrow> deploymentRef \<Rightarrow> bool" where
  "less_eq_deploymentRef a b \<longleftrightarrow> (refNamespace a, refName a) \<le> (refNamespace b, refName b)"

definition less_deploymentRef :: "deploymentRef \<Rightarrow> deploymentRef \<Rightarrow> bool" where
  "less_deploymentRef a b \<longleftrightarrow> (refNamespace a, refName a) < (refNamespace b, refName b)"

instance
  by standard
    (auto simp: less_eq_deploymentRef_def less_deploymentRef_def less_le_not_le
      intro: order_trans deploymentRef.expand)

end

definition revisionAnnotation :: string where
  [go_defs]: "revisionAnnotation = ''deployment.kubernetes.io/revision''"

fun revisions_of :: "deployment list \<Rightarrow> (deploymentRef \<rightharpoonup> string) \<Rightarrow> (deploymentRef \<rightharpoonup> string)" where
  "revisions_of [] revisions = revisions"
| "revisions_of (d # ds) revisions =
     revisions_of ds (revisions(Ref (depNamespace d) (depName d) \<mapsto> map_get (depAnnotations d) revisionAnnotation))"

definition snapshotDeploymentRevisions ::
  "'w watch_client \<Rightarrow> string \<Rightarrow> 'w watch_sys \<Rightarrow> (go_error + (deploymentRef \<rightharpoonup> string)) \<times> 'w watch_sys" where
  "snapshotDeploymentRevisions cl namespace s =
     (case call (EvDeployments namespace) (ListDeployments cl namespace) s of
        (Inl e, s1) \<Rightarrow> (Inl (Errorf ''listing deployments: %w'' [AExt e]), s1)
      | (Inr items, s1) \<Rightarrow> (Inr (revisions_of items Map.empty), s1))"

text \<open>The iteration order of a Go map is a parameter: a list of its keys.\<close>

type_synonym ref_order = "(deploymentRef \<rightharpoonup> string) \<Rightarrow> deploymentRef list"

definition changed_line ::
  "(deploymentRef \<rightharpoonup> string) \<Rightarrow> (deploymentRef \<rightharpoonup> string) \<Rightarrow> deploymentRef \<Rightarrow> go_error option" where
  "changed_line initial final ref =
     (case (initial ref, final ref) of
        (Some initialRev, Some finalRev) \<Rightarrow>
          if initialRev \<noteq> finalRev
          then Some (Sprintf ''- %s/%s: revision %s -> %s''
                 [AStr (refNamespace ref), AStr (refName ref), AStr initialRev, AStr finalRev])
          else None
      | _ \<Rightarrow> None)"

definition VerifyDeploymentRevisionsStable ::
  "ref_order \<Rightarrow> 'w timing \<Rightarrow> 'w watch_client \<Rightarrow> string \<Rightarrow> nat \<Rightarrow> 'w watch_sys \<Rightarrow>
   go_error option \<times> 'w watch_sys" where
  "VerifyDeploymentRevisionsStable order c cl namespace observationPeriod s =
     (case snapshotDeploymentRevisions cl namespace s of
        (Inl e, s1) \<Rightarrow> (Some (Errorf ''taking initial revision snapshot: %w'' [AWrap e]), s1)
      | (Inr initial, s1) \<Rightarrow>
          if order initial = [] then (None, s1)
          else
            (case sleep_or_done c observationPeriod s1 of
               (Some err, s2) \<Rightarrow> (Some err, s2)
             | (None, s2) \<Rightarrow>
                 (case snapshotDeploymentRevisions cl namespace s2 of
                    (Inl e, s3) \<Rightarrow> (Some (Errorf ''taking final revision snapshot: %w'' [AWrap e]), s3)
                  | (Inr final, s3) \<Rightarrow>
                      (let changed = List.map_filter (changed_line initial final) (order initial)
                       in if changed = [] then None
                          else Some (Errorf ''found %d deployment(s) with unexpected revision changes during %s observation:\<newline>%s''
                                       [AInt (int (length changed)), AInt (int observationPeriod), ALines changed]), s3))))"

end
