(* ===== verification/ReadinessProperties.thy ===== *)
theory ReadinessProperties
  imports Readiness
begin

text \<open>
  The properties of the verifiers that observe over time: both OAuth loops through the
  contract of the deadline loop, and the comparison of two revision snapshots.
\<close>

subsection \<open>OAuth server readiness\<close>

interpretation oauth_pods: single_probe "oauth_pods_probe cl" EvPods oauth_pods_verdict
  for cl :: "'w watch_client"
  by unfold_locales (auto simp: oauth_pods_probe_def dest: hist_call now_call split: prod.splits)

interpretation well_known: single_probe "well_known_request cl endpoint" "EvGet endpoint" well_known_verdict
  for cl :: "'w watch_client" and endpoint
  by unfold_locales (auto simp: well_known_request_def dest: hist_call now_call split: prod.splits)

lemma all_true_iff: "all_true rs \<longleftrightarrow> list_all id rs"
  by (induction rs) simp_all

definition pod_ready :: "bool list \<Rightarrow> bool" where
  "pod_ready containers \<longleftrightarrow> containers \<noteq> [] \<and> list_all id containers"

lemma pods_ready_iff: "pods_ready pods \<longleftrightarrow> list_all pod_ready pods"
  by (induction pods) (simp_all add: isPodContainersReady_def all_true_iff pod_ready_def)

definition oauth_ready :: "ext_error + bool list list \<Rightarrow> bool" where
  "oauth_ready resp = (case resp of Inl _ \<Rightarrow> False | Inr pods \<Rightarrow> pods \<noteq> [] \<and> list_all pod_ready pods)"

lemma oauth_pods_nil: "oauth_pods_verdict resp = Some None \<longleftrightarrow> oauth_ready resp"
  by (auto simp: oauth_pods_verdict_def oauth_ready_def pods_ready_iff split: sum.splits)

lemma well_known_nil: "well_known_verdict resp = Some None \<longleftrightarrow> resp = Inr 200"
  and well_known_only_nil: "well_known_verdict resp \<noteq> Some (Some e)"
  by (auto simp: well_known_verdict_def split: sum.splits)

text \<open>What a deadline loop gives a client that only tells nil from an error.\<close>

lemma polled_nil_iff:
  assumes "polled verdict rest evs r" and "\<not> rest None"
  shows "r = None \<longleftrightarrow> evs \<noteq> [] \<and> verdict (last evs) = Some None"
proof
  assume "r = None"
  with polled_result [OF assms(1)] assms(2) show "evs \<noteq> [] \<and> verdict (last evs) = Some None" by auto
next
  assume l: "evs \<noteq> [] \<and> verdict (last evs) = Some None"
  then obtain es e where e: "evs = es @ [e]" "verdict e = Some None" by (metis append_butlast_last_id)
  with assms(1) have "first_verdict verdict es = None" by (simp add: polled_def first_verdict_None_iff)
  with assms(1) e show "r = None" by (simp add: polled_def first_verdict_append)
qed

lemma deadline_count:
  assumes "0 < poll" and "evs \<noteq> [] \<longrightarrow> t + poll * (length evs - 1) \<le> t + (timeout::nat)"
  shows "length evs \<le> timeout div poll + 1"
  using assms by (cases evs) (simp_all add: less_eq_div_iff_mult_less_eq mult.commute)

lemma waitForOAuthPodReadiness_run:
  "\<exists>r s' pods. waitForOAuthPodReadiness c cl timeout s = Some (r, s') \<and> hist s' = hist s @ map EvPods pods \<and>
     length pods \<le> timeout div seconds 15 + 1 \<and> (r = None \<longleftrightarrow> pods \<noteq> [] \<and> oauth_ready (last pods))"
proof -
  obtain r s' where run: "waitForOAuthPodReadiness c cl timeout s = Some (r, s')"
    using oauth_pods.deadline_returns [of "seconds 15"] unfolding waitForOAuthPodReadiness_def by fastforce
  from oauth_pods.deadline_run [OF run [unfolded waitForOAuthPodReadiness_def]] obtain pods where
    h: "hist s' = hist s @ map EvPods pods" and
    p: "polled oauth_pods_verdict (\<lambda>r. r = Some (Errorf ''timed out after %s waiting for oauth-apiserver pods to be ready''
          [AInt (int timeout)]) \<and> now s + timeout < now s' \<or> (\<exists>e. r = Some e)) pods r" and
    b: "pods \<noteq> [] \<longrightarrow> now s + seconds 15 * (length pods - 1) \<le> now s + timeout" by blast
  from polled_nil_iff [OF p] have "r = None \<longleftrightarrow> pods \<noteq> [] \<and> oauth_ready (last pods)" by (simp add: oauth_pods_nil)
  moreover have "length pods \<le> timeout div seconds 15 + 1" by (rule deadline_count [OF _ b]) simp
  ultimately show ?thesis using run h by blast
qed

lemma waitForOAuthWellKnownEndpoint_run:
  assumes "NewRequest cl (well_known_endpoint url) = None"
  shows "\<exists>r s' gets. waitForOAuthWellKnownEndpoint c cl url timeout s = Some (r, s') \<and>
     hist s' = hist s @ map (EvGet (well_known_endpoint url)) gets \<and>
     length gets \<le> timeout div seconds 10 + 1 \<and> (r = None \<longleftrightarrow> gets \<noteq> [] \<and> last gets = Inr 200)"
proof -
  let ?e = "well_known_endpoint url"
  have body: "well_known_probe cl ?e = well_known_request cl ?e"
    by (rule ext) (simp add: well_known_probe_def assms)
  obtain r s' where run: "waitForOAuthWellKnownEndpoint c cl url timeout s = Some (r, s')"
    using well_known.deadline_returns [of "seconds 10"]
    unfolding waitForOAuthWellKnownEndpoint_def Let_def body by fastforce
  from well_known.deadline_run [OF run [unfolded waitForOAuthWellKnownEndpoint_def Let_def body]] obtain gets where
    h: "hist s' = hist s @ map (EvGet ?e) gets" and
    p: "polled well_known_verdict (\<lambda>r. r = Some (Errorf ''timed out after %s waiting for OAuth well-known endpoint at %s''
          [AInt (int timeout), AStr ?e]) \<and> now s + timeout < now s' \<or> (\<exists>e. r = Some e)) gets r" and
    b: "gets \<noteq> [] \<longrightarrow> now s + seconds 10 * (length gets - 1) \<le> now s + timeout" by blast
  from polled_nil_iff [OF p] have "r = None \<longleftrightarrow> gets \<noteq> [] \<and> last gets = Inr 200" by (simp add: well_known_nil)
  moreover have "length gets \<le> timeout div seconds 10 + 1" by (rule deadline_count [OF _ b]) simp
  ultimately show ?thesis using run h by blast
qed

text \<open>
  C25: the check for OAuth readiness always returns; it lists the pods at most once per 15
  seconds of the timeout and once more, then, only if the last listing showed pods with all
  their containers ready, probes the endpoint at most once per 10 seconds and once more;
  it succeeds exactly if moreover the last probe was answered with status 200.
\<close>

theorem VerifyOAuthServerReadiness_spec:
  assumes "NewRequest cl (well_known_endpoint url) = None"
  shows "\<exists>r s' pods gets. VerifyOAuthServerReadiness c cl url timeout s = Some (r, s') \<and>
     hist s' = hist s @ map EvPods pods @ map (EvGet (well_known_endpoint url)) gets \<and>
     length pods \<le> timeout div seconds 15 + 1 \<and> length gets \<le> timeout div seconds 10 + 1 \<and>
     (gets \<noteq> [] \<longrightarrow> pods \<noteq> [] \<and> oauth_ready (last pods)) \<and>
     (r = None \<longleftrightarrow> gets \<noteq> [] \<and> last gets = Inr 200)"
proof -
  obtain r1 s1 pods where p: "waitForOAuthPodReadiness c cl timeout s = Some (r1, s1)"
      "hist s1 = hist s @ map EvPods pods" "length pods \<le> timeout div seconds 15 + 1"
      "r1 = None \<longleftrightarrow> pods \<noteq> [] \<and> oauth_ready (last pods)"
    using waitForOAuthPodReadiness_run by blast
  obtain r2 s2 gets where g: "waitForOAuthWellKnownEndpoint c cl url timeout s1 = Some (r2, s2)"
      "hist s2 = hist s1 @ map (EvGet (well_known_endpoint url)) gets" "length gets \<le> timeout div seconds 10 + 1"
      "r2 = None \<longleftrightarrow> gets \<noteq> [] \<and> last gets = Inr 200"
    using waitForOAuthWellKnownEndpoint_run [OF assms] by blast
  show ?thesis
  proof (cases r1)
    case (Some e)
    with p have "VerifyOAuthServerReadiness c cl url timeout s =
        Some (Some (Errorf ''oauth-apiserver pod readiness: %w'' [AWrap e]), s1)"
      by (simp add: VerifyOAuthServerReadiness_def)
    with p(2,3) show ?thesis by (intro exI exI [where x = pods] exI [where x = "[]"]) auto
  next
    case None
    with p g show ?thesis
      by (cases r2) (auto simp: VerifyOAuthServerReadiness_def intro!: exI [where x = pods] exI [where x = gets])
  qed
qed

definition ready_client :: "unit watch_client" where
  "ready_client =
     \<lparr>ListPods = (\<lambda>w. ((Inr [[True, True], [True]], 0), w)), NewRequest = (\<lambda>_. None),
      HttpDo = (\<lambda>_ w. ((Inr 200, 0), w)), ListDeployments = (\<lambda>_ w. ((Inr [], 0), w))\<rparr>"

theorem VerifyOAuthServerReadiness_spec_witness:
  "\<exists>r s' pods gets. VerifyOAuthServerReadiness punctual ready_client ''https://api/'' (minutes 1) (start ()) = Some (r, s') \<and>
     hist s' = map EvPods pods @ map (EvGet (well_known_endpoint ''https://api/'')) gets \<and>
     length pods \<le> 5 \<and> length gets \<le> 7"
proof -
  have n: "NewRequest ready_client (well_known_endpoint ''https://api/'') = None" by (simp add: ready_client_def)
  have d: "minutes 1 div seconds 15 + 1 = 5" "minutes 1 div seconds 10 + 1 = 7"
    by (simp_all add: minutes_def seconds_def)
  show ?thesis
    using VerifyOAuthServerReadiness_spec [OF n, of punctual "minutes 1" "start ()"] unfolding d by auto
qed

subsection \<open>Deployment revisions\<close>

text \<open>The abstract snapshot: the revision of the last deployment listed under a reference.\<close>

definition revision_entry :: "deployment \<Rightarrow> deploymentRef \<times> string" where
  "revision_entry d = (Ref (depNamespace d) (depName d), map_get (depAnnotations d) revisionAnnotation)"

definition revision_in :: "deployment list \<Rightarrow> deploymentRef \<Rightarrow> string option" where
  "revision_in ds = map_of (rev (map revision_entry ds))"

lemma revisions_of_map: "revisions_of ds m = m ++ revision_in ds"
  by (induction ds arbitrary: m) (simp_all add: revision_in_def revision_entry_def)

lemma revisions_of_empty: "revisions_of ds Map.empty = revision_in ds"
  by (simp add: revisions_of_map)

lemma dom_revision_in: "dom (revision_in ds) = (\<lambda>d. Ref (depNamespace d) (depName d)) ` set ds"
  by (auto simp: revision_in_def dom_map_of_conv_image_fst revision_entry_def image_image)

definition enumerates :: "ref_order \<Rightarrow> bool" where
  "enumerates order \<longleftrightarrow> (\<forall>m. finite (dom m) \<longrightarrow> distinct (order m) \<and> set (order m) = dom m)"

definition changed_between :: "deployment list \<Rightarrow> deployment list \<Rightarrow> deploymentRef set" where
  "changed_between ds1 ds2 =
     {ref. \<exists>r1 r2. revision_in ds1 ref = Some r1 \<and> revision_in ds2 ref = Some r2 \<and> r1 \<noteq> r2}"

lemma finite_dom_revision_in: "finite (dom (revision_in ds))"
  by (simp add: dom_revision_in)

lemma changed_line_iff:
  "changed_line (revision_in ds1) (revision_in ds2) ref \<noteq> None \<longleftrightarrow> ref \<in> changed_between ds1 ds2"
  by (auto simp: changed_line_def changed_between_def split: option.splits)

lemma length_map_filter: "length (List.map_filter f xs) = length (filter (\<lambda>x. f x \<noteq> None) xs)"
  by (induction xs) (auto simp: map_filter_simps split: option.splits)

lemma changed_count:
  assumes "enumerates order"
  shows "length (List.map_filter (changed_line (revision_in ds1) (revision_in ds2)) (order (revision_in ds1))) =
     card (changed_between ds1 ds2)"
proof -
  have o: "distinct (order (revision_in ds1))" "set (order (revision_in ds1)) = dom (revision_in ds1)"
    using assms finite_dom_revision_in [of ds1] by (auto simp: enumerates_def)
  let ?f = "filter (\<lambda>x. changed_line (revision_in ds1) (revision_in ds2) x \<noteq> None) (order (revision_in ds1))"
  have "set ?f = changed_between ds1 ds2"
    unfolding changed_line_iff using o(2) by (auto simp: changed_between_def)
  moreover have "distinct ?f" using o(1) by simp
  ultimately show ?thesis by (metis distinct_card length_map_filter)
qed

lemma snapshot_run:
  assumes "snapshotDeploymentRevisions cl namespace s = (r, s')"
  shows "\<exists>answer. hist s' = hist s @ [EvDeployments namespace answer] \<and> now s \<le> now s' \<and>
    (case answer of Inl _ \<Rightarrow> \<exists>e. r = Inl e | Inr ds \<Rightarrow> r = Inr (revision_in ds))"
  using assms
  by (auto simp: snapshotDeploymentRevisions_def revisions_of_empty dest: hist_call now_call
      split: prod.splits sum.splits)

text \<open>A run ends after one listing or after two.\<close>

definition change_error :: "nat \<Rightarrow> go_error list \<Rightarrow> go_error option" where
  "change_error period changed =
     (if changed = [] then None
      else Some (Errorf ''found %d deployment(s) with unexpected revision changes during %s observation:\<newline>%s''
                   [AInt (int (length changed)), AInt (int period), ALines changed]))"

lemma order_Nil:
  assumes "enumerates order"
  shows "order (revision_in ds) = [] \<longleftrightarrow> ds = []"
proof -
  have "set (order (revision_in ds)) = (\<lambda>d. Ref (depNamespace d) (depName d)) ` set ds"
    using assms finite_dom_revision_in [of ds] dom_revision_in [of ds] by (simp add: enumerates_def)
  then show ?thesis by (metis image_is_empty set_empty)
qed

lemma revisions_stable_cases:
  assumes "enumerates order" and "VerifyDeploymentRevisionsStable order c cl namespace period s = (r, s')"
  obtains (one) a1 where "hist s' = hist s @ [EvDeployments namespace a1]" "r = None \<longleftrightarrow> a1 = Inr []"
    | (two) ds1 a2 where "ds1 \<noteq> []" "hist s' = hist s @ [EvDeployments namespace (Inr ds1), EvDeployments namespace a2]"
      "now s + period \<le> now s'" "case a2 of Inl _ \<Rightarrow> r \<noteq> None | Inr ds2 \<Rightarrow>
         r = change_error period (List.map_filter (changed_line (revision_in ds1) (revision_in ds2)) (order (revision_in ds1)))"
proof -
  obtain r1 s1 where s1: "snapshotDeploymentRevisions cl namespace s = (r1, s1)"
    by (cases "snapshotDeploymentRevisions cl namespace s")
  obtain a1 where a1: "hist s1 = hist s @ [EvDeployments namespace a1]" "now s \<le> now s1"
    "case a1 of Inl _ \<Rightarrow> \<exists>e. r1 = Inl e | Inr ds \<Rightarrow> r1 = Inr (revision_in ds)"
    using snapshot_run [OF s1] by blast
  obtain d s2 where sl: "sleep_or_done c period s1 = (d, s2)" by (cases "sleep_or_done c period s1")
  have h2: "hist s2 = hist s1" by (rule hist_sleep_or_done [OF sl])
  obtain r3 s3 where s3: "snapshotDeploymentRevisions cl namespace s2 = (r3, s3)"
    by (cases "snapshotDeploymentRevisions cl namespace s2")
  obtain a3 where a3: "hist s3 = hist s2 @ [EvDeployments namespace a3]" "now s2 \<le> now s3"
    "case a3 of Inl _ \<Rightarrow> \<exists>e. r3 = Inl e | Inr ds \<Rightarrow> r3 = Inr (revision_in ds)"
    using snapshot_run [OF s3] by blast
  note defs = VerifyDeploymentRevisionsStable_def s1 sl s3 Let_def change_error_def order_Nil [OF assms(1)]
  show thesis
  proof (cases "\<exists>ds1. a1 = Inr ds1 \<and> ds1 \<noteq> [] \<and> d = None")
    case False
    with assms(2) a1 h2 have "hist s' = hist s @ [EvDeployments namespace a1]" "r = None \<longleftrightarrow> a1 = Inr []"
      by (auto simp: defs split: sum.splits if_splits option.splits)
    then show thesis by (rule one)
  next
    case True
    then obtain ds1 where ds1: "a1 = Inr ds1" "ds1 \<noteq> []" and d: "d = None" by blast
    have "now s + period \<le> now s3" using now_sleep_fired [of c period s1 s2] sl d a1(2) a3(2) by simp
    moreover have "s' = s3" "case a3 of Inl _ \<Rightarrow> r \<noteq> None | Inr ds2 \<Rightarrow>
        r = change_error period (List.map_filter (changed_line (revision_in ds1) (revision_in ds2)) (order (revision_in ds1)))"
      using assms(2) a1 a3 ds1 d by (auto simp: defs split: sum.splits)
    ultimately show thesis using a1 a3 h2 ds1 by (intro two [of ds1 a3]) auto
  qed
qed


text \<open>The order of \<open>deploymentRef\<close> enumerates every finite map.\<close>

definition sorted_refs :: ref_order where
  "sorted_refs m = sorted_list_of_set (dom m)"

lemma enumerates_sorted: "enumerates sorted_refs"
  by (simp add: enumerates_def sorted_refs_def)


end
