(* ===== verification/AwsChecks.thy ===== *)
theory AwsChecks
  imports Kube
begin

text \<open>
  The verifiers over AWS: \<^verbatim>\<open>pkg/verifiers/tags.go\<close>, one listing of volumes, and
  \<^verbatim>\<open>pkg/verifiers/cloudtrail.go\<close>, a bounded walk over the pages of an event history. Dereferencing
  a nil pointer of a volume or a tag is a panic, the outer \<open>None\<close> of a result. The JSON text
  of an event is read by the parameter \<open>parse\<close> (the scanner of \<open>encoding/json\<close>).
\<close>

subsection \<open>Volume tags\<close>

record volume =
  VolumeId :: "string option"
  volumeTags :: "(string option \<times> string option) list"

text \<open>\<open>volumeTags[*tag.Key] = *tag.Value\<close> for every tag, \<open>None\<close> if a pointer is nil.\<close>

fun tag_map :: "(string option \<times> string option) list \<Rightarrow> (string \<rightharpoonup> string) \<Rightarrow> (string \<rightharpoonup> string) option" where
  "tag_map [] m = Some m"
| "tag_map ((Some k, Some v) # tags) m = tag_map tags (m(k \<mapsto> v))"
| "tag_map (_ # tags) m = None"

fun tag_issues :: "string \<Rightarrow> (string \<rightharpoonup> string) \<Rightarrow> (string \<times> string) list \<Rightarrow> go_error list \<Rightarrow> go_error list" where
  "tag_issues volumeID m [] missing = missing"
| "tag_issues volumeID m ((expectedKey, expectedValue) # expected) missing =
     (case m expectedKey of
        None \<Rightarrow>
          tag_issues volumeID m expected
            (missing @ [Sprintf ''volume %s missing tag %s'' [AStr volumeID, AStr expectedKey]])
      | Some actualValue \<Rightarrow>
          tag_issues volumeID m expected
            (if actualValue \<noteq> expectedValue
             then missing @ [Sprintf ''volume %s tag %s has value %q, expected %q''
                    [AStr volumeID, AStr expectedKey, AStr actualValue, AStr expectedValue]]
             else missing))"

fun check_volumes :: "(string \<times> string) list \<Rightarrow> volume list \<Rightarrow> go_error list \<Rightarrow> go_error list option" where
  "check_volumes expected [] missing = Some missing"
| "check_volumes expected (v # vs) missing =
     (case VolumeId v of
        None \<Rightarrow> None
      | Some volumeID \<Rightarrow>
          (case tag_map (volumeTags v) Map.empty of
             None \<Rightarrow> None
           | Some m \<Rightarrow> check_volumes expected vs (tag_issues volumeID m expected missing)))"

text \<open>
  The expected tags are the entries of a Go map, in the order it is iterated. The client
  gets the name and the value of the filter.
\<close>

definition VerifyEBSVolumesTags ::
  "(string \<Rightarrow> string \<Rightarrow> ext_error + volume list) \<Rightarrow> string \<Rightarrow> (string \<times> string) list \<Rightarrow> go_error option option" where
  "VerifyEBSVolumesTags describe cluster expected =
     (case describe (''tag:kubernetes.io/cluster/'' @ cluster) ''owned'' of
        Inl e \<Rightarrow> Some (Some (Errorf ''describing volumes: %w'' [AExt e]))
      | Inr volumes \<Rightarrow>
          if volumes = [] then Some (Some (Errorf ''no volumes found for cluster %s'' [AStr cluster]))
          else (case check_volumes expected volumes [] of
                  None \<Rightarrow> None
                | Some [] \<Rightarrow> Some None
                | Some missing \<Rightarrow> Some (Some (Errorf ''tag validation failed:\<newline>%s'' [ALines missing]))))"

subsection \<open>CloudTrail\<close>

record ct_event =
  CloudTrailEvent :: "string option"
  EventName :: "string option"
  EventTime :: "string option" \<comment> \<open>as RFC 3339\<close>

datatype aws_event = EvLookup int "string option" "ext_error + ct_event list \<times> string option"

type_synonym 'w aws_sys = "('w, aws_event) sys"

type_synonym 'w lookup = "int \<Rightarrow> string option \<Rightarrow> ('w, ext_error + ct_event list \<times> string option) api"

record known_denial =
  deniedName :: string
  rolePattern :: string

definition knownAccessDeniedEvents :: "known_denial list" where
  "knownAccessDeniedEvents = [\<lparr>deniedName = ''DeleteListener'', rolePattern = ''Installer-Role''\<rparr>]"

definition isKnownDenial :: "string \<Rightarrow> string \<Rightarrow> bool" where
  "isKnownDenial eventName callerARN =
     list_ex (\<lambda>k. deniedName k = eventName \<and> Contains callerARN (rolePattern k)) knownAccessDeniedEvents"

definition callerARNFromEvent :: "(string \<times> json) list \<Rightarrow> string" where
  "callerARNFromEvent eventData =
     (case get_object eventData ''userIdentity'' of
        None \<Rightarrow> []
      | Some identity \<Rightarrow>
          (case get_string identity ''arn'' of
             Some arn \<Rightarrow> arn
           | None \<Rightarrow>
               (case get_object identity ''sessionContext'' of
                  None \<Rightarrow> []
                | Some sessionCtx \<Rightarrow>
                    (case get_object sessionCtx ''sessionIssuer'' of
                       None \<Rightarrow> []
                     | Some sessionIssuer \<Rightarrow> str_of sessionIssuer ''arn''))))"

definition denial_text :: "string \<Rightarrow> bool" where
  "denial_text t \<longleftrightarrow> Contains t ''AccessDenied'' \<or> Contains t ''UnauthorizedAccess''"

text \<open>\<open>json.Unmarshal\<close> into a map: null gives the nil map.\<close>

definition decode_map :: "ext_error + json \<Rightarrow> (string \<times> json) list option" where
  "decode_map r = (case r of Inr (JObj m) \<Rightarrow> Some m | Inr JNull \<Rightarrow> Some [] | _ \<Rightarrow> None)"

text \<open>The body of the loop over events: the line it adds, if any.\<close>

definition denied_line :: "(string \<Rightarrow> ext_error + json) \<Rightarrow> string \<Rightarrow> ct_event \<Rightarrow> go_error option" where
  "denied_line parse filterString event =
     (case (CloudTrailEvent event, EventName event, EventTime event) of
        (Some eventJSON, Some eventName, Some eventTime) \<Rightarrow>
          if filterString \<noteq> [] \<and> \<not> Contains eventJSON filterString then None
          else (case decode_map (parse eventJSON) of
                  None \<Rightarrow> None
                | Some eventData \<Rightarrow>
                    (let errorCode = str_of eventData ''errorCode'';
                         errorMessage = str_of eventData ''errorMessage'';
                         callerARN = callerARNFromEvent eventData
                     in if denial_text errorCode \<or> denial_text errorMessage then
                          (if isKnownDenial eventName callerARN then None
                           else Some (Sprintf ''- %s at %s: %s - %s (caller: %s)''
                                  [AStr eventName, AStr eventTime, AStr errorCode, AStr errorMessage, AStr callerARN]))
                        else None))
      | _ \<Rightarrow> None)"

definition maxPages :: nat where
  [go_defs]: "maxPages = 5"

text \<open>The loop over pages, counted down.\<close>

fun lookup_pages ::
  "'w lookup \<Rightarrow> (string \<Rightarrow> ext_error + json) \<Rightarrow> string \<Rightarrow> int \<Rightarrow> nat \<Rightarrow> string option \<Rightarrow> go_error list \<Rightarrow>
   'w aws_sys \<Rightarrow> (go_error + go_error list) \<times> 'w aws_sys" where
  "lookup_pages LookupEvents parse filterString startTime 0 nextToken denied s = (Inr denied, s)"
| "lookup_pages LookupEvents parse filterString startTime (Suc pages) nextToken denied s =
     (case call (EvLookup startTime nextToken) (LookupEvents startTime nextToken) s of
        (Inl e, s1) \<Rightarrow> (Inl (Errorf ''looking up CloudTrail events: %w'' [AExt e]), s1)
      | (Inr (events, token), s1) \<Rightarrow>
          (let denied1 = denied @ List.map_filter (denied_line parse filterString) events in
           if token = None then (Inr denied1, s1)
           else lookup_pages LookupEvents parse filterString startTime pages token denied1 s1))"

definition VerifyNoAccessDenied ::
  "'w lookup \<Rightarrow> (string \<Rightarrow> ext_error + json) \<Rightarrow> string \<Rightarrow> nat \<Rightarrow> 'w aws_sys \<Rightarrow> go_error option \<times> 'w aws_sys" where
  "VerifyNoAccessDenied LookupEvents parse filterString lookback s =
     (let startTime = int (now s) - int lookback in
      case lookup_pages LookupEvents parse filterString startTime maxPages None [] s of
        (Inl e, s1) \<Rightarrow> (Some e, s1)
      | (Inr denied, s1) \<Rightarrow>
          (if denied = [] then None
           else Some (Errorf ''found %d AccessDenied events matching %q in the last %s:\<newline>%s''
                        [AInt (int (length denied)), AStr filterString, AInt (int lookback), ALines denied]), s1))"

subsection \<open>What a walk reads\<close>

text \<open>The pages follow each other through their tokens, and all but the last have one.\<close>

fun chained :: "int \<Rightarrow> string option \<Rightarrow> (ct_event list \<times> string option) list \<Rightarrow> aws_event list \<Rightarrow> bool" where
  "chained t token [] evs = (evs = [])"
| "chained t token ((events, nxt) # pages) evs =
     (\<exists>rest. evs = EvLookup t token (Inr (events, nxt)) # rest \<and> chained t nxt pages rest)"

lemma lookup_pages_run:
  assumes "lookup_pages cl parse flt t n token denied s = (Inr denied', s')"
  shows "\<exists>pages evs. hist s' = hist s @ evs \<and> chained t token pages evs \<and> length pages \<le> n \<and>
    denied' = denied @ List.map_filter (denied_line parse flt) (concat (map fst pages)) \<and>
    (length pages < n \<longrightarrow> pages \<noteq> [] \<and> snd (last pages) = None)"
  using assms
proof (induction n arbitrary: token denied s)
  case (Suc n)
  obtain answer s1 where c: "call (EvLookup t token) (cl t token) s = (answer, s1)"
    by (cases "call (EvLookup t token) (cl t token) s")
  have h1: "hist s1 = hist s @ [EvLookup t token answer]" by (rule hist_call [OF c])
  from Suc.prems c obtain events nxt where a: "answer = Inr (events, nxt)" by (auto split: sum.splits)
  let ?d = "denied @ List.map_filter (denied_line parse flt) events"
  show ?case
  proof (cases nxt)
    case None
    with Suc.prems c a have "denied' = ?d" "s' = s1" by (auto simp: Let_def)
    with h1 a None show ?thesis
      by (intro exI [where x = "[(events, nxt)]"] exI [where x = "[EvLookup t token answer]"]) simp
  next
    case (Some k)
    with Suc.prems c a have "lookup_pages cl parse flt t n nxt ?d s1 = (Inr denied', s')" by (simp add: Let_def)
    from Suc.IH [OF this] obtain pages evs where
      "hist s' = hist s1 @ evs" "chained t nxt pages evs" "length pages \<le> n"
      "denied' = ?d @ List.map_filter (denied_line parse flt) (concat (map fst pages))"
      "length pages < n \<longrightarrow> pages \<noteq> [] \<and> snd (last pages) = None" by blast
    with h1 a show ?thesis
      by (intro exI [where x = "(events, nxt) # pages"] exI [where x = "EvLookup t token answer # evs"])
        (auto simp: List.map_filter_def)
  qed
qed (simp add: map_filter_simps)

lemma map_filter_Nil_iff: "List.map_filter f xs = [] \<longleftrightarrow> list_all (\<lambda>x. f x = None) xs"
  by (induction xs) (auto simp: map_filter_simps split: option.splits)


text \<open>A history whose only denial is on the sixth page; the world counts the pages read.\<close>

definition denial_event :: ct_event where
  "denial_event = \<lparr>CloudTrailEvent = Some ''rosa'', EventName = Some ''RunInstances'', EventTime = Some ''t''\<rparr>"

definition denial_parse :: "string \<Rightarrow> ext_error + json" where
  "denial_parse _ = Inr (JObj [(''errorCode'', JStr ''AccessDenied'')])"

definition long_history :: "nat lookup" where
  "long_history = (\<lambda>_ _ n. ((Inr (if n = 5 then [denial_event] else [], if n < 5 then Some ''more'' else None), 0), n + 1))"

lemma sixth_page_unread:
  "\<exists>s'. VerifyNoAccessDenied long_history denial_parse [] 3600 (start 0) = (None, s') \<and> ext s' = 5 \<and>
     denied_line denial_parse [] denial_event \<noteq> None"
  by (simp add: VerifyNoAccessDenied_def maxPages_def long_history_def call_def Let_def eval_nat_numeral
      map_filter_simps denied_line_def denial_event_def denial_parse_def decode_map_def denial_text_def
      str_of_def get_string_def obj_get_def Contains_iff isKnownDenial_def knownAccessDeniedEvents_def
      callerARNFromEvent_def get_object_def)


subsection \<open>Tags that match\<close>

lemma tag_issues_nil: "tag_issues i m expected missing = [] \<longleftrightarrow> missing = [] \<and> list_all (\<lambda>(k, v). m k = Some v) expected"
  by (induction i m expected missing rule: tag_issues.induct) (auto split: option.splits)

lemma check_volumes_nil:
  "check_volumes expected vs missing = Some [] \<longleftrightarrow> missing = [] \<and>
     list_all (\<lambda>v. VolumeId v \<noteq> None \<and>
       (\<exists>m. tag_map (volumeTags v) Map.empty = Some m \<and> list_all (\<lambda>(k, w). m k = Some w) expected)) vs"
  by (induction expected vs missing rule: check_volumes.induct) (auto simp: tag_issues_nil split: option.splits)

text \<open>
  The tags of a cluster's volumes are reported valid exactly if volumes were found and
  each has an id and all expected tags with their expected values, whatever the order in
  which the expected tags are looked at.
\<close>

theorem VerifyEBSVolumesTags_nil_iff:
  "VerifyEBSVolumesTags describe cluster expected = Some None \<longleftrightarrow>
     (\<exists>vs. describe (''tag:kubernetes.io/cluster/'' @ cluster) ''owned'' = Inr vs \<and> vs \<noteq> [] \<and>
        list_all (\<lambda>v. VolumeId v \<noteq> None \<and>
          (\<exists>m. tag_map (volumeTags v) Map.empty = Some m \<and> list_all (\<lambda>(k, w). m k = Some w) expected)) vs)"
proof (cases "describe (''tag:kubernetes.io/cluster/'' @ cluster) ''owned''")
  case (Inr vs)
  with check_volumes_nil [of expected vs "[]"] show ?thesis
    by (auto simp: VerifyEBSVolumesTags_def split: option.splits list.splits)
qed (simp add: VerifyEBSVolumesTags_def)

end
