(* ===== verification/OcmAccess.thy ===== *)
theory OcmAccess
  imports GoJson
begin

text \<open>
  The verifiers of account-level access: \<^verbatim>\<open>pkg/verifiers/ocm_role.go\<close> and
  \<^verbatim>\<open>pkg/verifiers/external_auth.go\<close>. The client is a record of \<open>api\<close> functions; \<open>arn.Parse\<close>
  of the AWS SDK and the scanner of \<open>encoding/json\<close> are the parameters \<open>arn_parse\<close> and
  \<open>json_parse\<close>. The 30 second limits the code puts on its contexts are the client's: a
  request that exceeds them is an answer that is an error.
\<close>

subsection \<open>Clients and requests\<close>

record arn =
  AccountID :: string
  Service :: string
  ArnResource :: string

record auth_provider =
  providerID :: string
  providerIssuer :: "(string \<times> string list) option" \<comment> \<open>URL and audiences\<close>
  providerStatus :: "(string option \<times> string) option" \<comment> \<open>state and message\<close>

record http_response =
  StatusCode :: int
  StatusLine :: string
  Body :: string

datatype access_event =
    EvCurrentAccount "ext_error + string option"
  | EvLabel string string "ext_error + string"
  | EvAuthConfig string "ext_error + bool"
  | EvListAuths string "ext_error + auth_provider list"
  | EvHttpGet string "ext_error + http_response"

type_synonym 'w access_sys = "('w, access_event) sys"

record 'w access_client =
  CurrentAccount :: "('w, ext_error + string option) api" \<comment> \<open>the organization's id, if there is one\<close>
  GetLabel :: "string \<Rightarrow> string \<Rightarrow> ('w, ext_error + string) api"
  GetAuthConfig :: "string \<Rightarrow> ('w, ext_error + bool) api"
  ListAuths :: "string \<Rightarrow> ('w, ext_error + auth_provider list) api"
  BuildRequest :: "string \<Rightarrow> ext_error option"
  DoGet :: "string \<Rightarrow> ('w, ext_error + http_response) api"

subsection \<open>OCM roles\<close>

definition ocmRoleLabelKey :: string where
  [go_defs]: "ocmRoleLabelKey = ''sts_ocm_role''"

text \<open>The test an entry of the label has to pass.\<close>

definition role_arn :: "(string \<Rightarrow> ext_error + arn) \<Rightarrow> string \<Rightarrow> bool" where
  "role_arn arn_parse trimmed =
     (case arn_parse trimmed of
        Inl _ \<Rightarrow> False
      | Inr parsed \<Rightarrow>
          \<not> (AccountID parsed = [] \<or> Service parsed \<noteq> ''iam'' \<or> \<not> HasPrefix (ArnResource parsed) ''role/''))"

fun role_entries :: "(string \<Rightarrow> ext_error + arn) \<Rightarrow> string list \<Rightarrow> string list \<Rightarrow> string list" where
  "role_entries arn_parse [] arns = arns"
| "role_entries arn_parse (part # parts) arns =
     (let trimmed = TrimSpace part in
      if trimmed = [] then role_entries arn_parse parts arns
      else if \<not> role_arn arn_parse trimmed then role_entries arn_parse parts arns
      else role_entries arn_parse parts (arns @ [trimmed]))"

definition GetLinkedOCMRoleARNs ::
  "(string \<Rightarrow> ext_error + arn) \<Rightarrow> 'w access_client \<Rightarrow> 'w access_sys \<Rightarrow> (go_error + string list) \<times> 'w access_sys" where
  "GetLinkedOCMRoleARNs arn_parse cl s =
     (case call EvCurrentAccount (CurrentAccount cl) s of
        (Inl e, s1) \<Rightarrow> (Inl (Errorf ''getting current account: %w'' [AExt e]), s1)
      | (Inr org, s1) \<Rightarrow>
          (case org of
             Some (c # cs) \<Rightarrow>
               (let orgID = c # cs in
                case call (EvLabel orgID ocmRoleLabelKey) (GetLabel cl orgID ocmRoleLabelKey) s1 of
                  (Inl e, s2) \<Rightarrow>
                    (if estatus e = Some 404 then Inr []
                     else Inl (Errorf ''getting %s label for organization %s: %w''
                                 [AStr ocmRoleLabelKey, AStr orgID, AExt e]), s2)
                | (Inr value, s2) \<Rightarrow>
                    (if value = [] then Inr [] else Inr (role_entries arn_parse (Split value (CHR '','')) []), s2))
           | _ \<Rightarrow> (Inl (Errorf ''current account has no organization'' []), s1)))"

definition VerifyOCMRoleLinked ::
  "(string \<Rightarrow> ext_error + arn) \<Rightarrow> 'w access_client \<Rightarrow> 'w access_sys \<Rightarrow> go_error option \<times> 'w access_sys" where
  "VerifyOCMRoleLinked arn_parse cl s =
     (case GetLinkedOCMRoleARNs arn_parse cl s of
        (Inl e, s1) \<Rightarrow> (Some e, s1)
      | (Inr arns, s1) \<Rightarrow>
          (if arns = [] then Some (Errorf ''no OCM role is linked to the organization (required by ROSA-637)'' [])
           else None, s1))"

fun account_linked :: "(string \<Rightarrow> ext_error + arn) \<Rightarrow> string \<Rightarrow> string list \<Rightarrow> bool" where
  "account_linked arn_parse awsAccountID [] = False"
| "account_linked arn_parse awsAccountID (a # as) =
     (case arn_parse a of
        Inl _ \<Rightarrow> account_linked arn_parse awsAccountID as
      | Inr parsed \<Rightarrow>
          if AccountID parsed = awsAccountID then True else account_linked arn_parse awsAccountID as)"

definition VerifyOCMRoleLinkedForAccount ::
  "(string \<Rightarrow> ext_error + arn) \<Rightarrow> 'w access_client \<Rightarrow> string \<Rightarrow> 'w access_sys \<Rightarrow>
   go_error option \<times> 'w access_sys" where
  "VerifyOCMRoleLinkedForAccount arn_parse cl awsAccountID s =
     (if awsAccountID = [] then (Some (Errorf ''awsAccountID is required to verify OCM role linkage'' []), s)
      else
        (case GetLinkedOCMRoleARNs arn_parse cl s of
           (Inl e, s1) \<Rightarrow> (Some e, s1)
         | (Inr arns, s1) \<Rightarrow>
             (if account_linked arn_parse awsAccountID arns then None
              else Some (Errorf ''no OCM role linked for AWS account %s (found %d linked role(s)); OCM role linkage is required by ROSA-637''
                           [AStr awsAccountID, AInt (int (length arns))]), s1)))"

subsection \<open>External authentication\<close>

definition ExternalAuthEnabled ::
  "'w access_client \<Rightarrow> string \<Rightarrow> 'w access_sys \<Rightarrow> (go_error + bool) \<times> 'w access_sys" where
  "ExternalAuthEnabled cl cluster s =
     (case call (EvAuthConfig cluster) (GetAuthConfig cl cluster) s of
        (Inl e, s1) \<Rightarrow>
          (Inl (Errorf ''getting external auth config for cluster %s: %w'' [AStr cluster, AExt e]), s1)
      | (Inr enabled, s1) \<Rightarrow> (Inr enabled, s1))"

definition validateExternalAuthProvider :: "auth_provider \<Rightarrow> go_error option" where
  "validateExternalAuthProvider p =
     (case providerIssuer p of
        None \<Rightarrow> Some (Errorf ''no issuer configured'' [])
      | Some (url, audiences) \<Rightarrow>
          if \<not> HasPrefix url ''https://'' then Some (Errorf ''issuer URL %q is not a valid https URL'' [AStr url])
          else if audiences = [] then Some (Errorf ''issuer has no audiences configured'' [])
          else (case providerStatus p of
                  Some (Some state, message) \<Rightarrow>
                    if ToLower state = ''error'' \<or> ToLower state = ''failed''
                    then Some (Errorf ''provider is in state %q: %s'' [AStr state, AStr message]) else None
                | _ \<Rightarrow> None))"

fun validate_all :: "auth_provider list \<Rightarrow> go_error option" where
  "validate_all [] = None"
| "validate_all (p # ps) =
     (case validateExternalAuthProvider p of
        Some err \<Rightarrow> Some (Errorf ''external auth provider %q: %w'' [AStr (providerID p), AWrap err])
      | None \<Rightarrow> validate_all ps)"

definition VerifyExternalAuthProviders ::
  "'w access_client \<Rightarrow> string \<Rightarrow> 'w access_sys \<Rightarrow> go_error option \<times> 'w access_sys" where
  "VerifyExternalAuthProviders cl cluster s =
     (case call (EvAuthConfig cluster) (GetAuthConfig cl cluster) s of
        (Inl e, s1) \<Rightarrow>
          (Some (Errorf ''getting external auth config for cluster %s: %w'' [AStr cluster, AExt e]), s1)
      | (Inr enabled, s1) \<Rightarrow>
          if \<not> enabled then (Some (Errorf ''external authentication is not enabled on cluster %s'' [AStr cluster]), s1)
          else
            (case call (EvListAuths cluster) (ListAuths cl cluster) s1 of
               (Inl e, s2) \<Rightarrow>
                 (Some (Errorf ''listing external auth providers for cluster %s: %w'' [AStr cluster, AExt e]), s2)
             | (Inr providers, s2) \<Rightarrow>
                 (if providers = []
                  then Some (Errorf ''external auth is enabled on cluster %s but no providers are configured'' [AStr cluster])
                  else validate_all providers, s2)))"

definition getJSON ::
  "(string \<Rightarrow> ext_error + json) \<Rightarrow> (json \<Rightarrow> go_error + 'a) \<Rightarrow> 'w access_client \<Rightarrow> string \<Rightarrow>
   'w access_sys \<Rightarrow> (go_error + 'a) \<times> 'w access_sys" where
  "getJSON json_parse decode cl url s =
     (case BuildRequest cl url of
        Some e \<Rightarrow> (Inl (Errorf ''building request: %w'' [AExt e]), s)
      | None \<Rightarrow>
          (case call (EvHttpGet url) (DoGet cl url) s of
             (Inl e, s1) \<Rightarrow> (Inl (Ext e), s1)
           | (Inr resp, s1) \<Rightarrow>
               (if StatusCode resp \<noteq> 200
                then Inl (Errorf ''%s returned %s: %s'' [AStr url, AStr (StatusLine resp), AStr (TrimSpace (Body resp))])
                else (case json_parse (Body resp) of Inl e \<Rightarrow> Inl (Ext e) | Inr j \<Rightarrow> decode j), s1)))"

definition decode_jwks_uri :: "json \<Rightarrow> go_error + string" where
  "decode_jwks_uri = decode_field ''jwks_uri'' decode_string"

definition decode_keys :: "json \<Rightarrow> go_error + json list" where
  "decode_keys = decode_field ''keys'' (decode_list Inr)"

definition discovery_url :: "string \<Rightarrow> string" where
  "discovery_url issuer = TrimRight issuer (CHR ''/'') @ ''/.well-known/openid-configuration''"

definition probeOIDCIssuer ::
  "(string \<Rightarrow> ext_error + json) \<Rightarrow> 'w access_client \<Rightarrow> string \<Rightarrow> 'w access_sys \<Rightarrow> go_error option \<times> 'w access_sys" where
  "probeOIDCIssuer json_parse cl issuer s =
     (case getJSON json_parse decode_jwks_uri cl (discovery_url issuer) s of
        (Inl e, s1) \<Rightarrow> (Some (Errorf ''fetching OIDC discovery document: %w'' [AWrap e]), s1)
      | (Inr uri, s1) \<Rightarrow>
          if uri = [] then (Some (Errorf ''OIDC discovery document has no jwks_uri'' []), s1)
          else
            (case getJSON json_parse decode_keys cl uri s1 of
               (Inl e, s2) \<Rightarrow> (Some (Errorf ''fetching JWKS: %w'' [AWrap e]), s2)
             | (Inr ks, s2) \<Rightarrow>
                 (if ks = [] then Some (Errorf ''JWKS at %s contains no signing keys'' [AStr uri]) else None, s2)))"

fun probe_all ::
  "(string \<Rightarrow> ext_error + json) \<Rightarrow> 'w access_client \<Rightarrow> auth_provider list \<Rightarrow> 'w access_sys \<Rightarrow>
   go_error option \<times> 'w access_sys" where
  "probe_all json_parse cl [] s = (None, s)"
| "probe_all json_parse cl (p # ps) s =
     (case providerIssuer p of
        Some (c # cs, _) \<Rightarrow>
          (case probeOIDCIssuer json_parse cl (c # cs) s of
             (Some err, s1) \<Rightarrow>
               (Some (Errorf ''external auth provider %q issuer %q: %w''
                        [AStr (providerID p), AStr (c # cs), AWrap err]), s1)
           | (None, s1) \<Rightarrow> probe_all json_parse cl ps s1)
      | _ \<Rightarrow> (Some (Errorf ''external auth provider %q has no issuer URL'' [AStr (providerID p)]), s))"

definition VerifyExternalAuthIssuerReachable ::
  "(string \<Rightarrow> ext_error + json) \<Rightarrow> 'w access_client \<Rightarrow> string \<Rightarrow> 'w access_sys \<Rightarrow>
   go_error option \<times> 'w access_sys" where
  "VerifyExternalAuthIssuerReachable json_parse cl cluster s =
     (case call (EvListAuths cluster) (ListAuths cl cluster) s of
        (Inl e, s1) \<Rightarrow>
          (Some (Errorf ''listing external auth providers for cluster %s: %w'' [AStr cluster, AExt e]), s1)
      | (Inr providers, s1) \<Rightarrow>
          if providers = []
          then (Some (Errorf ''no external auth providers configured on cluster %s'' [AStr cluster]), s1)
          else probe_all json_parse cl providers s1)"

subsection \<open>Which role entries count\<close>

definition entry_arn :: "(string \<Rightarrow> ext_error + arn) \<Rightarrow> string \<Rightarrow> arn option" where
  "entry_arn arn_parse part =
     (if TrimSpace part \<noteq> [] \<and> role_arn arn_parse (TrimSpace part)
      then (case arn_parse (TrimSpace part) of Inl _ \<Rightarrow> None | Inr a \<Rightarrow> Some a) else None)"

lemma account_linked_append:
  "account_linked arn_parse acc (xs @ ys) \<longleftrightarrow> account_linked arn_parse acc xs \<or> account_linked arn_parse acc ys"
  by (induction xs) (auto split: sum.splits)

lemma account_linked_entries:
  "account_linked arn_parse acc (role_entries arn_parse parts arns) \<longleftrightarrow> account_linked arn_parse acc arns \<or>
     list_ex (\<lambda>part. \<exists>a. entry_arn arn_parse part = Some a \<and> AccountID a = acc) parts"
proof (induction parts arbitrary: arns)
  case (Cons part parts)
  show ?case
  proof (cases "entry_arn arn_parse part")
    case None
    have "TrimSpace part = [] \<or> \<not> role_arn arn_parse (TrimSpace part)"
      using None by (auto simp: entry_arn_def role_arn_def split: if_splits sum.splits)
    with Cons None show ?thesis by (auto simp: Let_def)
  next
    case (Some a)
    then have "TrimSpace part \<noteq> []" "role_arn arn_parse (TrimSpace part)" "arn_parse (TrimSpace part) = Inr a"
      by (auto simp: entry_arn_def split: if_splits sum.splits)
    with Cons Some show ?thesis by (auto simp: Let_def account_linked_append)
  qed
qed simp

lemma GetLinkedOCMRoleARNs_cases:
  assumes "GetLinkedOCMRoleARNs arn_parse cl s = (r, s')"
  obtains (account) e answer where "r = Inl e" "hist s' = hist s @ [EvCurrentAccount answer]"
    | (label) org e where "hist s' = hist s @ [EvCurrentAccount (Inr (Some org)), EvLabel org ocmRoleLabelKey (Inl e)]"
        "r = Inr [] \<or> (\<exists>e. r = Inl e)"
    | (value_read) org v where "org \<noteq> []"
        "hist s' = hist s @ [EvCurrentAccount (Inr (Some org)), EvLabel org ocmRoleLabelKey (Inr v)]"
        "r = Inr (if v = [] then [] else role_entries arn_parse (Split v (CHR '','')) [])"
proof -
  obtain answer s1 where a: "call EvCurrentAccount (CurrentAccount cl) s = (answer, s1)"
    by (cases "call EvCurrentAccount (CurrentAccount cl) s")
  show ?thesis
  proof (cases "\<exists>c cs. answer = Inr (Some (c # cs))")
    case False
    with assms a have "\<exists>e. r = Inl e" "s' = s1"
      by (auto simp: GetLinkedOCMRoleARNs_def split: sum.splits option.splits list.splits)
    with hist_call [OF a] account show ?thesis by blast
  next
    case True
    then obtain org where org: "answer = Inr (Some org)" "org \<noteq> []" by blast
    obtain v s2 where l: "call (EvLabel org ocmRoleLabelKey) (GetLabel cl org ocmRoleLabelKey) s1 = (v, s2)"
      by (cases "call (EvLabel org ocmRoleLabelKey) (GetLabel cl org ocmRoleLabelKey) s1")
    have h: "hist s2 = hist s @ [EvCurrentAccount (Inr (Some org)), EvLabel org ocmRoleLabelKey v]"
      using hist_call [OF a] hist_call [OF l] org by simp
    show ?thesis
    proof (cases v)
      case (Inl e)
      with assms a org l have "s' = s2" "r = Inr [] \<or> (\<exists>e. r = Inl e)"
        by (auto simp: GetLinkedOCMRoleARNs_def neq_Nil_conv split: if_splits)
      with h Inl label show ?thesis by blast
    next
      case (Inr w)
      with assms a org l
      have "s' = s2" "r = Inr (if w = [] then [] else role_entries arn_parse (Split w (CHR '','')) [])"
        by (auto simp: GetLinkedOCMRoleARNs_def neq_Nil_conv split: if_splits)
      with h Inr org value_read show ?thesis by blast
    qed
  qed
qed

text \<open>
  C38: an account is reported linked exactly if an account id was given and the label of the
  caller's organization was read and has an entry between its commas that, trimmed, is a
  well-formed ARN of an IAM role in that very account.
\<close>

theorem VerifyOCMRoleLinkedForAccount_nil_iff:
  assumes "VerifyOCMRoleLinkedForAccount arn_parse cl acc s = (r, s')"
  shows "r = None \<longleftrightarrow> acc \<noteq> [] \<and>
    (\<exists>org v. org \<noteq> [] \<and>
       hist s' = hist s @ [EvCurrentAccount (Inr (Some org)), EvLabel org ''sts_ocm_role'' (Inr v)] \<and>
       list_ex (\<lambda>part. \<exists>a. entry_arn arn_parse part = Some a \<and> AccountID a = acc \<and> Service a = ''iam'' \<and>
          HasPrefix (ArnResource a) ''role/'') (Split v (CHR '','')))"
proof -
  obtain g s1 where g: "GetLinkedOCMRoleARNs arn_parse cl s = (g, s1)"
    by (cases "GetLinkedOCMRoleARNs arn_parse cl s")
  have kind: "entry_arn arn_parse part = Some a \<Longrightarrow> Service a = ''iam'' \<and> HasPrefix (ArnResource a) ''role/''" for part a
    by (auto simp: entry_arn_def role_arn_def split: if_splits sum.splits)
  then have ex: "list_ex (\<lambda>part. \<exists>a. entry_arn arn_parse part = Some a \<and> AccountID a = acc \<and> Service a = ''iam'' \<and>
      HasPrefix (ArnResource a) ''role/'') parts \<longleftrightarrow>
    list_ex (\<lambda>part. \<exists>a. entry_arn arn_parse part = Some a \<and> AccountID a = acc) parts" for parts
    by (auto simp: list_ex_iff)
  show ?thesis
  proof (cases "acc = []")
    case True
    with assms show ?thesis by (auto simp: VerifyOCMRoleLinkedForAccount_def)
  next
    case False
    with assms g have run: "s' = s1" "r = None \<longleftrightarrow> (\<exists>arns. g = Inr arns \<and> account_linked arn_parse acc arns)"
      by (auto simp: VerifyOCMRoleLinkedForAccount_def split: sum.splits if_splits)
    from g show ?thesis
    proof (cases rule: GetLinkedOCMRoleARNs_cases)
      case (value_read org v)
      have "account_linked arn_parse acc (if v = [] then [] else role_entries arn_parse (Split v (CHR '','')) []) \<longleftrightarrow>
          list_ex (\<lambda>part. \<exists>a. entry_arn arn_parse part = Some a \<and> AccountID a = acc) (Split v (CHR '',''))"
        by (simp add: account_linked_entries entry_arn_def TrimSpace_Nil)
      with run False value_read show ?thesis unfolding ex by (auto simp: ocmRoleLabelKey_def)
    qed (use run False in \<open>auto simp: ocmRoleLabelKey_def\<close>)
  qed
qed

subsection \<open>External authentication\<close>

definition provider_valid :: "auth_provider \<Rightarrow> bool" where
  "provider_valid p \<longleftrightarrow>
     (\<exists>url audiences. providerIssuer p = Some (url, audiences) \<and> HasPrefix url ''https://'' \<and> audiences \<noteq> []) \<and>
     \<not> (\<exists>state message. providerStatus p = Some (Some state, message) \<and> ToLower state \<in> {''error'', ''failed''})"

lemma validateExternalAuthProvider_nil: "validateExternalAuthProvider p = None \<longleftrightarrow> provider_valid p"
  by (auto simp: validateExternalAuthProvider_def provider_valid_def split: option.splits)

lemma validate_all_nil: "validate_all ps = None \<longleftrightarrow> list_all provider_valid ps"
  by (induction ps) (auto simp flip: validateExternalAuthProvider_nil split: option.splits)

text \<open>
  External authentication is reported valid exactly if it is enabled, providers were
  listed, there is one, and each has an https issuer with an audience and no state that,
  in lower case, is error or failed; without that state being enabled nothing is listed.
\<close>

theorem VerifyExternalAuthProviders_nil_iff:
  assumes "VerifyExternalAuthProviders cl cluster s = (r, s')"
  shows "(r = None \<longleftrightarrow> (\<exists>providers.
      hist s' = hist s @ [EvAuthConfig cluster (Inr True), EvListAuths cluster (Inr providers)] \<and>
      providers \<noteq> [] \<and> list_all provider_valid providers)) \<and>
    (\<exists>answer rest. hist s' = hist s @ EvAuthConfig cluster answer # rest \<and> (answer \<noteq> Inr True \<longrightarrow> rest = []))"
proof -
  obtain answer s1 where c: "call (EvAuthConfig cluster) (GetAuthConfig cl cluster) s = (answer, s1)"
    by (cases "call (EvAuthConfig cluster) (GetAuthConfig cl cluster) s")
  obtain ps s2 where l: "call (EvListAuths cluster) (ListAuths cl cluster) s1 = (ps, s2)"
    by (cases "call (EvListAuths cluster) (ListAuths cl cluster) s1")
  from assms hist_call [OF c] hist_call [OF l] show ?thesis
    by (cases "answer = Inr True")
      (auto simp: VerifyExternalAuthProviders_def c l validate_all_nil split: sum.splits if_splits)
qed

lemma getJSON_success:
  assumes "getJSON json_parse decode cl url s = (Inr a, s')"
  shows "\<exists>resp j. hist s' = hist s @ [EvHttpGet url (Inr resp)] \<and> StatusCode resp = 200 \<and>
    json_parse (Body resp) = Inr j \<and> decode j = Inr a"
  using assms
  by (auto simp: getJSON_def dest!: hist_call split: option.splits prod.splits sum.splits if_splits)

definition issuer_live ::
  "(string \<Rightarrow> ext_error + json) \<Rightarrow> auth_provider \<Rightarrow> access_event list \<Rightarrow> bool" where
  "issuer_live json_parse p evs \<longleftrightarrow>
     (\<exists>url audiences doc jwks j1 j2 uri ks.
        providerIssuer p = Some (url, audiences) \<and> url \<noteq> [] \<and>
        evs = [EvHttpGet (discovery_url url) (Inr doc), EvHttpGet uri (Inr jwks)] \<and>
        StatusCode doc = 200 \<and> json_parse (Body doc) = Inr j1 \<and> decode_jwks_uri j1 = Inr uri \<and> uri \<noteq> [] \<and>
        StatusCode jwks = 200 \<and> json_parse (Body jwks) = Inr j2 \<and> decode_keys j2 = Inr ks \<and> ks \<noteq> [])"

lemma probeOIDCIssuer_nil:
  assumes "probeOIDCIssuer json_parse cl url s = (None, s')" and "providerIssuer p = Some (url, audiences)" and "url \<noteq> []"
  shows "\<exists>evs. hist s' = hist s @ evs \<and> issuer_live json_parse p evs"
proof -
  obtain g s1 where g: "getJSON json_parse decode_jwks_uri cl (discovery_url url) s = (g, s1)"
    by (cases "getJSON json_parse decode_jwks_uri cl (discovery_url url) s")
  with assms(1) obtain uri where uri: "g = Inr uri" "uri \<noteq> []"
    by (auto simp: probeOIDCIssuer_def split: sum.splits if_splits)
  obtain k s2 where k: "getJSON json_parse decode_keys cl uri s1 = (k, s2)"
    by (cases "getJSON json_parse decode_keys cl uri s1")
  with assms(1) g uri obtain ks where ks: "k = Inr ks" "ks \<noteq> []" "s' = s2"
    by (auto simp: probeOIDCIssuer_def split: sum.splits if_splits)
  from getJSON_success [OF g [unfolded uri(1)]] getJSON_success [OF k [unfolded ks(1)]] uri ks assms(2,3)
  show ?thesis unfolding issuer_live_def by fastforce
qed

lemma probe_all_nil:
  "probe_all json_parse cl ps s = (None, s') \<Longrightarrow>
   \<exists>parts. hist s' = hist s @ concat parts \<and> list_all2 (issuer_live json_parse) ps parts"
proof (induction ps arbitrary: s)
  case (Cons p ps)
  then obtain url audiences s1 where i: "providerIssuer p = Some (url, audiences)" "url \<noteq> []"
    and pr: "probeOIDCIssuer json_parse cl url s = (None, s1)" and rest: "probe_all json_parse cl ps s1 = (None, s')"
    by (auto split: option.splits prod.splits list.splits)
  obtain evs where "hist s1 = hist s @ evs" "issuer_live json_parse p evs"
    using probeOIDCIssuer_nil [OF pr i] by blast
  moreover obtain parts where "hist s' = hist s1 @ concat parts" "list_all2 (issuer_live json_parse) ps parts"
    using Cons.IH [OF rest] by blast
  ultimately show ?case by (intro exI [where x = "evs # parts"]) simp
qed (auto intro!: exI [where x = "[]"])

text \<open>
  The issuers of a cluster are reported reachable only if providers were listed, there
  is one, and for each in turn the discovery document at its issuer's well-known address was
  answered with status 200 and names a key set, which was answered with status 200 and
  holds at least one key.
\<close>

theorem VerifyExternalAuthIssuerReachable_live:
  assumes "VerifyExternalAuthIssuerReachable json_parse cl cluster s = (None, s')"
  shows "\<exists>providers parts. hist s' = hist s @ EvListAuths cluster (Inr providers) # concat parts \<and>
    providers \<noteq> [] \<and> list_all2 (issuer_live json_parse) providers parts"
proof -
  obtain ps s1 where l: "call (EvListAuths cluster) (ListAuths cl cluster) s = (ps, s1)"
    by (cases "call (EvListAuths cluster) (ListAuths cl cluster) s")
  with assms obtain providers where ps: "ps = Inr providers" "providers \<noteq> []"
    and run: "probe_all json_parse cl providers s1 = (None, s')"
    by (auto simp: VerifyExternalAuthIssuerReachable_def split: sum.splits if_splits)
  from probe_all_nil [OF run] hist_call [OF l] ps show ?thesis by fastforce
qed

subsection \<open>Concrete inputs\<close>

definition demo_arn :: "string \<Rightarrow> ext_error + arn" where
  "demo_arn t = (if t = ''arn:r'' then Inr \<lparr>AccountID = ''1234'', Service = ''iam'', ArnResource = ''role/OCM''\<rparr>
     else Inl (plain_error ''arn: invalid prefix''))"

definition demo_json :: "string \<Rightarrow> ext_error + json" where
  "demo_json t = (if t = ''doc'' then Inr (JObj [(''jwks_uri'', JStr ''https://sso/keys'')])
     else Inr (JObj [(''keys'', JArr [JObj []])]))"

definition demo_access :: "unit access_client" where
  "demo_access =
     \<lparr>CurrentAccount = (\<lambda>w. ((Inr (Some ''org''), 0), w)),
      GetLabel = (\<lambda>_ _ w. ((Inr ''x,arn:r'', 0), w)),
      GetAuthConfig = (\<lambda>_ w. ((Inr True, 0), w)),
      ListAuths = (\<lambda>_ w. ((Inr [\<lparr>providerID = ''p'', providerIssuer = Some (''https://sso'', [''a'']), providerStatus = None\<rparr>], 0), w)),
      BuildRequest = (\<lambda>_. None),
      DoGet = (\<lambda>u w. ((Inr \<lparr>StatusCode = 200, StatusLine = ''200 OK'',
         Body = (if u = ''https://sso/keys'' then ''keys'' else ''doc'')\<rparr>, 0), w))\<rparr>"

lemma demo_trim: "TrimSpace ''arn:r'' = ''arn:r''" "TrimSpace ''x'' = ''x''"
  by code_simp+

theorem VerifyOCMRoleLinkedForAccount_nil_iff_witness:
  "\<exists>r s'. VerifyOCMRoleLinkedForAccount demo_arn demo_access ''1234'' (start ()) = (r, s') \<and> r = None"
proof -
  obtain r s' where run: "VerifyOCMRoleLinkedForAccount demo_arn demo_access ''1234'' (start ()) = (r, s')"
    by (cases "VerifyOCMRoleLinkedForAccount demo_arn demo_access ''1234'' (start ())")
  have "hist (snd (VerifyOCMRoleLinkedForAccount demo_arn demo_access ''1234'' (start ()))) =
      [EvCurrentAccount (Inr (Some ''org'')), EvLabel ''org'' ''sts_ocm_role'' (Inr ''x,arn:r'')]"
    by (simp add: VerifyOCMRoleLinkedForAccount_def GetLinkedOCMRoleARNs_def demo_access_def call_def
        ocmRoleLabelKey_def Let_def split: sum.splits)
  with run have h: "hist s' = hist (start ()) @ [EvCurrentAccount (Inr (Some ''org'')), EvLabel ''org'' ''sts_ocm_role'' (Inr ''x,arn:r'')]"
    by simp
  have "list_ex (\<lambda>part. \<exists>a. entry_arn demo_arn part = Some a \<and> AccountID a = ''1234'' \<and> Service a = ''iam'' \<and>
      HasPrefix (ArnResource a) ''role/'') (Split ''x,arn:r'' (CHR '',''))"
    by (simp add: entry_arn_def demo_trim role_arn_def demo_arn_def HasPrefix_def)
  with h VerifyOCMRoleLinkedForAccount_nil_iff [OF run] run show ?thesis by blast
qed

theorem VerifyExternalAuthProviders_nil_iff_witness:
  "\<exists>r s'. VerifyExternalAuthProviders demo_access ''c1'' (start ()) = (r, s') \<and> r = None"
proof -
  obtain r s' where run: "VerifyExternalAuthProviders demo_access ''c1'' (start ()) = (r, s')"
    by (cases "VerifyExternalAuthProviders demo_access ''c1'' (start ())")
  let ?p = "\<lparr>providerID = ''p'', providerIssuer = Some (''https://sso'', [''a'']), providerStatus = None\<rparr>"
  have "hist (snd (VerifyExternalAuthProviders demo_access ''c1'' (start ()))) =
      [EvAuthConfig ''c1'' (Inr True), EvListAuths ''c1'' (Inr [?p])]"
    by (simp add: VerifyExternalAuthProviders_def demo_access_def call_def)
  with run have "hist s' = hist (start ()) @ [EvAuthConfig ''c1'' (Inr True), EvListAuths ''c1'' (Inr [?p])]" by simp
  moreover have "list_all provider_valid [?p]" by (simp add: provider_valid_def HasPrefix_def)
  ultimately show ?thesis using VerifyExternalAuthProviders_nil_iff [OF run] run by blast
qed

theorem VerifyExternalAuthIssuerReachable_live_witness:
  "\<exists>s' providers parts. VerifyExternalAuthIssuerReachable demo_json demo_access ''c1'' (start ()) = (None, s') \<and>
     hist s' = EvListAuths ''c1'' (Inr providers) # concat parts \<and> list_all2 (issuer_live demo_json) providers parts"
proof -
  have "\<exists>s'. VerifyExternalAuthIssuerReachable demo_json demo_access ''c1'' (start ()) = (None, s')"
    by (simp add: VerifyExternalAuthIssuerReachable_def probeOIDCIssuer_def getJSON_def demo_access_def call_def
        decode_jwks_uri_def decode_keys_def decode_field_def decode_list_def decode_string_def json_member_def
        EqualFold_def lower_byte_def demo_json_def discovery_url_def TrimRight_def)
  then obtain s' where run: "VerifyExternalAuthIssuerReachable demo_json demo_access ''c1'' (start ()) = (None, s')"
    by blast
  with VerifyExternalAuthIssuerReachable_live [OF run] show ?thesis by auto
qed

end
