(* ===== verification/Config.thy ===== *)
theory Config
  imports GoStrings
begin

text \<open>
  \<^verbatim>\<open>pkg/config/config.go\<close>: the configuration of the suite. The process environment is a
  function \<open>env\<close> that gives the empty string for an unset variable (\<open>os.Getenv\<close>); the
  file system is \<open>read_file\<close>; \<open>unmarshal\<close> stands for \<open>yaml.Unmarshal\<close> of the third-party
  yaml.v3 into an existing structure.
\<close>

subsection \<open>The configuration\<close>

record Config =
  OCMEnv :: string
  OCMToken :: string
  OCMClientID :: string
  OCMClientSecret :: string
  OCMTokenURL :: string
  ClusterTopology :: string
  ClusterID :: string
  AWSRegion :: string
  AWSAccountID :: string
  SubnetIDs :: "string list"
  OIDCConfigID :: string
  AccountRolePrefix :: string
  OperatorRolePrefix :: string
  BillingAccountID :: string
  CreatorARN :: string
  GCPProjectID :: string
  GCPRegion :: string
  ClusterNamePrefix :: string
  ComputeMachineType :: string
  ComputeNodes :: int
  ChannelGroup :: string
  OpenShiftVersion :: string
  ManagementClusterID :: string
  ServiceClusterID :: string
  SectorName :: string
  ProvisionShardID :: string
  UpgradeTargetVersion :: string
  ExcludeClusterOperators :: "string list"
  RHOBSProbeAPIURL :: string
  RHOBSMetricsAPIURL :: string
  RHOBSOIDCClientID :: string
  RHOBSOIDCClientSecret :: string
  RHOBSOIDCIssuerURL :: string

definition OCMBaseURL :: "(string \<Rightarrow> string) \<Rightarrow> Config \<Rightarrow> string" where
  "OCMBaseURL env c =
     (if env ''OCM_BASE_URL'' \<noteq> [] then env ''OCM_BASE_URL''
      else if OCMEnv c = ''production'' \<or> OCMEnv c = ''prod'' then ''https://api.openshift.com''
      else if OCMEnv c = ''staging'' \<or> OCMEnv c = ''stage'' then ''https://api.stage.openshift.com''
      else ''https://api.integration.openshift.com'')"

definition default_config :: Config where
  "default_config =
     \<lparr>OCMEnv = ''staging'',
      OCMToken = [],
      OCMClientID = [],
      OCMClientSecret = [],
      OCMTokenURL = ''https://sso.redhat.com/auth/realms/redhat-external/protocol/openid-connect/token'',
      ClusterTopology = [],
      ClusterID = [],
      AWSRegion = ''us-east-2'',
      AWSAccountID = [],
      SubnetIDs = [],
      OIDCConfigID = [],
      AccountRolePrefix = [],
      OperatorRolePrefix = [],
      BillingAccountID = [],
      CreatorARN = [],
      GCPProjectID = [],
      GCPRegion = [],
      ClusterNamePrefix = ''rosa-e2e'',
      ComputeMachineType = ''m5.xlarge'',
      ComputeNodes = 2,
      ChannelGroup = ''stable'',
      OpenShiftVersion = [],
      ManagementClusterID = [],
      ServiceClusterID = [],
      SectorName = [],
      ProvisionShardID = [],
      UpgradeTargetVersion = [],
      ExcludeClusterOperators = [],
      RHOBSProbeAPIURL = [],
      RHOBSMetricsAPIURL = [],
      RHOBSOIDCClientID = [],
      RHOBSOIDCClientSecret = [],
      RHOBSOIDCIssuerURL = []\<rparr>"

subsection \<open>Loading\<close>

text \<open>\<open>if v := os.Getenv(k); v != "" { ... }\<close>\<close>

definition set_env ::
  "(string \<Rightarrow> string) \<Rightarrow> string \<Rightarrow> (string \<Rightarrow> Config \<Rightarrow> Config) \<Rightarrow> Config \<Rightarrow> Config" where
  "set_env env k upd c = (if env k \<noteq> [] then upd (env k) c else c)"

text \<open>The overrides before and after \<open>COMPUTE_NODES\<close>, the only one that can fail.\<close>

definition env_overrides_1 :: "(string \<Rightarrow> string) \<Rightarrow> Config \<Rightarrow> Config" where
  "env_overrides_1 env cfg =
    (let cfg = set_env env ''OCM_ENV'' (\<lambda>v c. c\<lparr>OCMEnv := v\<rparr>) cfg in
     let cfg = set_env env ''OCM_TOKEN'' (\<lambda>v c. c\<lparr>OCMToken := v\<rparr>) cfg in
     let cfg = set_env env ''OCM_TOKEN_URL'' (\<lambda>v c. c\<lparr>OCMTokenURL := v\<rparr>) cfg in
     let cfg = set_env env ''OCM_CLIENT_ID'' (\<lambda>v c. c\<lparr>OCMClientID := v\<rparr>) cfg in
     let cfg = set_env env ''OCM_CLIENT_SECRET'' (\<lambda>v c. c\<lparr>OCMClientSecret := v\<rparr>) cfg in
     let cfg = set_env env ''CLUSTER_TOPOLOGY'' (\<lambda>v c. c\<lparr>ClusterTopology := ToLower (TrimSpace v)\<rparr>) cfg in
     let cfg = set_env env ''CLUSTER_ID'' (\<lambda>v c. c\<lparr>ClusterID := v\<rparr>) cfg in
     let cfg = set_env env ''AWS_REGION'' (\<lambda>v c. c\<lparr>AWSRegion := v\<rparr>) cfg in
     let cfg = set_env env ''AWS_ACCOUNT_ID'' (\<lambda>v c. c\<lparr>AWSAccountID := v\<rparr>) cfg in
     let cfg = set_env env ''SUBNET_IDS'' (\<lambda>v c. c\<lparr>SubnetIDs := Split v (CHR '','')\<rparr>) cfg in
     let cfg = set_env env ''OIDC_CONFIG_ID'' (\<lambda>v c. c\<lparr>OIDCConfigID := v\<rparr>) cfg in
     let cfg = set_env env ''ACCOUNT_ROLE_PREFIX'' (\<lambda>v c. c\<lparr>AccountRolePrefix := v\<rparr>) cfg in
     let cfg = set_env env ''OPERATOR_ROLE_PREFIX'' (\<lambda>v c. c\<lparr>OperatorRolePrefix := v\<rparr>) cfg in
     let cfg = set_env env ''BILLING_ACCOUNT_ID'' (\<lambda>v c. c\<lparr>BillingAccountID := v\<rparr>) cfg in
     let cfg = set_env env ''CREATOR_ARN'' (\<lambda>v c. c\<lparr>CreatorARN := v\<rparr>) cfg in
     let cfg = set_env env ''GCP_PROJECT_ID'' (\<lambda>v c. c\<lparr>GCPProjectID := v\<rparr>) cfg in
     let cfg = set_env env ''GCP_REGION'' (\<lambda>v c. c\<lparr>GCPRegion := v\<rparr>) cfg in
     let cfg = set_env env ''CLUSTER_NAME_PREFIX'' (\<lambda>v c. c\<lparr>ClusterNamePrefix := v\<rparr>) cfg in
     let cfg = set_env env ''COMPUTE_MACHINE_TYPE'' (\<lambda>v c. c\<lparr>ComputeMachineType := v\<rparr>) cfg in
     cfg)"

definition env_compute_nodes :: "(string \<Rightarrow> string) \<Rightarrow> Config \<Rightarrow> go_error + Config" where
  "env_compute_nodes env cfg =
     (let v = env ''COMPUTE_NODES'' in
      if v \<noteq> [] then
        (case Atoi v of
           Inl e \<Rightarrow> Inl (Errorf ''invalid COMPUTE_NODES value %q: %w'' [AStr v, AWrap (atoi_error v e)])
         | Inr n \<Rightarrow> Inr (cfg\<lparr>ComputeNodes := n\<rparr>))
      else Inr cfg)"

definition env_overrides_2 :: "(string \<Rightarrow> string) \<Rightarrow> Config \<Rightarrow> Config" where
  "env_overrides_2 env cfg =
    (let cfg = set_env env ''CHANNEL_GROUP'' (\<lambda>v c. c\<lparr>ChannelGroup := v\<rparr>) cfg in
     let cfg = set_env env ''OPENSHIFT_VERSION'' (\<lambda>v c. c\<lparr>OpenShiftVersion := v\<rparr>) cfg in
     let cfg = set_env env ''MANAGEMENT_CLUSTER_ID'' (\<lambda>v c. c\<lparr>ManagementClusterID := v\<rparr>) cfg in
     let cfg = set_env env ''SERVICE_CLUSTER_ID'' (\<lambda>v c. c\<lparr>ServiceClusterID := v\<rparr>) cfg in
     let cfg = set_env env ''PROVISION_SHARD_ID'' (\<lambda>v c. c\<lparr>ProvisionShardID := v\<rparr>) cfg in
     let cfg = set_env env ''SECTOR_NAME'' (\<lambda>v c. c\<lparr>SectorName := v\<rparr>) cfg in
     let cfg = set_env env ''UPGRADE_TARGET_VERSION'' (\<lambda>v c. c\<lparr>UpgradeTargetVersion := v\<rparr>) cfg in
     let cfg = set_env env ''EXCLUDE_CLUSTER_OPERATORS'' (\<lambda>v c. c\<lparr>ExcludeClusterOperators := Split v (CHR '','')\<rparr>) cfg in
     let cfg = set_env env ''RHOBS_PROBE_API_URL'' (\<lambda>v c. c\<lparr>RHOBSProbeAPIURL := v\<rparr>) cfg in
     let cfg = set_env env ''RHOBS_METRICS_API_URL'' (\<lambda>v c. c\<lparr>RHOBSMetricsAPIURL := v\<rparr>) cfg in
     let cfg = set_env env ''RHOBS_OIDC_CLIENT_ID'' (\<lambda>v c. c\<lparr>RHOBSOIDCClientID := v\<rparr>) cfg in
     let cfg = set_env env ''RHOBS_OIDC_CLIENT_SECRET'' (\<lambda>v c. c\<lparr>RHOBSOIDCClientSecret := v\<rparr>) cfg in
     let cfg = set_env env ''RHOBS_OIDC_ISSUER_URL'' (\<lambda>v c. c\<lparr>RHOBSOIDCIssuerURL := v\<rparr>) cfg in
     cfg)"

definition derive_metrics_url :: "Config \<Rightarrow> Config" where
  "derive_metrics_url cfg =
     (if RHOBSMetricsAPIURL cfg = [] \<and> RHOBSProbeAPIURL cfg \<noteq> []
      then cfg\<lparr>RHOBSMetricsAPIURL := TrimSuffix (RHOBSProbeAPIURL cfg) ''/probes''\<rparr> else cfg)"

definition missing_credentials :: "Config \<Rightarrow> bool" where
  "missing_credentials cfg \<longleftrightarrow> OCMToken cfg = [] \<and> (OCMClientID cfg = [] \<or> OCMClientSecret cfg = [])"

definition load_file ::
  "(string \<Rightarrow> ext_error + string) \<Rightarrow> (string \<Rightarrow> Config \<Rightarrow> ext_error + Config) \<Rightarrow>
   (string \<Rightarrow> string) \<Rightarrow> go_error + Config" where
  "load_file read_file unmarshal env =
     (let configPath = env ''CLUSTER_CONFIG'' in
      if configPath \<noteq> [] then
        (case read_file configPath of
           Inl e \<Rightarrow> Inl (Errorf ''reading config file %s: %w'' [AStr configPath, AExt e])
         | Inr data \<Rightarrow>
             (case unmarshal data default_config of
                Inl e \<Rightarrow> Inl (Errorf ''parsing config file %s: %w'' [AStr configPath, AExt e])
              | Inr cfg \<Rightarrow> Inr cfg))
      else Inr default_config)"

definition Load ::
  "(string \<Rightarrow> ext_error + string) \<Rightarrow> (string \<Rightarrow> Config \<Rightarrow> ext_error + Config) \<Rightarrow>
   (string \<Rightarrow> string) \<Rightarrow> go_error + Config" where
  "Load read_file unmarshal env =
     (case load_file read_file unmarshal env of
        Inl e \<Rightarrow> Inl e
      | Inr cfg \<Rightarrow>
          (case env_compute_nodes env (env_overrides_1 env cfg) of
             Inl e \<Rightarrow> Inl e
           | Inr cfg1 \<Rightarrow>
               (let cfg2 = derive_metrics_url (env_overrides_2 env cfg1) in
                if missing_credentials cfg2
                then Inl (Errorf ''OCM_TOKEN or OCM_CLIENT_ID and OCM_CLIENT_SECRET environment variables are required'' [])
                else Inr cfg2)))"

subsection \<open>What each field of a loaded configuration is\<close>

lemma set_env_other: "(\<And>v c. get (upd v c) = get c) \<Longrightarrow> get (set_env env k upd c) = get c"
  and set_env_own: "(\<And>v c. get (upd v c) = g v) \<Longrightarrow> get (set_env env k upd c) = (if env k \<noteq> [] then g (env k) else get c)"
  by (simp_all add: set_env_def)

text \<open>An override of one field leaves the others alone.\<close>

lemmas env_other =
  set_env_other [where get = OCMEnv]
  set_env_other [where get = OCMToken]
  set_env_other [where get = OCMClientID]
  set_env_other [where get = OCMClientSecret]
  set_env_other [where get = OCMTokenURL]
  set_env_other [where get = ClusterTopology]
  set_env_other [where get = ClusterID]
  set_env_other [where get = AWSRegion]
  set_env_other [where get = AWSAccountID]
  set_env_other [where get = SubnetIDs]
  set_env_other [where get = OIDCConfigID]
  set_env_other [where get = AccountRolePrefix]
  set_env_other [where get = OperatorRolePrefix]
  set_env_other [where get = BillingAccountID]
  set_env_other [where get = CreatorARN]
  set_env_other [where get = GCPProjectID]
  set_env_other [where get = GCPRegion]
  set_env_other [where get = ClusterNamePrefix]
  set_env_other [where get = ComputeMachineType]
  set_env_other [where get = ComputeNodes]
  set_env_other [where get = ChannelGroup]
  set_env_other [where get = OpenShiftVersion]
  set_env_other [where get = ManagementClusterID]
  set_env_other [where get = ServiceClusterID]
  set_env_other [where get = SectorName]
  set_env_other [where get = ProvisionShardID]
  set_env_other [where get = UpgradeTargetVersion]
  set_env_other [where get = ExcludeClusterOperators]
  set_env_other [where get = RHOBSProbeAPIURL]
  set_env_other [where get = RHOBSMetricsAPIURL]
  set_env_other [where get = RHOBSOIDCClientID]
  set_env_other [where get = RHOBSOIDCClientSecret]
  set_env_other [where get = RHOBSOIDCIssuerURL]

lemmas env_own =
  set_env_own [where get = OCMEnv]
  set_env_own [where get = OCMToken]
  set_env_own [where get = OCMClientID]
  set_env_own [where get = OCMClientSecret]
  set_env_own [where get = OCMTokenURL]
  set_env_own [where get = ClusterTopology]
  set_env_own [where get = ClusterID]
  set_env_own [where get = AWSRegion]
  set_env_own [where get = AWSAccountID]
  set_env_own [where get = SubnetIDs]
  set_env_own [where get = OIDCConfigID]
  set_env_own [where get = AccountRolePrefix]
  set_env_own [where get = OperatorRolePrefix]
  set_env_own [where get = BillingAccountID]
  set_env_own [where get = CreatorARN]
  set_env_own [where get = GCPProjectID]
  set_env_own [where get = GCPRegion]
  set_env_own [where get = ClusterNamePrefix]
  set_env_own [where get = ComputeMachineType]
  set_env_own [where get = ComputeNodes]
  set_env_own [where get = ChannelGroup]
  set_env_own [where get = OpenShiftVersion]
  set_env_own [where get = ManagementClusterID]
  set_env_own [where get = ServiceClusterID]
  set_env_own [where get = SectorName]
  set_env_own [where get = ProvisionShardID]
  set_env_own [where get = UpgradeTargetVersion]
  set_env_own [where get = ExcludeClusterOperators]
  set_env_own [where get = RHOBSProbeAPIURL]
  set_env_own [where get = RHOBSMetricsAPIURL]
  set_env_own [where get = RHOBSOIDCClientID]
  set_env_own [where get = RHOBSOIDCClientSecret]
  set_env_own [where get = RHOBSOIDCIssuerURL]

text \<open>\<open>pick v old\<close>: the environment's value if there is one, else the old.\<close>

definition pick :: "string \<Rightarrow> string \<Rightarrow> string" where
  "pick v old = (if v \<noteq> [] then v else old)"

definition string_settings :: "(string \<times> (Config \<Rightarrow> string)) list" where
  "string_settings =
     [(''OCM_ENV'', OCMEnv),
      (''OCM_TOKEN'', OCMToken),
      (''OCM_TOKEN_URL'', OCMTokenURL),
      (''OCM_CLIENT_ID'', OCMClientID),
      (''OCM_CLIENT_SECRET'', OCMClientSecret),
      (''CLUSTER_ID'', ClusterID),
      (''AWS_REGION'', AWSRegion),
      (''AWS_ACCOUNT_ID'', AWSAccountID),
      (''OIDC_CONFIG_ID'', OIDCConfigID),
      (''ACCOUNT_ROLE_PREFIX'', AccountRolePrefix),
      (''OPERATOR_ROLE_PREFIX'', OperatorRolePrefix),
      (''BILLING_ACCOUNT_ID'', BillingAccountID),
      (''CREATOR_ARN'', CreatorARN),
      (''GCP_PROJECT_ID'', GCPProjectID),
      (''GCP_REGION'', GCPRegion),
      (''CLUSTER_NAME_PREFIX'', ClusterNamePrefix),
      (''COMPUTE_MACHINE_TYPE'', ComputeMachineType),
      (''CHANNEL_GROUP'', ChannelGroup),
      (''OPENSHIFT_VERSION'', OpenShiftVersion),
      (''MANAGEMENT_CLUSTER_ID'', ManagementClusterID),
      (''SERVICE_CLUSTER_ID'', ServiceClusterID),
      (''PROVISION_SHARD_ID'', ProvisionShardID),
      (''SECTOR_NAME'', SectorName),
      (''UPGRADE_TARGET_VERSION'', UpgradeTargetVersion),
      (''RHOBS_PROBE_API_URL'', RHOBSProbeAPIURL),
      (''RHOBS_OIDC_CLIENT_ID'', RHOBSOIDCClientID),
      (''RHOBS_OIDC_CLIENT_SECRET'', RHOBSOIDCClientSecret),
      (''RHOBS_OIDC_ISSUER_URL'', RHOBSOIDCIssuerURL)]"

text \<open>The documented behaviour of yaml.v3: fields tagged \<open>yaml:"-"\<close> are left alone.\<close>

definition keeps_untagged :: "(string \<Rightarrow> Config \<Rightarrow> ext_error + Config) \<Rightarrow> bool" where
  "keeps_untagged unmarshal \<longleftrightarrow>
     (\<forall>data c c'. unmarshal data c = Inr c' \<longrightarrow>
        OCMToken c' = OCMToken c \<and> OCMClientID c' = OCMClientID c \<and>
        OCMClientSecret c' = OCMClientSecret c \<and> RHOBSOIDCClientSecret c' = RHOBSOIDCClientSecret c)"

lemma TrimSuffix_Nil: "TrimSuffix [] p = []"
  by (simp add: TrimSuffix_def)

lemma pick_simps [simp]: "pick [] old = old" "pick v [] = v"
  by (simp_all add: pick_def)

lemma overrides_strings:
  "list_all (\<lambda>(k, get). get (env_overrides_2 env ((env_overrides_1 env c)\<lparr>ComputeNodes := n\<rparr>)) = pick (env k) (get c))
     string_settings"
  unfolding string_settings_def list.pred_inject prod.case
  by (intro conjI TrueI;
      simp add: env_overrides_1_def env_overrides_2_def Let_def env_other env_own pick_def)

lemma overrides_others:
  fixes env c n
  defines "c' \<equiv> env_overrides_2 env ((env_overrides_1 env c)\<lparr>ComputeNodes := n\<rparr>)"
  shows "ClusterTopology c' =
           (if env ''CLUSTER_TOPOLOGY'' \<noteq> [] then ToLower (TrimSpace (env ''CLUSTER_TOPOLOGY'')) else ClusterTopology c)"
    and "SubnetIDs c' = (if env ''SUBNET_IDS'' \<noteq> [] then Split (env ''SUBNET_IDS'') (CHR '','') else SubnetIDs c)"
    and "ExcludeClusterOperators c' =
           (if env ''EXCLUDE_CLUSTER_OPERATORS'' \<noteq> [] then Split (env ''EXCLUDE_CLUSTER_OPERATORS'') (CHR '','')
            else ExcludeClusterOperators c)"
    and "RHOBSMetricsAPIURL c' = pick (env ''RHOBS_METRICS_API_URL'') (RHOBSMetricsAPIURL c)"
    and "ComputeNodes c' = n"
    and "RHOBSProbeAPIURL c' = pick (env ''RHOBS_PROBE_API_URL'') (RHOBSProbeAPIURL c)"
    and "OCMToken c' = pick (env ''OCM_TOKEN'') (OCMToken c)"
    and "OCMClientID c' = pick (env ''OCM_CLIENT_ID'') (OCMClientID c)"
    and "OCMClientSecret c' = pick (env ''OCM_CLIENT_SECRET'') (OCMClientSecret c)"
    and "RHOBSOIDCClientSecret c' = pick (env ''RHOBS_OIDC_CLIENT_SECRET'') (RHOBSOIDCClientSecret c)"
  unfolding c'_def
  by (simp_all add: env_overrides_1_def env_overrides_2_def Let_def env_other env_own pick_def)

subsection \<open>Loading, case by case\<close>

lemma Load_success:
  assumes "Load read_file unmarshal env = Inr cfg" and "load_file read_file unmarshal env = Inr base"
  obtains n where
    "cfg = derive_metrics_url (env_overrides_2 env ((env_overrides_1 env base)\<lparr>ComputeNodes := n\<rparr>))"
    "if env ''COMPUTE_NODES'' \<noteq> [] then Atoi (env ''COMPUTE_NODES'') = Inr n else n = ComputeNodes base"
    "\<not> missing_credentials cfg"
proof -
  have n: "ComputeNodes (env_overrides_1 env base) = ComputeNodes base"
    by (simp add: env_overrides_1_def Let_def env_other)
  have upd: "(env_overrides_1 env base)\<lparr>ComputeNodes := ComputeNodes base\<rparr> = env_overrides_1 env base"
    using n by (metis Config.surjective Config.update_convs(20) Config.select_convs(20))
  show thesis
  proof (cases "env ''COMPUTE_NODES'' = []")
    case True
    with assms show thesis
      by (intro that [of "ComputeNodes base"])
        (auto simp: Load_def env_compute_nodes_def upd Let_def split: if_splits)
  next
    case False
    with assms obtain m where "Atoi (env ''COMPUTE_NODES'') = Inr m"
      by (auto simp: Load_def env_compute_nodes_def Let_def split: sum.splits)
    with False assms show thesis
      by (intro that [of m]) (auto simp: Load_def env_compute_nodes_def Let_def split: if_splits)
  qed
qed

lemma derive_metrics_url_keeps [simp]:
  "list_all (\<lambda>(k, get). get (derive_metrics_url c) = get c) string_settings"
  unfolding string_settings_def list.pred_inject prod.case
  by (intro conjI TrueI; simp add: derive_metrics_url_def)

lemma derive_metrics_url_simps [simp]:
  "ClusterTopology (derive_metrics_url c) = ClusterTopology c"
  "SubnetIDs (derive_metrics_url c) = SubnetIDs c"
  "ExcludeClusterOperators (derive_metrics_url c) = ExcludeClusterOperators c"
  "ComputeNodes (derive_metrics_url c) = ComputeNodes c"
  "OCMToken (derive_metrics_url c) = OCMToken c"
  "OCMClientID (derive_metrics_url c) = OCMClientID c"
  "OCMClientSecret (derive_metrics_url c) = OCMClientSecret c"
  "RHOBSOIDCClientSecret (derive_metrics_url c) = RHOBSOIDCClientSecret c"
  "RHOBSMetricsAPIURL (derive_metrics_url c) =
     (if RHOBSMetricsAPIURL c = [] \<and> RHOBSProbeAPIURL c \<noteq> []
      then TrimSuffix (RHOBSProbeAPIURL c) ''/probes'' else RHOBSMetricsAPIURL c)"
  by (simp_all add: derive_metrics_url_def)

lemma missing_credentials_derive [simp]:
  "missing_credentials (derive_metrics_url c) = missing_credentials c"
  by (simp add: missing_credentials_def)

lemma load_file_secrets:
  assumes "keeps_untagged unmarshal" and "load_file read_file unmarshal env = Inr base"
  shows "OCMToken base = [] \<and> OCMClientID base = [] \<and> OCMClientSecret base = [] \<and> RHOBSOIDCClientSecret base = []"
proof -
  have "OCMToken default_config = []" "OCMClientID default_config = []"
    "OCMClientSecret default_config = []" "RHOBSOIDCClientSecret default_config = []"
    by (simp_all add: default_config_def)
  with assms show ?thesis
    unfolding keeps_untagged_def load_file_def Let_def by (auto split: sum.splits if_splits; metis)
qed

subsection \<open>Properties\<close>

text \<open>A YAML decoder that knows one key, for concrete inputs.\<close>

definition demo_unmarshal :: "string \<Rightarrow> Config \<Rightarrow> ext_error + Config" where
  "demo_unmarshal data c =
     (if HasPrefix data ''aws_region: '' then Inr (c\<lparr>AWSRegion := drop 12 data\<rparr>)
      else Inl (plain_error ''yaml: cannot unmarshal''))"

definition demo_env :: "string \<Rightarrow> string" where
  "demo_env k =
     (if k = ''CLUSTER_CONFIG'' then ''e2e.yaml''
      else if k = ''OCM_CLIENT_ID'' then ''robot''
      else if k = ''OCM_CLIENT_SECRET'' then ''s3cret''
      else if k = ''CLUSTER_TOPOLOGY'' then '' HCP ''
      else if k = ''RHOBS_PROBE_API_URL'' then ''https://r/hcp/probes''
      else [])"

definition demo_read :: "string \<Rightarrow> ext_error + string" where
  "demo_read p = (if p = ''e2e.yaml'' then Inr ''aws_region: eu-west-1'' else Inl (plain_error ''no such file''))"

lemma demo_keeps_untagged: "keeps_untagged demo_unmarshal"
  by (auto simp: keeps_untagged_def demo_unmarshal_def split: if_splits)

lemma demo_load_file:
  "load_file demo_read demo_unmarshal demo_env = Inr (default_config\<lparr>AWSRegion := ''eu-west-1''\<rparr>)"
  by (simp add: load_file_def demo_read_def demo_unmarshal_def demo_env_def HasPrefix_def eval_nat_numeral)

lemma demo_credentials:
  "\<not> missing_credentials (env_overrides_2 demo_env (env_overrides_1 demo_env (default_config\<lparr>AWSRegion := r\<rparr>)))"
  by (simp add: missing_credentials_def env_overrides_1_def env_overrides_2_def Let_def env_other env_own
      demo_env_def)

lemma demo_Load: "\<exists>cfg. Load demo_read demo_unmarshal demo_env = Inr cfg"
  using demo_credentials
  by (simp add: Load_def demo_load_file env_compute_nodes_def Let_def demo_env_def)

text \<open>
  C17: a configuration that loads is, field by field, the value of its environment variable
  where that is set and otherwise the value of the file, or the default; the topology is
  trimmed and lower-cased, the two lists are split at commas, the number of nodes is the
  number the variable denotes, and a missing metrics URL is the probe URL without its
  trailing \<open>/probes\<close>.
\<close>

theorem Load_precedence:
  assumes "Load read_file unmarshal env = Inr cfg" and "load_file read_file unmarshal env = Inr base"
  shows "list_all (\<lambda>(k, get). get cfg = pick (env k) (get base)) string_settings \<and>
    ClusterTopology cfg =
      (if env ''CLUSTER_TOPOLOGY'' \<noteq> [] then ToLower (TrimSpace (env ''CLUSTER_TOPOLOGY'')) else ClusterTopology base) \<and>
    SubnetIDs cfg = (if env ''SUBNET_IDS'' \<noteq> [] then Split (env ''SUBNET_IDS'') (CHR '','') else SubnetIDs base) \<and>
    ExcludeClusterOperators cfg =
      (if env ''EXCLUDE_CLUSTER_OPERATORS'' \<noteq> [] then Split (env ''EXCLUDE_CLUSTER_OPERATORS'') (CHR '','')
       else ExcludeClusterOperators base) \<and>
    (if env ''COMPUTE_NODES'' \<noteq> [] then Atoi (env ''COMPUTE_NODES'') = Inr (ComputeNodes cfg)
     else ComputeNodes cfg = ComputeNodes base) \<and>
    RHOBSMetricsAPIURL cfg =
      pick (pick (env ''RHOBS_METRICS_API_URL'') (RHOBSMetricsAPIURL base))
        (TrimSuffix (pick (env ''RHOBS_PROBE_API_URL'') (RHOBSProbeAPIURL base)) ''/probes'')"
proof -
  from Load_success [OF assms] obtain n where
    cfg: "cfg = derive_metrics_url (env_overrides_2 env ((env_overrides_1 env base)\<lparr>ComputeNodes := n\<rparr>))"
    and n: "if env ''COMPUTE_NODES'' \<noteq> [] then Atoi (env ''COMPUTE_NODES'') = Inr n else n = ComputeNodes base"
    by metis
  let ?c = "env_overrides_2 env ((env_overrides_1 env base)\<lparr>ComputeNodes := n\<rparr>)"
  have "list_all (\<lambda>(k, get). get cfg = pick (env k) (get base)) string_settings"
    using overrides_strings [of env n base] derive_metrics_url_keeps [of ?c]
    unfolding cfg list_all_iff by fastforce
  then show ?thesis
    using n unfolding cfg
    by (auto simp: overrides_others TrimSuffix_Nil pick_def)
qed

theorem Load_precedence_witness:
  "\<exists>cfg. Load demo_read demo_unmarshal demo_env = Inr cfg \<and> AWSRegion cfg = ''eu-west-1'' \<and>
     OCMEnv cfg = ''staging'' \<and> ClusterTopology cfg = ''hcp'' \<and> RHOBSMetricsAPIURL cfg = ''https://r/hcp''"
proof -
  obtain cfg where run: "Load demo_read demo_unmarshal demo_env = Inr cfg" using demo_Load by blast
  have "ToLower (TrimSpace '' HCP '') = ''hcp''"
    by code_simp
  moreover have "TrimSuffix ''https://r/hcp/probes'' ''/probes'' = ''https://r/hcp''"
    by (simp add: TrimSuffix_def HasSuffix_def)
  ultimately show ?thesis
    using Load_precedence [OF run demo_load_file] run
    unfolding string_settings_def list.pred_inject prod.case
    by (simp add: pick_def demo_env_def default_config_def)
qed

text \<open>
  C10: secrets come from the environment only, never from the file, and a configuration that
  loads has a usable credential: a token, or both a client id and a client secret.
\<close>

theorem Load_credentials:
  assumes "keeps_untagged unmarshal" and "Load read_file unmarshal env = Inr cfg"
  shows "OCMToken cfg = env ''OCM_TOKEN'' \<and> OCMClientID cfg = env ''OCM_CLIENT_ID'' \<and>
    OCMClientSecret cfg = env ''OCM_CLIENT_SECRET'' \<and>
    RHOBSOIDCClientSecret cfg = env ''RHOBS_OIDC_CLIENT_SECRET'' \<and>
    (env ''OCM_TOKEN'' \<noteq> [] \<or> env ''OCM_CLIENT_ID'' \<noteq> [] \<and> env ''OCM_CLIENT_SECRET'' \<noteq> [])"
proof -
  obtain base where base: "load_file read_file unmarshal env = Inr base"
    using assms(2) by (auto simp: Load_def split: sum.splits)
  from Load_success [OF assms(2) base] obtain n where
    cfg: "cfg = derive_metrics_url (env_overrides_2 env ((env_overrides_1 env base)\<lparr>ComputeNodes := n\<rparr>))"
    and ok: "\<not> missing_credentials cfg" by metis
  have "OCMToken cfg = env ''OCM_TOKEN''" "OCMClientID cfg = env ''OCM_CLIENT_ID''"
    "OCMClientSecret cfg = env ''OCM_CLIENT_SECRET''"
    "RHOBSOIDCClientSecret cfg = env ''RHOBS_OIDC_CLIENT_SECRET''"
    using load_file_secrets [OF assms(1) base] by (simp_all add: cfg overrides_others)
  with ok show ?thesis by (auto simp: missing_credentials_def)
qed

theorem Load_credentials_witness:
  "\<exists>cfg. Load demo_read demo_unmarshal demo_env = Inr cfg \<and> OCMToken cfg = [] \<and> OCMClientID cfg = ''robot''"
  using demo_Load Load_credentials [OF demo_keeps_untagged, of demo_read demo_env]
  by (fastforce simp: demo_env_def)

text \<open>
  C40: loading fails in exactly four situations: the file named by \<open>CLUSTER_CONFIG\<close> cannot
  be read, it is not valid YAML for the configuration, \<open>COMPUTE_NODES\<close> is not a number, or
  the environment holds neither a token nor a client id with its secret.
\<close>

theorem Load_fails_iff:
  assumes "keeps_untagged unmarshal"
  shows "(\<exists>e. Load read_file unmarshal env = Inl e) \<longleftrightarrow>
    (env ''CLUSTER_CONFIG'' \<noteq> [] \<and>
      (case read_file (env ''CLUSTER_CONFIG'') of
         Inl _ \<Rightarrow> True
       | Inr data \<Rightarrow> (\<exists>e. unmarshal data default_config = Inl e))) \<or>
    (env ''COMPUTE_NODES'' \<noteq> [] \<and> (\<exists>e. Atoi (env ''COMPUTE_NODES'') = Inl e)) \<or>
    (env ''OCM_TOKEN'' = [] \<and> (env ''OCM_CLIENT_ID'' = [] \<or> env ''OCM_CLIENT_SECRET'' = []))"
    (is "?fails \<longleftrightarrow> ?file \<or> ?nodes \<or> ?creds")
proof (cases "load_file read_file unmarshal env")
  case (Inl e)
  then have "?file" by (auto simp: load_file_def Let_def split: if_splits sum.splits)
  with Inl show ?thesis by (simp add: Load_def)
next
  case (Inr base)
  then have readable: "\<not> ?file" by (auto simp: load_file_def Let_def split: if_splits sum.splits)
  have creds: "missing_credentials (env_overrides_2 env ((env_overrides_1 env base)\<lparr>ComputeNodes := n\<rparr>)) = ?creds" for n
    using load_file_secrets [OF assms Inr] by (auto simp: missing_credentials_def overrides_others)
  show ?thesis
  proof (cases "env_compute_nodes env (env_overrides_1 env base)")
    case nodes: (Inl e)
    then have "?nodes" by (auto simp: env_compute_nodes_def Let_def split: if_splits sum.splits)
    with Inr nodes show ?thesis by (simp add: Load_def)
  next
    case nodes: (Inr c1)
    then have "\<not> ?nodes" by (auto simp: env_compute_nodes_def Let_def split: if_splits sum.splits)
    moreover obtain n where "c1 = (env_overrides_1 env base)\<lparr>ComputeNodes := n\<rparr>"
    proof (cases "env ''COMPUTE_NODES'' = []")
      case True
      with nodes have "c1 = (env_overrides_1 env base)\<lparr>ComputeNodes := ComputeNodes (env_overrides_1 env base)\<rparr>"
        by (simp add: env_compute_nodes_def)
      then show thesis by (rule that)
    next
      case False
      with nodes show thesis
        by (auto simp: env_compute_nodes_def Let_def split: sum.splits intro: that)
    qed
    ultimately show ?thesis using Inr nodes readable creds by (auto simp: Load_def Let_def)
  qed
qed

theorem Load_fails_iff_witness:
  "(\<exists>e. Load demo_read demo_unmarshal (demo_env(''COMPUTE_NODES'' := ''two'')) = Inl e)"
proof -
  have "\<exists>e. Atoi ''two'' = Inl e" by (simp add: Atoi_def digit_val_def)
  then show ?thesis by (simp add: Load_fails_iff [OF demo_keeps_untagged])
qed

end
