(* ===== verification/GoUrl.thy ===== *)
theory GoUrl
  imports GoStrings "HOL-Library.List_Lexorder" "HOL-Library.Char_ord"
begin

text \<open>
  The part of Go's \<open>net/url\<close> that the program uses: \<open>QueryEscape\<close> and \<open>Values.Encode\<close>.
  A \<open>url.Values\<close> whose keys are set once each is a list of pairs. \<open>QueryUnescape\<close> and
  \<open>form_decode\<close> are the reader's side, against which the encoders are proved.
\<close>

subsection \<open>Escaping\<close>

text \<open>The bytes \<open>shouldEscape\<close> leaves alone in a query component.\<close>

definition unreserved :: "char \<Rightarrow> bool" where
  "unreserved c =
     (let n = (of_char c :: nat)
      in 97 \<le> n \<and> n \<le> 122 \<or> 65 \<le> n \<and> n \<le> 90 \<or> 48 \<le> n \<and> n \<le> 57 \<or>
         c = CHR ''-'' \<or> c = CHR ''_'' \<or> c = CHR ''.'' \<or> c = CHR ''~'')"

definition hex_char :: "nat \<Rightarrow> char" where
  "hex_char d = (if d < 10 then char_of (48 + d) else char_of (55 + d))"

definition escape_byte :: "char \<Rightarrow> string" where
  "escape_byte c =
     (if unreserved c then [c]
      else if c = CHR '' '' then ''+''
      else (let n = (of_char c :: nat) in [CHR ''%'', hex_char (n div 16), hex_char (n mod 16)]))"

definition QueryEscape :: "string \<Rightarrow> string" where
  "QueryEscape s = concat (map escape_byte s)"

definition unhex :: "char \<Rightarrow> nat option" where
  "unhex c =
     (let n = (of_char c :: nat)
      in if 48 \<le> n \<and> n \<le> 57 then Some (n - 48)
         else if 65 \<le> n \<and> n \<le> 70 then Some (n - 55)
         else if 97 \<le> n \<and> n \<le> 102 then Some (n - 87)
         else None)"

fun QueryUnescape :: "string \<Rightarrow> string option" where
  "QueryUnescape [] = Some []"
| "QueryUnescape (c # cs) =
     (if c = CHR ''%'' then
        (case cs of
           h # l # rest \<Rightarrow>
             (case (unhex h, unhex l, QueryUnescape rest) of
                (Some a, Some b, Some s) \<Rightarrow> Some (char_of (16 * a + b) # s)
              | _ \<Rightarrow> None)
         | _ \<Rightarrow> None)
      else map_option (Cons (if c = CHR ''+'' then CHR '' '' else c)) (QueryUnescape cs))"

lemma of_char_hex_char: "d < 16 \<Longrightarrow> (of_char (hex_char d) :: nat) = (if d < 10 then 48 + d else 55 + d)"
  by (simp add: hex_char_def)

lemma unhex_hex_char [simp]: "d < 16 \<Longrightarrow> unhex (hex_char d) = Some d"
  by (simp add: unhex_def of_char_hex_char Let_def)

lemma of_char_less_256: "(of_char (c :: char) :: nat) < 256"
  by (rule nat_of_char_less_256)

lemma unescape_escape_byte:
  "QueryUnescape (escape_byte c @ s) = map_option (Cons c) (QueryUnescape s)"
proof (cases "unreserved c \<or> c = CHR '' ''")
  case True
  then show ?thesis by (auto simp: escape_byte_def unreserved_def)
next
  case False
  have "(of_char c :: nat) div 16 < 16" "(of_char c :: nat) mod 16 < 16"
    using of_char_less_256 [of c] by (simp_all add: div_less_iff_less_mult)
  with False show ?thesis
    by (cases "QueryUnescape s") (simp_all add: escape_byte_def Let_def)
qed

lemma QueryUnescape_append:
  "QueryUnescape (QueryEscape s @ t) = map_option (append s) (QueryUnescape t)"
  by (induction s) (simp_all add: QueryEscape_def unescape_escape_byte option.map_comp comp_def option.map_ident)

lemma QueryUnescape_QueryEscape [simp]: "QueryUnescape (QueryEscape s) = Some s"
  using QueryUnescape_append [of s "[]"] by simp

definition query_safe :: "char \<Rightarrow> bool" where
  "query_safe c \<longleftrightarrow> unreserved c \<or> c = CHR ''+'' \<or> c = CHR ''%''"

lemma unreserved_hex_char: "d < 16 \<Longrightarrow> unreserved (hex_char d)"
  by (simp add: unreserved_def of_char_hex_char Let_def)

lemma escape_byte_safe: "x \<in> set (escape_byte c) \<Longrightarrow> query_safe x"
  using of_char_less_256 [of c]
  by (auto simp: escape_byte_def query_safe_def Let_def unreserved_hex_char div_less_iff_less_mult split: if_splits)

lemma QueryEscape_safe: "x \<in> set (QueryEscape s) \<Longrightarrow> query_safe x"
  by (auto simp: QueryEscape_def dest: escape_byte_safe)

lemma QueryEscape_no_sep: "CHR ''&'' \<notin> set (QueryEscape s)" "CHR ''='' \<notin> set (QueryEscape s)"
  using QueryEscape_safe [of "CHR ''&''" s] QueryEscape_safe [of "CHR ''=''" s]
  by (auto simp: query_safe_def unreserved_def)

subsection \<open>Forms\<close>

definition form_pair :: "string \<times> string \<Rightarrow> string" where
  "form_pair kv = QueryEscape (fst kv) @ ''='' @ QueryEscape (snd kv)"

definition Values_Encode :: "(string \<times> string) list \<Rightarrow> string" where
  "Values_Encode vs = Join (map form_pair (sort_key fst vs)) ''&''"

definition cut_pair :: "string \<Rightarrow> (string \<times> string) option" where
  "cut_pair p =
     (case (QueryUnescape (takeWhile (\<lambda>c. c \<noteq> CHR ''='') p),
            QueryUnescape (drop 1 (dropWhile (\<lambda>c. c \<noteq> CHR ''='') p))) of
        (Some k, Some v) \<Rightarrow> Some (k, v)
      | _ \<Rightarrow> None)"

definition form_decode :: "string \<Rightarrow> (string \<times> string) list option" where
  "form_decode b = those (map cut_pair (Split b (CHR ''&'')))"

lemma cut_form_pair [simp]: "cut_pair (form_pair kv) = Some kv"
proof -
  have "\<forall>c \<in> set (QueryEscape (fst kv)). c \<noteq> CHR ''=''" using QueryEscape_no_sep(2) by metis
  then show ?thesis by (simp add: cut_pair_def form_pair_def takeWhile_append2 dropWhile_append2)
qed

lemma form_pair_no_sep: "CHR ''&'' \<notin> set (form_pair kv)"
  by (simp add: form_pair_def QueryEscape_no_sep)

lemma those_map_Some: "those (map Some xs) = Some xs"
  by (induction xs) simp_all

lemma form_decode_Join:
  "vs \<noteq> [] \<Longrightarrow> form_decode (Join (map form_pair vs) ''&'') = Some vs"
  using those_map_Some [of vs]
  by (simp add: form_decode_def Split_Join list_all_iff form_pair_no_sep comp_def)

lemma form_decode_Encode: "vs \<noteq> [] \<Longrightarrow> form_decode (Values_Encode vs) = Some (sort_key fst vs)"
  unfolding Values_Encode_def by (rule form_decode_Join) (metis length_0_conv length_sort)

lemma form_decode_pair: "form_decode (form_pair kv) = Some [kv]"
  using form_decode_Join [of "[kv]"] by simp

end
