(* ===== verification/RhobsApi.thy ===== *)
theory RhobsApi
  imports Config Kube GoUrl
begin

text \<open>
  Access to the RHOBS APIs: the first half of \<^verbatim>\<open>pkg/verifiers/rhobs.go\<close>, from
  \<open>RHOBSConfig\<close> to \<open>queryRHOBSMetrics\<close>. The HTTP client is a function from requests to
  answers, and every request is an event of the history. The scanner of \<open>encoding/json\<close> is a
  parameter: \<open>UnmarshalText\<close> parses a whole text, \<open>DecodeBody\<close> the first value of a body whose
  reading may break off with an error. \<open>time.Sleep\<close> is \<open>sleep\<close>.
\<close>

subsection \<open>Configuration\<close>

record RHOBSConfig =
  ProbeAPIURL :: string
  MetricsAPIURL :: string
  OIDCClientID :: string
  OIDCClientSecret :: string
  OIDCIssuerURL :: string

definition NewRHOBSConfig :: "Config \<Rightarrow> RHOBSConfig" where
  "NewRHOBSConfig cfg =
     \<lparr>ProbeAPIURL = RHOBSProbeAPIURL cfg, MetricsAPIURL = RHOBSMetricsAPIURL cfg,
      OIDCClientID = RHOBSOIDCClientID cfg, OIDCClientSecret = RHOBSOIDCClientSecret cfg,
      OIDCIssuerURL = RHOBSOIDCIssuerURL cfg\<rparr>"

definition IsConfigured :: "RHOBSConfig \<Rightarrow> bool" where
  "IsConfigured rc \<longleftrightarrow>
     ProbeAPIURL rc \<noteq> [] \<and> OIDCClientID rc \<noteq> [] \<and> OIDCClientSecret rc \<noteq> [] \<and> OIDCIssuerURL rc \<noteq> []"

subsection \<open>Requests\<close>

record http_request =
  rqMethod :: string
  rqURL :: string
  rqHeaders :: "(string \<times> string) list"
  rqBody :: string
  rqTimeout :: nat \<comment> \<open>the \<open>Timeout\<close> of the client that sends it\<close>

record http_answer =
  rsStatus :: int
  rsBody :: string
  rsReadErr :: "ext_error option" \<comment> \<open>the error that ended the reading of the body\<close>

datatype http_event = EvDo http_request "ext_error + http_answer"

type_synonym 'w rhobs_sys = "('w, http_event) sys"

record 'w rhobs_env =
  Timing :: "'w timing"
  NewHTTPRequest :: "string \<Rightarrow> string \<Rightarrow> ext_error option" \<comment> \<open>method and URL\<close>
  ClientDo :: "http_request \<Rightarrow> ('w, ext_error + http_answer) api"
  UnmarshalText :: "string \<Rightarrow> ext_error + json"
  DecodeBody :: "string \<Rightarrow> ext_error option \<Rightarrow> ext_error + json"

abbreviation do_request ::
  "'w rhobs_env \<Rightarrow> http_request \<Rightarrow> 'w rhobs_sys \<Rightarrow> (ext_error + http_answer) \<times> 'w rhobs_sys" where
  "do_request env rq \<equiv> call (EvDo rq) (ClientDo env rq)"

subsection \<open>Access tokens\<close>

definition token_form :: "RHOBSConfig \<Rightarrow> string" where
  "token_form cfg =
     Values_Encode
       [(''grant_type'', ''client_credentials''), (''client_id'', OIDCClientID cfg),
        (''client_secret'', OIDCClientSecret cfg)]"

definition token_request :: "RHOBSConfig \<Rightarrow> http_request" where
  "token_request cfg =
     \<lparr>rqMethod = ''POST'', rqURL = OIDCIssuerURL cfg,
      rqHeaders = [(''Content-Type'', ''application/x-www-form-urlencoded'')],
      rqBody = token_form cfg, rqTimeout = seconds 10\<rparr>"

text \<open>What one round of the loop leaves: a return, or an error to remember.\<close>

datatype token_outcome = Return "go_error + string" | Failed go_error

definition token_verdict :: "'w rhobs_env \<Rightarrow> nat \<Rightarrow> ext_error + http_answer \<Rightarrow> token_outcome" where
  "token_verdict env attempt answer =
     (case answer of
        Inl e \<Rightarrow> Failed (Errorf ''failed to get access token (attempt %d): %w'' [AInt (int attempt + 1), AExt e])
      | Inr resp \<Rightarrow>
          if 500 \<le> rsStatus resp then
            Failed (Errorf ''OIDC token endpoint returned status %d (attempt %d): %s''
                      [AInt (rsStatus resp), AInt (int attempt + 1), AStr (rsBody resp)])
          else if rsStatus resp \<noteq> 200 then
            Return (Inl (Errorf ''OIDC token endpoint returned status %d: %s''
                           [AInt (rsStatus resp), AStr (rsBody resp)]))
          else
            (case UnmarshalText env (rsBody resp) of
               Inl e \<Rightarrow> Return (Inl (Errorf ''failed to decode token response: %w'' [AExt e]))
             | Inr j \<Rightarrow>
                 (case decode_field ''access_token'' decode_string j of
                    Inl e \<Rightarrow> Return (Inl (Errorf ''failed to decode token response: %w'' [AWrap e]))
                  | Inr tok \<Rightarrow> Return (Inr tok))))"

definition token_attempt ::
  "'w rhobs_env \<Rightarrow> RHOBSConfig \<Rightarrow> nat \<Rightarrow> 'w rhobs_sys \<Rightarrow> token_outcome \<times> 'w rhobs_sys" where
  "token_attempt env cfg attempt s =
     (case NewHTTPRequest env ''POST'' (OIDCIssuerURL cfg) of
        Some e \<Rightarrow> (Return (Inl (Errorf ''failed to create token request: %w'' [AExt e])), s)
      | None \<Rightarrow>
          (case do_request env (token_request cfg) s of (answer, s1) \<Rightarrow> (token_verdict env attempt answer, s1)))"

definition delays :: "nat list" where
  [go_defs]: "delays = [seconds 5, seconds 10, seconds 20]"

text \<open>The rounds from \<open>attempt\<close> on, with the delays that are left.\<close>

fun token_attempts ::
  "'w rhobs_env \<Rightarrow> RHOBSConfig \<Rightarrow> nat \<Rightarrow> nat list \<Rightarrow> 'w rhobs_sys \<Rightarrow> (go_error + string) \<times> 'w rhobs_sys" where
  "token_attempts env cfg attempt [] s =
     (case token_attempt env cfg attempt s of
        (Return r, s1) \<Rightarrow> (r, s1)
      | (Failed lastErr, s1) \<Rightarrow>
          (Inl (Errorf ''failed to get OIDC access token after %d attempts: %w''
                  [AInt (int (length delays) + 1), AWrap lastErr]), s1))"
| "token_attempts env cfg attempt (d # ds) s =
     (case token_attempt env cfg attempt s of
        (Return r, s1) \<Rightarrow> (r, s1)
      | (Failed _, s1) \<Rightarrow> token_attempts env cfg (attempt + 1) ds (sleep (Timing env) d s1))"

definition getOIDCAccessToken ::
  "'w rhobs_env \<Rightarrow> RHOBSConfig \<Rightarrow> 'w rhobs_sys \<Rightarrow> (go_error + string) \<times> 'w rhobs_sys" where
  "getOIDCAccessToken env cfg s = token_attempts env cfg 0 delays s"

subsection \<open>Probes\<close>

record RHOBSProbe =
  ID :: string
  StaticURL :: string
  Labels :: "(string \<times> json) list"
  ProbeStatus :: string

text \<open>Into a \<open>map[string]interface{}\<close>; null gives the nil map.\<close>

definition decode_members :: "json \<Rightarrow> go_error + (string \<times> json) list" where
  "decode_members j =
     (case j of JObj ms \<Rightarrow> Inr ms | JNull \<Rightarrow> Inr [] | _ \<Rightarrow> Inl (unmarshal_type_error j ''map''))"

definition decode_probe :: "json \<Rightarrow> go_error + RHOBSProbe" where
  "decode_probe j =
     (case decode_pair
             (decode_pair (decode_field ''id'' decode_string) (decode_field ''static_url'' decode_string))
             (decode_pair (decode_field ''labels'' decode_members) (decode_field ''status'' decode_string)) j of
        Inl e \<Rightarrow> Inl e
      | Inr ((i, u), (l, st)) \<Rightarrow> Inr \<lparr>ID = i, StaticURL = u, Labels = l, ProbeStatus = st\<rparr>)"

definition decode_wrapper :: "json \<Rightarrow> go_error + RHOBSProbe list" where
  "decode_wrapper = decode_field ''probes'' (decode_list decode_probe)"

text \<open>The body as an array, else as an object around one.\<close>

definition decode_probes :: "'w rhobs_env \<Rightarrow> string \<Rightarrow> go_error + RHOBSProbe list" where
  "decode_probes env body =
     (case UnmarshalText env body of
        Inl e \<Rightarrow> Inl (Errorf ''failed to decode RHOBS API response: %w'' [AExt e])
      | Inr j \<Rightarrow>
          (case decode_list decode_probe j of
             Inr probes \<Rightarrow> Inr probes
           | Inl e \<Rightarrow>
               (case decode_wrapper j of
                  Inr probes \<Rightarrow> Inr probes
                | Inl _ \<Rightarrow> Inl (Errorf ''failed to decode RHOBS API response: %w'' [AWrap e]))))"

definition probes_url :: "RHOBSConfig \<Rightarrow> string \<Rightarrow> string" where
  "probes_url cfg labelSelector =
     (if labelSelector \<noteq> [] then ProbeAPIURL cfg @ ''?label_selector='' @ QueryEscape labelSelector
      else ProbeAPIURL cfg)"

definition bearer :: "string \<Rightarrow> (string \<times> string) list" where
  "bearer accessToken = [(''Authorization'', ''Bearer '' @ accessToken)]"

definition probes_request :: "RHOBSConfig \<Rightarrow> string \<Rightarrow> string \<Rightarrow> http_request" where
  "probes_request cfg labelSelector accessToken =
     \<lparr>rqMethod = ''GET'', rqURL = probes_url cfg labelSelector, rqHeaders = bearer accessToken,
      rqBody = [], rqTimeout = seconds 10\<rparr>"

definition probes_verdict :: "'w rhobs_env \<Rightarrow> ext_error + http_answer \<Rightarrow> go_error + RHOBSProbe list" where
  "probes_verdict env answer =
     (case answer of
        Inl e \<Rightarrow> Inl (Errorf ''failed to query RHOBS API: %w'' [AExt e])
      | Inr resp \<Rightarrow>
          if rsStatus resp \<noteq> 200 then
            Inl (Errorf ''RHOBS API returned status %d: %s'' [AInt (rsStatus resp), AStr (rsBody resp)])
          else
            (case rsReadErr resp of
               Some e \<Rightarrow> Inl (Errorf ''failed to read response body: %w'' [AExt e])
             | None \<Rightarrow> decode_probes env (rsBody resp)))"

definition queryRHOBSProbes ::
  "'w rhobs_env \<Rightarrow> RHOBSConfig \<Rightarrow> string \<Rightarrow> 'w rhobs_sys \<Rightarrow> (go_error + RHOBSProbe list) \<times> 'w rhobs_sys" where
  "queryRHOBSProbes env cfg labelSelector s =
     (case getOIDCAccessToken env cfg s of
        (Inl e, s1) \<Rightarrow> (Inl (Errorf ''failed to get OIDC access token: %w'' [AWrap e]), s1)
      | (Inr accessToken, s1) \<Rightarrow>
          (case NewHTTPRequest env ''GET'' (probes_url cfg labelSelector) of
             Some e \<Rightarrow> (Inl (Errorf ''failed to create request: %w'' [AExt e]), s1)
           | None \<Rightarrow>
               (case do_request env (probes_request cfg labelSelector accessToken) s1 of
                  (answer, s2) \<Rightarrow> (probes_verdict env answer, s2))))"

subsection \<open>Metrics\<close>

definition metrics_url :: "RHOBSConfig \<Rightarrow> string \<Rightarrow> string" where
  "metrics_url cfg query = MetricsAPIURL cfg @ ''/api/v1/query?query='' @ QueryEscape query"

definition metrics_request :: "RHOBSConfig \<Rightarrow> string \<Rightarrow> (string \<times> string) list \<Rightarrow> http_request" where
  "metrics_request cfg query headers =
     \<lparr>rqMethod = ''GET'', rqURL = metrics_url cfg query, rqHeaders = headers, rqBody = [], rqTimeout = seconds 30\<rparr>"

text \<open>The headers of a metrics request, for which a token may have to be fetched.\<close>

definition metrics_headers ::
  "'w rhobs_env \<Rightarrow> RHOBSConfig \<Rightarrow> 'w rhobs_sys \<Rightarrow> (go_error + (string \<times> string) list) \<times> 'w rhobs_sys" where
  "metrics_headers env cfg s =
     (if OIDCClientID cfg \<noteq> [] \<and> OIDCClientSecret cfg \<noteq> [] then
        (case getOIDCAccessToken env cfg s of
           (Inl e, s1) \<Rightarrow> (Inl (Errorf ''failed to get OIDC access token: %w'' [AWrap e]), s1)
         | (Inr accessToken, s1) \<Rightarrow> (Inr (bearer accessToken), s1))
      else (Inr [], s))"

definition metrics_verdict :: "'w rhobs_env \<Rightarrow> ext_error + http_answer \<Rightarrow> go_error + (string \<times> json) list" where
  "metrics_verdict env answer =
     (case answer of
        Inl e \<Rightarrow> Inl (Errorf ''failed to query RHOBS metrics API: %w'' [AExt e])
      | Inr resp \<Rightarrow>
          if rsStatus resp \<noteq> 200 then
            Inl (Errorf ''RHOBS metrics API returned status %d: %s'' [AInt (rsStatus resp), AStr (rsBody resp)])
          else
            (case DecodeBody env (rsBody resp) (rsReadErr resp) of
               Inl e \<Rightarrow> Inl (Errorf ''failed to decode metrics response: %w'' [AExt e])
             | Inr j \<Rightarrow>
                 (case decode_members j of
                    Inl e \<Rightarrow> Inl (Errorf ''failed to decode metrics response: %w'' [AWrap e])
                  | Inr result \<Rightarrow> Inr result)))"

definition queryRHOBSMetrics ::
  "'w rhobs_env \<Rightarrow> RHOBSConfig \<Rightarrow> string \<Rightarrow> 'w rhobs_sys \<Rightarrow> (go_error + (string \<times> json) list) \<times> 'w rhobs_sys" where
  "queryRHOBSMetrics env cfg query s =
     (case NewHTTPRequest env ''GET'' (metrics_url cfg query) of
        Some e \<Rightarrow> (Inl (Errorf ''failed to create request: %w'' [AExt e]), s)
      | None \<Rightarrow>
          (case metrics_headers env cfg s of
             (Inl e, s1) \<Rightarrow> (Inl e, s1)
           | (Inr headers, s1) \<Rightarrow>
               (case do_request env (metrics_request cfg query headers) s1 of
                  (answer, s2) \<Rightarrow> (metrics_verdict env answer, s2))))"

end
