(* ===== verification/GoFloat.thy ===== *)
theory GoFloat
  imports Complex_Main GoStrings
begin

text \<open>
  Go's \<open>float64\<close>: IEEE 754 binary64 with rounding to the nearest value, ties to even. A
  finite value is the rational number it stands for; the sign of a zero is not kept (no
  operation of the program can observe it: it never divides by a zero). Below is the
  arithmetic the program uses and the reading of \<open>fmt.Sscanf\<close> with the verb \<open>%f\<close>.
\<close>

subsection \<open>Values and rounding\<close>

datatype float64 = NaN | Infinite (negative: bool) | Fin rat

fun bits :: "nat \<Rightarrow> nat" where
  "bits n = (if n = 0 then 0 else Suc (bits (n div 2)))"

declare bits.simps [simp del]

definition pow2 :: "int \<Rightarrow> rat" where
  "pow2 e = (if 0 \<le> e then 2 ^ nat e else 1 / 2 ^ nat (- e))"

text \<open>The exponent of a positive number: the greatest \<open>e\<close> with \<open>pow2 e \<le> x\<close>.\<close>

definition exponent :: "rat \<Rightarrow> int" where
  "exponent x =
     (case quotient_of x of (p, q) \<Rightarrow>
        (let e = int (bits (nat p)) - int (bits (nat q)) in if pow2 e \<le> x then e else e - 1))"

definition round_half_even :: "rat \<Rightarrow> int" where
  "round_half_even x =
     (let n = \<lfloor>x\<rfloor>; r = x - of_int n
      in if r < 1 / 2 then n else if 1 / 2 < r then n + 1 else if even n then n else n + 1)"

text \<open>53 bits of precision, the least unit \<open>pow2 (- 1074)\<close>, everything below \<open>pow2 1024\<close>.\<close>

definition round64 :: "rat \<Rightarrow> float64" where
  "round64 x =
     (if x = 0 then Fin 0
      else (let u = max (exponent \<bar>x\<bar> - 52) (- 1074);
                n = round_half_even (\<bar>x\<bar> / pow2 u)
            in if 971 < u \<or> u = 971 \<and> 2 ^ 53 \<le> n then Infinite (x < 0)
               else Fin ((if x < 0 then - 1 else 1) * (of_int n * pow2 u))))"

subsection \<open>Arithmetic and comparison\<close>

fun fsub :: "float64 \<Rightarrow> float64 \<Rightarrow> float64" where
  "fsub (Fin x) (Fin y) = round64 (x - y)"
| "fsub (Infinite m) (Fin y) = Infinite m"
| "fsub (Fin x) (Infinite n) = Infinite (\<not> n)"
| "fsub (Infinite m) (Infinite n) = (if m = n then NaN else Infinite m)"
| "fsub NaN _ = NaN"
| "fsub _ NaN = NaN"

text \<open>Division by a positive value.\<close>

fun fdiv :: "float64 \<Rightarrow> float64 \<Rightarrow> float64" where
  "fdiv (Fin x) (Fin y) = round64 (x / y)"
| "fdiv (Infinite m) (Fin y) = Infinite m"
| "fdiv (Fin x) (Infinite n) = Fin 0"
| "fdiv (Infinite m) (Infinite n) = NaN"
| "fdiv NaN _ = NaN"
| "fdiv _ NaN = NaN"

text \<open>Multiplication by a positive finite constant.\<close>

fun fscale :: "float64 \<Rightarrow> rat \<Rightarrow> float64" where
  "fscale (Fin x) k = round64 (x * k)"
| "fscale (Infinite m) k = Infinite m"
| "fscale NaN k = NaN"

fun fle :: "float64 \<Rightarrow> float64 \<Rightarrow> bool" where
  "fle (Fin x) (Fin y) \<longleftrightarrow> x \<le> y"
| "fle (Infinite m) (Infinite n) \<longleftrightarrow> m \<or> \<not> n"
| "fle (Infinite m) (Fin y) \<longleftrightarrow> m"
| "fle (Fin x) (Infinite n) \<longleftrightarrow> \<not> n"
| "fle NaN _ \<longleftrightarrow> False"
| "fle _ NaN \<longleftrightarrow> False"

definition fpos :: "float64 \<Rightarrow> bool" where
  "fpos x \<longleftrightarrow> (case x of Fin r \<Rightarrow> 0 < r | Infinite m \<Rightarrow> \<not> m | NaN \<Rightarrow> False)"

subsection \<open>Reading a number\<close>

text \<open>
  The scanner takes the longest token its automaton accepts: \<open>accept cs\<close> moves one byte of
  \<open>cs\<close> from the input to the token, and a sequence of them that breaks off leaves what it
  has moved. The rest of the input is not looked at. In the token, a hexadecimal mantissa,
  a binary exponent and underscores between digits are outside the model (they are read as
  a syntax error); Prometheus writes none of them.
\<close>

definition accept :: "string \<Rightarrow> string \<times> string \<Rightarrow> bool \<times> (string \<times> string)" where
  "accept cs st =
     (case st of
        (tok, c # rest) \<Rightarrow> if c \<in> set cs then (True, (tok @ [c], rest)) else (False, st)
      | _ \<Rightarrow> (False, st))"

fun accept_seq :: "string list \<Rightarrow> string \<times> string \<Rightarrow> bool \<times> (string \<times> string)" where
  "accept_seq [] st = (True, st)"
| "accept_seq (cs # css) st =
     (case accept cs st of (False, st1) \<Rightarrow> (False, st1) | (True, st1) \<Rightarrow> accept_seq css st1)"

definition accept_many :: "string \<Rightarrow> string \<times> string \<Rightarrow> string \<times> string" where
  "accept_many cs st =
     (case st of (tok, rest) \<Rightarrow>
        (tok @ takeWhile (\<lambda>c. c \<in> set cs) rest, dropWhile (\<lambda>c. c \<in> set cs) rest))"

definition floatToken :: "string \<Rightarrow> string" where
  "floatToken input =
     (case accept_seq [''nN'', ''aA'', ''nN''] ([], input) of
        (True, (tok, _)) \<Rightarrow> tok
      | (False, st) \<Rightarrow>
          (case accept_seq [''iI'', ''nN'', ''fF''] (snd (accept ''+-'' st)) of
             (True, (tok, _)) \<Rightarrow> tok
           | (False, st1) \<Rightarrow>
               (case accept_seq [''0'', ''xX''] st1 of (hex, st2) \<Rightarrow>
                  (let digits = (if hex then ''0123456789aAbBcCdDeEfF_'' else ''0123456789_'');
                       st3 = accept_many digits st2;
                       st4 = (case accept ''.'' st3 of (True, st) \<Rightarrow> accept_many digits st | (False, st) \<Rightarrow> st);
                       st5 = (case accept (if hex then ''pP'' else ''eEpP'') st4 of
                                (True, st) \<Rightarrow> accept_many ''0123456789_'' (snd (accept ''+-'' st))
                              | (False, st) \<Rightarrow> st)
                   in fst st5))))"

definition is_digit :: "char \<Rightarrow> bool" where
  "is_digit c \<longleftrightarrow> digit_val c \<noteq> None"

text \<open>An exponent beyond four digits is cut there, as \<open>strconv\<close> does.\<close>

fun exponent_val :: "int \<Rightarrow> string \<Rightarrow> int" where
  "exponent_val acc [] = acc"
| "exponent_val acc (c # cs) =
     exponent_val (if acc < 10000 then 10 * acc + (case digit_val c of None \<Rightarrow> 0 | Some d \<Rightarrow> d) else acc) cs"

definition take_sign :: "string \<Rightarrow> bool \<times> string" where
  "take_sign s =
     (case s of c # cs \<Rightarrow> if c = CHR ''+'' \<or> c = CHR ''-'' then (c = CHR ''-'', cs) else (False, s)
      | [] \<Rightarrow> (False, s))"

definition parse_exponent :: "string \<Rightarrow> int option" where
  "parse_exponent s =
     (case s of
        [] \<Rightarrow> Some 0
      | c # cs \<Rightarrow>
          if c = CHR ''e'' \<or> c = CHR ''E'' then
            (case take_sign cs of (neg, ds) \<Rightarrow>
               if ds \<noteq> [] \<and> list_all is_digit ds
               then Some (if neg then - exponent_val 0 ds else exponent_val 0 ds) else None)
          else None)"

definition pow10 :: "int \<Rightarrow> rat" where
  "pow10 e = (if 0 \<le> e then 10 ^ nat e else 1 / 10 ^ nat (- e))"

definition ParseFloat :: "string \<Rightarrow> num_error + float64" where
  "ParseFloat s =
     (case take_sign s of (neg, body) \<Rightarrow>
        if ToLower s = ''nan'' then Inr NaN
        else if ToLower body = ''inf'' \<or> ToLower body = ''infinity'' then Inr (Infinite neg)
        else
          (let ip = takeWhile is_digit body; r = dropWhile is_digit body;
               dot = (r \<noteq> [] \<and> hd r = CHR ''.'');
               fp = (if dot then takeWhile is_digit (tl r) else []);
               r1 = (if dot then dropWhile is_digit (tl r) else r)
           in case (digits_val 0 (ip @ fp), parse_exponent r1) of
                (Some m, Some e) \<Rightarrow>
                  if ip @ fp = [] then Inl ErrSyntax
                  else (case round64 (of_int (if neg then - m else m) * pow10 (e - int (length fp))) of
                          Infinite _ \<Rightarrow> Inl ErrRange
                        | f \<Rightarrow> Inr f)
              | _ \<Rightarrow> Inl ErrSyntax))"

text \<open>\<open>fmt.Sscanf(s, "%f", &f)\<close>: spaces but no newline may come first.\<close>

definition Sscanf_f :: "string \<Rightarrow> go_error + float64" where
  "Sscanf_f s =
     (let input = strip_leading (filter (\<lambda>p. p \<noteq> [char_of (10 :: nat)]) unicode_spaces) s
      in if input = [] then Inl (Errorf ''unexpected EOF'' [])
         else if hd input = char_of (10 :: nat) then Inl (Errorf ''unexpected newline'' [])
         else (let tok = floatToken input
               in case ParseFloat tok of
                    Inr f \<Rightarrow> Inr f
                  | Inl e \<Rightarrow>
                      Inl (Errorf ''strconv.ParseFloat: parsing %q: %s''
                             [AStr tok, AStr (case e of ErrSyntax \<Rightarrow> ''invalid syntax'' | ErrRange \<Rightarrow> ''value out of range'')])))"

subsection \<open>Signs survive rounding\<close>

lemma round_half_even_nonneg: "0 \<le> x \<Longrightarrow> 0 \<le> round_half_even x"
  using zero_le_floor [of x] by (simp add: round_half_even_def Let_def)

lemma pow2_pos [simp]: "0 < pow2 e"
  by (simp add: pow2_def)

lemma magnitude_nonneg: "0 \<le> (of_int (round_half_even (\<bar>x\<bar> / pow2 u)) * pow2 u :: rat)"
  using round_half_even_nonneg [of "\<bar>x\<bar> / pow2 u"] pow2_pos [of u]
  by (simp add: divide_nonneg_pos less_imp_le)

lemma round64_nonpos: "x \<le> 0 \<Longrightarrow> fle (round64 x) (Fin 0)"
  using magnitude_nonneg [of x] by (auto simp: round64_def Let_def)

lemma round64_nonneg: "0 \<le> x \<Longrightarrow> fle (Fin 0) (round64 x)"
  using magnitude_nonneg [of x] by (auto simp: round64_def Let_def)

lemma round64_not_NaN [simp]: "round64 x \<noteq> NaN"
  by (simp add: round64_def Let_def)

lemma fle_trans: "fle a b \<Longrightarrow> fle b c \<Longrightarrow> fle a c"
  by (cases a; cases b; cases c) auto

lemma fdiv_nonpos: "fle x (Fin 0) \<Longrightarrow> fpos (Fin b) \<Longrightarrow> fle (fdiv x (Fin b)) (Fin 0)"
  by (cases x) (auto simp: fpos_def divide_nonpos_pos intro: round64_nonpos)

lemma fscale_nonpos: "fle x (Fin 0) \<Longrightarrow> 0 < k \<Longrightarrow> fle (fscale x k) (Fin 0)"
  by (cases x) (auto simp: mult_nonpos_nonneg intro: round64_nonpos)

end
