(* ===== verification/Rhobs.thy ===== *)
theory Rhobs
  imports RhobsApi GoFloat
begin

text \<open>
  The verifiers over the RHOBS APIs: the second half of \<^verbatim>\<open>pkg/verifiers/rhobs.go\<close>. A result of
  the metrics API is the list of the members of its JSON object. A map the code ranges over
  is either the list of its entries in the order of the iteration (the expected labels) or a
  map together with a parameter that lists its keys (the series per metric).
\<close>

subsection \<open>Texts\<close>

definition dquote :: "string \<Rightarrow> string" where
  "dquote s = CHR 0x22 # s @ [CHR 0x22]"

definition em_dash :: string where
  "em_dash = [char_of (0xE2 :: nat), char_of (0x80 :: nat), char_of (0x94 :: nat)]"

definition id_query :: "string \<Rightarrow> string \<Rightarrow> string" where
  "id_query metric clusterID = metric @ ''{_id='' @ dquote clusterID @ ''}''"

definition cluster_selector :: "string \<Rightarrow> string" where
  "cluster_selector clusterID = ''cluster-id='' @ clusterID"

subsection \<open>Probes\<close>

definition probe_verdict :: "string \<Rightarrow> bool \<Rightarrow> RHOBSProbe \<Rightarrow> go_error option" where
  "probe_verdict clusterID expectedPrivate probe =
     (if get_string (Labels probe) ''cluster-id'' \<noteq> Some clusterID then
        Some (Errorf ''probe has incorrect cluster-id label: got %v, want %s''
                [AJson (obj_get (Labels probe) ''cluster-id''), AStr clusterID])
      else
        (case get_string (Labels probe) ''private'' of
           None \<Rightarrow> Some (Errorf ''probe missing private label'' [])
         | Some privateLabel \<Rightarrow>
             (let expectedPrivateStr = (if expectedPrivate then ''true'' else ''false'')
              in if privateLabel \<noteq> expectedPrivateStr then
                   Some (Errorf ''probe has incorrect private label: got %s, want %s''
                           [AStr privateLabel, AStr expectedPrivateStr])
                 else None)))"

definition VerifyRHOBSProbeExists ::
  "'w rhobs_env \<Rightarrow> string \<Rightarrow> bool \<Rightarrow> RHOBSConfig \<Rightarrow> 'w rhobs_sys \<Rightarrow> go_error option \<times> 'w rhobs_sys" where
  "VerifyRHOBSProbeExists env clusterID expectedPrivate cfg s =
     (case queryRHOBSProbes env cfg (cluster_selector clusterID) s of
        (Inl e, s1) \<Rightarrow> (Some (Errorf ''querying RHOBS API for cluster %s: %w'' [AStr clusterID, AWrap e]), s1)
      | (Inr probes, s1) \<Rightarrow>
          (case probes of
             [] \<Rightarrow> Some (Errorf ''no probe found for cluster %s'' [AStr clusterID])
           | [probe] \<Rightarrow> probe_verdict clusterID expectedPrivate probe
           | _ \<Rightarrow> Some (Errorf ''expected 1 probe for cluster %s, found %d''
                          [AStr clusterID, AInt (int (length probes))]), s1))"

fun check_labels :: "(string \<times> json) list \<Rightarrow> (string \<times> string) list \<Rightarrow> go_error option" where
  "check_labels labels [] = None"
| "check_labels labels ((key, expectedValue) # expected) =
     (case get_string labels key of
        None \<Rightarrow> Some (Errorf ''probe missing label %s'' [AStr key])
      | Some actualValue \<Rightarrow>
          if actualValue \<noteq> expectedValue then
            Some (Errorf ''probe label %s: got %s, want %s'' [AStr key, AStr actualValue, AStr expectedValue])
          else check_labels labels expected)"

definition VerifyProbeLabels ::
  "'w rhobs_env \<Rightarrow> string \<Rightarrow> (string \<times> string) list \<Rightarrow> RHOBSConfig \<Rightarrow> 'w rhobs_sys \<Rightarrow>
   go_error option \<times> 'w rhobs_sys" where
  "VerifyProbeLabels env clusterID expectedLabels cfg s =
     (case queryRHOBSProbes env cfg (cluster_selector clusterID) s of
        (Inl e, s1) \<Rightarrow> (Some (Errorf ''querying RHOBS API: %w'' [AWrap e]), s1)
      | (Inr probes, s1) \<Rightarrow>
          (case probes of
             [] \<Rightarrow> Some (Errorf ''no probe found for cluster %s'' [AStr clusterID])
           | probe # _ \<Rightarrow> check_labels (Labels probe) expectedLabels, s1))"

subsection \<open>Values of a metrics result\<close>

definition extractScalarValue :: "(string \<times> json) list \<Rightarrow> go_error + float64" where
  "extractScalarValue result =
     (case get_object result ''data'' of
        None \<Rightarrow> Inl (Errorf ''no data in response'' [])
      | Some data \<Rightarrow>
          (case get_array data ''result'' of
             Some (item # _) \<Rightarrow>
               (case as_object item of
                  None \<Rightarrow> Inl (Errorf ''unexpected result format'' [])
                | Some first \<Rightarrow>
                    (case get_array first ''value'' of
                       Some (_ # v # _) \<Rightarrow>
                         (case v of
                            JStr strVal \<Rightarrow>
                              (case Sscanf_f strVal of
                                 Inl e \<Rightarrow> Inl (Errorf ''failed to parse value %q: %w'' [AStr strVal, AWrap e])
                               | Inr f \<Rightarrow> Inr f)
                          | _ \<Rightarrow> Inl (Errorf ''value is not a string: %v'' [AJson (Some v)]))
                     | _ \<Rightarrow> Inl (Errorf ''no value in result'' [])))
           | _ \<Rightarrow> Inl (Errorf ''empty result set'' [])))"

text \<open>The entry an item of the result sets in the map, if any.\<close>

definition vector_sample :: "string \<Rightarrow> json \<Rightarrow> (string \<times> float64) option" where
  "vector_sample labelKey item =
     (case as_object item of
        None \<Rightarrow> None
      | Some entry \<Rightarrow>
          (case get_object entry ''metric'' of
             None \<Rightarrow> None
           | Some metric \<Rightarrow>
               (case get_array entry ''value'' of
                  Some (_ # v # _) \<Rightarrow>
                    (case Sscanf_f (case v of JStr strVal \<Rightarrow> strVal | _ \<Rightarrow> []) of
                       Inl _ \<Rightarrow> None
                     | Inr f \<Rightarrow> Some (str_of metric labelKey, f))
                | _ \<Rightarrow> None)))"

fun vector_values :: "string \<Rightarrow> json list \<Rightarrow> (string \<rightharpoonup> float64) \<Rightarrow> (string \<rightharpoonup> float64)" where
  "vector_values labelKey [] values = values"
| "vector_values labelKey (item # items) values =
     (case vector_sample labelKey item of
        None \<Rightarrow> vector_values labelKey items values
      | Some (label, f) \<Rightarrow> vector_values labelKey items (values(label \<mapsto> f)))"

definition extractVectorValues ::
  "(string \<times> json) list \<Rightarrow> string \<Rightarrow> go_error + (string \<rightharpoonup> float64)" where
  "extractVectorValues result labelKey =
     (case get_object result ''data'' of
        None \<Rightarrow> Inl (Errorf ''no data in response'' [])
      | Some data \<Rightarrow>
          (case get_array data ''result'' of
             None \<Rightarrow> Inl (Errorf ''no result array in response'' [])
           | Some items \<Rightarrow> Inr (vector_values labelKey items Map.empty)))"

subsection \<open>The cardinality gate\<close>

record CardinalityResult =
  MetricName :: string
  Current :: float64
  Baseline :: float64
  DeltaPct :: float64
  Threshold :: float64
  Passed :: bool

definition delta_pct :: "float64 \<Rightarrow> float64 \<Rightarrow> float64" where
  "delta_pct current baseline =
     (if fpos baseline then fscale (fdiv (fsub current baseline) baseline) 100 else Fin 0)"

definition growth_result :: "string \<Rightarrow> float64 \<Rightarrow> float64 \<Rightarrow> float64 \<Rightarrow> CardinalityResult" where
  "growth_result metric maxDeltaPct current baseline =
     (let deltaPct = delta_pct current baseline
      in \<lparr>MetricName = metric, Current = current, Baseline = baseline, DeltaPct = deltaPct,
          Threshold = maxDeltaPct, Passed = fle deltaPct maxDeltaPct\<rparr>)"

text \<open>
  The two comparisons with the state of two hours ago differ in their queries, in the name of
  the metric and in what the errors call it.
\<close>

definition growth_check ::
  "'w rhobs_env \<Rightarrow> RHOBSConfig \<Rightarrow> string \<Rightarrow> string \<Rightarrow> string \<Rightarrow> string \<Rightarrow> float64 \<Rightarrow> 'w rhobs_sys \<Rightarrow>
   (go_error + CardinalityResult) \<times> 'w rhobs_sys" where
  "growth_check env cfg what metric currentQuery baselineQuery maxDeltaPct s =
     (case queryRHOBSMetrics env cfg currentQuery s of
        (Inl e, s1) \<Rightarrow> (Inl (Errorf (''querying current '' @ what @ '': %w'') [AWrap e]), s1)
      | (Inr currentResult, s1) \<Rightarrow>
          (case queryRHOBSMetrics env cfg baselineQuery s1 of
             (Inl e, s2) \<Rightarrow> (Inl (Errorf (''querying baseline '' @ what @ '': %w'') [AWrap e]), s2)
           | (Inr baselineResult, s2) \<Rightarrow>
               (case extractScalarValue currentResult of
                  Inl e \<Rightarrow> Inl (Errorf (''extracting current '' @ what @ '': %w'') [AWrap e])
                | Inr current \<Rightarrow>
                    (case extractScalarValue baselineResult of
                       Inl e \<Rightarrow> Inl (Errorf (''extracting baseline '' @ what @ '': %w'') [AWrap e])
                     | Inr baseline \<Rightarrow> Inr (growth_result metric maxDeltaPct current baseline)), s2)))"

definition head_series_query :: "string \<Rightarrow> string" where
  "head_series_query offset =
     ''sum(prometheus_tsdb_head_series{container='' @ dquote ''prometheus'' @ ''}'' @ offset @ '')''"

definition remote_write_query :: "string \<Rightarrow> string" where
  "remote_write_query offset = ''sum(rate(prometheus_remote_storage_samples_total[5m]'' @ offset @ ''))''"

definition per_metric_query :: string where
  "per_metric_query = ''topk(10, count by (__name__) ({source='' @ dquote ''MC'' @ ''}))''"

definition two_hours_ago :: string where
  "two_hours_ago = '' offset 2h''"

type_synonym metric_order = "(string \<rightharpoonup> float64) \<Rightarrow> string list"

definition series_result :: "float64 \<Rightarrow> string \<Rightarrow> float64 \<Rightarrow> CardinalityResult" where
  "series_result maxSeriesPerMetric name count =
     \<lparr>MetricName = name, Current = count, Baseline = Fin 0, DeltaPct = Fin 0,
      Threshold = maxSeriesPerMetric, Passed = fle count maxSeriesPerMetric\<rparr>"

definition per_metric_results ::
  "metric_order \<Rightarrow> float64 \<Rightarrow> (string \<rightharpoonup> float64) \<Rightarrow> CardinalityResult list" where
  "per_metric_results order maxSeriesPerMetric perMetric =
     List.map_filter (\<lambda>name. map_option (series_result maxSeriesPerMetric name) (perMetric name)) (order perMetric)"

definition per_metric_check ::
  "metric_order \<Rightarrow> 'w rhobs_env \<Rightarrow> RHOBSConfig \<Rightarrow> float64 \<Rightarrow> 'w rhobs_sys \<Rightarrow>
   (go_error + CardinalityResult list) \<times> 'w rhobs_sys" where
  "per_metric_check order env cfg maxSeriesPerMetric s =
     (case queryRHOBSMetrics env cfg per_metric_query s of
        (Inl e, s1) \<Rightarrow> (Inl (Errorf ''querying per-metric cardinality: %w'' [AWrap e]), s1)
      | (Inr perMetricResult, s1) \<Rightarrow>
          (case extractVectorValues perMetricResult ''__name__'' of
             Inl e \<Rightarrow> Inl (Errorf ''extracting per-metric cardinality: %w'' [AWrap e])
           | Inr perMetric \<Rightarrow> Inr (per_metric_results order maxSeriesPerMetric perMetric), s1))"

definition VerifyCardinalityThreshold ::
  "metric_order \<Rightarrow> 'w rhobs_env \<Rightarrow> RHOBSConfig \<Rightarrow> float64 \<Rightarrow> float64 \<Rightarrow> 'w rhobs_sys \<Rightarrow>
   (go_error + CardinalityResult list) \<times> 'w rhobs_sys" where
  "VerifyCardinalityThreshold order env cfg maxDeltaPct maxSeriesPerMetric s =
     (case growth_check env cfg ''TSDB head series'' ''prometheus_tsdb_head_series''
             (head_series_query []) (head_series_query two_hours_ago) maxDeltaPct s of
        (Inl e, s1) \<Rightarrow> (Inl e, s1)
      | (Inr head, s1) \<Rightarrow>
          (case growth_check env cfg ''remote-write rate'' ''prometheus_remote_storage_samples_total (rate)''
                  (remote_write_query []) (remote_write_query two_hours_ago) maxDeltaPct s1 of
             (Inl e, s2) \<Rightarrow> (Inl e, s2)
           | (Inr rw, s2) \<Rightarrow>
               (case per_metric_check order env cfg maxSeriesPerMetric s2 of
                  (Inl e, s3) \<Rightarrow> (Inl e, s3)
                | (Inr rest, s3) \<Rightarrow> (Inr (head # rw # rest), s3))))"

subsection \<open>Probe metrics and recording rules\<close>

text \<open>\<open>resultData, ok := data["result"].([]interface{}); !ok || len(resultData) == 0\<close>.\<close>

definition empty_result :: "(string \<times> json) list \<Rightarrow> bool" where
  "empty_result data \<longleftrightarrow> (case get_array data ''result'' of None \<Rightarrow> True | Some items \<Rightarrow> items = [])"

definition VerifyProbeSuccessMetrics ::
  "'w rhobs_env \<Rightarrow> string \<Rightarrow> RHOBSConfig \<Rightarrow> 'w rhobs_sys \<Rightarrow> go_error option \<times> 'w rhobs_sys" where
  "VerifyProbeSuccessMetrics env clusterID cfg s =
     (case queryRHOBSMetrics env cfg (id_query ''probe_success'' clusterID) s of
        (Inl e, s1) \<Rightarrow> (Some (Errorf ''querying probe_success metrics: %w'' [AWrap e]), s1)
      | (Inr result, s1) \<Rightarrow>
          (if get_string result ''status'' \<noteq> Some ''success'' then
             Some (Errorf ''metrics query failed: %v'' [AJson (Some (JObj result))])
           else
             (case get_object result ''data'' of
                None \<Rightarrow> Some (Errorf ''no data in metrics response'' [])
              | Some data \<Rightarrow>
                  if empty_result data then
                    Some (Errorf ''no probe_success metrics found for cluster %s'' [AStr clusterID])
                  else None), s1))"

definition probeSuccessDataExists ::
  "'w rhobs_env \<Rightarrow> string \<Rightarrow> RHOBSConfig \<Rightarrow> 'w rhobs_sys \<Rightarrow> (go_error + bool) \<times> 'w rhobs_sys" where
  "probeSuccessDataExists env clusterID cfg s =
     (case queryRHOBSMetrics env cfg (id_query ''probe_success'' clusterID) s of
        (Inl e, s1) \<Rightarrow> (Inl (Errorf ''querying probe_success metrics: %w'' [AWrap e]), s1)
      | (Inr result, s1) \<Rightarrow>
          (if get_string result ''status'' \<noteq> Some ''success'' then
             Inl (Errorf ''probe_success query returned non-success status: %v'' [AJson (obj_get result ''status'')])
           else
             (case get_object result ''data'' of
                None \<Rightarrow> Inr False
              | Some data \<Rightarrow> Inr (\<not> empty_result data)), s1))"

text \<open>The check of one recording rule, given what the probe for data returned.\<close>

definition rule_check ::
  "'w rhobs_env \<Rightarrow> string \<Rightarrow> RHOBSConfig \<Rightarrow> go_error + bool \<Rightarrow> string \<Rightarrow> 'w rhobs_sys \<Rightarrow>
   go_error option \<times> 'w rhobs_sys" where
  "rule_check env clusterID cfg probeData rule s =
     (case queryRHOBSMetrics env cfg (id_query rule clusterID) s of
        (Inl e, s1) \<Rightarrow> (Some (Errorf (''querying '' @ rule @ '': %w'') [AWrap e]), s1)
      | (Inr result, s1) \<Rightarrow>
          (if get_string result ''status'' \<noteq> Some ''success'' then
             Some (Errorf (rule @ '' query failed: %v'') [AJson (Some (JObj result))])
           else
             (case get_object result ''data'' of
                None \<Rightarrow> Some (Errorf (''no data in '' @ rule @ '' response'') [])
              | Some data \<Rightarrow>
                  if empty_result data then
                    (if probeData = Inr False then
                       Some (Errorf (''probe_success metrics not yet available for cluster %s '' @ em_dash @
                               '' recording rule '' @ rule @ '' cannot evaluate without underlying probe data'')
                               [AStr clusterID])
                     else Some (Errorf (rule @ '' recording rule not evaluating for cluster %s'') [AStr clusterID]))
                  else None), s1))"

definition VerifyRecordingRules ::
  "'w rhobs_env \<Rightarrow> string \<Rightarrow> RHOBSConfig \<Rightarrow> 'w rhobs_sys \<Rightarrow> go_error option \<times> 'w rhobs_sys" where
  "VerifyRecordingRules env clusterID cfg s =
     (case probeSuccessDataExists env clusterID cfg s of (probeData, s1) \<Rightarrow>
        (case rule_check env clusterID cfg probeData ''sre:hcp:probe_active'' s1 of
           (Some e, s2) \<Rightarrow> (Some e, s2)
         | (None, s2) \<Rightarrow> rule_check env clusterID cfg probeData ''sre:hcp:blackbox_probe_active'' s2))"

end
