(* ===== verification/RhobsProperties.thy ===== *)
theory RhobsProperties
  imports Rhobs
begin

text \<open>
  What the RHOBS verifiers establish. The token loop is proved once by induction on the
  delays that are left; a query is then described by what it appends to the history (a
  run of token requests, then at most one GET) and by the answer to the GET; the
  verifiers' properties are read off those two descriptions.
\<close>

subsection \<open>The token loop\<close>

abbreviation token_events :: "RHOBSConfig \<Rightarrow> (ext_error + http_answer) list \<Rightarrow> http_event list" where
  "token_events cfg \<equiv> map (EvDo (token_request cfg))"

text \<open>The answers after which the loop goes on.\<close>

definition retriable :: "ext_error + http_answer \<Rightarrow> bool" where
  "retriable answer \<longleftrightarrow> (case answer of Inl _ \<Rightarrow> True | Inr resp \<Rightarrow> 500 \<le> rsStatus resp)"

definition token_in :: "'w rhobs_env \<Rightarrow> ext_error + http_answer \<Rightarrow> string \<Rightarrow> bool" where
  "token_in env answer tok \<longleftrightarrow>
     (\<exists>resp j. answer = Inr resp \<and> rsStatus resp = 200 \<and> UnmarshalText env (rsBody resp) = Inr j \<and>
        decode_field ''access_token'' decode_string j = Inr tok)"

lemma token_verdict_Failed: "(\<exists>e. token_verdict env n answer = Failed e) \<longleftrightarrow> retriable answer"
  by (auto simp: token_verdict_def retriable_def split: sum.splits)

lemma token_verdict_Inr: "token_verdict env n answer = Return (Inr tok) \<longleftrightarrow> token_in env answer tok"
  by (auto simp: token_verdict_def token_in_def split: sum.splits)

lemma token_attempts_run:
  assumes "NewHTTPRequest env ''POST'' (OIDCIssuerURL cfg) = None"
    and "token_attempts env cfg n ds s = (r, s')"
  shows "\<exists>failed final. hist s' = hist s @ token_events cfg (failed @ [final]) \<and>
     list_all retriable failed \<and> length failed \<le> length ds \<and>
     (retriable final \<longrightarrow> length failed = length ds) \<and>
     (\<forall>tok. r = Inr tok \<longleftrightarrow> token_in env final tok) \<and>
     now s + sum_list (take (length failed) ds) \<le> now s'"
  using assms(2)
proof (induction ds arbitrary: n s)
  case Nil
  obtain final s1 where c: "do_request env (token_request cfg) s = (final, s1)"
    by (cases "do_request env (token_request cfg) s")
  have "r = (case token_verdict env n final of Return r' \<Rightarrow> r' | Failed e \<Rightarrow>
      Inl (Errorf ''failed to get OIDC access token after %d attempts: %w'' [AInt (int (length delays) + 1), AWrap e]))"
    and s': "s' = s1"
    using Nil assms(1) c by (auto simp: token_attempt_def split: token_outcome.splits)
  then have "\<forall>tok. r = Inr tok \<longleftrightarrow> token_in env final tok"
    using token_verdict_Inr [of env n final] by (auto split: token_outcome.splits)
  with hist_call [OF c] now_call [OF c] s' show ?case
    by (intro exI [where x = "[]"] exI [where x = final]) simp
next
  case (Cons d ds)
  obtain a s1 where c: "do_request env (token_request cfg) s = (a, s1)"
    by (cases "do_request env (token_request cfg) s")
  show ?case
  proof (cases "token_verdict env n a")
    case (Return r')
    with Cons.prems assms(1) c have "r = r'" "s' = s1" by (auto simp: token_attempt_def)
    with Return hist_call [OF c] now_call [OF c] show ?thesis
      using token_verdict_Inr [of env n a] token_verdict_Failed [of env n a]
      by (intro exI [where x = "[]"] exI [where x = a]) auto
  next
    case (Failed e)
    let ?s2 = "sleep (Timing env) d s1"
    from Failed Cons.prems assms(1) c have "token_attempts env cfg (n + 1) ds ?s2 = (r, s')"
      by (simp add: token_attempt_def)
    from Cons.IH [OF this] obtain failed final where ih:
      "hist s' = hist ?s2 @ token_events cfg (failed @ [final])" "list_all retriable failed"
      "length failed \<le> length ds" "retriable final \<longrightarrow> length failed = length ds"
      "\<forall>tok. r = Inr tok \<longleftrightarrow> token_in env final tok"
      "now ?s2 + sum_list (take (length failed) ds) \<le> now s'"
      by blast
    have "retriable a" using Failed token_verdict_Failed by blast
    moreover have "now s + d \<le> now ?s2"
      using now_sleep [of s1 d "Timing env"] now_call [OF c] by simp
    ultimately show ?thesis
      using ih hist_call [OF c] by (intro exI [where x = "a # failed"] exI [where x = final]) simp
  qed
qed


text \<open>The same without the assumption, as the queries need it.\<close>

lemma getOIDCAccessToken_run:
  assumes "getOIDCAccessToken env cfg s = (r, s')"
  obtains as where "hist s' = hist s @ token_events cfg as" "length as \<le> 4"
proof (cases "NewHTTPRequest env ''POST'' (OIDCIssuerURL cfg)")
  case None
  from assms have "token_attempts env cfg 0 delays s = (r, s')" by (simp add: getOIDCAccessToken_def)
  from token_attempts_run [OF None this] obtain failed final where
    "hist s' = hist s @ token_events cfg (failed @ [final])" "length failed \<le> length delays" by blast
  with that [of "failed @ [final]"] show ?thesis by (simp add: delays_def)
next
  case (Some e)
  with assms have "s' = s" by (simp add: getOIDCAccessToken_def token_attempt_def delays_def)
  with that [of "[]"] show ?thesis by simp
qed

subsection \<open>One query\<close>

text \<open>
  What the verifiers rely on in a query: it fails before its own request is sent, or it
  sends one request, as its last, and its result is decided by the answer. In either case at
  most four token requests come first.
\<close>

locale authorized_query =
  fixes query :: "'w rhobs_sys \<Rightarrow> (go_error + 'r) \<times> 'w rhobs_sys"
    and cfg :: RHOBSConfig
    and requests :: "http_request \<Rightarrow> bool"
    and verdict :: "ext_error + http_answer \<Rightarrow> go_error + 'r"
  assumes query_run: "query s = (r, s') \<Longrightarrow>
      \<exists>as. length as \<le> 4 \<and>
        ((\<exists>e. r = Inl e) \<and> hist s' = hist s @ token_events cfg as \<or>
         (\<exists>rq answer. requests rq \<and> hist s' = hist s @ token_events cfg as @ [EvDo rq answer] \<and> r = verdict answer))"
    and own_request: "requests rq \<Longrightarrow> rq \<noteq> token_request cfg"
begin

lemma not_sent: "requests rq \<Longrightarrow> token_events cfg as \<noteq> pre @ [EvDo rq answer]"
  by (cases as rule: rev_cases) (auto dest: own_request)

lemma answer_decides:
  assumes "query s = (r, s')" and "requests rq" and "hist s' = hist s @ pre @ [EvDo rq answer]"
  shows "r = verdict answer"
  using query_run [OF assms(1)] assms(2,3) not_sent [OF assms(2), symmetric] by auto

lemma success:
  assumes "query s = (Inr x, s')"
  obtains as rq answer where "requests rq" "hist s' = hist s @ token_events cfg as @ [EvDo rq answer]"
    "verdict answer = Inr x"
  using query_run [OF assms] by (metis Inl_Inr_False)

lemma success_iff:
  assumes "query s = (r, s')"
  shows "r = Inr x \<longleftrightarrow> (\<exists>as rq answer. requests rq \<and> hist s' = hist s @ token_events cfg as @ [EvDo rq answer] \<and>
      verdict answer = Inr x)"
proof
  assume "r = Inr x"
  with success assms show "\<exists>as rq answer. requests rq \<and> hist s' = hist s @ token_events cfg as @ [EvDo rq answer] \<and>
      verdict answer = Inr x" by metis
next
  assume "\<exists>as rq answer. requests rq \<and> hist s' = hist s @ token_events cfg as @ [EvDo rq answer] \<and> verdict answer = Inr x"
  with answer_decides [OF assms] show "r = Inr x" by blast
qed

lemma all_requests:
  assumes "query s = (r, s')"
  obtains evs where "hist s' = hist s @ evs" "length evs \<le> 5"
    "list_all (\<lambda>e. case e of EvDo rq _ \<Rightarrow> rq = token_request cfg \<or> requests rq) evs"
proof -
  from query_run [OF assms] obtain as where as: "length as \<le> 4"
      "hist s' = hist s @ token_events cfg as \<or>
       (\<exists>rq answer. requests rq \<and> hist s' = hist s @ token_events cfg as @ [EvDo rq answer])" by blast
  have "list_all (\<lambda>e. case e of EvDo rq _ \<Rightarrow> rq = token_request cfg \<or> requests rq) (token_events cfg as)"
    by (simp add: list_all_iff)
  with as that [of "token_events cfg as"] that show ?thesis by fastforce
qed

end

lemma request_kinds:
  "token_request cfg \<noteq> probes_request cfg' sel tok" "token_request cfg \<noteq> metrics_request cfg' q hs"
  by (simp_all add: token_request_def probes_request_def metrics_request_def)

lemma queryRHOBSProbes_run:
  assumes "queryRHOBSProbes env cfg sel s = (r, s')"
  shows "\<exists>as. length as \<le> 4 \<and>
    ((\<exists>e. r = Inl e) \<and> hist s' = hist s @ token_events cfg as \<or>
     (\<exists>rq answer. (\<exists>tok. rq = probes_request cfg sel tok) \<and>
        hist s' = hist s @ token_events cfg as @ [EvDo rq answer] \<and> r = probes_verdict env answer))"
proof -
  obtain t s1 where t: "getOIDCAccessToken env cfg s = (t, s1)" by (cases "getOIDCAccessToken env cfg s")
  obtain as where as: "hist s1 = hist s @ token_events cfg as" "length as \<le> 4" using getOIDCAccessToken_run [OF t] .
  show ?thesis
  proof (cases "\<exists>tok. t = Inr tok \<and> NewHTTPRequest env ''GET'' (probes_url cfg sel) = None")
    case False
    with assms t have "\<exists>e. r = Inl e" "s' = s1"
      by (auto simp: queryRHOBSProbes_def split: sum.splits option.splits)
    with as show ?thesis by blast
  next
    case True
    then obtain tok where tok: "t = Inr tok" "NewHTTPRequest env ''GET'' (probes_url cfg sel) = None" by blast
    obtain answer s2 where c: "do_request env (probes_request cfg sel tok) s1 = (answer, s2)"
      by (cases "do_request env (probes_request cfg sel tok) s1")
    from assms t tok c have "s' = s2" "r = probes_verdict env answer"
      by (simp_all add: queryRHOBSProbes_def)
    with hist_call [OF c] as show ?thesis by auto
  qed
qed

lemma metrics_headers_run:
  assumes "metrics_headers env cfg s = (r, s')"
  obtains as where "hist s' = hist s @ token_events cfg as" "length as \<le> 4"
proof (cases "OIDCClientID cfg \<noteq> [] \<and> OIDCClientSecret cfg \<noteq> []")
  case True
  obtain t s1 where t: "getOIDCAccessToken env cfg s = (t, s1)" by (cases "getOIDCAccessToken env cfg s")
  with True assms have "s' = s1" by (auto simp: metrics_headers_def split: sum.splits)
  with getOIDCAccessToken_run [OF t] that show ?thesis by blast
next
  case False
  with assms have "s' = s" by (auto simp: metrics_headers_def)
  with that [of "[]"] show ?thesis by simp
qed

lemma queryRHOBSMetrics_run:
  assumes "queryRHOBSMetrics env cfg q s = (r, s')"
  shows "\<exists>as. length as \<le> 4 \<and>
    ((\<exists>e. r = Inl e) \<and> hist s' = hist s @ token_events cfg as \<or>
     (\<exists>rq answer. (\<exists>hs. rq = metrics_request cfg q hs) \<and>
        hist s' = hist s @ token_events cfg as @ [EvDo rq answer] \<and> r = metrics_verdict env answer))"
proof (cases "NewHTTPRequest env ''GET'' (metrics_url cfg q)")
  case (Some e)
  with assms show ?thesis by (intro exI [where x = "[]"]) (auto simp: queryRHOBSMetrics_def)
next
  case None
  obtain h s1 where h: "metrics_headers env cfg s = (h, s1)" by (cases "metrics_headers env cfg s")
  obtain as where as: "hist s1 = hist s @ token_events cfg as" "length as \<le> 4" using metrics_headers_run [OF h] .
  show ?thesis
  proof (cases h)
    case (Inl e)
    with assms None h as show ?thesis by (auto simp: queryRHOBSMetrics_def)
  next
    case (Inr hs)
    obtain answer s2 where c: "do_request env (metrics_request cfg q hs) s1 = (answer, s2)"
      by (cases "do_request env (metrics_request cfg q hs) s1")
    from assms None h Inr c have "s' = s2" "r = metrics_verdict env answer"
      by (simp_all add: queryRHOBSMetrics_def)
    with hist_call [OF c] as show ?thesis by auto
  qed
qed

interpretation probes: authorized_query "queryRHOBSProbes env cfg sel" cfg
    "\<lambda>rq. \<exists>tok. rq = probes_request cfg sel tok" "probes_verdict env"
  for env :: "'w rhobs_env" and cfg sel
  by unfold_locales (fact queryRHOBSProbes_run, auto dest: request_kinds(1) [THEN notE, OF sym])

interpretation metrics: authorized_query "queryRHOBSMetrics env cfg q" cfg
    "\<lambda>rq. \<exists>hs. rq = metrics_request cfg q hs" "metrics_verdict env"
  for env :: "'w rhobs_env" and cfg q
  by unfold_locales (fact queryRHOBSMetrics_run, auto dest: request_kinds(2) [THEN notE, OF sym])

subsection \<open>Requests decode to what was put into them\<close>

lemma token_form_decodes:
  "form_decode (rqBody (token_request cfg)) =
     Some [(''client_id'', OIDCClientID cfg), (''client_secret'', OIDCClientSecret cfg),
           (''grant_type'', ''client_credentials'')]"
proof -
  have "sort_key fst [(''grant_type'', ''client_credentials''), (''client_id'', i), (''client_secret'', c)] =
      [(''client_id'', i), (''client_secret'', c), (''grant_type'', ''client_credentials'')]" for i c
    by (simp add: less_char_def)
  then show ?thesis by (simp add: token_request_def token_form_def form_decode_Encode)
qed

text \<open>
  C22: whatever bytes the credentials, the cluster id and a query consist of, the body of a
  token request is a form that decodes to exactly the two credentials and the grant type,
  and the query part of a probe or metrics URL decodes to exactly the label selector or the
  query; nothing in them can add, drop or change a parameter.
\<close>

theorem requests_decode:
  "form_decode (rqBody (token_request cfg)) =
     Some [(''client_id'', OIDCClientID cfg), (''client_secret'', OIDCClientSecret cfg),
           (''grant_type'', ''client_credentials'')] \<and>
   (\<exists>q. rqURL (probes_request cfg (cluster_selector clusterID) tok) = ProbeAPIURL cfg @ ''?'' @ q \<and>
        form_decode q = Some [(''label_selector'', ''cluster-id='' @ clusterID)]) \<and>
   (\<exists>q. rqURL (metrics_request cfg query hs) = MetricsAPIURL cfg @ ''/api/v1/query?'' @ q \<and>
        form_decode q = Some [(''query'', query)])"
proof (intro conjI token_form_decodes)
  have "QueryEscape ''label_selector'' = ''label_selector''" by code_simp
  then show "\<exists>q. rqURL (probes_request cfg (cluster_selector clusterID) tok) = ProbeAPIURL cfg @ ''?'' @ q \<and>
        form_decode q = Some [(''label_selector'', ''cluster-id='' @ clusterID)]"
    using form_decode_pair [of "(''label_selector'', ''cluster-id='' @ clusterID)"]
    by (intro exI [where x = "form_pair (''label_selector'', ''cluster-id='' @ clusterID)"])
      (simp add: probes_request_def probes_url_def cluster_selector_def form_pair_def)
next
  have "QueryEscape ''query'' = ''query''" by code_simp
  then show "\<exists>q. rqURL (metrics_request cfg query hs) = MetricsAPIURL cfg @ ''/api/v1/query?'' @ q \<and>
        form_decode q = Some [(''query'', query)]"
    using form_decode_pair [of "(''query'', query)"]
    by (intro exI [where x = "form_pair (''query'', query)"])
      (simp add: metrics_request_def metrics_url_def form_pair_def)
qed

subsection \<open>Probes\<close>

text \<open>The document a server sends for a list of probes, bare or wrapped in an object.\<close>

definition encode_probe :: "RHOBSProbe \<Rightarrow> json" where
  "encode_probe p =
     JObj [(''id'', JStr (ID p)), (''static_url'', JStr (StaticURL p)), (''labels'', JObj (Labels p)),
           (''status'', JStr (ProbeStatus p))]"

definition probes_document :: "bool \<Rightarrow> RHOBSProbe list \<Rightarrow> json" where
  "probes_document wrapped ps =
     (let a = JArr (map encode_probe ps) in if wrapped then JObj [(''probes'', a)] else a)"

lemma member_names:
  "EqualFold ''id'' ''id''" "\<not> EqualFold ''static_url'' ''id''" "\<not> EqualFold ''labels'' ''id''"
  "\<not> EqualFold ''status'' ''id''" "EqualFold ''static_url'' ''static_url''"
  "\<not> EqualFold ''labels'' ''static_url''" "\<not> EqualFold ''status'' ''static_url''"
  "EqualFold ''labels'' ''labels''" "\<not> EqualFold ''status'' ''labels''" "EqualFold ''status'' ''status''"
  "EqualFold ''probes'' ''probes''"
  by code_simp+

lemma decode_encode_probe: "decode_probe (encode_probe p) = Inr p"
  by (simp add: decode_probe_def encode_probe_def decode_pair_def decode_field_def json_member_def
      decode_string_def decode_members_def member_names)

lemma decode_encode_probes: "decode_list decode_probe (JArr (map encode_probe ps)) = Inr ps"
  by (simp add: decode_list_def decode_all_Inr_iff list_all2_map1 decode_encode_probe list_all2_refl)

lemma decode_probes_document:
  assumes "UnmarshalText env body = Inr (probes_document wrapped ps)"
  shows "decode_probes env body = Inr ps"
proof (cases wrapped)
  case False
  with assms show ?thesis by (simp add: decode_probes_def probes_document_def decode_encode_probes)
next
  case True
  have "decode_list decode_probe (JObj ms) \<noteq> Inr qs" for ms qs by (simp add: decode_list_def)
  moreover have "decode_wrapper (JObj [(''probes'', JArr (map encode_probe ps))]) = Inr ps"
    by (simp add: decode_wrapper_def decode_field_def json_member_def member_names decode_encode_probes)
  ultimately show ?thesis
    using assms True by (auto simp: decode_probes_def probes_document_def split: sum.splits)
qed

text \<open>
  C26: a list of probes sent as an array and the same list wrapped in an object under
  \<open>probes\<close> both come out of the query as that very list.
\<close>

theorem queryRHOBSProbes_roundtrip:
  assumes "queryRHOBSProbes env cfg sel s = (r, s')"
    and "hist s' = hist s @ tokens @
           [EvDo (probes_request cfg sel tok) (Inr \<lparr>rsStatus = 200, rsBody = body, rsReadErr = None\<rparr>)]"
    and "UnmarshalText env body = Inr (probes_document wrapped ps)"
  shows "r = Inr ps"
proof -
  have "r = probes_verdict env (Inr \<lparr>rsStatus = 200, rsBody = body, rsReadErr = None\<rparr>)"
    by (rule probes.answer_decides [OF assms(1) _ assms(2)]) blast
  with decode_probes_document [OF assms(3)] show ?thesis by (simp add: probes_verdict_def)
qed

text \<open>
  A probe is reported to exist exactly if the API answered with status 200 and exactly
  one probe, whose label \<open>cluster-id\<close> is the cluster's id and whose label \<open>private\<close> is the
  expected one, both as strings.
\<close>

theorem VerifyRHOBSProbeExists_nil_iff:
  assumes "VerifyRHOBSProbeExists env clusterID expectedPrivate cfg s = (r, s')"
  shows "r = None \<longleftrightarrow>
    (\<exists>tokens tok resp p.
       hist s' = hist s @ map (EvDo (token_request cfg)) tokens @
                   [EvDo (probes_request cfg (''cluster-id='' @ clusterID) tok) (Inr resp)] \<and>
       rsStatus resp = 200 \<and> rsReadErr resp = None \<and> decode_probes env (rsBody resp) = Inr [p] \<and>
       get_string (Labels p) ''cluster-id'' = Some clusterID \<and>
       get_string (Labels p) ''private'' = Some (if expectedPrivate then ''true'' else ''false''))"
proof -
  obtain q s1 where q: "queryRHOBSProbes env cfg (''cluster-id='' @ clusterID) s = (q, s1)"
    by (cases "queryRHOBSProbes env cfg (''cluster-id='' @ clusterID) s")
  have verdict: "probe_verdict clusterID expectedPrivate p = None \<longleftrightarrow>
      get_string (Labels p) ''cluster-id'' = Some clusterID \<and>
      get_string (Labels p) ''private'' = Some (if expectedPrivate then ''true'' else ''false'')" for p
    by (auto simp: probe_verdict_def Let_def split: option.splits)
  have ok: "probes_verdict env answer = Inr ps \<longleftrightarrow>
      (\<exists>resp. answer = Inr resp \<and> rsStatus resp = 200 \<and> rsReadErr resp = None \<and> decode_probes env (rsBody resp) = Inr ps)"
    for answer ps by (auto simp: probes_verdict_def split: sum.splits option.splits)
  from assms q have "s' = s1" "r = None \<longleftrightarrow> (\<exists>p. q = Inr [p] \<and> probe_verdict clusterID expectedPrivate p = None)"
    by (auto simp: VerifyRHOBSProbeExists_def cluster_selector_def split: sum.splits list.splits)
  then show ?thesis
    unfolding probes.success_iff [OF q] ok verdict by blast
qed

end
