(* ===== verification/RhobsGates.thy ===== *)
theory RhobsGates
  imports RhobsProperties
begin

text \<open>
  What the checks over the metrics API establish: the cardinality gate and the recording
  rules. \<open>answered\<close> is one query and its result as the history shows it; the map that
  \<open>extractVectorValues\<close> builds is a refinement of the list of its samples.
\<close>

subsection \<open>Queries with a result\<close>

definition answered ::
  "'w rhobs_env \<Rightarrow> RHOBSConfig \<Rightarrow> string \<Rightarrow> http_event list \<Rightarrow> (string \<times> json) list \<Rightarrow> bool" where
  "answered env cfg query evs result \<longleftrightarrow>
     (\<exists>tokens hs answer. evs = map (EvDo (token_request cfg)) tokens @ [EvDo (metrics_request cfg query hs) answer] \<and>
        metrics_verdict env answer = Inr result)"

lemma queryRHOBSMetrics_answered:
  assumes "queryRHOBSMetrics env cfg q s = (Inr result, s')"
  obtains evs where "hist s' = hist s @ evs" "answered env cfg q evs result"
proof -
  from metrics.success [OF assms] obtain as rq answer where "\<exists>hs. rq = metrics_request cfg q hs"
    "hist s' = hist s @ token_events cfg as @ [EvDo rq answer]" "metrics_verdict env answer = Inr result" .
  then show ?thesis by (intro that) (auto simp: answered_def)
qed

lemma growth_check_run:
  assumes "growth_check env cfg what metric q qb maxDelta s = (Inr res, s')"
  obtains e1 e2 r1 r2 c b where "hist s' = hist s @ e1 @ e2" "answered env cfg q e1 r1" "answered env cfg qb e2 r2"
    "extractScalarValue r1 = Inr c" "extractScalarValue r2 = Inr b" "res = growth_result metric maxDelta c b"
proof -
  from assms obtain r1 s1 where q1: "queryRHOBSMetrics env cfg q s = (Inr r1, s1)"
    by (auto simp: growth_check_def split: prod.splits sum.splits)
  with assms obtain r2 s2 where q2: "queryRHOBSMetrics env cfg qb s1 = (Inr r2, s2)"
    by (auto simp: growth_check_def split: prod.splits sum.splits)
  with q1 assms obtain c b where cb: "s' = s2" "extractScalarValue r1 = Inr c" "extractScalarValue r2 = Inr b"
      "res = growth_result metric maxDelta c b"
    by (auto simp: growth_check_def split: sum.splits)
  from queryRHOBSMetrics_answered [OF q1] obtain e1 where e1: "hist s1 = hist s @ e1" "answered env cfg q e1 r1" .
  from queryRHOBSMetrics_answered [OF q2] obtain e2 where e2: "hist s2 = hist s1 @ e2" "answered env cfg qb e2 r2" .
  show ?thesis by (rule that [of e1 e2 r1 r2 c b]) (use e1 e2 cb in auto)
qed

subsection \<open>Samples of a vector\<close>

definition samples :: "string \<Rightarrow> json list \<Rightarrow> (string \<times> float64) list" where
  "samples labelKey items = List.map_filter (vector_sample labelKey) items"

lemma vector_values_samples: "vector_values labelKey items m = m ++ map_of (rev (samples labelKey items))"
  by (induction items arbitrary: m) (auto simp: samples_def map_filter_simps map_add_assoc split: option.splits)

text \<open>
  The values extracted from a vector are the samples with a readable value, a later one
  in place of an earlier one under the same label: as a map they are the lookup in the
  reversed list of samples, and an extraction fails exactly if the response has no array.
\<close>

theorem extractVectorValues_samples:
  "(case get_object result ''data'' of
      None \<Rightarrow> extractVectorValues result labelKey = Inl (Errorf ''no data in response'' [])
    | Some data \<Rightarrow>
        (case get_array data ''result'' of
           None \<Rightarrow> extractVectorValues result labelKey = Inl (Errorf ''no result array in response'' [])
         | Some items \<Rightarrow>
             map_option (\<lambda>m. m label) (case extractVectorValues result labelKey of Inl _ \<Rightarrow> None | Inr m \<Rightarrow> Some m) =
             Some (map_of (rev (List.map_filter (vector_sample labelKey) items)) label)))"
  by (auto simp: extractVectorValues_def vector_values_samples samples_def split: option.splits)

lemma finite_vector_values: "extractVectorValues result labelKey = Inr m \<Longrightarrow> finite (dom m)"
  by (auto simp: extractVectorValues_def vector_values_samples finite_dom_map_of split: option.splits)

subsection \<open>The cardinality gate\<close>

text \<open>What a parameter that stands for the order of a Go map has to do.\<close>

definition enumerates_metrics :: "metric_order \<Rightarrow> bool" where
  "enumerates_metrics order \<longleftrightarrow> (\<forall>m. finite (dom m) \<longrightarrow> distinct (order m) \<and> set (order m) = dom m)"

lemma per_metric_results_map:
  "set (order m) = dom m \<Longrightarrow>
   per_metric_results order maxSeries m = map (\<lambda>n. series_result maxSeries n (the (m n))) (order m)"
proof -
  have "set ns \<subseteq> dom m \<Longrightarrow>
      List.map_filter (\<lambda>n. map_option (series_result maxSeries n) (m n)) ns =
      map (\<lambda>n. series_result maxSeries n (the (m n))) ns" for ns
    by (induction ns) (auto simp: map_filter_simps)
  then show "set (order m) = dom m \<Longrightarrow>
     per_metric_results order maxSeries m = map (\<lambda>n. series_result maxSeries n (the (m n))) (order m)"
    by (simp add: per_metric_results_def)
qed

lemma per_metric_check_run:
  assumes "enumerates_metrics order"
    and "per_metric_check order env cfg maxSeries s = (Inr rest, s')"
  obtains evs result m where "hist s' = hist s @ evs" "answered env cfg per_metric_query evs result"
    "extractVectorValues result ''__name__'' = Inr m" "distinct (map MetricName rest)"
    "set rest = {series_result maxSeries n v | n v. m n = Some v}"
proof -
  from assms(2) obtain result s1 where q: "queryRHOBSMetrics env cfg per_metric_query s = (Inr result, s1)"
    by (auto simp: per_metric_check_def split: prod.splits sum.splits)
  with assms(2) obtain m where m: "s' = s1" "extractVectorValues result ''__name__'' = Inr m"
      "rest = per_metric_results order maxSeries m"
    by (auto simp: per_metric_check_def split: sum.splits)
  have order: "distinct (order m)" "set (order m) = dom m"
    using assms(1) finite_vector_values [OF m(2)] by (auto simp: enumerates_metrics_def)
  have rest: "rest = map (\<lambda>n. series_result maxSeries n (the (m n))) (order m)"
    unfolding m(3) by (rule per_metric_results_map) (rule order(2))
  then have "map MetricName rest = order m" by (simp add: series_result_def comp_def)
  moreover have "set rest = {series_result maxSeries n v | n v. m n = Some v}"
    using rest order(2) by (force simp: image_iff)
  moreover from queryRHOBSMetrics_answered [OF q] obtain evs
    where evs: "hist s1 = hist s @ evs" "answered env cfg per_metric_query evs result" .
  ultimately show ?thesis by (intro that [of evs result m]) (simp_all only: m(1,2) order(1))
qed



text \<open>A rate that was zero two hours ago passes with any current value.\<close>

lemma zero_baseline_passes: "Passed (growth_result metric (Fin 10) (Fin 1000000) (Fin 0))"
  by (simp add: growth_result_def delta_pct_def fpos_def Let_def)

subsection \<open>Recording rules\<close>

definition has_samples :: "go_error + (string \<times> json) list \<Rightarrow> bool" where
  "has_samples r \<longleftrightarrow>
     (\<exists>result data items. r = Inr result \<and> get_string result ''status'' = Some ''success'' \<and>
        get_object result ''data'' = Some data \<and> get_array data ''result'' = Some items \<and> items \<noteq> [])"

text \<open>A query that succeeded and has no samples.\<close>

definition no_samples :: "go_error + (string \<times> json) list \<Rightarrow> bool" where
  "no_samples r \<longleftrightarrow>
     (\<exists>result data. r = Inr result \<and> get_string result ''status'' = Some ''success'' \<and>
        get_object result ''data'' = Some data \<and> (\<forall>items. get_array data ''result'' = Some items \<longrightarrow> items = []))"

definition not_yet :: "string \<Rightarrow> string \<Rightarrow> go_error" where
  "not_yet clusterID rule =
     Errorf (''probe_success metrics not yet available for cluster %s '' @ em_dash @
       '' recording rule '' @ rule @ '' cannot evaluate without underlying probe data'') [AStr clusterID]"

lemma empty_result_iff: "\<not> empty_result data \<longleftrightarrow> (\<exists>items. get_array data ''result'' = Some items \<and> items \<noteq> [])"
  by (auto simp: empty_result_def split: option.splits)

lemma rule_check_run:
  assumes "queryRHOBSMetrics env cfg (id_query rule clusterID) s = (q, s1)"
    and "rule_check env clusterID cfg pd rule s = (r, s')"
    and "hd rule = CHR ''s''" "rule \<noteq> []"
  shows "s' = s1" "r = None \<longleftrightarrow> has_samples q"
    "r = Some (not_yet clusterID rule') \<longleftrightarrow> rule' = rule \<and> pd = Inr False \<and> no_samples q"
proof -
  from assms(3,4) obtain cs where rule: "rule = CHR ''s'' # cs" by (cases rule) auto
  show "s' = s1" using assms(1,2) by (auto simp: rule_check_def split: sum.splits)
  show "r = None \<longleftrightarrow> has_samples q"
    using assms(1,2)
    by (cases q) (auto simp: rule_check_def has_samples_def empty_result_def split: option.splits if_splits)
  show "r = Some (not_yet clusterID rule') \<longleftrightarrow> rule' = rule \<and> pd = Inr False \<and> no_samples q"
    using assms(1,2) rule
    by (cases q) (auto simp: rule_check_def no_samples_def not_yet_def empty_result_def split: option.splits if_splits)
qed

lemma probeSuccessDataExists_False:
  assumes "queryRHOBSMetrics env cfg (id_query ''probe_success'' clusterID) s = (q, s1)"
  shows "probeSuccessDataExists env clusterID cfg s = (Inr False, s') \<longleftrightarrow> s' = s1 \<and>
    (\<exists>result. q = Inr result \<and> get_string result ''status'' = Some ''success'' \<and> \<not> has_samples q)"
  using assms by (cases q) (auto simp: probeSuccessDataExists_def has_samples_def empty_result_iff
      split: option.splits if_splits)


end
