(* ===== verification/RhobsWitnesses.thy ===== *)
theory RhobsWitnesses
  imports RhobsGates
begin

text \<open>
  Concrete runs of the RHOBS verifiers: a token endpoint that answers 503 once, a probe API
  with one probe, and a metrics API that has the value 150 for everything.
\<close>

subsection \<open>The environment\<close>

definition demo_probe :: RHOBSProbe where
  "demo_probe =
     \<lparr>ID = ''p'', StaticURL = ''https://x'', Labels = [(''cluster-id'', JStr ''c1''), (''private'', JStr ''false'')],
      ProbeStatus = ''active''\<rparr>"

definition demo_vector :: json where
  "demo_vector =
     JObj [(''status'', JStr ''success''),
       (''data'', JObj [(''result'', JArr [JObj
         [(''metric'', JObj [(''__name__'', JStr ''up'')]), (''value'', JArr [JNum ''1'', JStr ''150''])]])])]"

definition demo_answer :: "http_request \<Rightarrow> nat \<Rightarrow> http_answer" where
  "demo_answer rq w =
     (if rqMethod rq = ''POST'' then
        (if w = 0 then \<lparr>rsStatus = 503, rsBody = ''busy'', rsReadErr = None\<rparr>
         else \<lparr>rsStatus = 200, rsBody = ''token'', rsReadErr = None\<rparr>)
      else \<lparr>rsStatus = 200, rsBody = ''body'', rsReadErr = None\<rparr>)"

definition demo_rhobs :: "nat rhobs_env" where
  "demo_rhobs =
     \<lparr>Timing = punctual, NewHTTPRequest = (\<lambda>_ _. None),
      ClientDo = (\<lambda>rq w. ((Inr (demo_answer rq w), 0), Suc w)),
      UnmarshalText = (\<lambda>b. Inr (if b = ''token'' then JObj [(''access_token'', JStr ''tok'')]
                                 else probes_document True [demo_probe])),
      DecodeBody = (\<lambda>_ _. Inr demo_vector)\<rparr>"

definition demo_cfg :: RHOBSConfig where
  "demo_cfg =
     \<lparr>ProbeAPIURL = ''https://p'', MetricsAPIURL = ''https://m'', OIDCClientID = ''id'',
      OIDCClientSecret = ''s'', OIDCIssuerURL = ''https://sso''\<rparr>"

text \<open>Inside a cell the metrics are read without credentials.\<close>

definition cell_cfg :: RHOBSConfig where
  "cell_cfg = demo_cfg\<lparr>OIDCClientID := [], OIDCClientSecret := []\<rparr>"

lemma access_token_member: "EqualFold ''access_token'' ''access_token''"
  by (simp add: EqualFold_def)

lemma demo_token_first: "token_verdict demo_rhobs 0 (Inr \<lparr>rsStatus = 503, rsBody = ''busy'', rsReadErr = None\<rparr>) =
   Failed (Errorf ''OIDC token endpoint returned status %d (attempt %d): %s'' [AInt 503, AInt 1, AStr ''busy''])"
  by (simp add: token_verdict_def)

lemma demo_token_second: "token_verdict demo_rhobs n (Inr \<lparr>rsStatus = 200, rsBody = ''token'', rsReadErr = None\<rparr>) =
   Return (Inr ''tok'')"
  by (simp add: token_verdict_def demo_rhobs_def decode_field_def json_member_def decode_string_def access_token_member)

definition after_token :: "(nat, http_event) sys" where
  "after_token =
     \<lparr>ext = 2, now = seconds 5,
      hist = [EvDo (token_request demo_cfg) (Inr \<lparr>rsStatus = 503, rsBody = ''busy'', rsReadErr = None\<rparr>),
              EvDo (token_request demo_cfg) (Inr \<lparr>rsStatus = 200, rsBody = ''token'', rsReadErr = None\<rparr>)],
      out = []\<rparr>"

lemma demo_do:
  "do_request demo_rhobs rq s =
     (Inr (demo_answer rq (ext s)),
      s\<lparr>ext := Suc (ext s), hist := hist s @ [EvDo rq (Inr (demo_answer rq (ext s)))]\<rparr>)"
  by (simp add: demo_rhobs_def call_def)

lemma demo_new_request [simp]: "NewHTTPRequest demo_rhobs m u = None"
  by (simp add: demo_rhobs_def)

lemma demo_attempt:
  "token_attempt demo_rhobs demo_cfg n s =
     (token_verdict demo_rhobs n (Inr (demo_answer (token_request demo_cfg) (ext s))),
      snd (do_request demo_rhobs (token_request demo_cfg) s))"
  by (simp add: token_attempt_def demo_do)

lemma demo_answers:
  "demo_answer (token_request cfg) 0 = \<lparr>rsStatus = 503, rsBody = ''busy'', rsReadErr = None\<rparr>"
  "demo_answer (token_request cfg) (Suc w) = \<lparr>rsStatus = 200, rsBody = ''token'', rsReadErr = None\<rparr>"
  "demo_answer (probes_request cfg sel tok) w = \<lparr>rsStatus = 200, rsBody = ''body'', rsReadErr = None\<rparr>"
  "demo_answer (metrics_request cfg q hs) w = \<lparr>rsStatus = 200, rsBody = ''body'', rsReadErr = None\<rparr>"
  by (simp_all add: demo_answer_def token_request_def probes_request_def metrics_request_def)

lemma demo_token_run: "getOIDCAccessToken demo_rhobs demo_cfg (start 0) = (Inr ''tok'', after_token)"
proof -
  have t: "Timing demo_rhobs = punctual" by (simp add: demo_rhobs_def)
  show ?thesis
    by (simp add: getOIDCAccessToken_def delays_def demo_attempt demo_do demo_answers demo_token_first
        demo_token_second t start_def after_token_def)
qed

subsection \<open>Witnesses\<close>


lemma demo_probes_run:
  "queryRHOBSProbes demo_rhobs demo_cfg sel (start 0) =
     (probes_verdict demo_rhobs (Inr \<lparr>rsStatus = 200, rsBody = ''body'', rsReadErr = None\<rparr>),
      after_token\<lparr>ext := 3, hist := hist after_token @
        [EvDo (probes_request demo_cfg sel ''tok'') (Inr \<lparr>rsStatus = 200, rsBody = ''body'', rsReadErr = None\<rparr>)]\<rparr>)"
  by (simp add: queryRHOBSProbes_def demo_token_run demo_do demo_answers) (simp add: after_token_def)

lemma demo_document: "UnmarshalText demo_rhobs ''body'' = Inr (probes_document True [demo_probe])"
  by (simp add: demo_rhobs_def)

theorem queryRHOBSProbes_roundtrip_witness:
  "fst (queryRHOBSProbes demo_rhobs demo_cfg ''x'' (start 0)) = Inr [demo_probe]"
  by (simp add: demo_probes_run)
    (rule queryRHOBSProbes_roundtrip [OF demo_probes_run _ demo_document], simp)

theorem VerifyRHOBSProbeExists_nil_iff_witness:
  "fst (VerifyRHOBSProbeExists demo_rhobs ''c1'' False demo_cfg (start 0)) = None"
proof -
  obtain r s' where r: "VerifyRHOBSProbeExists demo_rhobs ''c1'' False demo_cfg (start 0) = (r, s')"
    by (cases "VerifyRHOBSProbeExists demo_rhobs ''c1'' False demo_cfg (start 0)")
  then have s': "s' = snd (queryRHOBSProbes demo_rhobs demo_cfg (''cluster-id='' @ ''c1'') (start 0))"
    by (auto simp: VerifyRHOBSProbeExists_def cluster_selector_def split: prod.splits sum.splits)
  have d: "decode_probes demo_rhobs ''body'' = Inr [demo_probe]"
    using decode_probes_document [OF demo_document] .
  have l: "get_string (Labels demo_probe) ''cluster-id'' = Some ''c1''"
      "get_string (Labels demo_probe) ''private'' = Some ''false''"
    by (simp_all add: demo_probe_def get_string_def obj_get_def)
  let ?a = "\<lparr>rsStatus = 200, rsBody = ''body'', rsReadErr = None\<rparr> :: http_answer"
  have h: "hist s' = hist (start 0) @ map (EvDo (token_request demo_cfg))
      [Inr \<lparr>rsStatus = 503, rsBody = ''busy'', rsReadErr = None\<rparr>, Inr \<lparr>rsStatus = 200, rsBody = ''token'', rsReadErr = None\<rparr>]
      @ [EvDo (probes_request demo_cfg (''cluster-id='' @ ''c1'') ''tok'') (Inr ?a)]"
    unfolding s' demo_probes_run by (simp add: after_token_def)
  have "r = None"
    unfolding VerifyRHOBSProbeExists_nil_iff [OF r]
    by (intro exI conjI, rule h) (use d l in simp_all)
  with r show ?thesis by simp
qed

subsection \<open>Witnesses over the metrics API\<close>

definition sorted_metrics :: metric_order where
  "sorted_metrics m = sorted_list_of_set (dom m)"

lemma enumerates_sorted_metrics: "enumerates_metrics sorted_metrics"
  by (simp add: enumerates_metrics_def sorted_metrics_def)

definition demo_result :: "(string \<times> json) list" where
  "demo_result = (case demo_vector of JObj ms \<Rightarrow> ms | _ \<Rightarrow> [])"

lemma demo_verdict: "metrics_verdict demo_rhobs (Inr \<lparr>rsStatus = 200, rsBody = ''body'', rsReadErr = None\<rparr>) = Inr demo_result"
  by (simp add: metrics_verdict_def demo_rhobs_def demo_result_def demo_vector_def decode_members_def)

lemma demo_query:
  "queryRHOBSMetrics demo_rhobs cell_cfg q s =
     (Inr demo_result, s\<lparr>ext := Suc (ext s), hist := hist s @
        [EvDo (metrics_request cell_cfg q []) (Inr \<lparr>rsStatus = 200, rsBody = ''body'', rsReadErr = None\<rparr>)]\<rparr>)"
  by (simp add: queryRHOBSMetrics_def metrics_headers_def cell_cfg_def demo_do demo_answers demo_verdict)

lemma demo_number: "Sscanf_f ''150'' = Inr (Fin 150)"
  by code_simp

lemma demo_values:
  "extractScalarValue demo_result = Inr (Fin 150)"
  "extractVectorValues demo_result ''__name__'' = Inr [''up'' \<mapsto> Fin 150]"
  by (simp_all add: extractScalarValue_def extractVectorValues_def vector_sample_def demo_result_def demo_vector_def
      get_object_def get_array_def str_of_def get_string_def obj_get_def as_object_def demo_number)

lemma demo_delta: "fle (delta_pct (Fin 150) (Fin 150)) (Fin 10)"
  by (simp add: delta_pct_def fpos_def round64_def)

lemma demo_gate_run:
  "\<exists>s'. VerifyCardinalityThreshold sorted_metrics demo_rhobs cell_cfg (Fin 10) (Fin 1000) (start 0) =
     (Inr [growth_result ''prometheus_tsdb_head_series'' (Fin 10) (Fin 150) (Fin 150),
           growth_result ''prometheus_remote_storage_samples_total (rate)'' (Fin 10) (Fin 150) (Fin 150),
           series_result (Fin 1000) ''up'' (Fin 150)], s')"
  by (simp add: VerifyCardinalityThreshold_def growth_check_def per_metric_check_def demo_query demo_values
      per_metric_results_def sorted_metrics_def map_filter_simps)




end
