(* ===== verification/TestResources.thy ===== *)
theory TestResources
  imports Prelude
begin

text \<open>
  What the test framework creates in a cluster: \<^verbatim>\<open>pkg/framework/namespace.go\<close>,
  \<^verbatim>\<open>pkg/framework/workload.go\<close> and \<^verbatim>\<open>pkg/framework/storage.go\<close>. The client is a record of
  \<open>api\<close> functions, the classification of API errors (package \<open>api/errors\<close> of apimachinery)
  is a record of predicates, and \<open>wait.PollUntilContextTimeout\<close> is a parameter whose
  documented behaviour is \<open>poll_contract\<close>. A cleanup function is the operation it runs.
\<close>

subsection \<open>Objects\<close>

record namespace_object =
  nsName :: string
  nsLabels :: "(string \<times> string) list"

record container_port =
  ContainerPort :: int
  cpProtocol :: string

record container =
  cName :: string
  cImage :: string
  cPorts :: "container_port list"

record workload_deployment =
  wdName :: string
  wdNamespace :: string
  wdReplicas :: int
  wdMatchLabels :: "(string \<times> string) list"
  wdPodLabels :: "(string \<times> string) list"
  wdContainers :: "container list"

record service_port =
  Port :: int
  TargetPort :: int
  spProtocol :: string

record service_object =
  svcName :: string
  svcNamespace :: string
  svcType :: string
  svcSelector :: "(string \<times> string) list"
  svcPorts :: "service_port list"

record pvc_object =
  pvcName :: string
  pvcNamespace :: string
  pvcAccessModes :: "string list"
  pvcStorage :: string \<comment> \<open>the argument of \<open>resource.MustParse\<close>\<close>
  pvcStorageClass :: "string option"

record pod_container =
  pcName :: string
  pcImage :: string
  pcCommand :: "string list"
  pcArgs :: "string list"
  pcMounts :: "(string \<times> string) list" \<comment> \<open>volume and path\<close>
  pcAllowPrivilegeEscalation :: bool
  pcDropCapabilities :: "string list"

record pod_object =
  podName :: string
  podNamespace :: string
  podRunAsNonRoot :: bool
  podRunAsUser :: int
  podFSGroup :: int
  podSeccompProfile :: string
  podContainers :: "pod_container list"
  podVolumes :: "(string \<times> string) list" \<comment> \<open>volume and claim\<close>

text \<open>What specs on networking create themselves.\<close>

record security_context =
  scAllowPrivilegeEscalation :: bool
  scRunAsNonRoot :: bool
  scSeccompProfile :: string
  scDropCapabilities :: "string list"

record command_container =
  ccName :: string
  ccImage :: string
  ccCommand :: "string list"
  ccSecurityContext :: security_context

record command_pod =
  cpName :: string
  cpNamespace :: string
  cpContainers :: "command_container list"
  cpRestartPolicy :: string

record network_policy =
  npName :: string
  npNamespace :: string
  npPodSelector :: "(string \<times> string) list"
  npPolicyTypes :: "string list"

subsection \<open>Requests\<close>

datatype cluster_event =
    EvCreateNamespace namespace_object "ext_error option"
  | EvDeleteNamespace string "ext_error option"
  | EvCreateDeployment string workload_deployment "ext_error option"
  | EvGetDeployment string string "ext_error + (string \<times> string) list" \<comment> \<open>conditions: type and status\<close>
  | EvCreateService string service_object "ext_error option"
  | EvCreatePVC string pvc_object "ext_error option"
  | EvCreatePod string pod_object "ext_error option"
  | EvCreateCommandPod string command_pod "ext_error option"
  | EvGetPod string string "ext_error + string" \<comment> \<open>phase\<close>
  | EvGetLogs string string "ext_error + string"
  | EvCreateNetworkPolicy string network_policy "ext_error option"

type_synonym 'w cluster_sys = "('w, cluster_event) sys"

record 'w cluster_client =
  CreateNamespace :: "namespace_object \<Rightarrow> ('w, ext_error option) api"
  DeleteNamespace :: "string \<Rightarrow> ('w, ext_error option) api"
  CreateDeployment :: "string \<Rightarrow> workload_deployment \<Rightarrow> ('w, ext_error option) api"
  GetDeployment :: "string \<Rightarrow> string \<Rightarrow> ('w, ext_error + (string \<times> string) list) api"
  CreateService :: "string \<Rightarrow> service_object \<Rightarrow> ('w, ext_error option) api"
  CreatePVC :: "string \<Rightarrow> pvc_object \<Rightarrow> ('w, ext_error option) api"
  CreatePod :: "string \<Rightarrow> pod_object \<Rightarrow> ('w, ext_error option) api"

record api_errors =
  IsAlreadyExists :: "ext_error \<Rightarrow> bool"
  IsNotFound :: "ext_error \<Rightarrow> bool"
  IsForbidden :: "ext_error \<Rightarrow> bool"
  IsInvalid :: "ext_error \<Rightarrow> bool"
  IsMethodNotSupported :: "ext_error \<Rightarrow> bool"
  IsNotAcceptable :: "ext_error \<Rightarrow> bool"
  IsResourceExpired :: "ext_error \<Rightarrow> bool"
  IsUnauthorized :: "ext_error \<Rightarrow> bool"

subsection \<open>Polling with \<open>wait.PollUntilContextTimeout\<close>\<close>

type_synonym 'w condition = "'w cluster_sys \<Rightarrow> (go_error + bool) \<times> 'w cluster_sys"

text \<open>Interval, timeout, whether the first evaluation is immediate, condition.\<close>

type_synonym 'w poller = "nat \<Rightarrow> nat \<Rightarrow> bool \<Rightarrow> 'w condition \<Rightarrow> 'w cluster_sys \<Rightarrow> go_error option \<times> 'w cluster_sys"

text \<open>
  Between two evaluations time passes and the cluster changes, but the process does nothing.
\<close>

definition pause :: "'w cluster_sys \<Rightarrow> 'w cluster_sys \<Rightarrow> bool" where
  "pause s s' \<longleftrightarrow> hist s' = hist s \<and> out s' = out s \<and> now s \<le> now s'"

inductive poll_run :: "'w condition \<Rightarrow> 'w cluster_sys \<Rightarrow> go_error option \<Rightarrow> 'w cluster_sys \<Rightarrow> bool" for cond where
  met: "cond s = (Inr True, s') \<Longrightarrow> poll_run cond s None s'"
| gave_up: "cond s = (Inl e, s') \<Longrightarrow> poll_run cond s (Some e) s'"
| expired: "cond s = (Inr False, s1) \<Longrightarrow> pause s1 s' \<Longrightarrow> poll_run cond s (Some e) s'"
| again: "cond s = (Inr False, s1) \<Longrightarrow> pause s1 s2 \<Longrightarrow> poll_run cond s2 r s' \<Longrightarrow> poll_run cond s r s'"

inductive_cases poll_runE: "poll_run cond s r s'"

text \<open>
  The documented behaviour of an immediate poll: the condition is evaluated at once and then
  once per interval; nil is returned when it gives true, its error when it gives one, and the
  error of the context when that is done first.
\<close>

definition poll_contract :: "'w poller \<Rightarrow> bool" where
  "poll_contract poll \<longleftrightarrow>
     (\<forall>interval timeout cond s r s'. poll interval timeout True cond s = (r, s') \<longrightarrow> poll_run cond s r s')"

subsection \<open>Namespaces\<close>

definition isNonTransientError :: "api_errors \<Rightarrow> ext_error \<Rightarrow> bool" where
  "isNonTransientError k e \<longleftrightarrow>
     IsForbidden k e \<or> IsInvalid k e \<or> IsMethodNotSupported k e \<or> IsNotAcceptable k e \<or>
     IsResourceExpired k e \<or> IsUnauthorized k e"

definition test_namespace :: "string \<Rightarrow> namespace_object" where
  "test_namespace name = \<lparr>nsName = name, nsLabels = [(''e2e-test'', ''true''), (''created-by'', ''rosa-e2e'')]\<rparr>"

definition creation_verdict :: "api_errors \<Rightarrow> ext_error option \<Rightarrow> go_error + bool" where
  "creation_verdict k answer =
     (case answer of
        None \<Rightarrow> Inr True
      | Some e \<Rightarrow>
          if IsAlreadyExists k e then Inr True
          else if isNonTransientError k e then Inl (Ext e)
          else Inr False)"

definition namespace_condition ::
  "api_errors \<Rightarrow> 'w cluster_client \<Rightarrow> string \<Rightarrow> 'w condition" where
  "namespace_condition k cl name s =
     (case call (EvCreateNamespace (test_namespace name)) (CreateNamespace cl (test_namespace name)) s of
        (answer, s1) \<Rightarrow> (creation_verdict k answer, s1))"

definition delete_test_namespace ::
  "api_errors \<Rightarrow> 'w cluster_client \<Rightarrow> string \<Rightarrow> 'w cluster_sys \<Rightarrow> go_error option \<times> 'w cluster_sys" where
  "delete_test_namespace k cl name s =
     (case call (EvDeleteNamespace name) (DeleteNamespace cl name) s of
        (Some e, s1) \<Rightarrow>
          (if \<not> IsNotFound k e then Some (Errorf ''deleting test namespace %s: %w'' [AStr name, AExt e]) else None, s1)
      | (None, s1) \<Rightarrow> (None, s1))"

definition CreateTestNamespace ::
  "api_errors \<Rightarrow> 'w poller \<Rightarrow> 'w cluster_client \<Rightarrow> string \<Rightarrow> 'w cluster_sys \<Rightarrow>
   (go_error + ('w cluster_sys \<Rightarrow> go_error option \<times> 'w cluster_sys)) \<times> 'w cluster_sys" where
  "CreateTestNamespace k poll cl name s =
     (case poll (seconds 10) (minutes 2) True (namespace_condition k cl name) s of
        (Some err, s1) \<Rightarrow> (Inl (Errorf ''creating namespace %s: %w'' [AStr name, AWrap err]), s1)
      | (None, s1) \<Rightarrow> (Inr (delete_test_namespace k cl name), s1))"

subsection \<open>Workloads\<close>

definition app_labels :: "(string \<times> string) list" where
  "app_labels = [(''app'', ''test-nginx'')]"

definition nginx_deployment :: "string \<Rightarrow> workload_deployment" where
  "nginx_deployment namespace =
     \<lparr>wdName = ''test-nginx'', wdNamespace = namespace, wdReplicas = 1, wdMatchLabels = app_labels,
      wdPodLabels = app_labels,
      wdContainers =
        [\<lparr>cName = ''httpd'', cImage = ''registry.access.redhat.com/ubi9/httpd-24:latest'',
          cPorts = [\<lparr>ContainerPort = 8080, cpProtocol = ''TCP''\<rparr>]\<rparr>]\<rparr>"

definition nginx_service :: "string \<Rightarrow> service_object" where
  "nginx_service namespace =
     \<lparr>svcName = ''test-nginx-svc'', svcNamespace = namespace, svcType = ''ClusterIP'', svcSelector = app_labels,
      svcPorts = [\<lparr>Port = 80, TargetPort = 8080, spProtocol = ''TCP''\<rparr>]\<rparr>"

fun available_condition :: "(string \<times> string) list \<Rightarrow> bool" where
  "available_condition [] = False"
| "available_condition ((ty, st) # conds) =
     (if ty = ''Available'' \<and> st = ''True'' then True else available_condition conds)"

definition deployment_verdict :: "ext_error + (string \<times> string) list \<Rightarrow> go_error + bool" where
  "deployment_verdict answer = (case answer of Inl e \<Rightarrow> Inl (Ext e) | Inr conds \<Rightarrow> Inr (available_condition conds))"

definition deployment_condition :: "'w cluster_client \<Rightarrow> string \<Rightarrow> 'w condition" where
  "deployment_condition cl namespace s =
     (case call (EvGetDeployment namespace ''test-nginx'') (GetDeployment cl namespace ''test-nginx'') s of
        (answer, s1) \<Rightarrow> (deployment_verdict answer, s1))"

definition discard_namespace :: "'w cluster_client \<Rightarrow> string \<Rightarrow> 'w cluster_sys \<Rightarrow> 'w cluster_sys" where
  "discard_namespace cl namespace s = snd (call (EvDeleteNamespace namespace) (DeleteNamespace cl namespace) s)"

definition DeployTestWorkload ::
  "api_errors \<Rightarrow> 'w poller \<Rightarrow> 'w cluster_client \<Rightarrow> string \<Rightarrow> 'w cluster_sys \<Rightarrow>
   (go_error + ('w cluster_sys \<Rightarrow> 'w cluster_sys)) \<times> 'w cluster_sys" where
  "DeployTestWorkload k poll cl namespace s =
     (let ns = \<lparr>nsName = namespace, nsLabels = []\<rparr>; deployment = nginx_deployment namespace;
          service = nginx_service namespace
      in case call (EvCreateNamespace ns) (CreateNamespace cl ns) s of (a1, s1) \<Rightarrow>
        (case (case a1 of None \<Rightarrow> None | Some e \<Rightarrow> if IsAlreadyExists k e then None else Some e) of
           Some e \<Rightarrow> (Inl (Errorf ''creating namespace %s: %w'' [AStr namespace, AExt e]), s1)
         | None \<Rightarrow>
             (case call (EvCreateDeployment namespace deployment) (CreateDeployment cl namespace deployment) s1 of
                (Some e, s2) \<Rightarrow> (Inl (Errorf ''creating deployment: %w'' [AExt e]), s2)
              | (None, s2) \<Rightarrow>
                  (case call (EvCreateService namespace service) (CreateService cl namespace service) s2 of
                     (Some e, s3) \<Rightarrow> (Inl (Errorf ''creating service: %w'' [AExt e]), s3)
                   | (None, s3) \<Rightarrow>
                       (case poll (seconds 5) (minutes 5) True (deployment_condition cl namespace) s3 of
                          (Some err, s4) \<Rightarrow>
                            (Inl (Errorf ''waiting for deployment to be available: %w'' [AWrap err]), s4)
                        | (None, s4) \<Rightarrow> (Inr (discard_namespace cl namespace), s4))))))"

subsection \<open>Storage\<close>

definition test_pvc :: "string \<Rightarrow> string \<Rightarrow> pvc_object" where
  "test_pvc namespace storageClass =
     \<lparr>pvcName = ''test-pvc'', pvcNamespace = namespace, pvcAccessModes = [''ReadWriteOnce''], pvcStorage = ''1Gi'',
      pvcStorageClass = (if storageClass \<noteq> [] then Some storageClass else None)\<rparr>"

definition CreateTestPVC ::
  "'w cluster_client \<Rightarrow> string \<Rightarrow> string \<Rightarrow> 'w cluster_sys \<Rightarrow> (go_error + string) \<times> 'w cluster_sys" where
  "CreateTestPVC cl namespace storageClass s =
     (let pvc = test_pvc namespace storageClass
      in case call (EvCreatePVC namespace pvc) (CreatePVC cl namespace pvc) s of
           (Some e, s1) \<Rightarrow> (Inl (Errorf ''creating PVC: %w'' [AExt e]), s1)
         | (None, s1) \<Rightarrow> (Inr ''test-pvc'', s1))"

definition test_pod :: "string \<Rightarrow> string \<Rightarrow> pod_object" where
  "test_pod namespace claim =
     \<lparr>podName = ''test-pod-pvc'', podNamespace = namespace, podRunAsNonRoot = True, podRunAsUser = 1000,
      podFSGroup = 1000, podSeccompProfile = ''RuntimeDefault'',
      podContainers =
        [\<lparr>pcName = ''busybox'', pcImage = ''registry.access.redhat.com/ubi9/ubi-minimal:latest'',
          pcCommand = [''/bin/sh''],
          pcArgs = [''-c'', ''echo '' @ CHR 0x27 # ''test data'' @ [CHR 0x27] @ '' > /data/test.txt && sleep 3600''],
          pcMounts = [(''data'', ''/data'')], pcAllowPrivilegeEscalation = False, pcDropCapabilities = [''ALL'']\<rparr>],
      podVolumes = [(''data'', claim)]\<rparr>"

definition CreateTestPodWithPVC ::
  "'w cluster_client \<Rightarrow> string \<Rightarrow> string \<Rightarrow> 'w cluster_sys \<Rightarrow> (go_error + string) \<times> 'w cluster_sys" where
  "CreateTestPodWithPVC cl namespace claim s =
     (let pod = test_pod namespace claim
      in case call (EvCreatePod namespace pod) (CreatePod cl namespace pod) s of
           (Some e, s1) \<Rightarrow> (Inl (Errorf ''creating pod with PVC: %w'' [AExt e]), s1)
         | (None, s1) \<Rightarrow> (Inr ''test-pod-pvc'', s1))"

end
