(* ===== verification/TestResourceProperties.thy ===== *)
theory TestResourceProperties
  imports TestResources
begin

text \<open>
  What the creation of test resources guarantees. \<open>condition_run\<close> describes any poll over a
  condition that makes one request and decides by its answer; the namespace and the
  deployment conditions are its two interpretations.
\<close>

subsection \<open>Polls over a single request\<close>

locale request_condition =
  fixes cond :: "'w condition" and ev :: "'a \<Rightarrow> cluster_event" and verdict :: "'a \<Rightarrow> go_error + bool"
  assumes one_request: "cond s = (v, s1) \<Longrightarrow> \<exists>a. hist s1 = hist s @ [ev a] \<and> v = verdict a"
begin

lemma condition_run:
  "poll_run cond s r s' \<Longrightarrow>
     \<exists>answers. answers \<noteq> [] \<and> hist s' = hist s @ map ev answers \<and>
       list_all (\<lambda>a. verdict a = Inr False) (butlast answers) \<and>
       (r = None \<longleftrightarrow> verdict (last answers) = Inr True)"
proof (induction rule: poll_run.induct)
  case (met s s')
  from one_request [OF met] obtain a where "hist s' = hist s @ [ev a]" "Inr True = verdict a" by blast
  then show ?case by (intro exI [where x = "[a]"]) simp
next
  case (gave_up s e s')
  from one_request [OF gave_up] obtain a where "hist s' = hist s @ [ev a]" "Inl e = verdict a" by blast
  then show ?case by (intro exI [where x = "[a]"]) (simp flip: \<open>Inl e = verdict a\<close>)
next
  case (expired s s1 s' e)
  from one_request [OF expired(1)] obtain a where "hist s1 = hist s @ [ev a]" "Inr False = verdict a" by blast
  with expired(2) show ?case by (intro exI [where x = "[a]"]) (simp add: pause_def flip: \<open>Inr False = verdict a\<close>)
next
  case (again s s1 s2 r s')
  from one_request [OF again(1)] obtain a where a: "hist s1 = hist s @ [ev a]" "verdict a = Inr False" by metis
  from again.IH obtain answers where "answers \<noteq> []" "hist s' = hist s2 @ map ev answers"
      "list_all (\<lambda>a. verdict a = Inr False) (butlast answers)" "r = None \<longleftrightarrow> verdict (last answers) = Inr True"
    by blast
  with a again(2) show ?case by (intro exI [where x = "a # answers"]) (simp add: pause_def)
qed

end

interpretation namespace: request_condition "namespace_condition k cl name"
    "EvCreateNamespace (test_namespace name)" "creation_verdict k"
  by unfold_locales (auto simp: namespace_condition_def dest: hist_call split: prod.splits)

interpretation deployment: request_condition "deployment_condition cl namespace"
    "EvGetDeployment namespace ''test-nginx''" deployment_verdict
  by unfold_locales (auto simp: deployment_condition_def dest: hist_call split: prod.splits)

subsection \<open>Namespaces\<close>

definition created :: "api_errors \<Rightarrow> ext_error option \<Rightarrow> bool" where
  "created k answer \<longleftrightarrow> (case answer of None \<Rightarrow> True | Some e \<Rightarrow> IsAlreadyExists k e)"

definition transient :: "api_errors \<Rightarrow> ext_error option \<Rightarrow> bool" where
  "transient k answer \<longleftrightarrow>
     (case answer of None \<Rightarrow> False | Some e \<Rightarrow> \<not> IsAlreadyExists k e \<and> \<not> isNonTransientError k e)"

lemma creation_verdict_iff:
  "creation_verdict k answer = Inr True \<longleftrightarrow> created k answer"
  "creation_verdict k answer = Inr False \<longleftrightarrow> transient k answer"
  by (auto simp: creation_verdict_def created_def transient_def split: option.splits)

lemma CreateTestNamespace_run:
  assumes "poll_contract poll"
    and "CreateTestNamespace k poll cl name s = (r, s')"
  shows "\<exists>answers. answers \<noteq> [] \<and> hist s' = hist s @ map (EvCreateNamespace (test_namespace name)) answers \<and>
     list_all (transient k) (butlast answers) \<and> ((\<exists>cleanup. r = Inr cleanup) \<longleftrightarrow> created k (last answers)) \<and>
     (\<forall>cleanup t err t'. r = Inr cleanup \<longrightarrow> cleanup t = (err, t') \<longrightarrow>
        (\<exists>a. hist t' = hist t @ [EvDeleteNamespace name a] \<and> (err = None \<longleftrightarrow> (\<forall>e. a = Some e \<longrightarrow> IsNotFound k e))))"
proof -
  obtain p s1 where p: "poll (seconds 10) (minutes 2) True (namespace_condition k cl name) s = (p, s1)"
    by (cases "poll (seconds 10) (minutes 2) True (namespace_condition k cl name) s")
  with assms(1) have "poll_run (namespace_condition k cl name) s p s1" by (auto simp: poll_contract_def)
  from namespace.condition_run [OF this] obtain answers where answers: "answers \<noteq> []"
      "hist s1 = hist s @ map (EvCreateNamespace (test_namespace name)) answers"
      "list_all (transient k) (butlast answers)" "p = None \<longleftrightarrow> created k (last answers)"
    by (auto simp: creation_verdict_iff)
  have run: "s' = s1" "(\<exists>cleanup. r = Inr cleanup) \<longleftrightarrow> p = None" "r = Inr cleanup \<Longrightarrow> cleanup = delete_test_namespace k cl name"
    for cleanup
    using assms(2) p by (auto simp: CreateTestNamespace_def split: option.splits)
  have "\<exists>a. hist t' = hist t @ [EvDeleteNamespace name a] \<and> (err = None \<longleftrightarrow> (\<forall>e. a = Some e \<longrightarrow> IsNotFound k e))"
    if "delete_test_namespace k cl name t = (err, t')" for t err t'
    using that by (auto simp: delete_test_namespace_def dest!: hist_call split: prod.splits option.splits if_splits)
  with answers run show ?thesis by (intro exI [where x = answers]) auto
qed

text \<open>
  C30: creating a test namespace sends the same creation request one or more times and
  nothing else, again only after a transient error; it succeeds exactly if the last answer
  was a success or said that the namespace exists. The cleanup it then returns deletes that
  very namespace and fails only on an error other than that it is gone.
\<close>

theorem CreateTestNamespace_spec:
  assumes "poll_contract poll"
    and "CreateTestNamespace k poll cl name s = (r, s')"
  shows "\<exists>answers. answers \<noteq> [] \<and> hist s' = hist s @ map (EvCreateNamespace (test_namespace name)) answers \<and>
     list_all (transient k) (butlast answers) \<and> ((\<exists>cleanup. r = Inr cleanup) \<longleftrightarrow> created k (last answers)) \<and>
     (\<forall>cleanup t err t'. r = Inr cleanup \<longrightarrow> cleanup t = (err, t') \<longrightarrow>
        (\<exists>a. hist t' = hist t @ [EvDeleteNamespace name a] \<and> (err = None \<longleftrightarrow> (\<forall>e. a = Some e \<longrightarrow> IsNotFound k e))))"
  using assms by (rule CreateTestNamespace_run)

subsection \<open>Workloads\<close>

lemma available_condition_iff: "available_condition conds \<longleftrightarrow> (''Available'', ''True'') \<in> set conds"
  by (induction conds rule: available_condition.induct) auto

definition available :: "ext_error + (string \<times> string) list \<Rightarrow> bool" where
  "available answer \<longleftrightarrow> (case answer of Inl _ \<Rightarrow> False | Inr conds \<Rightarrow> (''Available'', ''True'') \<in> set conds)"

definition unavailable :: "ext_error + (string \<times> string) list \<Rightarrow> bool" where
  "unavailable answer \<longleftrightarrow> (case answer of Inl _ \<Rightarrow> False | Inr conds \<Rightarrow> (''Available'', ''True'') \<notin> set conds)"

lemma deployment_verdict_iff:
  "deployment_verdict answer = Inr True \<longleftrightarrow> available answer"
  "deployment_verdict answer = Inr False \<longleftrightarrow> unavailable answer"
  by (auto simp: deployment_verdict_def available_def unavailable_def available_condition_iff split: sum.splits)

lemma DeployTestWorkload_run:
  assumes "poll_contract poll"
    and "DeployTestWorkload k poll cl namespace s = (r, s')"
  shows "\<exists>a1 a2 a3 gets. let
       evs = [EvCreateNamespace \<lparr>nsName = namespace, nsLabels = []\<rparr> a1,
              EvCreateDeployment namespace (nginx_deployment namespace) a2,
              EvCreateService namespace (nginx_service namespace) a3]
     in (if \<not> created k a1 then hist s' = hist s @ take 1 evs \<and> (\<exists>e. r = Inl e)
         else if a2 \<noteq> None then hist s' = hist s @ take 2 evs \<and> (\<exists>e. r = Inl e)
         else if a3 \<noteq> None then hist s' = hist s @ evs \<and> (\<exists>e. r = Inl e)
         else gets \<noteq> [] \<and> hist s' = hist s @ evs @ map (EvGetDeployment namespace ''test-nginx'') gets \<and>
              list_all unavailable (butlast gets) \<and> ((\<exists>cleanup. r = Inr cleanup) \<longleftrightarrow> available (last gets)))"
proof -
  let ?ns = "\<lparr>nsName = namespace, nsLabels = []\<rparr>"
  obtain a1 s1 where c1: "call (EvCreateNamespace ?ns) (CreateNamespace cl ?ns) s = (a1, s1)"
    by (cases "call (EvCreateNamespace ?ns) (CreateNamespace cl ?ns) s")
  let ?dep = "nginx_deployment namespace"
  obtain a2 s2 where c2: "call (EvCreateDeployment namespace ?dep) (CreateDeployment cl namespace ?dep) s1 = (a2, s2)"
    by (cases "call (EvCreateDeployment namespace ?dep) (CreateDeployment cl namespace ?dep) s1")
  let ?svc = "nginx_service namespace"
  obtain a3 s3 where c3: "call (EvCreateService namespace ?svc) (CreateService cl namespace ?svc) s2 = (a3, s3)"
    by (cases "call (EvCreateService namespace ?svc) (CreateService cl namespace ?svc) s2")
  obtain p s4 where p: "poll (seconds 5) (minutes 5) True (deployment_condition cl namespace) s3 = (p, s4)"
    by (cases "poll (seconds 5) (minutes 5) True (deployment_condition cl namespace) s3")
  with assms(1) have "poll_run (deployment_condition cl namespace) s3 p s4" by (auto simp: poll_contract_def)
  from deployment.condition_run [OF this] obtain gets where gets: "gets \<noteq> []"
      "hist s4 = hist s3 @ map (EvGetDeployment namespace ''test-nginx'') gets"
      "list_all unavailable (butlast gets)" "p = None \<longleftrightarrow> available (last gets)"
    by (auto simp: deployment_verdict_iff)
  have exists: "(case a1 of None \<Rightarrow> None | Some e \<Rightarrow> if IsAlreadyExists k e then None else Some e) = None \<longleftrightarrow> created k a1"
    by (auto simp: created_def split: option.splits)
  note run = assms(2) [unfolded DeployTestWorkload_def Let_def c1 c2 c3 p prod.case]
  note h = hist_call [OF c1] hist_call [OF c2] hist_call [OF c3]
  show ?thesis
  proof (rule exI [where x = a1], rule exI [where x = a2], rule exI [where x = a3], rule exI [where x = gets],
      unfold Let_def, cases "created k a1"; cases a2; cases a3; cases p)
  qed (use run exists h gets in \<open>auto split: option.splits if_splits\<close>)
qed

text \<open>
  C33: a workload is deployed in order: namespace, deployment, service, and only when all
  three were accepted (the namespace may exist already) the deployment is watched. The call
  succeeds exactly if the last reading shows the condition Available as True; every reading
  before it could be read and did not.
\<close>

theorem DeployTestWorkload_spec:
  assumes "poll_contract poll"
    and "DeployTestWorkload k poll cl namespace s = (r, s')"
  shows "\<exists>a1 a2 a3 gets. let
       evs = [EvCreateNamespace \<lparr>nsName = namespace, nsLabels = []\<rparr> a1,
              EvCreateDeployment namespace (nginx_deployment namespace) a2,
              EvCreateService namespace (nginx_service namespace) a3]
     in (if \<not> created k a1 then hist s' = hist s @ take 1 evs \<and> (\<exists>e. r = Inl e)
         else if a2 \<noteq> None then hist s' = hist s @ take 2 evs \<and> (\<exists>e. r = Inl e)
         else if a3 \<noteq> None then hist s' = hist s @ evs \<and> (\<exists>e. r = Inl e)
         else gets \<noteq> [] \<and> hist s' = hist s @ evs @ map (EvGetDeployment namespace ''test-nginx'') gets \<and>
              list_all unavailable (butlast gets) \<and> ((\<exists>cleanup. r = Inr cleanup) \<longleftrightarrow> available (last gets)))"
  using assms by (rule DeployTestWorkload_run)

text \<open>The service finds the pods of the deployment, on the port they listen on.\<close>

lemma service_reaches_pods:
  "svcSelector (nginx_service namespace) = wdPodLabels (nginx_deployment namespace) \<and>
   wdMatchLabels (nginx_deployment namespace) = wdPodLabels (nginx_deployment namespace) \<and>
   map (\<lambda>p. (TargetPort p, spProtocol p)) (svcPorts (nginx_service namespace)) =
   concat (map (\<lambda>c. map (\<lambda>p. (ContainerPort p, cpProtocol p)) (cPorts c)) (wdContainers (nginx_deployment namespace)))"
  by (simp add: nginx_service_def nginx_deployment_def)

subsection \<open>Concrete runs\<close>

text \<open>A poller that evaluates the condition once per interval until the timeout, at no cost.\<close>

fun poll_rounds :: "nat \<Rightarrow> 'w condition \<Rightarrow> 'w cluster_sys \<Rightarrow> go_error option \<times> 'w cluster_sys" where
  "poll_rounds rounds cond s =
     (case cond s of
        (Inl e, s1) \<Rightarrow> (Some e, s1)
      | (Inr True, s1) \<Rightarrow> (None, s1)
      | (Inr False, s1) \<Rightarrow>
          (case rounds of
             0 \<Rightarrow> (Some (Ext (plain_error ''context deadline exceeded'')), s1)
           | Suc n \<Rightarrow> poll_rounds n cond s1))"

declare poll_rounds.simps [simp del]

definition counting_poller :: "'w poller" where
  "counting_poller interval timeout immediate cond s = poll_rounds (timeout div interval) cond s"

lemma poll_rounds_run: "poll_rounds n cond s = (r, s') \<Longrightarrow> poll_run cond s r s'"
proof (induction n arbitrary: s)
  case 0
  then show ?case
    by (auto simp: poll_rounds.simps [of 0] pause_def intro: poll_run.intros
        split: prod.splits sum.splits bool.splits)
next
  case (Suc n)
  show ?case
  proof (cases "\<exists>s1. cond s = (Inr False, s1)")
    case True
    then obtain s1 where c: "cond s = (Inr False, s1)" ..
    with Suc.prems have "poll_rounds n cond s1 = (r, s')" by (simp add: poll_rounds.simps [of "Suc n"])
    from poll_run.again [OF c _ Suc.IH [OF this]] show ?thesis by (simp add: pause_def)
  next
    case False
    with Suc.prems show ?thesis
      by (auto simp: poll_rounds.simps [of "Suc n"] intro: poll_run.intros split: prod.splits sum.splits bool.splits)
  qed
qed

lemma counting_poller_contract: "poll_contract counting_poller"
  by (auto simp: poll_contract_def counting_poller_def intro: poll_rounds_run)

definition demo_errors :: api_errors where
  "demo_errors =
     \<lparr>IsAlreadyExists = (\<lambda>e. ereason e = ''AlreadyExists''), IsNotFound = (\<lambda>e. ereason e = ''NotFound''),
      IsForbidden = (\<lambda>e. ereason e = ''Forbidden''), IsInvalid = (\<lambda>e. ereason e = ''Invalid''),
      IsMethodNotSupported = (\<lambda>e. ereason e = ''MethodNotAllowed''),
      IsNotAcceptable = (\<lambda>e. ereason e = ''NotAcceptable''), IsResourceExpired = (\<lambda>e. ereason e = ''Expired''),
      IsUnauthorized = (\<lambda>e. ereason e = ''Unauthorized'')\<rparr>"

text \<open>A cluster whose first answer is a transient error; the world counts the requests.\<close>

definition flaky :: "nat \<Rightarrow> ext_error option" where
  "flaky w = (if w = 0 then Some (plain_error ''no such host'') else None)"

definition flaky_cluster :: "nat cluster_client" where
  "flaky_cluster =
     \<lparr>CreateNamespace = (\<lambda>_ w. ((flaky w, 0), Suc w)), DeleteNamespace = (\<lambda>_ w. ((None, 0), Suc w)),
      CreateDeployment = (\<lambda>_ _ w. ((None, 0), Suc w)),
      GetDeployment = (\<lambda>_ _ w. ((Inr (if w < 5 then [] else [(''Available'', ''True'')]), 0), Suc w)),
      CreateService = (\<lambda>_ _ w. ((None, 0), Suc w)), CreatePVC = (\<lambda>_ _ w. ((None, 0), Suc w)),
      CreatePod = (\<lambda>_ _ w. ((None, 0), Suc w))\<rparr>"

lemma demo_rounds: "minutes 2 div seconds 10 = Suc 11" "minutes 5 div seconds 5 = Suc (Suc 58)"
  by (simp_all add: minutes_def seconds_def)

lemma demo_transient: "\<not> isNonTransientError demo_errors (plain_error m)" "\<not> IsAlreadyExists demo_errors (plain_error m)"
  by (simp_all add: isNonTransientError_def demo_errors_def)

theorem CreateTestNamespace_spec_witness:
  "\<exists>answers. hist (snd (CreateTestNamespace demo_errors counting_poller flaky_cluster ''e2e'' (start 0))) =
       map (EvCreateNamespace (test_namespace ''e2e'')) answers \<and>
     length answers = 2 \<and> created demo_errors (last answers)"
proof -
  let ?run = "CreateTestNamespace demo_errors counting_poller flaky_cluster ''e2e'' (start 0)"
  have hist: "length (hist (snd ?run)) = 2" "\<exists>c. fst ?run = Inr c"
    by (simp_all add: CreateTestNamespace_def counting_poller_def demo_rounds poll_rounds.simps namespace_condition_def
        call_def flaky_cluster_def flaky_def creation_verdict_def demo_transient)
  have run: "?run = (fst ?run, snd ?run)" by simp
  from CreateTestNamespace_spec [OF counting_poller_contract run] obtain answers where
    w: "hist (snd ?run) = map (EvCreateNamespace (test_namespace ''e2e'')) answers"
      "(\<exists>cleanup. fst ?run = Inr cleanup) \<longleftrightarrow> created demo_errors (last answers)"
    by auto
  have "length answers = 2" using hist(1) unfolding w(1) by simp
  with w hist(2) show ?thesis by blast
qed

theorem DeployTestWorkload_spec_witness:
  "\<exists>gets. hist (snd (DeployTestWorkload demo_errors counting_poller flaky_cluster ''e2e'' (start 1))) =
       [EvCreateNamespace \<lparr>nsName = ''e2e'', nsLabels = []\<rparr> None,
        EvCreateDeployment ''e2e'' (nginx_deployment ''e2e'') None,
        EvCreateService ''e2e'' (nginx_service ''e2e'') None] @
       map (EvGetDeployment ''e2e'' ''test-nginx'') gets \<and> available (last gets)"
proof -
  let ?run = "DeployTestWorkload demo_errors counting_poller flaky_cluster ''e2e'' (start 1)"
  have ok: "\<exists>c. fst ?run = Inr c"
    "hist (snd ?run) = [EvCreateNamespace \<lparr>nsName = ''e2e'', nsLabels = []\<rparr> None,
        EvCreateDeployment ''e2e'' (nginx_deployment ''e2e'') None, EvCreateService ''e2e'' (nginx_service ''e2e'') None,
        EvGetDeployment ''e2e'' ''test-nginx'' (Inr []),
        EvGetDeployment ''e2e'' ''test-nginx'' (Inr [(''Available'', ''True'')])]"
    by (simp_all add: DeployTestWorkload_def counting_poller_def demo_rounds poll_rounds.simps deployment_condition_def
        deployment_verdict_def call_def flaky_cluster_def flaky_def start_def)
  have run: "?run = (fst ?run, snd ?run)" by simp
  from DeployTestWorkload_spec [OF counting_poller_contract run] ok show ?thesis
    by (auto simp: Let_def start_def split: if_splits)
qed

text \<open>
  When the deployment cannot be created, the namespace created just before stays: the call
  returns no cleanup and does not delete it itself.
\<close>

definition quota_cluster :: "nat cluster_client" where
  "quota_cluster = flaky_cluster\<lparr>CreateDeployment := (\<lambda>_ _ w. ((Some (plain_error ''exceeded quota''), 0), Suc w))\<rparr>"

lemma failed_deployment_keeps_namespace:
  "fst (DeployTestWorkload demo_errors counting_poller quota_cluster ''e2e'' (start 1)) =
     Inl (Errorf ''creating deployment: %w'' [AExt (plain_error ''exceeded quota'')])"
  "hist (snd (DeployTestWorkload demo_errors counting_poller quota_cluster ''e2e'' (start 1))) =
     [EvCreateNamespace \<lparr>nsName = ''e2e'', nsLabels = []\<rparr> None,
      EvCreateDeployment ''e2e'' (nginx_deployment ''e2e'') (Some (plain_error ''exceeded quota''))]"
  by (simp_all add: DeployTestWorkload_def call_def quota_cluster_def flaky_cluster_def flaky_def start_def)

end
