(* ===== verification/Ocm.thy ===== *)
theory Ocm
  imports Config GoJson Polling
begin

text \<open>
  \<^verbatim>\<open>pkg/framework/ocm.go\<close> and \<^verbatim>\<open>pkg/framework/upgrade.go\<close>: the operations on clusters through
  the OCM API. The SDK connection is the record \<open>Connection\<close> of \<open>api\<close> functions, one per
  request the code sends, with the part of the response the code reads; every request is
  recorded as an \<open>ocm_event\<close>, as are the few requests to other services that the test
  context makes. The two waits are ticker loops under a context with a
  timeout. Random numbers and the date come from the record \<open>clock\<close>.
\<close>

subsection \<open>The OCM client and its requests\<close>

record ocm_cluster =
  ClusterState :: string
  RawVersion :: string
  CloudProviderID :: string
  HypershiftEnabled :: bool
  ClusterName :: string
  InfraID :: string
  STSOperatorRolePrefix :: string

record cluster_spec =
  specName :: string
  specProduct :: string
  specCloudProvider :: string
  specRegion :: string
  specHypershift :: "bool option"
  specMultiAZ :: bool
  specCCS :: bool
  specSubnetIDs :: "string list"
  specRoleARN :: string
  specSupportRoleARN :: string
  specOperatorRolePrefix :: string
  specOidcConfig :: "string option"
  specBillingAccountID :: "string option"
  specComputeMachineType :: string
  specCompute :: int
  specVersionID :: string
  specChannelGroup :: string
  specProperties :: "(string \<times> string) list"

datatype upgrade_target = ControlPlaneOf string | ClusterOf string | NodePoolOf string string

record upgrade_policy =
  policyVersion :: string
  policySchedule :: string
  policyType :: string
  policyNextRun :: nat

record 'w Connection =
  GetHypershift :: "string \<Rightarrow> ('w, ext_error + string) api"
    \<comment> \<open>the management cluster's name\<close>
  SearchClusters :: "string \<Rightarrow> nat \<Rightarrow> ('w, ext_error + int \<times> string) api"
    \<comment> \<open>\<open>Total()\<close> and \<open>Items().Get(0).ID()\<close>\<close>
  GetCluster :: "string \<Rightarrow> ('w, ext_error + ocm_cluster) api"
  AddCluster :: "cluster_spec \<Rightarrow> ('w, ext_error + string) api"
  RemoveCluster :: "string \<Rightarrow> ('w, ext_error option) api"
  GetCredentials :: "string \<Rightarrow> ('w, ext_error + string) api"
  SearchVersions :: "string \<Rightarrow> string \<Rightarrow> nat \<Rightarrow> ('w, ext_error + string list) api"
  GetServiceClusters :: "string \<Rightarrow> ('w, ext_error + (ext_error + json)) api"
    \<comment> \<open>the body, or why it is no JSON text\<close>
  GetShardTopology :: "string \<Rightarrow> ('w, ext_error + string) api"
  AddUpgradePolicy :: "upgrade_target \<Rightarrow> upgrade_policy \<Rightarrow> ('w, ext_error option) api"
  ListMachinePools :: "string \<Rightarrow> ('w, ext_error + int \<times> int) api"
    \<comment> \<open>\<open>Status()\<close> and \<open>Total()\<close>\<close>
  ListNodePools :: "string \<Rightarrow> ('w, ext_error + int \<times> string list) api"
    \<comment> \<open>\<open>Status()\<close> and the ids of the items\<close>
  GetNodePool :: "string \<Rightarrow> string \<Rightarrow> ('w, ext_error + string) api"
    \<comment> \<open>\<open>Version().RawID()\<close>\<close>
  BuildCluster :: "cluster_spec \<Rightarrow> ext_error option"
  BuildPolicy :: "upgrade_policy \<Rightarrow> ext_error option"

datatype ocm_event =
    EvHypershift string "ext_error + string"
  | EvSearchClusters string nat "ext_error + int \<times> string"
  | EvGetCluster string "ext_error + ocm_cluster"
  | EvAddCluster cluster_spec "ext_error + string"
  | EvRemoveCluster string "ext_error option"
  | EvCredentials string "ext_error + string"
  | EvSearchVersions string string nat "ext_error + string list"
  | EvServiceClusters string "ext_error + (ext_error + json)"
  | EvShard string "ext_error + string"
  | EvUpgrade upgrade_target upgrade_policy "ext_error option"
  | EvMachinePools string "ext_error + int \<times> int"
  | EvNodePools string "ext_error + int \<times> string list"
  | EvGetNodePool string string "ext_error + string"
  | EvListHostedClusters "ext_error + (string \<times> string) list" \<comment> \<open>namespace and name\<close>
  | EvGetConfigMap string string "ext_error + (string \<times> string) list"
  | EvRetrieveAWS "ext_error + bool"

type_synonym 'w ocm_sys = "('w, ocm_event) sys"

text \<open>The random source and today's month and day, which the world provides.\<close>

record 'w clock =
  IntN :: "nat \<Rightarrow> 'w \<Rightarrow> nat \<times> 'w"
  month_day :: "'w \<Rightarrow> nat \<times> nat"

subsection \<open>The connection\<close>

record connection_settings =
  setURL :: string
  setTokenURL :: string
  setClient :: "string \<times> string"
  setTokens :: "string option"

definition clientID :: string where
  [go_defs]: "clientID = ''cloud-services''"

definition clientSecret :: string where
  [go_defs]: "clientSecret = []"

definition connection_settings_of :: "(string \<Rightarrow> string) \<Rightarrow> Config \<Rightarrow> connection_settings" where
  "connection_settings_of env cfg =
     \<lparr>setURL = OCMBaseURL env cfg,
      setTokenURL = OCMTokenURL cfg,
      setClient =
        (if OCMClientID cfg \<noteq> [] \<and> OCMClientSecret cfg \<noteq> [] then (OCMClientID cfg, OCMClientSecret cfg)
         else if OCMClientID cfg \<noteq> [] then (OCMClientID cfg, clientSecret)
         else (clientID, clientSecret)),
      setTokens = (if OCMToken cfg \<noteq> [] then Some (OCMToken cfg) else None)\<rparr>"

definition NewOCMConnection ::
  "(connection_settings \<Rightarrow> ext_error + 'conn) \<Rightarrow> (string \<Rightarrow> string) \<Rightarrow> Config \<Rightarrow> go_error + 'conn" where
  "NewOCMConnection build env cfg =
     (case build (connection_settings_of env cfg) of
        Inl e \<Rightarrow> Inl (Errorf ''building OCM connection: %w'' [AExt e])
      | Inr conn \<Rightarrow> Inr conn)"

subsection \<open>Lookups\<close>

definition ResolveManagementClusterID ::
  "'w Connection \<Rightarrow> string \<Rightarrow> 'w ocm_sys \<Rightarrow> (go_error + string) \<times> 'w ocm_sys" where
  "ResolveManagementClusterID conn cluster s =
     (case call (EvHypershift cluster) (GetHypershift conn cluster) s of
        (Inl e, s1) \<Rightarrow>
          (Inl (Errorf ''getting hypershift config for cluster %s: %w'' [AStr cluster, AExt e]), s1)
      | (Inr mcName, s1) \<Rightarrow>
          if mcName = [] then
            (Inl (Errorf ''cluster %s has no management cluster assigned'' [AStr cluster]), s1)
          else
            (let query = ''name='' @ squote mcName in
             case call (EvSearchClusters query 1) (SearchClusters conn query 1) s1 of
               (Inl e, s2) \<Rightarrow>
                 (Inl (Errorf ''searching for management cluster %q: %w'' [AStr mcName, AExt e]), s2)
             | (Inr (n, firstID), s2) \<Rightarrow>
                 if n = 0
                 then (Inl (Errorf ''management cluster %q not found in OCM'' [AStr mcName]), s2)
                 else (Inr firstID, s2)))"

definition DetectClusterTopology ::
  "'w Connection \<Rightarrow> string \<Rightarrow> 'w ocm_sys \<Rightarrow> (go_error + string) \<times> 'w ocm_sys" where
  "DetectClusterTopology conn cluster s =
     (case call (EvGetCluster cluster) (GetCluster conn cluster) s of
        (Inl e, s1) \<Rightarrow>
          (Inl (Errorf ''getting cluster %s for topology detection: %w'' [AStr cluster, AExt e]), s1)
      | (Inr c, s1) \<Rightarrow>
          (Inr (if CloudProviderID c = ''gcp'' then ''osd-gcp''
                else if HypershiftEnabled c then ''hcp'' else ''classic''), s1))"

definition GetClusterState ::
  "'w Connection \<Rightarrow> string \<Rightarrow> 'w ocm_sys \<Rightarrow> (go_error + string) \<times> 'w ocm_sys" where
  "GetClusterState conn cluster s =
     (case call (EvGetCluster cluster) (GetCluster conn cluster) s of
        (Inl e, s1) \<Rightarrow> (Inl (Errorf ''getting cluster %s state: %w'' [AStr cluster, AExt e]), s1)
      | (Inr c, s1) \<Rightarrow> (Inr (ClusterState c), s1))"

text \<open>The parser of a kubeconfig is client-go's, a parameter.\<close>

definition clientConfigFromKubeconfig :: "(string \<Rightarrow> ext_error + 'rest) \<Rightarrow> string \<Rightarrow> go_error + 'rest" where
  "clientConfigFromKubeconfig parse kubeconfig =
     (case parse kubeconfig of Inl e \<Rightarrow> Inl (Ext e) | Inr cc \<Rightarrow> Inr cc)"

definition GetClusterCredentials ::
  "(string \<Rightarrow> ext_error + 'rest) \<Rightarrow> 'w Connection \<Rightarrow> string \<Rightarrow> 'w ocm_sys \<Rightarrow>
   (go_error + 'rest) \<times> 'w ocm_sys" where
  "GetClusterCredentials parse conn cluster s =
     (case call (EvCredentials cluster) (GetCredentials conn cluster) s of
        (Inl e, s1) \<Rightarrow> (Inl (Errorf ''getting credentials for cluster %s: %w'' [AStr cluster, AExt e]), s1)
      | (Inr kubeconfig, s1) \<Rightarrow>
          if kubeconfig = []
          then (Inl (Errorf ''no kubeconfig available for cluster %s'' [AStr cluster]), s1)
          else (case clientConfigFromKubeconfig parse kubeconfig of
                  Inl e \<Rightarrow>
                    (Inl (Errorf ''parsing kubeconfig for cluster %s: %w'' [AStr cluster, AWrap e]), s1)
                | Inr restConfig \<Rightarrow> (Inr restConfig, s1)))"

definition NewKubeClient :: "('rest \<Rightarrow> ext_error + 'kube) \<Rightarrow> 'rest \<Rightarrow> go_error + 'kube" where
  "NewKubeClient newForConfig restConfig =
     (case newForConfig restConfig of
        Inl e \<Rightarrow> Inl (Errorf ''creating kubernetes client: %w'' [AExt e])
      | Inr client \<Rightarrow> Inr client)"

definition DeleteCluster ::
  "'w Connection \<Rightarrow> string \<Rightarrow> 'w ocm_sys \<Rightarrow> go_error option \<times> 'w ocm_sys" where
  "DeleteCluster conn cluster s =
     (case call (EvRemoveCluster cluster) (RemoveCluster conn cluster) s of
        (Some e, s1) \<Rightarrow> (Some (Errorf ''deleting cluster %s: %w'' [AStr cluster, AExt e]), s1)
      | (None, s1) \<Rightarrow> (None, printf ''Cluster %s deletion initiated\<newline>'' [AStr cluster] s1))"

subsection \<open>Versions and shards\<close>

definition version_query :: "string \<Rightarrow> string \<Rightarrow> string" where
  "version_query channel topology =
     ''channel_group = '' @ squote channel @ '' AND enabled = '' @ squote ''true'' @
     (if topology = ''hcp'' then
        '' AND rosa_enabled = '' @ squote ''true'' @ '' AND hosted_control_plane_enabled = '' @ squote ''true''
      else if topology = ''osd-gcp'' then []
      else '' AND rosa_enabled = '' @ squote ''true'')"

definition resolveVersionForTopology ::
  "'w Connection \<Rightarrow> Config \<Rightarrow> string \<Rightarrow> 'w ocm_sys \<Rightarrow> (go_error + string) \<times> 'w ocm_sys" where
  "resolveVersionForTopology conn cfg topology s =
     (if OpenShiftVersion cfg \<noteq> [] then (Inr (''openshift-v'' @ OpenShiftVersion cfg), s)
      else
        (let query = version_query (ChannelGroup cfg) topology in
         case call (EvSearchVersions query ''raw_id desc'' 1) (SearchVersions conn query ''raw_id desc'' 1) s of
           (Inl e, s1) \<Rightarrow> (Inl (Errorf ''listing versions: %w'' [AExt e]), s1)
         | (Inr [], s1) \<Rightarrow>
             (Inl (Errorf ''no %s-compatible versions found for channel group %q''
                     [AStr topology, AStr (ChannelGroup cfg)]), s1)
         | (Inr (v # _), s1) \<Rightarrow>
             (Inr v, printf ''Resolved %s version: %s\<newline>'' [AStr topology, AStr v] s1)))"

definition shard_query :: "string \<Rightarrow> string \<Rightarrow> string \<Rightarrow> string" where
  "shard_query sector region status =
     ''sector is '' @ squote sector @ '' and region is '' @ squote region @
     '' and status in ('' @ squote status @ '')''"

text \<open>\<open>json.Unmarshal\<close> into \<open>scResponse\<close>: the shard id of every item.\<close>

definition decode_scResponse :: "json \<Rightarrow> go_error + string list" where
  "decode_scResponse =
     decode_field ''items''
       (decode_list (decode_field ''provision_shard_reference'' (decode_field ''id'' decode_string)))"

definition dedicated :: "string \<Rightarrow> bool" where
  "dedicated topology \<longleftrightarrow> topology = ''dedicated'' \<or> topology = ''dedicated-v2''"

fun find_dedicated ::
  "'w Connection \<Rightarrow> string \<Rightarrow> string list \<Rightarrow> 'w ocm_sys \<Rightarrow> string option \<times> 'w ocm_sys" where
  "find_dedicated conn sector [] s = (None, s)"
| "find_dedicated conn sector (shardID # ids) s =
     (if shardID = [] then find_dedicated conn sector ids s
      else (case call (EvShard shardID) (GetShardTopology conn shardID) s of
              (Inl _, s1) \<Rightarrow> (Some shardID, s1)
            | (Inr topology, s1) \<Rightarrow>
                if dedicated topology
                then (Some shardID,
                      printf ''Found dedicated shard %s for sector %s\<newline>'' [AStr shardID, AStr sector] s1)
                else find_dedicated conn sector ids s1))"

definition findShardForSector ::
  "'w Connection \<Rightarrow> string \<Rightarrow> string \<Rightarrow> string \<Rightarrow> 'w ocm_sys \<Rightarrow> (go_error + string) \<times> 'w ocm_sys" where
  "findShardForSector conn sector region status s =
     (let query = shard_query sector region status in
      case call (EvServiceClusters query) (GetServiceClusters conn query) s of
        (Inl e, s1) \<Rightarrow> (Inl (Errorf ''querying service clusters: %w'' [AExt e]), s1)
      | (Inr (Inl e), s1) \<Rightarrow> (Inl (Errorf ''parsing OSDFM response: %w'' [AExt e]), s1)
      | (Inr (Inr body), s1) \<Rightarrow>
          (case decode_scResponse body of
             Inl e \<Rightarrow> (Inl (Errorf ''parsing OSDFM response: %w'' [AWrap e]), s1)
           | Inr items \<Rightarrow>
               (case find_dedicated conn sector items s1 of
                  (Some shardID, s2) \<Rightarrow> (Inr shardID, s2)
                | (None, s2) \<Rightarrow>
                    (Inr (case items of [] \<Rightarrow> [] | i # _ \<Rightarrow> if i \<noteq> [] then i else []), s2))))"

definition resolveProvisionShard ::
  "'w Connection \<Rightarrow> string \<Rightarrow> string \<Rightarrow> 'w ocm_sys \<Rightarrow> (go_error + string) \<times> 'w ocm_sys" where
  "resolveProvisionShard conn sector region s =
     (case findShardForSector conn sector region ''ready'' s of (r, s1) \<Rightarrow>
        case r of
          Inr (c # cs) \<Rightarrow> (Inr (c # cs), s1)
        | _ \<Rightarrow>
            (case findShardForSector conn sector region ''maintenance'' s1 of (r, s2) \<Rightarrow>
               (case r of
                  Inr (c # cs) \<Rightarrow> Inr (c # cs)
                | _ \<Rightarrow> Inl (Errorf ''no provision shard found for sector %s in region %s''
                              [AStr sector, AStr region]), s2)))"

subsection \<open>Creating clusters\<close>

definition charset :: string where
  "charset = ''abcdefghijklmnopqrstuvwxyz0123456789''"

fun random_suffix :: "'w clock \<Rightarrow> nat \<Rightarrow> 'w \<Rightarrow> string \<times> 'w" where
  "random_suffix ck 0 w = ([], w)"
| "random_suffix ck (Suc n) w =
     (case IntN ck (length charset) w of (i, w1) \<Rightarrow>
        (case random_suffix ck n w1 of (cs, w2) \<Rightarrow> (charset ! i # cs, w2)))"

definition two_digits :: "nat \<Rightarrow> string" where
  "two_digits n = [digit_char (n div 10 mod 10), digit_char (n mod 10)]"

definition generateClusterName ::
  "'w clock \<Rightarrow> string \<Rightarrow> string \<Rightarrow> 'w ocm_sys \<Rightarrow> string \<times> 'w ocm_sys" where
  "generateClusterName ck pre topology s =
     (case random_suffix ck 5 (ext s) of (rnd, w) \<Rightarrow>
        (let topoTag = (if topology = ''classic'' then ''sts'' else topology);
             (month, day) = month_day ck w
         in (pre @ ''-'' @ topoTag @ ''-'' @ two_digits month @ two_digits day @ ''-'' @ rnd,
             s\<lparr>ext := w\<rparr>)))"

text \<open>The part of the specification both kinds of cluster share.\<close>

definition sts_cluster_spec :: "Config \<Rightarrow> string \<Rightarrow> string \<Rightarrow> (string \<times> string) list \<Rightarrow> cluster_spec" where
  "sts_cluster_spec cfg name versionID properties =
     \<lparr>specName = name, specProduct = ''rosa'', specCloudProvider = ''aws'',
      specRegion = AWSRegion cfg, specHypershift = None, specMultiAZ = False, specCCS = True,
      specSubnetIDs = SubnetIDs cfg,
      specRoleARN = ''arn:aws:iam::'' @ AWSAccountID cfg @ '':role/'' @ AccountRolePrefix cfg @ ''-Installer-Role'',
      specSupportRoleARN = ''arn:aws:iam::'' @ AWSAccountID cfg @ '':role/'' @ AccountRolePrefix cfg @ ''-Support-Role'',
      specOperatorRolePrefix = OperatorRolePrefix cfg, specOidcConfig = None,
      specBillingAccountID = (if BillingAccountID cfg \<noteq> [] then Some (BillingAccountID cfg) else None),
      specComputeMachineType = ComputeMachineType cfg, specCompute = ComputeNodes cfg,
      specVersionID = versionID, specChannelGroup = ChannelGroup cfg, specProperties = properties\<rparr>"

text \<open>\<open>clusterBuilder.Build()\<close>, then the request that creates the cluster.\<close>

definition add_cluster ::
  "'w Connection \<Rightarrow> cluster_spec \<Rightarrow> string \<Rightarrow> 'w ocm_sys \<Rightarrow> (go_error + string) \<times> 'w ocm_sys" where
  "add_cluster conn spec created s =
     (case BuildCluster conn spec of
        Some e \<Rightarrow> (Inl (Errorf ''building cluster object: %w'' [AExt e]), s)
      | None \<Rightarrow>
          (case call (EvAddCluster spec) (AddCluster conn spec) s of
             (Inl e, s1) \<Rightarrow> (Inl (Errorf ''creating cluster: %w'' [AExt e]), s1)
           | (Inr newID, s1) \<Rightarrow> (Inr newID, printf created [AStr (specName spec), AStr newID] s1)))"

text \<open>
  The shard a cluster is pinned to: the configured one, or one of the configured sector,
  which the code also stores in the configuration.
\<close>

definition shard_from_sector ::
  "'w Connection \<Rightarrow> Config \<Rightarrow> 'w ocm_sys \<Rightarrow> (go_error + Config) \<times> 'w ocm_sys" where
  "shard_from_sector conn cfg s =
     (if ProvisionShardID cfg = [] \<and> SectorName cfg \<noteq> [] then
        (case resolveProvisionShard conn (SectorName cfg) (AWSRegion cfg) s of
           (Inl e, s1) \<Rightarrow>
             (Inl (Errorf ''resolving provision shard for sector %s: %w'' [AStr (SectorName cfg), AWrap e]), s1)
         | (Inr shardID, s1) \<Rightarrow> (Inr (cfg\<lparr>ProvisionShardID := shardID\<rparr>), s1))
      else (Inr cfg, s))"

definition hcp_cluster_spec :: "Config \<Rightarrow> string \<Rightarrow> string \<Rightarrow> cluster_spec" where
  "hcp_cluster_spec cfg name versionID =
     (let properties = [(''rosa_creator_arn'', CreatorARN cfg)] @
            (if ProvisionShardID cfg \<noteq> [] then [(''provision_shard_id'', ProvisionShardID cfg)] else [])
      in (sts_cluster_spec cfg name versionID properties)
           \<lparr>specHypershift := Some True, specOidcConfig := Some (OIDCConfigID cfg)\<rparr>)"

text \<open>The result carries the configuration, which the call may have changed.\<close>

definition CreateRosaHCPCluster ::
  "'w clock \<Rightarrow> 'w Connection \<Rightarrow> Config \<Rightarrow> 'w ocm_sys \<Rightarrow> (go_error + string) \<times> Config \<times> 'w ocm_sys" where
  "CreateRosaHCPCluster ck conn cfg s =
     (case generateClusterName ck (ClusterNamePrefix cfg) ''hcp'' s of (name, s1) \<Rightarrow>
        (case resolveVersionForTopology conn cfg ''hcp'' s1 of
           (Inl e, s2) \<Rightarrow> (Inl (Errorf ''resolving version: %w'' [AWrap e]), cfg, s2)
         | (Inr versionID, s2) \<Rightarrow>
             (case shard_from_sector conn cfg s2 of
                (Inl e, s3) \<Rightarrow> (Inl e, cfg, s3)
              | (Inr cfg1, s3) \<Rightarrow>
                  (let s4 = (if ProvisionShardID cfg1 \<noteq> []
                             then printf ''Using provision shard: %s\<newline>'' [AStr (ProvisionShardID cfg1)] s3
                             else s3);
                       (r, s5) = add_cluster conn (hcp_cluster_spec cfg1 name versionID)
                                   ''Cluster %q created with ID %s\<newline>'' s4
                   in (r, cfg1, s5)))))"

definition CreateRosaClassicCluster ::
  "'w clock \<Rightarrow> 'w Connection \<Rightarrow> Config \<Rightarrow> 'w ocm_sys \<Rightarrow> (go_error + string) \<times> 'w ocm_sys" where
  "CreateRosaClassicCluster ck conn cfg s =
     (case generateClusterName ck (ClusterNamePrefix cfg) ''classic'' s of (name, s1) \<Rightarrow>
        (case resolveVersionForTopology conn cfg ''classic'' s1 of
           (Inl e, s2) \<Rightarrow> (Inl (Errorf ''resolving version: %w'' [AWrap e]), s2)
         | (Inr versionID, s2) \<Rightarrow>
             add_cluster conn (sts_cluster_spec cfg name versionID [(''rosa_creator_arn'', CreatorARN cfg)])
               ''Classic STS cluster %q created with ID %s\<newline>'' s2))"

subsection \<open>Waiting for a cluster\<close>

definition pollInterval :: nat where
  "pollInterval = seconds 30"

definition defaultReadyTimout :: nat where
  "defaultReadyTimout = minutes 45"

text \<open>The states of the SDK's enumeration the wait looks for.\<close>

definition ClusterStateReady :: string where [go_defs]: "ClusterStateReady = ''ready''"
definition ClusterStateError :: string where [go_defs]: "ClusterStateError = ''error''"
definition ClusterStateUninstalling :: string where
  [go_defs]: "ClusterStateUninstalling = ''uninstalling''"

definition ready_verdict :: "string \<Rightarrow> ext_error + ocm_cluster \<Rightarrow> go_error option option" where
  "ready_verdict cluster resp =
     (case resp of
        Inl _ \<Rightarrow> None
      | Inr c \<Rightarrow>
          if ClusterState c = ClusterStateReady then Some None
          else if ClusterState c = ClusterStateError
          then Some (Some (Errorf ''cluster %s entered error state'' [AStr cluster]))
          else if ClusterState c = ClusterStateUninstalling
          then Some (Some (Errorf ''cluster %s is uninstalling unexpectedly'' [AStr cluster]))
          else None)"

definition ready_probe ::
  "'w Connection \<Rightarrow> string \<Rightarrow> 'w ocm_sys \<Rightarrow> go_error option option \<times> 'w ocm_sys" where
  "ready_probe conn cluster s =
     (case call (EvGetCluster cluster) (GetCluster conn cluster) s of (resp, s1) \<Rightarrow>
        (ready_verdict cluster resp,
         (case resp of
            Inl e \<Rightarrow> printf ''Error polling cluster %s status: %v\<newline>'' [AStr cluster, AExt e] s1
          | Inr c \<Rightarrow> printf ''Cluster %s state: %s\<newline>'' [AStr cluster, AStr (ClusterState c)] s1)))"

definition WaitForClusterReady ::
  "'w runtime \<Rightarrow> 'w Connection \<Rightarrow> string \<Rightarrow> nat \<Rightarrow> 'w ocm_sys \<Rightarrow> (go_error option \<times> 'w ocm_sys) option" where
  "WaitForClusterReady rt conn cluster timeout0 s =
     (let timeout = (if timeout0 = 0 then defaultReadyTimout else timeout0)
      in poll_ticker rt pollInterval (now s + timeout)
           (Some (Errorf ''timed out waiting for cluster %s to be ready after %v''
                    [AStr cluster, AInt (int timeout)]))
           (ready_probe conn cluster) (now s + pollInterval) s)"

subsection \<open>Upgrades\<close>

definition manual_policy :: "string \<Rightarrow> string \<Rightarrow> 'w ocm_sys \<Rightarrow> upgrade_policy" where
  "manual_policy targetVersion kind s =
     \<lparr>policyVersion = targetVersion, policySchedule = ''manual'', policyType = kind,
      policyNextRun = now s + minutes 5\<rparr>"

definition initiate_upgrade ::
  "'w Connection \<Rightarrow> upgrade_target \<Rightarrow> upgrade_policy \<Rightarrow> string \<Rightarrow> string \<Rightarrow> 'w ocm_sys \<Rightarrow>
   go_error option \<times> 'w ocm_sys" where
  "initiate_upgrade conn target policy buildFmt createFmt s =
     (case BuildPolicy conn policy of
        Some e \<Rightarrow> (Some (Errorf buildFmt [AExt e]), s)
      | None \<Rightarrow>
          (case call (EvUpgrade target policy) (AddUpgradePolicy conn target policy) s of
             (Some e, s1) \<Rightarrow> (Some (Errorf createFmt [AExt e]), s1)
           | (None, s1) \<Rightarrow> (None, s1)))"

definition InitiateControlPlaneUpgrade ::
  "'w Connection \<Rightarrow> string \<Rightarrow> string \<Rightarrow> 'w ocm_sys \<Rightarrow> go_error option \<times> 'w ocm_sys" where
  "InitiateControlPlaneUpgrade conn cluster targetVersion s =
     (case initiate_upgrade conn (ControlPlaneOf cluster) (manual_policy targetVersion ''ControlPlane'' s)
             ''building upgrade policy: %w'' ''creating control plane upgrade policy: %w'' s of
        (Some e, s1) \<Rightarrow> (Some e, s1)
      | (None, s1) \<Rightarrow>
          (None, printf ''Control plane upgrade to %s scheduled for cluster %s\<newline>''
                   [AStr targetVersion, AStr cluster] s1))"

definition InitiateClusterUpgrade ::
  "'w Connection \<Rightarrow> string \<Rightarrow> string \<Rightarrow> 'w ocm_sys \<Rightarrow> go_error option \<times> 'w ocm_sys" where
  "InitiateClusterUpgrade conn cluster targetVersion s =
     (case initiate_upgrade conn (ClusterOf cluster) (manual_policy targetVersion ''OSD'' s)
             ''building upgrade policy: %w'' ''creating cluster upgrade policy: %w'' s of
        (Some e, s1) \<Rightarrow> (Some e, s1)
      | (None, s1) \<Rightarrow>
          (None, printf ''Classic cluster upgrade to %s scheduled for cluster %s\<newline>''
                   [AStr targetVersion, AStr cluster] s1))"

definition InitiateNodePoolUpgrade ::
  "'w Connection \<Rightarrow> string \<Rightarrow> string \<Rightarrow> string \<Rightarrow> 'w ocm_sys \<Rightarrow> go_error option \<times> 'w ocm_sys" where
  "InitiateNodePoolUpgrade conn cluster nodePoolID targetVersion s =
     (case initiate_upgrade conn (NodePoolOf cluster nodePoolID) (manual_policy targetVersion ''NodePool'' s)
             ''building nodepool upgrade policy: %w'' ''creating nodepool upgrade policy: %w'' s of
        (Some e, s1) \<Rightarrow> (Some e, s1)
      | (None, s1) \<Rightarrow>
          (None, printf ''NodePool %s upgrade to %s scheduled for cluster %s\<newline>''
                   [AStr nodePoolID, AStr targetVersion, AStr cluster] s1))"

definition upgrade_verdict :: "string \<Rightarrow> ext_error + ocm_cluster \<Rightarrow> go_error option option" where
  "upgrade_verdict targetVersion resp =
     (case resp of
        Inl _ \<Rightarrow> None
      | Inr c \<Rightarrow> if RawVersion c = targetVersion then Some None else None)"

definition upgrade_probe ::
  "'w Connection \<Rightarrow> string \<Rightarrow> string \<Rightarrow> 'w ocm_sys \<Rightarrow> go_error option option \<times> 'w ocm_sys" where
  "upgrade_probe conn cluster targetVersion s =
     (case call (EvGetCluster cluster) (GetCluster conn cluster) s of (resp, s1) \<Rightarrow>
        (upgrade_verdict targetVersion resp,
         (case resp of
            Inl e \<Rightarrow> printf ''Error polling cluster version: %v\<newline>'' [AExt e] s1
          | Inr c \<Rightarrow> printf ''Cluster version: %s, waiting for %s\<newline>''
                       [AStr (RawVersion c), AStr targetVersion] s1)))"

definition WaitForUpgradeComplete ::
  "'w runtime \<Rightarrow> 'w Connection \<Rightarrow> string \<Rightarrow> string \<Rightarrow> nat \<Rightarrow> 'w ocm_sys \<Rightarrow>
   (go_error option \<times> 'w ocm_sys) option" where
  "WaitForUpgradeComplete rt conn cluster targetVersion timeout s =
     poll_ticker rt (seconds 30) (now s + timeout)
       (Some (Errorf ''timed out waiting for cluster %s to reach version %s''
                [AStr cluster, AStr targetVersion]))
       (upgrade_probe conn cluster targetVersion) (now s + seconds 30) s"

subsection \<open>Verifiers over OCM\<close>

text \<open>\<^verbatim>\<open>pkg/verifiers/cluster.go\<close> and \<^verbatim>\<open>pkg/verifiers/classic.go\<close>.\<close>

definition verify_cluster_state ::
  "string \<Rightarrow> 'w Connection \<Rightarrow> string \<Rightarrow> 'w ocm_sys \<Rightarrow> go_error option \<times> 'w ocm_sys" where
  "verify_cluster_state expected conn cluster s =
     (case call (EvGetCluster cluster) (GetCluster conn cluster) s of
        (Inl e, s1) \<Rightarrow> (Some (Errorf ''getting cluster %s: %w'' [AStr cluster, AExt e]), s1)
      | (Inr c, s1) \<Rightarrow>
          (if ClusterState c \<noteq> expected
           then Some (Errorf ''expected cluster %s state to be %q, got %q''
                        [AStr cluster, AStr expected, AStr (ClusterState c)])
           else None, s1))"

definition VerifyClusterReady ::
  "'w Connection \<Rightarrow> string \<Rightarrow> 'w ocm_sys \<Rightarrow> go_error option \<times> 'w ocm_sys" where
  "VerifyClusterReady = verify_cluster_state ClusterStateReady"

definition VerifyClusterDeleting ::
  "'w Connection \<Rightarrow> string \<Rightarrow> 'w ocm_sys \<Rightarrow> go_error option \<times> 'w ocm_sys" where
  "VerifyClusterDeleting = verify_cluster_state ClusterStateUninstalling"

definition VerifyMachinePoolsExist ::
  "'w Connection \<Rightarrow> string \<Rightarrow> 'w ocm_sys \<Rightarrow> go_error option \<times> 'w ocm_sys" where
  "VerifyMachinePoolsExist conn cluster s =
     (case call (EvMachinePools cluster) (ListMachinePools conn cluster) s of
        (Inl e, s1) \<Rightarrow> (Some (Errorf ''listing machine pools for cluster %s: %w'' [AStr cluster, AExt e]), s1)
      | (Inr (status, n), s1) \<Rightarrow>
          (if status \<noteq> 200
           then Some (Errorf ''unexpected status %d listing machine pools for cluster %s'' [AInt status, AStr cluster])
           else if n = 0 then Some (Errorf ''no machine pools found for cluster %s'' [AStr cluster])
           else None, s1))"

end
