(* ===== verification/Context.thy ===== *)
theory Context
  imports Ocm
begin

text \<open>
  \<^verbatim>\<open>pkg/framework/context.go\<close> and \<^verbatim>\<open>pkg/framework/hcp.go\<close>: the test context, its lazily
  detected topology, the clients it holds and how they are made. Methods on \<open>*TestContext\<close>
  return the context they leave behind. What the context is made from and is not in the
  repository (client-go, the AWS SDK) is the record \<open>deps\<close>.
\<close>

subsection \<open>The context\<close>

record HCPNamespaces =
  HCNamespace :: string
  HCPNamespace :: string
  HCClusterName :: string

record ('rest, 'kube, 'dyn, 'ec2, 'ct) TestContext =
  tcCfg :: Config
  hcRestConfig :: "'rest option"
  hcKubeClient :: "'kube option"
  hcDynamicClient :: "'dyn option"
  mcRestConfig :: "'rest option"
  mcKubeClient :: "'kube option"
  mcDynamicClient :: "'dyn option"
  scRestConfig :: "'rest option"
  scKubeClient :: "'kube option"
  scDynamicClient :: "'dyn option"
  hcpNamespaces :: "HCPNamespaces option"
  topology :: string
  ec2Client :: "'ec2 option"
  cloudtrailClient :: "'ct option"

record ('w, 'rest, 'kube, 'dyn, 'awscfg, 'ec2, 'ct) deps =
  Getenv :: "string \<Rightarrow> string"
  tcConn :: "'w Connection"
  RESTConfigFromKubeConfig :: "string \<Rightarrow> ext_error + 'rest"
  BuildConfigFromFlags :: "string \<Rightarrow> ext_error + 'rest"
  kubeNewForConfig :: "'rest \<Rightarrow> ext_error + 'kube"
  dynamicNewForConfig :: "'rest \<Rightarrow> ext_error + 'dyn"
  ListHostedClusters :: "'dyn \<Rightarrow> ('w, ext_error + (string \<times> string) list) api"
  GetConfigMap :: "'kube \<Rightarrow> string \<Rightarrow> string \<Rightarrow> ('w, ext_error + (string \<times> string) list) api"
  LoadDefaultConfig :: "string \<Rightarrow> ext_error + 'awscfg"
  RetrieveCredentials :: "'awscfg \<Rightarrow> ('w, ext_error + bool) api" \<comment> \<open>\<open>HasKeys()\<close>\<close>
  ec2NewFromConfig :: "'awscfg \<Rightarrow> 'ec2"
  cloudtrailNewFromConfig :: "'awscfg \<Rightarrow> 'ct"

definition NewTestContext :: "Config \<Rightarrow> ('rest, 'kube, 'dyn, 'ec2, 'ct) TestContext" where
  "NewTestContext cfg =
     \<lparr>tcCfg = cfg, hcRestConfig = None, hcKubeClient = None, hcDynamicClient = None,
      mcRestConfig = None, mcKubeClient = None, mcDynamicClient = None,
      scRestConfig = None, scKubeClient = None, scDynamicClient = None,
      hcpNamespaces = None, topology = [], ec2Client = None, cloudtrailClient = None\<rparr>"

subsection \<open>Topology and access\<close>

definition Topology ::
  "('w, 'rest, 'kube, 'dyn, 'awscfg, 'ec2, 'ct) deps \<Rightarrow> ('rest, 'kube, 'dyn, 'ec2, 'ct) TestContext \<Rightarrow>
   'w ocm_sys \<Rightarrow> string \<times> ('rest, 'kube, 'dyn, 'ec2, 'ct) TestContext \<times> 'w ocm_sys" where
  "Topology dp tc s =
     (if topology tc \<noteq> [] then (topology tc, tc, s)
      else if ClusterTopology (tcCfg tc) \<noteq> []
      then (ClusterTopology (tcCfg tc), tc\<lparr>topology := ClusterTopology (tcCfg tc)\<rparr>, s)
      else if ClusterID (tcCfg tc) \<noteq> []
      then (case DetectClusterTopology (tcConn dp) (ClusterID (tcCfg tc)) s of
              (Inr topo, s1) \<Rightarrow> (topo, tc\<lparr>topology := topo\<rparr>, s1)
            | (Inl _, s1) \<Rightarrow> ([], tc, s1))
      else ([], tc, s))"

definition IsHCP where
  "IsHCP dp tc s = (case Topology dp tc s of (t, tc', s') \<Rightarrow> (t = ''hcp'', tc', s'))"

definition IsClassic where
  "IsClassic dp tc s = (case Topology dp tc s of (t, tc', s') \<Rightarrow> (t = ''classic'', tc', s'))"

definition IsOSDGCP where
  "IsOSDGCP dp tc s = (case Topology dp tc s of (t, tc', s') \<Rightarrow> (t = ''osd-gcp'', tc', s'))"

definition HasSCAccess :: "('rest, 'kube, 'dyn, 'ec2, 'ct) TestContext \<Rightarrow> bool" where
  "HasSCAccess tc \<longleftrightarrow> ServiceClusterID (tcCfg tc) \<noteq> []"

definition HasMCAccess :: "(string \<Rightarrow> string) \<Rightarrow> ('rest, 'kube, 'dyn, 'ec2, 'ct) TestContext \<Rightarrow> bool" where
  "HasMCAccess env tc \<longleftrightarrow> env ''MC_KUBECONFIG'' \<noteq> [] \<or> ManagementClusterID (tcCfg tc) \<noteq> []"

definition HasAWSAccess :: "('rest, 'kube, 'dyn, 'ec2, 'ct) TestContext \<Rightarrow> bool" where
  "HasAWSAccess tc \<longleftrightarrow> ec2Client tc \<noteq> None"

definition HasRHOBSAccess :: "('rest, 'kube, 'dyn, 'ec2, 'ct) TestContext \<Rightarrow> bool" where
  "HasRHOBSAccess tc \<longleftrightarrow>
     RHOBSProbeAPIURL (tcCfg tc) \<noteq> [] \<and> RHOBSOIDCClientID (tcCfg tc) \<noteq> [] \<and>
     RHOBSOIDCClientSecret (tcCfg tc) \<noteq> [] \<and> RHOBSOIDCIssuerURL (tcCfg tc) \<noteq> []"

subsection \<open>Kubeconfigs and clients\<close>

definition resolveKubeconfig ::
  "('w, 'rest, 'kube, 'dyn, 'awscfg, 'ec2, 'ct) deps \<Rightarrow> string \<Rightarrow> string \<Rightarrow> 'w ocm_sys \<Rightarrow>
   (go_error + 'rest) \<times> 'w ocm_sys" where
  "resolveKubeconfig dp envVar cluster s =
     (let kubeconfigPath = Getenv dp envVar in
      if kubeconfigPath \<noteq> [] then
        (case BuildConfigFromFlags dp kubeconfigPath of
           Inl e \<Rightarrow>
             (Inl (Errorf ''loading kubeconfig from %s=%s: %w'' [AStr envVar, AStr kubeconfigPath, AExt e]), s)
         | Inr cfg \<Rightarrow> (Inr cfg, s))
      else GetClusterCredentials (RESTConfigFromKubeConfig dp) (tcConn dp) cluster s)"

text \<open>
  The clients made from a rest config, in the order the code makes them: a failure leaves
  those before it in the context.
\<close>

definition new_clients ::
  "('w, 'rest, 'kube, 'dyn, 'awscfg, 'ec2, 'ct) deps \<Rightarrow> string \<Rightarrow> 'rest \<Rightarrow>
   go_error option \<times> 'kube option \<times> 'dyn option" where
  "new_clients dp who restCfg =
     (case NewKubeClient (kubeNewForConfig dp) restCfg of
        Inl e \<Rightarrow> (Some (Errorf (''creating '' @ who @ '' kube client: %w'') [AWrap e]), None, None)
      | Inr kube \<Rightarrow>
          (case dynamicNewForConfig dp restCfg of
             Inl e \<Rightarrow> (Some (Errorf (''creating '' @ who @ '' dynamic client: %w'') [AExt e]), Some kube, None)
           | Inr dyn \<Rightarrow> (None, Some kube, Some dyn)))"

definition set_if :: "'a option \<Rightarrow> 'a option \<Rightarrow> 'a option" where
  "set_if v old = (case v of None \<Rightarrow> old | Some a \<Rightarrow> Some a)"

definition InitHCClients ::
  "('w, 'rest, 'kube, 'dyn, 'awscfg, 'ec2, 'ct) deps \<Rightarrow> ('rest, 'kube, 'dyn, 'ec2, 'ct) TestContext \<Rightarrow>
   'w ocm_sys \<Rightarrow> go_error option \<times> ('rest, 'kube, 'dyn, 'ec2, 'ct) TestContext \<times> 'w ocm_sys" where
  "InitHCClients dp tc s =
     (case resolveKubeconfig dp ''KUBECONFIG'' (ClusterID (tcCfg tc)) s of
        (Inl e, s1) \<Rightarrow> (Some (Errorf ''getting HC credentials: %w'' [AWrap e]), tc, s1)
      | (Inr restCfg, s1) \<Rightarrow>
          (case new_clients dp ''HC'' restCfg of (err, kube, dyn) \<Rightarrow>
             (err, tc\<lparr>hcRestConfig := Some restCfg, hcKubeClient := set_if kube (hcKubeClient tc),
                      hcDynamicClient := set_if dyn (hcDynamicClient tc)\<rparr>, s1)))"

definition InitSCClients ::
  "('w, 'rest, 'kube, 'dyn, 'awscfg, 'ec2, 'ct) deps \<Rightarrow> ('rest, 'kube, 'dyn, 'ec2, 'ct) TestContext \<Rightarrow>
   'w ocm_sys \<Rightarrow> go_error option \<times> ('rest, 'kube, 'dyn, 'ec2, 'ct) TestContext \<times> 'w ocm_sys" where
  "InitSCClients dp tc s =
     (case resolveKubeconfig dp ''SC_KUBECONFIG'' (ServiceClusterID (tcCfg tc)) s of
        (Inl e, s1) \<Rightarrow> (Some (Errorf ''getting SC credentials: %w'' [AWrap e]), tc, s1)
      | (Inr restCfg, s1) \<Rightarrow>
          (case new_clients dp ''SC'' restCfg of (err, kube, dyn) \<Rightarrow>
             (err, tc\<lparr>scRestConfig := Some restCfg, scKubeClient := set_if kube (scKubeClient tc),
                      scDynamicClient := set_if dyn (scDynamicClient tc)\<rparr>, s1)))"

subsection \<open>The namespaces of a hosted cluster\<close>

definition containsID :: "string \<Rightarrow> string \<Rightarrow> bool" where
  "containsID namespace cluster \<longleftrightarrow>
     8 < length cluster \<and> length cluster < length namespace \<and>
     drop (length namespace - length cluster) namespace = cluster"

fun match_hosted_cluster ::
  "string \<Rightarrow> string \<Rightarrow> (string \<times> string) list \<Rightarrow> HCPNamespaces option" where
  "match_hosted_cluster clusterName cluster [] = None"
| "match_hosted_cluster clusterName cluster ((namespace, name) # items) =
     (if name = clusterName \<or> (cluster \<noteq> [] \<and> containsID namespace cluster)
      then Some \<lparr>HCNamespace = namespace, HCPNamespace = namespace @ ''-'' @ name, HCClusterName = name\<rparr>
      else match_hosted_cluster clusterName cluster items)"

definition ResolveHCPNamespaces ::
  "('w, ext_error + (string \<times> string) list) api \<Rightarrow> string \<Rightarrow> string \<Rightarrow> 'w ocm_sys \<Rightarrow>
   (go_error + HCPNamespaces) \<times> 'w ocm_sys" where
  "ResolveHCPNamespaces list_hcs clusterName cluster s =
     (case call EvListHostedClusters list_hcs s of
        (Inl e, s1) \<Rightarrow> (Inl (Errorf ''listing HostedClusters: %w'' [AExt e]), s1)
      | (Inr items, s1) \<Rightarrow>
          (case match_hosted_cluster clusterName cluster items of
             Some ns \<Rightarrow> (Inr ns, s1)
           | None \<Rightarrow>
               (Inl (Errorf ''no HostedCluster found matching name=%q or id=%q''
                       [AStr clusterName, AStr cluster]), s1)))"

definition resolveClusterName :: "'w Connection \<Rightarrow> string \<Rightarrow> 'w ocm_sys \<Rightarrow> string \<times> 'w ocm_sys" where
  "resolveClusterName conn cluster s =
     (case call (EvGetCluster cluster) (GetCluster conn cluster) s of
        (Inl _, s1) \<Rightarrow> ([], s1)
      | (Inr c, s1) \<Rightarrow> (ClusterName c, s1))"

subsection \<open>The management cluster\<close>

definition management_cluster_id ::
  "('w, 'rest, 'kube, 'dyn, 'awscfg, 'ec2, 'ct) deps \<Rightarrow> Config \<Rightarrow> 'w ocm_sys \<Rightarrow>
   (go_error + string) \<times> 'w ocm_sys" where
  "management_cluster_id dp cfg s =
     (if ManagementClusterID cfg = [] \<and> Getenv dp ''MC_KUBECONFIG'' = [] \<and> ClusterID cfg \<noteq> []
      then (case ResolveManagementClusterID (tcConn dp) (ClusterID cfg) s of
              (Inl e, s1) \<Rightarrow> (Inl (Errorf ''resolving management cluster ID: %w'' [AWrap e]), s1)
            | (Inr resolved, s1) \<Rightarrow> (Inr resolved, s1))
      else (Inr (ManagementClusterID cfg), s))"

definition init_namespaces ::
  "('w, 'rest, 'kube, 'dyn, 'awscfg, 'ec2, 'ct) deps \<Rightarrow> 'dyn \<Rightarrow> ('rest, 'kube, 'dyn, 'ec2, 'ct) TestContext \<Rightarrow>
   'w ocm_sys \<Rightarrow> ('rest, 'kube, 'dyn, 'ec2, 'ct) TestContext \<times> 'w ocm_sys" where
  "init_namespaces dp dyn tc s =
     (if ClusterID (tcCfg tc) \<noteq> [] then
        (case Topology dp tc s of (t, tc1, s1) \<Rightarrow>
           if t = ''hcp'' then
             (case resolveClusterName (tcConn dp) (ClusterID (tcCfg tc1)) s1 of (clusterName, s2) \<Rightarrow>
                (case ResolveHCPNamespaces (ListHostedClusters dp dyn) clusterName (ClusterID (tcCfg tc1)) s2 of
                   (Inl _, s3) \<Rightarrow> (tc1, s3)
                 | (Inr ns, s3) \<Rightarrow> (tc1\<lparr>hcpNamespaces := Some ns\<rparr>, s3)))
           else (tc1, s1))
      else (tc, s))"

definition InitMCClients ::
  "('w, 'rest, 'kube, 'dyn, 'awscfg, 'ec2, 'ct) deps \<Rightarrow> ('rest, 'kube, 'dyn, 'ec2, 'ct) TestContext \<Rightarrow>
   'w ocm_sys \<Rightarrow> go_error option \<times> ('rest, 'kube, 'dyn, 'ec2, 'ct) TestContext \<times> 'w ocm_sys" where
  "InitMCClients dp tc s =
     (case management_cluster_id dp (tcCfg tc) s of
        (Inl e, s1) \<Rightarrow> (Some e, tc, s1)
      | (Inr mcID, s1) \<Rightarrow>
          (case resolveKubeconfig dp ''MC_KUBECONFIG'' mcID s1 of
             (Inl e, s2) \<Rightarrow> (Some (Errorf ''getting MC credentials: %w'' [AWrap e]), tc, s2)
           | (Inr restCfg, s2) \<Rightarrow>
               (case new_clients dp ''MC'' restCfg of (err, kube, dyn) \<Rightarrow>
                  (let tc1 = tc\<lparr>mcRestConfig := Some restCfg, mcKubeClient := set_if kube (mcKubeClient tc),
                                mcDynamicClient := set_if dyn (mcDynamicClient tc)\<rparr>
                   in case (err, dyn) of
                        (None, Some d) \<Rightarrow> (case init_namespaces dp d tc1 s2 of (tc2, s3) \<Rightarrow> (None, tc2, s3))
                      | _ \<Rightarrow> (err, tc1, s2)))))"

subsection \<open>Cluster attributes, AWS and RHOBS\<close>

definition ResolveInfraID :: "'w Connection \<Rightarrow> string \<Rightarrow> 'w ocm_sys \<Rightarrow> (go_error + string) \<times> 'w ocm_sys" where
  "ResolveInfraID conn cluster s =
     (case call (EvGetCluster cluster) (GetCluster conn cluster) s of
        (Inl e, s1) \<Rightarrow> (Inl (Errorf ''getting cluster from OCM: %w'' [AExt e]), s1)
      | (Inr c, s1) \<Rightarrow>
          (if InfraID c = [] then Inl (Errorf ''cluster %s has no infra ID'' [AStr cluster])
           else Inr (InfraID c), s1))"

definition ResolveOperatorRolePrefix ::
  "'w Connection \<Rightarrow> string \<Rightarrow> 'w ocm_sys \<Rightarrow> (go_error + string) \<times> 'w ocm_sys" where
  "ResolveOperatorRolePrefix conn cluster s =
     (case call (EvGetCluster cluster) (GetCluster conn cluster) s of
        (Inl e, s1) \<Rightarrow> (Inl (Errorf ''getting cluster from OCM: %w'' [AExt e]), s1)
      | (Inr c, s1) \<Rightarrow>
          (if STSOperatorRolePrefix c = []
           then Inl (Errorf ''cluster %s has no operator role prefix'' [AStr cluster])
           else Inr (STSOperatorRolePrefix c), s1))"

definition InitAWSClients ::
  "('w, 'rest, 'kube, 'dyn, 'awscfg, 'ec2, 'ct) deps \<Rightarrow> ('rest, 'kube, 'dyn, 'ec2, 'ct) TestContext \<Rightarrow>
   'w ocm_sys \<Rightarrow> go_error option \<times> ('rest, 'kube, 'dyn, 'ec2, 'ct) TestContext \<times> 'w ocm_sys" where
  "InitAWSClients dp tc s =
     (case LoadDefaultConfig dp (AWSRegion (tcCfg tc)) of
        Inl e \<Rightarrow> (Some (Errorf ''loading AWS config: %w'' [AExt e]), tc, s)
      | Inr cfg \<Rightarrow>
          (case call EvRetrieveAWS (RetrieveCredentials dp cfg) s of
             (Inl e, s1) \<Rightarrow> (Some (Errorf ''no valid AWS credentials found: %w'' [AExt e]), tc, s1)
           | (Inr False, s1) \<Rightarrow> (Some (Errorf ''no valid AWS credentials found: %w'' [AErr None]), tc, s1)
           | (Inr True, s1) \<Rightarrow>
               (None, tc\<lparr>ec2Client := Some (ec2NewFromConfig dp cfg),
                         cloudtrailClient := Some (cloudtrailNewFromConfig dp cfg)\<rparr>, s1)))"

definition rhobs_from_data :: "(string \<times> string) list \<Rightarrow> Config \<Rightarrow> Config" where
  "rhobs_from_data data cfg =
     derive_metrics_url
       (cfg\<lparr>RHOBSProbeAPIURL := map_get data ''probe-api-url'',
            RHOBSOIDCClientID := map_get data ''oidc-client-id'',
            RHOBSOIDCClientSecret := map_get data ''oidc-client-secret'',
            RHOBSOIDCIssuerURL := map_get data ''oidc-issuer-url''\<rparr>)"

definition LoadRHOBSCredentialsFromMC ::
  "('w, 'rest, 'kube, 'dyn, 'awscfg, 'ec2, 'ct) deps \<Rightarrow> ('rest, 'kube, 'dyn, 'ec2, 'ct) TestContext \<Rightarrow>
   'w ocm_sys \<Rightarrow> go_error option \<times> ('rest, 'kube, 'dyn, 'ec2, 'ct) TestContext \<times> 'w ocm_sys" where
  "LoadRHOBSCredentialsFromMC dp tc s =
     (if HasRHOBSAccess tc then (None, tc, s)
      else
        (case mcKubeClient tc of
           None \<Rightarrow>
             (Some (Errorf ''management cluster client not initialized - call InitMCClients first'' []), tc, s)
         | Some kube \<Rightarrow>
             (case call (EvGetConfigMap ''openshift-route-monitor-operator'' ''route-monitor-operator-config'')
                     (GetConfigMap dp kube ''openshift-route-monitor-operator'' ''route-monitor-operator-config'') s of
                (Inl e, s1) \<Rightarrow>
                  (Some (Errorf ''failed to get route-monitor-operator-config ConfigMap: %w'' [AExt e]), tc, s1)
              | (Inr data, s1) \<Rightarrow>
                  (let tc1 = tc\<lparr>tcCfg := rhobs_from_data data (tcCfg tc)\<rparr>
                   in if HasRHOBSAccess tc1 then (None, tc1, s1)
                      else (Some (Errorf ''route-monitor-operator-config ConfigMap missing required RHOBS fields (probe-api-url, oidc-client-id, oidc-client-secret, oidc-issuer-url)'' []), tc1, s1)))))"

end
