(* ===== verification/RunVerifiers.thy ===== *)
theory RunVerifiers
  imports Prelude "HOL-Library.Multiset"
begin

text \<open>
  \<^verbatim>\<open>pkg/verifiers/verifier.go\<close>: \<open>RunVerifiers\<close> starts a goroutine per verifier, each of
  which sends its error, if any, to a channel with room for one error per verifier and then
  leaves the wait group; the caller waits for all of them, closes the channel and joins
  what it finds in it. The goroutines and the caller are interleaved by the step relation
  \<open>step\<close>; a verifier is its name and the result of its \<open>Verify\<close>.
  The reference \<open>run_in_order\<close> runs the verifiers one after the other.
\<close>

subsection \<open>The program as a step relation\<close>

datatype phase = Unborn | Running | Returning | Gone

record pool =
  phases :: "phase list"
  started :: nat
  wg :: nat
  errCh :: "go_error list"
  joined :: "go_error option option"

type_synonym verifier = "string \<times> go_error option"

definition wrapped :: "verifier \<Rightarrow> go_error option" where
  "wrapped v = map_option (\<lambda>e. Errorf ''%s failed: %w'' [AStr (fst v), AWrap e]) (snd v)"

text \<open>\<open>errors.Join\<close> of errors none of which is nil.\<close>

definition Join_errors :: "go_error list \<Rightarrow> go_error option" where
  "Join_errors errs = (if errs = [] then None else Some (Joined errs))"

definition init_pool :: "verifier list \<Rightarrow> pool" where
  "init_pool vs = \<lparr>phases = replicate (length vs) Unborn, started = 0, wg = 0, errCh = [], joined = None\<rparr>"

inductive step :: "verifier list \<Rightarrow> pool \<Rightarrow> pool \<Rightarrow> bool" for vs where
  Go: "started p < length vs \<Longrightarrow>
    step vs p (p\<lparr>phases := (phases p)[started p := Running], started := Suc (started p), wg := Suc (wg p)\<rparr>)"
| Pass: "i < length vs \<Longrightarrow> phases p ! i = Running \<Longrightarrow> wrapped (vs ! i) = None \<Longrightarrow>
    step vs p (p\<lparr>phases := (phases p)[i := Returning]\<rparr>)"
| Send: "i < length vs \<Longrightarrow> phases p ! i = Running \<Longrightarrow> wrapped (vs ! i) = Some e \<Longrightarrow>
    length (errCh p) < length vs \<Longrightarrow>
    step vs p (p\<lparr>phases := (phases p)[i := Returning], errCh := errCh p @ [e]\<rparr>)"
| Done: "i < length vs \<Longrightarrow> phases p ! i = Returning \<Longrightarrow>
    step vs p (p\<lparr>phases := (phases p)[i := Gone], wg := wg p - 1\<rparr>)"
| Collect: "started p = length vs \<Longrightarrow> wg p = 0 \<Longrightarrow> joined p = None \<Longrightarrow>
    step vs p (p\<lparr>errCh := [], joined := Some (Join_errors (errCh p))\<rparr>)"

inductive reachable :: "verifier list \<Rightarrow> pool \<Rightarrow> bool" for vs where
  init: "reachable vs (init_pool vs)"
| more: "reachable vs p \<Longrightarrow> step vs p q \<Longrightarrow> reachable vs q"

inductive_cases stepE: "step vs p q"

subsection \<open>Sums over a list and its updates\<close>

lemma sum_list_update_shift:
  fixes f :: "'a \<Rightarrow> 'b :: comm_monoid_add"
  shows "i < length xs \<Longrightarrow> (\<Sum>x\<leftarrow>xs[i := v]. f x) + f (xs ! i) = (\<Sum>x\<leftarrow>xs. f x) + f v"
proof (induction xs arbitrary: i)
  case (Cons x xs)
  show ?case
  proof (cases i)
    case 0
    then show ?thesis by (simp add: ac_simps)
  next
    case (Suc j)
    with Cons.IH [of j] Cons.prems show ?thesis by (simp add: ac_simps)
  qed
qed simp

lemma zip_update_right: "zip xs (ys[i := y]) = (zip xs ys)[i := (xs ! i, y)]"
  by (induction xs ys arbitrary: i rule: list_induct2') (auto split: nat.splits)

subsection \<open>The invariant\<close>

text \<open>Goroutines that still hold the wait group, those past their send, and what they sent.\<close>

definition holds :: "phase \<Rightarrow> nat" where
  "holds ph = (if ph = Running \<or> ph = Returning then 1 else 0)"

definition contribution :: "verifier \<times> phase \<Rightarrow> go_error multiset" where
  "contribution = (\<lambda>(v, ph). if ph = Returning \<or> ph = Gone
     then (case wrapped v of None \<Rightarrow> {#} | Some e \<Rightarrow> {#e#}) else {#})"

definition sent :: "verifier list \<Rightarrow> phase list \<Rightarrow> go_error multiset" where
  "sent vs ps = (\<Sum>x\<leftarrow>zip vs ps. contribution x)"

definition all_errors :: "verifier list \<Rightarrow> go_error list" where
  "all_errors vs = List.map_filter wrapped vs"

definition pool_inv :: "verifier list \<Rightarrow> pool \<Rightarrow> bool" where
  "pool_inv vs p \<longleftrightarrow>
     length (phases p) = length vs \<and> started p \<le> length vs \<and>
     (\<forall>i < length vs. phases p ! i = Unborn \<longleftrightarrow> started p \<le> i) \<and>
     wg p = (\<Sum>ph\<leftarrow>phases p. holds ph) \<and>
     (case joined p of
        None \<Rightarrow> mset (errCh p) = sent vs (phases p)
      | Some r \<Rightarrow> started p = length vs \<and> wg p = 0 \<and>
          (\<exists>es. mset es = mset (all_errors vs) \<and> r = Join_errors es))"

lemma sent_update:
  assumes "i < length vs" and "length ps = length vs"
  shows "sent vs (ps[i := ph]) + contribution (vs ! i, ps ! i) = sent vs ps + contribution (vs ! i, ph)"
  using sum_list_update_shift [of i "zip vs ps" contribution "(vs ! i, ph)"] assms
  by (simp add: sent_def zip_update_right)

lemma holds_update:
  "i < length ps \<Longrightarrow> (\<Sum>ph\<leftarrow>ps[i := x]. holds ph) + holds (ps ! i) = (\<Sum>ph\<leftarrow>ps. holds ph) + holds x"
  by (rule sum_list_update_shift)

lemma holds_eq_0: "holds ph = 0 \<longleftrightarrow> ph = Unborn \<or> ph = Gone"
  by (cases ph) (simp_all add: holds_def)

lemma holds_zero_iff: "(\<Sum>ph\<leftarrow>ps. holds ph) = 0 \<longleftrightarrow> (\<forall>ph \<in> set ps. ph = Unborn \<or> ph = Gone)"
  by (simp add: holds_eq_0)

lemma sent_all_gone: "sent vs (replicate (length vs) Gone) = mset (all_errors vs)"
  by (induction vs) (auto simp: sent_def contribution_def all_errors_def map_filter_simps split: option.splits)

lemma sent_bound: "length ps = length vs \<Longrightarrow> size (sent vs ps) + (\<Sum>ph\<leftarrow>ps. if ph = Running then 1 else 0) \<le> length vs"
  by (induction ps vs rule: list_induct2) (auto simp: sent_def contribution_def split: option.splits)

lemma pool_inv_init: "pool_inv vs (init_pool vs)"
proof -
  have "sent vs (replicate (length vs) Unborn) = {#}"
    by (induction vs) (simp_all add: sent_def contribution_def)
  then show ?thesis by (simp add: pool_inv_def init_pool_def holds_def sum_list_replicate)
qed

lemma no_step_after_join:
  assumes "pool_inv vs p" and "joined p \<noteq> None"
  shows "\<not> step vs p q"
proof
  assume "step vs p q"
  from assms have s: "started p = length vs" and z: "\<forall>ph \<in> set (phases p). ph = Unborn \<or> ph = Gone"
    and l: "length (phases p) = length vs"
    unfolding holds_zero_iff [symmetric] by (auto simp: pool_inv_def split: option.splits)
  have "phases p ! i \<noteq> Running \<and> phases p ! i \<noteq> Returning" if "i < length vs" for i
    using z l that by (metis nth_mem phase.distinct)
  with \<open>step vs p q\<close> s assms(2) show False by (auto elim: stepE)
qed

lemma pool_inv_step:
  assumes "step vs p q" and inv: "pool_inv vs p"
  shows "pool_inv vs q"
  using assms(1)
proof (cases rule: step.cases)
  case Go
  note j = no_step_after_join [OF inv, of q] assms(1)
  have "phases p ! started p = Unborn" using Go inv by (auto simp: pool_inv_def)
  with Go inv j show ?thesis
    using sent_update [of "started p" vs "phases p" Running] holds_update [of "started p" "phases p" Running]
    by (auto simp: pool_inv_def contribution_def holds_def nth_list_update split: option.splits)
next
  case (Pass i)
  note j = no_step_after_join [OF inv, of q] assms(1)
  with Pass inv show ?thesis
    using sent_update [of i vs "phases p" Returning] holds_update [of i "phases p" Returning]
    by (auto simp: pool_inv_def contribution_def holds_def nth_list_update split: option.splits)
next
  case (Send i e)
  note j = no_step_after_join [OF inv, of q] assms(1)
  with Send inv show ?thesis
    using sent_update [of i vs "phases p" Returning] holds_update [of i "phases p" Returning]
    by (auto simp: pool_inv_def contribution_def holds_def nth_list_update split: option.splits)
next
  case (Done i)
  note j = no_step_after_join [OF inv, of q] assms(1)
  with Done inv show ?thesis
    using sent_update [of i vs "phases p" Gone] holds_update [of i "phases p" Gone]
    by (auto simp: pool_inv_def contribution_def holds_def nth_list_update split: option.splits)
next
  case Collect
  with inv have l: "length (phases p) = length vs" and z: "\<forall>ph \<in> set (phases p). ph = Unborn \<or> ph = Gone"
    and u: "\<forall>i < length vs. phases p ! i \<noteq> Unborn"
    unfolding holds_zero_iff [symmetric] by (auto simp: pool_inv_def)
  have "phases p = replicate (length vs) Gone"
    using l z u by (metis (no_types, opaque_lifting) in_set_conv_nth replicate_eqI)
  with Collect inv show ?thesis by (auto simp: pool_inv_def sent_all_gone)
qed

lemma pool_inv_reachable: "reachable vs p \<Longrightarrow> pool_inv vs p"
  by (induction rule: reachable.induct) (auto intro: pool_inv_init pool_inv_step)

subsection \<open>Progress and termination\<close>

fun weight :: "phase \<Rightarrow> nat" where
  "weight Unborn = 3" | "weight Running = 2" | "weight Returning = 1" | "weight Gone = 0"

definition work_left :: "pool \<Rightarrow> nat" where
  "work_left p = (\<Sum>ph\<leftarrow>phases p. weight ph) + (if joined p = None then 1 else 0)"

lemma step_decreases:
  assumes "pool_inv vs p" and "step vs p q"
  shows "work_left q < work_left p"
proof -
  have u: "i < length (phases p) \<Longrightarrow>
      (\<Sum>ph\<leftarrow>(phases p)[i := x]. weight ph) + weight (phases p ! i) = (\<Sum>ph\<leftarrow>phases p. weight ph) + weight x" for i x
    by (rule sum_list_update_shift)
  have l: "length (phases p) = length vs" using assms(1) by (simp add: pool_inv_def)
  show ?thesis
    using assms(2)
  proof (cases rule: step.cases)
    case Go
    with assms(1) have "phases p ! started p = Unborn" by (auto simp: pool_inv_def)
    with Go u [of "started p" Running] l show ?thesis by (simp add: work_left_def)
  next
    case (Pass i)
    with u [of i Returning] l show ?thesis by (simp add: work_left_def)
  next
    case (Send i e)
    with u [of i Returning] l show ?thesis by (simp add: work_left_def)
  next
    case (Done i)
    with u [of i Gone] l show ?thesis by (simp add: work_left_def)
  next
    case Collect
    then show ?thesis by (simp add: work_left_def)
  qed
qed

lemma work_left_init: "work_left (init_pool vs) = 3 * length vs + 1"
  by (simp add: work_left_def init_pool_def sum_list_replicate)

lemma steps_bound:
  assumes "(step vs ^^ k) p q" and "pool_inv vs p"
  shows "pool_inv vs q \<and> k + work_left q \<le> work_left p"
  using assms(1)
proof (induction k arbitrary: q)
  case (Suc k)
  then obtain r where r: "(step vs ^^ k) p r" "step vs r q" by auto
  from Suc.IH [OF r(1)] have "pool_inv vs r" "k + work_left r \<le> work_left p" by auto
  with pool_inv_step [OF r(2)] step_decreases [OF _ r(2)] show ?case by force
qed (use assms(2) in auto)

lemma running_counts: "Running \<in> set ps \<Longrightarrow> 0 < (\<Sum>ph\<leftarrow>ps. if ph = Running then 1 else 0 :: nat)"
  by (induction ps) auto

text \<open>No send blocks: a goroutine that is still checking finds room in the channel.\<close>

lemma channel_room:
  assumes inv: "pool_inv vs p" and "joined p = None" and i: "i < length vs" "phases p ! i = Running"
  shows "length (errCh p) < length vs"
proof -
  have l: "length (phases p) = length vs" using inv by (simp add: pool_inv_def)
  have "0 < (\<Sum>ph\<leftarrow>phases p. if ph = Running then 1 else 0 :: nat)"
    using running_counts [of "phases p"] i l by (metis nth_mem)
  with sent_bound [OF l] have "size (sent vs (phases p)) < length vs" by linarith
  moreover have "mset (errCh p) = sent vs (phases p)" using inv assms(2) by (simp add: pool_inv_def)
  ultimately show ?thesis by (metis size_mset)
qed

lemma step_enabled:
  assumes inv: "pool_inv vs p" and "joined p = None"
  shows "\<exists>q. step vs p q"
proof (cases "started p < length vs")
  case True
  then show ?thesis by (blast intro: step.Go)
next
  case False
  with inv have st: "started p = length vs" and l: "length (phases p) = length vs" by (auto simp: pool_inv_def)
  show ?thesis
  proof (cases "\<exists>i < length vs. phases p ! i = Running \<or> phases p ! i = Returning")
    case True
    then obtain i where i: "i < length vs" "phases p ! i = Running \<or> phases p ! i = Returning" by blast
    show ?thesis
    proof (cases "phases p ! i = Running")
      case True
      with channel_room [OF inv assms(2) i(1)] have "length (errCh p) < length vs" by simp
      with i True show ?thesis
        by (cases "wrapped (vs ! i)") (blast intro: step.Pass step.Send)+
    qed (use i in \<open>blast intro: step.Done\<close>)
  next
    case False
    then have "\<forall>ph \<in> set (phases p). ph = Unborn \<or> ph = Gone"
      using l by (metis in_set_conv_nth phase.exhaust)
    then have "wg p = 0" using inv unfolding holds_zero_iff [symmetric] by (simp add: pool_inv_def)
    with st assms(2) show ?thesis by (blast intro: step.Collect)
  qed
qed

lemma reachable_steps: "reachable vs p \<longleftrightarrow> (step vs)\<^sup>*\<^sup>* (init_pool vs) p"
proof
  assume "reachable vs p"
  then show "(step vs)\<^sup>*\<^sup>* (init_pool vs) p"
    by (induction rule: reachable.induct) (auto intro: rtranclp.rtrancl_into_rtrancl)
next
  assume "(step vs)\<^sup>*\<^sup>* (init_pool vs) p"
  then show "reachable vs p" by (induction rule: rtranclp_induct) (auto intro: reachable.intros)
qed

lemma finishes: "pool_inv vs p \<Longrightarrow> \<exists>q. (step vs)\<^sup>*\<^sup>* p q \<and> joined q \<noteq> None"
proof (induction "work_left p" arbitrary: p rule: less_induct)
  case less
  show ?case
  proof (cases "joined p = None")
    case True
    then obtain q where q: "step vs p q" using step_enabled less.prems by blast
    with less step_decreases pool_inv_step obtain r where "(step vs)\<^sup>*\<^sup>* q r" "joined r \<noteq> None" by blast
    with q show ?thesis by (meson converse_rtranclp_into_rtranclp)
  qed auto
qed

lemma Join_errors_None: "Join_errors es = None \<longleftrightarrow> es = []"
  by (simp add: Join_errors_def)

lemma all_errors_Nil: "all_errors vs = [] \<longleftrightarrow> list_all (\<lambda>v. snd v = None) vs"
  by (induction vs) (auto simp: all_errors_def map_filter_simps wrapped_def split: option.splits)

text \<open>A finished run returns nil exactly if every verifier passed.\<close>

lemma finished_nil_iff:
  assumes "reachable vs p" and "joined p = Some r"
  shows "r = None \<longleftrightarrow> list_all (\<lambda>v. snd v = None) vs"
proof -
  from pool_inv_reachable [OF assms(1)] assms(2) obtain es where
    "mset es = mset (all_errors vs)" "r = Join_errors es" by (auto simp: pool_inv_def)
  then have "r = None \<longleftrightarrow> all_errors vs = []" by (auto simp: Join_errors_None)
  then show ?thesis by (simp add: all_errors_Nil)
qed

text \<open>
  C12: however the goroutines are scheduled, a run that has finished returns nil exactly if
  every verifier passed, and otherwise joins the error of each verifier that failed, with
  its name, each exactly once, in some order.
\<close>

theorem RunVerifiers_result:
  assumes "reachable vs p" and "joined p = Some r"
  shows "(r = None \<longleftrightarrow> list_all (\<lambda>v. snd v = None) vs) \<and>
    (\<exists>es. mset es = mset (all_errors vs) \<and> r = (if es = [] then None else Some (Joined es)))"
proof -
  from pool_inv_reachable [OF assms(1)] assms(2) obtain es where
    "mset es = mset (all_errors vs)" "r = Join_errors es" by (auto simp: pool_inv_def)
  with finished_nil_iff [OF assms] show ?thesis by (auto simp: Join_errors_def)
qed

definition two_verifiers :: "verifier list" where
  "two_verifiers = [(''VerifyAllNodesReady'', None), (''VerifyNodeCount(3)'', Some (Errorf ''expected %d worker nodes, found %d'' [AInt 3, AInt 2]))]"

theorem RunVerifiers_result_witness:
  "\<exists>p. reachable two_verifiers p \<and> joined p = Some (Some (Joined (all_errors two_verifiers)))"
proof -
  obtain p r where p: "reachable two_verifiers p" "joined p = Some r"
    using finishes [OF pool_inv_init, of two_verifiers] by (auto simp: reachable_steps)
  have one: "length (all_errors two_verifiers) = 1"
    by (simp add: all_errors_def two_verifiers_def map_filter_simps wrapped_def)
  from RunVerifiers_result [OF p] obtain es where
    es: "mset es = mset (all_errors two_verifiers)" "r = (if es = [] then None else Some (Joined es))" by blast
  from es(1) one have "es = all_errors two_verifiers"
    by (cases "all_errors two_verifiers"; cases es) auto
  with es one p show ?thesis by (auto split: if_splits)
qed

text \<open>
  C14: no schedule gets stuck or runs for ever: until the caller has joined the errors some
  step is possible (in particular no send blocks on the channel, and the wait group always
  reaches zero), and no run has more than three steps per verifier and one more.
\<close>

theorem RunVerifiers_progress:
  assumes "(step vs ^^ k) (init_pool vs) p"
  shows "(joined p = None \<longleftrightarrow> (\<exists>q. step vs p q)) \<and> k \<le> 3 * length vs + 1"
proof -
  from steps_bound [OF assms pool_inv_init] have inv: "pool_inv vs p" and k: "k \<le> 3 * length vs + 1"
    by (auto simp: work_left_init)
  with step_enabled [OF inv] no_step_after_join [OF inv] show ?thesis by blast
qed

theorem RunVerifiers_progress_witness:
  "\<exists>q. step two_verifiers (init_pool two_verifiers) q"
proof -
  have s: "(step two_verifiers ^^ 0) (init_pool two_verifiers) (init_pool two_verifiers)" by simp
  from RunVerifiers_progress [OF s] show ?thesis by (simp add: init_pool_def)
qed

text \<open>
  C11: in every state a run can reach, the wait group counts exactly the goroutines that were
  started and have not left it, and until the caller has joined the errors the channel holds
  exactly the errors of the verifiers whose goroutine is past its check, so that it has room
  for the error of each goroutine that is still checking.
\<close>

theorem RunVerifiers_invariant:
  assumes "reachable vs p"
  shows "wg p = length (filter (\<lambda>ph. ph = Running \<or> ph = Returning) (phases p)) \<and>
     (joined p = None \<longrightarrow>
        mset (errCh p) = mset (List.map_filter (\<lambda>(v, ph). if ph = Returning \<or> ph = Gone then wrapped v else None)
                                (zip vs (phases p))) \<and>
        length (errCh p) + length (filter (\<lambda>ph. ph = Running) (phases p)) \<le> length vs)"
proof -
  have inv: "pool_inv vs p" by (rule pool_inv_reachable [OF assms])
  have holding: "(\<Sum>ph\<leftarrow>ps. holds ph) = length (filter (\<lambda>ph. ph = Running \<or> ph = Returning) ps)" for ps
    by (induction ps) (simp_all add: holds_def)
  have running: "(\<Sum>ph\<leftarrow>ps. if ph = Running then 1 else 0) = length (filter (\<lambda>ph. ph = Running) ps)" for ps
    by (induction ps) simp_all
  have sent_list: "sent us ps =
      mset (List.map_filter (\<lambda>(v, ph). if ph = Returning \<or> ph = Gone then wrapped v else None) (zip us ps))" for us ps
    by (induction us ps rule: list_induct2')
      (auto simp: sent_def contribution_def map_filter_simps split: option.splits)
  from inv sent_bound [of "phases p" vs] show ?thesis
    by (auto simp: pool_inv_def holding running sent_list simp flip: size_mset split: option.splits)
qed

theorem RunVerifiers_invariant_witness:
  "\<exists>p. reachable two_verifiers p \<and> phases p = [Running, Returning] \<and> wg p = 2 \<and>
     mset (errCh p) = mset (all_errors two_verifiers) \<and> joined p = None"
proof -
  let ?e = "the (wrapped (two_verifiers ! 1))"
  have l: "length two_verifiers = 2" and e: "wrapped (two_verifiers ! 1) = Some ?e"
    by (simp_all add: two_verifiers_def wrapped_def)
  have 0: "reachable two_verifiers \<lparr>phases = [Unborn, Unborn], started = 0, wg = 0, errCh = [], joined = None\<rparr>"
    using reachable.init [of two_verifiers] by (simp add: init_pool_def l numeral_2_eq_2)
  have 1: "reachable two_verifiers \<lparr>phases = [Running, Unborn], started = 1, wg = 1, errCh = [], joined = None\<rparr>"
    using reachable.more [OF 0 step.Go] l by simp
  have 2: "reachable two_verifiers \<lparr>phases = [Running, Running], started = 2, wg = 2, errCh = [], joined = None\<rparr>"
    using reachable.more [OF 1 step.Go] l by (simp add: numeral_2_eq_2)
  have 3: "reachable two_verifiers \<lparr>phases = [Running, Returning], started = 2, wg = 2, errCh = [?e], joined = None\<rparr>"
    using reachable.more [OF 2 step.Send [of 1 _ _ ?e]] l e by simp
  from RunVerifiers_invariant [OF 3] 3 show ?thesis
    by (intro exI [where x = "\<lparr>phases = [Running, Returning], started = 2, wg = 2, errCh = [?e], joined = None\<rparr>"])
      (simp add: two_verifiers_def all_errors_def map_filter_simps wrapped_def)
qed

subsection \<open>Every order of the verifiers is a schedule\<close>

text \<open>The errors that are still to be sent.\<close>

definition pending :: "verifier list \<Rightarrow> phase list \<Rightarrow> go_error multiset" where
  "pending vs ps = (\<Sum>(v, ph)\<leftarrow>zip vs ps.
     if ph = Unborn \<or> ph = Running then mset (all_errors [v]) else {#})"

lemma all_errors_Cons: "all_errors (v # vs) = all_errors [v] @ all_errors vs"
  by (simp add: all_errors_def map_filter_simps split: option.splits)

lemma pending_update:
  assumes "i < length vs" and "length ps = length vs"
  shows "pending vs (ps[i := ph]) + (if ps ! i = Unborn \<or> ps ! i = Running then mset (all_errors [vs ! i]) else {#})
    = pending vs ps + (if ph = Unborn \<or> ph = Running then mset (all_errors [vs ! i]) else {#})"
  using sum_list_update_shift [of i "zip vs ps"
      "\<lambda>(v, ph). if ph = Unborn \<or> ph = Running then mset (all_errors [v]) else {#}" "(vs ! i, ph)"] assms
  by (simp add: pending_def zip_update_right)

lemma pending_unborn: "pending vs (replicate (length vs) Unborn) = mset (all_errors vs)"
  by (induction vs) (simp_all add: pending_def all_errors_def map_filter_simps split: option.splits)

lemma pending_sender:
  assumes "e \<in># pending vs ps"
  shows "\<exists>i < length vs. i < length ps \<and> (ps ! i = Unborn \<or> ps ! i = Running) \<and> wrapped (vs ! i) = Some e"
proof -
  from assms obtain v ph where x: "(v, ph) \<in> set (zip vs ps)" "ph = Unborn \<or> ph = Running" "wrapped v = Some e"
    by (auto simp: pending_def all_errors_def map_filter_simps split: if_splits option.splits)
  then obtain i where "i < length vs" "i < length ps" "vs ! i = v" "ps ! i = ph"
    by (metis fst_conv in_set_zip snd_conv)
  with x show ?thesis by blast
qed

lemma nothing_pending:
  assumes "pending vs ps = {#}" "i < length vs" "length ps = length vs" "ps ! i = Running"
  shows "wrapped (vs ! i) = None"
  using pending_update [of i vs ps Gone] assms
  by (auto simp: all_errors_def map_filter_simps split: option.splits)

text \<open>
  From any state before the join the goroutines can be scheduled so that the errors still to
  be sent arrive in any order chosen.
\<close>

lemma any_order:
  "\<lbrakk>pool_inv vs p; joined p = None; mset es = pending vs (phases p)\<rbrakk> \<Longrightarrow>
   \<exists>q. (step vs)\<^sup>*\<^sup>* p q \<and> joined q = Some (Join_errors (errCh p @ es))"
proof (induction "work_left p" arbitrary: p es rule: less_induct)
  case less
  note inv = less.prems(1)
  then have l: "length (phases p) = length vs" by (simp add: pool_inv_def)
  have go_on: "\<exists>q. (step vs)\<^sup>*\<^sup>* p q \<and> joined q = Some (Join_errors (errCh p @ es))"
    if "step vs p q" "joined q = None" "mset es' = pending vs (phases q)" "errCh q @ es' = errCh p @ es" for q es'
    using less.hyps [OF step_decreases [OF inv that(1)] pool_inv_step [OF that(1) inv] that(2,3)] that
    by (metis converse_rtranclp_into_rtranclp)
  consider "started p < length vs" | e es' where "started p = length vs" "es = e # es'"
    | "started p = length vs" "es = []"
    using inv by (cases es) (auto simp: pool_inv_def le_less)
  then show ?case
  proof cases
    case 1
    with inv have "phases p ! started p = Unborn" by (simp add: pool_inv_def)
    with 1 less.prems l pending_update [OF 1 l, of Running] show ?thesis
      by (intro go_on [OF step.Go [OF 1]]) auto
  next
    case 2
    then obtain i where i: "i < length vs" "wrapped (vs ! i) = Some e" "phases p ! i = Unborn \<or> phases p ! i = Running"
      using pending_sender [of e vs "phases p"] less.prems(3) by (metis list.set_intros(1) set_mset_mset)
    with inv 2 have "phases p ! i = Running" by (auto simp: pool_inv_def)
    moreover from this have "add_mset e (pending vs ((phases p)[i := Returning])) = add_mset e (mset es')"
      using pending_update [OF i(1) l, of Returning] i(2) 2(2) less.prems(3)
      by (simp add: all_errors_def map_filter_simps)
    ultimately show ?thesis
      using 2(2) less.prems(2)
      by (intro go_on [OF step.Send [OF i(1) _ i(2) channel_room [OF inv less.prems(2) i(1)]], where es' = es']) auto
  next
    case 3
    with less.prems(3) have none: "pending vs (phases p) = {#}" by simp
    obtain q where q: "step vs p q" using step_enabled [OF inv less.prems(2)] by blast
    then show ?thesis
    proof (cases rule: step.cases)
      case (Pass i)
      with pending_update [OF Pass(2) l, of Returning] none l 3 less.prems(2) show ?thesis
        by (intro go_on [OF q, of "[]"]) (auto simp: all_errors_def map_filter_simps)
    next
      case (Done i)
      with pending_update [OF Done(2) l, of Gone] none l 3 less.prems(2) show ?thesis
        by (intro go_on [OF q, of "[]"]) auto
    next
      case Collect
      with q 3 show ?thesis by (intro exI [where x = q]) auto
    qed (use 3 nothing_pending [OF none _ l] in auto)
  qed
qed

text \<open>The reference: the verifiers run one after the other, and the errors found are joined.\<close>

fun run_in_order :: "verifier list \<Rightarrow> go_error list \<Rightarrow> go_error option" where
  "run_in_order [] errs = Join_errors errs"
| "run_in_order (v # vs) errs =
     (case wrapped v of None \<Rightarrow> run_in_order vs errs | Some e \<Rightarrow> run_in_order vs (errs @ [e]))"

lemma run_in_order_errors: "run_in_order vs errs = Join_errors (errs @ all_errors vs)"
  by (induction vs arbitrary: errs) (auto simp: all_errors_def map_filter_simps split: option.splits)

lemma reorder_verifiers: "mset es = mset (all_errors vs) \<Longrightarrow> \<exists>vs'. mset vs' = mset vs \<and> all_errors vs' = es"
proof (induction es arbitrary: vs)
  case (Cons e es)
  then have "e \<in> set (all_errors vs)" by (metis list.set_intros(1) mset_eq_setD)
  then obtain v where v: "v \<in> set vs" "wrapped v = Some e" by (auto simp: all_errors_def map_filter_def)
  then obtain ws us where vs: "vs = ws @ v # us" by (meson split_list)
  have "mset es = mset (all_errors (ws @ us))"
    using Cons.prems v(2) vs by (simp add: all_errors_def map_filter_def)
  from Cons.IH [OF this] obtain vs' where "mset vs' = mset (ws @ us)" "all_errors vs' = es" by blast
  with v vs show ?case
    by (intro exI [where x = "v # vs'"]) (simp add: all_errors_Cons [of v] all_errors_def map_filter_simps)
qed auto

text \<open>
  C13: the concurrent run is equivalent to running the verifiers one after the other in some
  order: what a finished run can return is exactly what some order of the verifiers returns,
  and every order is a possible schedule.
\<close>

theorem RunVerifiers_sequential:
  "(\<exists>p. reachable vs p \<and> joined p = Some r) \<longleftrightarrow>
   (\<exists>vs'. mset vs' = mset vs \<and> r = run_in_order vs' [])"
proof
  assume "\<exists>p. reachable vs p \<and> joined p = Some r"
  then obtain es where "mset es = mset (all_errors vs)" "r = Join_errors es"
    using pool_inv_reachable by (fastforce simp: pool_inv_def split: option.splits)
  then show "\<exists>vs'. mset vs' = mset vs \<and> r = run_in_order vs' []"
    using reorder_verifiers by (metis append_Nil run_in_order_errors)
next
  assume "\<exists>vs'. mset vs' = mset vs \<and> r = run_in_order vs' []"
  then obtain vs' where vs': "mset vs' = mset vs" "r = Join_errors (all_errors vs')"
    by (auto simp: run_in_order_errors)
  have "mset (all_errors vs') = mset (all_errors vs)"
    using vs'(1) by (simp add: all_errors_def map_filter_def)
  then have "mset (all_errors vs') = pending vs (phases (init_pool vs))"
    by (simp add: init_pool_def pending_unborn)
  from any_order [OF pool_inv_init _ this] vs'(2) show "\<exists>p. reachable vs p \<and> joined p = Some r"
    by (auto simp: reachable_steps init_pool_def)
qed

end
