(* ===== verification/Verifiers.thy ===== *)
theory Verifiers
  imports Kube
begin

text \<open>
  The verifiers that read one snapshot: \<^verbatim>\<open>pkg/verifiers/\<close> \<^verbatim>\<open>clusteroperators.go\<close>,
  \<^verbatim>\<open>hostedcluster.go\<close>, \<^verbatim>\<open>managed_operators.go\<close>, \<^verbatim>\<open>hcp_namespace.go\<close>, \<^verbatim>\<open>management_cluster.go\<close>,
  \<^verbatim>\<open>service_cluster.go\<close>, \<^verbatim>\<open>workload.go\<close>, \<^verbatim>\<open>storage.go\<close> and \<^verbatim>\<open>nodes.go\<close>. A verifier
  gives the error it returns, \<open>None\<close> for nil. The loops over items are folds that collect
  what is wrong, in the order of the code. \<open>unstructured.NestedSlice\<close> of apimachinery is the
  parameter \<open>nested\<close>: an error, not found, or the slice.
\<close>

type_synonym nested_slice = "(string \<times> json) list \<Rightarrow> string list \<Rightarrow> ext_error + json list option"

subsection \<open>ClusterOperators\<close>

definition clusteroperators_gvr :: gvr where
  [go_defs]: "clusteroperators_gvr = \<lparr>Group = ''config.openshift.io'', Version = ''v1'', Resource = ''clusteroperators''\<rparr>"

text \<open>The loop over the conditions of one operator: available, degraded and the details.\<close>

fun operator_conditions ::
  "(string \<times> json) list list \<Rightarrow> bool \<Rightarrow> bool \<Rightarrow> go_error list \<Rightarrow> bool \<times> bool \<times> go_error list" where
  "operator_conditions [] available degraded details = (available, degraded, details)"
| "operator_conditions (cond # conds) available degraded details =
     (let condType = str_of cond ''type''; condStatus = str_of cond ''status'' in
      operator_conditions conds
        (if condType = ''Available'' \<and> condStatus = ''True'' then True else available)
        (if condType = ''Degraded'' \<and> condStatus = ''False'' then False else degraded)
        (if condType = ''Available'' \<or> condType = ''Degraded'' \<or> condType = ''Progressing''
         then details @ [Sprintf ''%s=%s'' [AStr condType, AStr condStatus]] else details))"

fun check_operators ::
  "(string \<Rightarrow> bool) \<Rightarrow> uobject list \<Rightarrow> go_error list \<Rightarrow> go_error + go_error list" where
  "check_operators excluded [] unhealthy = Inr unhealthy"
| "check_operators excluded (item # items) unhealthy =
     (let name = uName item in
      if excluded name then check_operators excluded items unhealthy
      else (case getConditions (uObject item) of
              Inl e \<Rightarrow> Inl (Errorf ''getting conditions for %s: %w'' [AStr name, AWrap e])
            | Inr None \<Rightarrow>
                check_operators excluded items
                  (unhealthy @ [Sprintf ''%s: no status.conditions found'' [AStr name]])
            | Inr (Some conditions) \<Rightarrow>
                (case operator_conditions conditions False True [] of (available, degraded, details) \<Rightarrow>
                   check_operators excluded items
                     (if \<not> available \<or> degraded
                      then unhealthy @ [Sprintf ''%s: %v'' [AStr name, ALines details]] else unhealthy))))"

definition VerifyClusterOperatorsHealthy :: "dynamic_client \<Rightarrow> string list \<Rightarrow> go_error option" where
  "VerifyClusterOperatorsHealthy dyn excludeOperators =
     (let excluded = (\<lambda>n. n \<in> set (map TrimSpace excludeOperators)) in
      case ResourceList dyn clusteroperators_gvr [] of
        Inl e \<Rightarrow> Some (Errorf ''listing clusteroperators: %w'' [AExt e])
      | Inr items \<Rightarrow>
          if items = [] then Some (Errorf ''no clusteroperators found'' [])
          else (case check_operators excluded items [] of
                  Inl e \<Rightarrow> Some e
                | Inr [] \<Rightarrow> None
                | Inr unhealthy \<Rightarrow>
                    Some (Errorf ''unhealthy clusteroperators found:\<newline>  %v'' [ALines unhealthy])))"

subsection \<open>HostedClusters and NodePools\<close>

definition hostedClusterGVR :: gvr where
  [go_defs]: "hostedClusterGVR = \<lparr>Group = ''hypershift.openshift.io'', Version = ''v1beta1'', Resource = ''hostedclusters''\<rparr>"

definition nodePoolGVR :: gvr where
  [go_defs]: "nodePoolGVR = \<lparr>Group = ''hypershift.openshift.io'', Version = ''v1beta1'', Resource = ''nodepools''\<rparr>"

text \<open>The loop of \<open>verifyConditions\<close>: the issues, and which conditions were seen.\<close>

fun condition_issues ::
  "json list \<Rightarrow> go_error list \<Rightarrow> bool \<Rightarrow> bool \<Rightarrow> go_error list \<times> bool \<times> bool" where
  "condition_issues [] issues availableFound degradedFound = (issues, availableFound, degradedFound)"
| "condition_issues (cond # conds) issues availableFound degradedFound =
     (case as_object cond of
        None \<Rightarrow> condition_issues conds issues availableFound degradedFound
      | Some m \<Rightarrow>
          (let condType = str_of m ''type''; condStatus = str_of m ''status'';
               why = [AStr condStatus, AStr (str_of m ''reason''), AStr (str_of m ''message'')];
               issues1 = (if condType = ''Available'' \<and> condStatus \<noteq> ''True''
                          then issues @ [Sprintf ''Available=%s (reason: %s, message: %s)'' why] else issues);
               issues2 = (if condType = ''Degraded'' \<and> condStatus \<noteq> ''False''
                          then issues1 @ [Sprintf ''Degraded=%s (reason: %s, message: %s)'' why] else issues1)
           in condition_issues conds issues2
                (availableFound \<or> condType = ''Available'') (degradedFound \<or> condType = ''Degraded'')))"

definition verifyConditions ::
  "nested_slice \<Rightarrow> uobject \<Rightarrow> string \<Rightarrow> string \<Rightarrow> string \<Rightarrow> go_error option" where
  "verifyConditions nested obj kind namespace name =
     (let who = [AStr kind, AStr namespace, AStr name] in
      case nested (uObject obj) [''status'', ''conditions''] of
        Inl e \<Rightarrow> Some (Errorf ''extracting conditions from %s %s/%s: %w'' (who @ [AExt e]))
      | Inr None \<Rightarrow> Some (Errorf ''%s %s/%s has no status conditions'' who)
      | Inr (Some conditions) \<Rightarrow>
          (case condition_issues conditions [] False False of (issues, availableFound, degradedFound) \<Rightarrow>
             (let issues1 = (if availableFound then issues
                             else issues @ [Sprintf ''Available condition not found'' []]);
                  issues2 = (if degradedFound then issues1
                             else issues1 @ [Sprintf ''Degraded condition not found'' []])
              in if issues2 = [] then None
                 else Some (Errorf ''%s %s/%s is not healthy:\<newline>%s'' (who @ [ALines issues2])))))"

definition VerifyHostedClusterHealthy ::
  "nested_slice \<Rightarrow> dynamic_client \<Rightarrow> string \<Rightarrow> string \<Rightarrow> go_error option" where
  "VerifyHostedClusterHealthy nested dyn namespace name =
     (case ResourceGet dyn hostedClusterGVR namespace name of
        Inl e \<Rightarrow> Some (Errorf ''getting HostedCluster %s/%s: %w'' [AStr namespace, AStr name, AExt e])
      | Inr hc \<Rightarrow> verifyConditions nested hc ''HostedCluster'' namespace name)"

fun nodepool_conditions ::
  "(string \<times> json) list list \<Rightarrow> bool \<Rightarrow> bool \<Rightarrow> go_error list \<Rightarrow> bool \<times> bool \<times> go_error list" where
  "nodepool_conditions [] ready nodesHealthy details = (ready, nodesHealthy, details)"
| "nodepool_conditions (cond # conds) ready nodesHealthy details =
     (let condType = str_of cond ''type''; condStatus = str_of cond ''status'' in
      nodepool_conditions conds
        (ready \<or> condType = ''Ready'' \<and> condStatus = ''True'')
        (nodesHealthy \<or> condType = ''AllNodesHealthy'' \<and> condStatus = ''True'')
        (details @
         (if condType = ''Ready'' then [Sprintf ''Ready=%s'' [AStr condStatus]] else []) @
         (if condType = ''AllNodesHealthy'' then [Sprintf ''AllNodesHealthy=%s'' [AStr condStatus]] else [])))"

fun check_nodepools :: "string \<Rightarrow> uobject list \<Rightarrow> go_error list \<Rightarrow> go_error list" where
  "check_nodepools namespace [] unhealthy = unhealthy"
| "check_nodepools namespace (np # nps) unhealthy =
     (let name = uName np in
      case getConditions (uObject np) of
        Inr (Some conditions) \<Rightarrow>
          (case nodepool_conditions conditions False False [] of (ready, nodesHealthy, details) \<Rightarrow>
             check_nodepools namespace nps
               (if \<not> ready \<or> \<not> nodesHealthy
                then unhealthy @ [Sprintf ''NodePool %s/%s: %v'' [AStr namespace, AStr name, ALines details]]
                else unhealthy))
      | _ \<Rightarrow>
          check_nodepools namespace nps
            (unhealthy @ [Sprintf ''NodePool %s/%s: no conditions found'' [AStr namespace, AStr name]]))"

definition VerifyNodePoolHealthy :: "dynamic_client \<Rightarrow> string \<Rightarrow> go_error option" where
  "VerifyNodePoolHealthy dyn namespace =
     (case ResourceList dyn nodePoolGVR namespace of
        Inl e \<Rightarrow> Some (Errorf ''listing NodePools in %s: %w'' [AStr namespace, AExt e])
      | Inr items \<Rightarrow>
          if items = [] then Some (Errorf ''no NodePools found in namespace %s'' [AStr namespace])
          else (let unhealthy = check_nodepools namespace items [] in
                if unhealthy = [] then None
                else Some (Errorf ''%d unhealthy NodePools:\<newline>%s''
                             [AInt (int (length unhealthy)), ALines unhealthy])))"

subsection \<open>Managed operators\<close>

definition routeMonitorGVR :: gvr where
  [go_defs]: "routeMonitorGVR = \<lparr>Group = ''monitoring.openshift.io'', Version = ''v1alpha1'', Resource = ''routemonitors''\<rparr>"

definition vpcEndpointGVR :: gvr where
  [go_defs]: "vpcEndpointGVR = \<lparr>Group = ''avo.openshift.io'', Version = ''v1alpha2'', Resource = ''vpcendpoints''\<rparr>"

definition VerifyRMORouteMonitors :: "dynamic_client \<Rightarrow> string \<Rightarrow> go_error option" where
  "VerifyRMORouteMonitors dyn namespace =
     (case ResourceList dyn routeMonitorGVR namespace of
        Inl e \<Rightarrow> Some (Errorf ''listing RouteMonitors in namespace %s: %w'' [AStr namespace, AExt e])
      | Inr items \<Rightarrow>
          if items = [] then Some (Errorf ''no RouteMonitor CRs found in namespace %s'' [AStr namespace])
          else None)"

text \<open>
  The loop over the conditions of one VpcEndpoint; it breaks at the first matching condition
  that is true.
\<close>

definition endpoint_ready_type :: "string \<Rightarrow> bool" where
  "endpoint_ready_type condType \<longleftrightarrow>
     condType = ''AWSVpcEndpointReady'' \<or> EqualFold condType ''available''"

fun endpoint_conditions ::
  "string \<Rightarrow> json list \<Rightarrow> go_error list \<Rightarrow> bool \<Rightarrow> go_error list \<times> bool" where
  "endpoint_conditions name [] unavailable availableCondFound = (unavailable, availableCondFound)"
| "endpoint_conditions name (cond # conds) unavailable availableCondFound =
     (case as_object cond of
        None \<Rightarrow> endpoint_conditions name conds unavailable availableCondFound
      | Some m \<Rightarrow>
          (let condType = str_of m ''type''; condStatus = str_of m ''status'' in
           if endpoint_ready_type condType then
             (if EqualFold condStatus ''true'' then (unavailable, True)
              else endpoint_conditions name conds
                     (unavailable @ [Sprintf ''- %s: %s=%s (reason: %s, message: %s)''
                        [AStr name, AStr condType, AStr condStatus,
                         AStr (str_of m ''reason''), AStr (str_of m ''message'')]]) True)
           else endpoint_conditions name conds unavailable availableCondFound))"

fun check_endpoints ::
  "nested_slice \<Rightarrow> uobject list \<Rightarrow> go_error list \<Rightarrow> go_error + go_error list" where
  "check_endpoints nested [] unavailable = Inr unavailable"
| "check_endpoints nested (vpe # vpes) unavailable =
     (let name = uName vpe in
      case nested (uObject vpe) [''status'', ''conditions''] of
        Inl e \<Rightarrow> Inl (Errorf ''extracting conditions from VpcEndpoint %s: %w'' [AStr name, AExt e])
      | Inr None \<Rightarrow>
          check_endpoints nested vpes (unavailable @ [Sprintf ''- %s: no status conditions'' [AStr name]])
      | Inr (Some conditions) \<Rightarrow>
          (case endpoint_conditions name conditions unavailable False of (unavailable1, availableCondFound) \<Rightarrow>
             check_endpoints nested vpes
               (if availableCondFound then unavailable1
                else unavailable1 @ [Sprintf ''- %s: available condition not found'' [AStr name]])))"

definition VerifyAVOVpcEndpoints ::
  "nested_slice \<Rightarrow> dynamic_client \<Rightarrow> string \<Rightarrow> go_error option" where
  "VerifyAVOVpcEndpoints nested dyn namespace =
     (case ResourceList dyn vpcEndpointGVR namespace of
        Inl e \<Rightarrow> Some (Errorf ''listing VpcEndpoints in namespace %s: %w'' [AStr namespace, AExt e])
      | Inr items \<Rightarrow>
          if items = [] then Some (Errorf ''no VpcEndpoint CRs found in namespace %s'' [AStr namespace])
          else (case check_endpoints nested items [] of
                  Inl e \<Rightarrow> Some e
                | Inr [] \<Rightarrow> None
                | Inr unavailable \<Rightarrow>
                    Some (Errorf ''found %d unavailable VpcEndpoints in namespace %s:\<newline>%s''
                            [AInt (int (length unavailable)), AStr namespace, ALines unavailable])))"

subsection \<open>Deployments\<close>

text \<open>\<open>cond.Type == DeploymentAvailable && cond.Status == ConditionTrue\<close> for some condition.\<close>

fun condition_true :: "string \<Rightarrow> (string \<times> string) list \<Rightarrow> bool" where
  "condition_true ty [] = False"
| "condition_true ty ((condType, condStatus) # conds) =
     (if condType = ty \<and> condStatus = ''True'' then True else condition_true ty conds)"

definition replica_args :: "deployment \<Rightarrow> go_arg list" where
  "replica_args d = [AInt (depReadyReplicas d), AInt (depReplicas d)]"

definition VerifyAuditWebhook :: "kube_client \<Rightarrow> string \<Rightarrow> go_error option" where
  "VerifyAuditWebhook kube namespace =
     (case DeploymentGet kube namespace ''audit-webhook'' of
        Inl e \<Rightarrow> Some (Errorf ''getting audit-webhook deployment in namespace %s: %w'' [AStr namespace, AExt e])
      | Inr deploy \<Rightarrow>
          if condition_true ''Available'' (depConditions deploy) then None
          else Some (Errorf ''audit-webhook deployment in namespace %s is not Available (ready: %d/%d)''
                       (AStr namespace # replica_args deploy)))"

definition verifyDeploymentInNamespace :: "kube_client \<Rightarrow> string \<Rightarrow> string \<Rightarrow> go_error option" where
  "verifyDeploymentInNamespace kube namespace name =
     (case DeploymentGet kube namespace name of
        Inl e \<Rightarrow> Some (Errorf ''getting deployment %s/%s: %w'' [AStr namespace, AStr name, AExt e])
      | Inr deploy \<Rightarrow>
          if condition_true ''Available'' (depConditions deploy) then None
          else Some (Errorf ''deployment %s/%s is not available (ready: %d/%d)''
                       (AStr namespace # AStr name # replica_args deploy)))"

definition VerifyHyperShiftOperator :: "kube_client \<Rightarrow> go_error option" where
  "VerifyHyperShiftOperator kube = verifyDeploymentInNamespace kube ''hypershift'' ''operator''"

definition VerifyExternalDNS :: "kube_client \<Rightarrow> go_error option" where
  "VerifyExternalDNS kube = verifyDeploymentInNamespace kube ''hypershift'' ''external-dns''"

definition VerifyCAPIProvider :: "kube_client \<Rightarrow> string \<Rightarrow> go_error option" where
  "VerifyCAPIProvider kube hcpNamespace = verifyDeploymentInNamespace kube hcpNamespace ''capi-provider''"

definition VerifyCertManager :: "kube_client \<Rightarrow> go_error option" where
  "VerifyCertManager kube = verifyDeploymentInNamespace kube ''cert-manager'' ''cert-manager''"

definition VerifyHiveControllers :: "kube_client \<Rightarrow> go_error option" where
  "VerifyHiveControllers kube = verifyDeploymentInNamespace kube ''hive'' ''hive-controllers''"

definition VerifyDeploymentAvailable :: "kube_client \<Rightarrow> string \<Rightarrow> string \<Rightarrow> go_error option" where
  "VerifyDeploymentAvailable kube namespace name =
     (case DeploymentGet kube namespace name of
        Inl e \<Rightarrow> Some (Errorf ''getting deployment %s/%s: %w'' [AStr namespace, AStr name, AExt e])
      | Inr deploy \<Rightarrow>
          if condition_true ''Available'' (depConditions deploy) then None
          else Some (Errorf ''deployment %s/%s is not available, conditions: %v''
                       [AStr namespace, AStr name, APairs (depConditions deploy)]))"

fun check_deployments :: "deployment list \<Rightarrow> go_error list \<Rightarrow> go_error list" where
  "check_deployments [] unhealthy = unhealthy"
| "check_deployments (d # ds) unhealthy =
     (if depSpecReplicas d = Some 0 then check_deployments ds unhealthy
      else check_deployments ds
             (if condition_true ''Available'' (depConditions d) then unhealthy
              else unhealthy @ [Sprintf ''- %s: not Available (ready: %d/%d)'' (AStr (depName d) # replica_args d)]))"

definition VerifyHCPNamespaceHealthy :: "kube_client \<Rightarrow> string \<Rightarrow> go_error option" where
  "VerifyHCPNamespaceHealthy kube hcpNamespace =
     (case DeploymentList kube hcpNamespace of
        Inl e \<Rightarrow> Some (Errorf ''listing deployments in namespace %s: %w'' [AStr hcpNamespace, AExt e])
      | Inr items \<Rightarrow>
          if items = [] then Some (Errorf ''no deployments found in namespace %s'' [AStr hcpNamespace])
          else (let unhealthy = check_deployments items [] in
                if unhealthy = [] then None
                else Some (Errorf ''found %d unhealthy deployments in namespace %s:\<newline>%s''
                             [AInt (int (length unhealthy)), AStr hcpNamespace, ALines unhealthy])))"

subsection \<open>Hubs on a service cluster\<close>

definition multiclusterhubs_gvr :: gvr where
  [go_defs]: "multiclusterhubs_gvr = \<lparr>Group = ''operator.open-cluster-management.io'', Version = ''v1'', Resource = ''multiclusterhubs''\<rparr>"

definition multiclusterengines_gvr :: gvr where
  [go_defs]: "multiclusterengines_gvr = \<lparr>Group = ''multicluster.openshift.io'', Version = ''v1'', Resource = ''multiclusterengines''\<rparr>"

text \<open>The loop that returns nil at the first item in the phase.\<close>

fun some_in_phase :: "string \<Rightarrow> uobject list \<Rightarrow> bool" where
  "some_in_phase phase [] = False"
| "some_in_phase phase (item # items) =
     (case getNestedField (uObject item) [''status'', ''phase''] of
        Inr (Some status) \<Rightarrow> if status = phase then True else some_in_phase phase items
      | _ \<Rightarrow> some_in_phase phase items)"

definition VerifyACMHub :: "dynamic_client \<Rightarrow> go_error option" where
  "VerifyACMHub dyn =
     (case ResourceList dyn multiclusterhubs_gvr [] of
        Inl e \<Rightarrow> Some (Errorf ''listing multiclusterhubs: %w'' [AExt e])
      | Inr items \<Rightarrow>
          if items = [] then Some (Errorf ''no multiclusterhub CRs found'' [])
          else if some_in_phase ''Running'' items then None
          else Some (Errorf ''no multiclusterhub CR has status.phase = Running'' []))"

definition VerifyMCE :: "dynamic_client \<Rightarrow> go_error option" where
  "VerifyMCE dyn =
     (case ResourceList dyn multiclusterengines_gvr [] of
        Inl e \<Rightarrow> Some (Errorf ''listing multiclusterengines: %w'' [AExt e])
      | Inr items \<Rightarrow>
          if items = [] then Some (Errorf ''no multiclusterengine CRs found'' [])
          else if some_in_phase ''Available'' items then None
          else Some (Errorf ''no multiclusterengine CR has status.phase = Available'' []))"

subsection \<open>Storage\<close>

definition VerifyPVCBound :: "kube_client \<Rightarrow> string \<Rightarrow> string \<Rightarrow> go_error option" where
  "VerifyPVCBound kube namespace pvcName =
     (case PVCPhase kube namespace pvcName of
        Inl e \<Rightarrow> Some (Errorf ''getting PVC %s/%s: %w'' [AStr namespace, AStr pvcName, AExt e])
      | Inr phase \<Rightarrow>
          if phase \<noteq> ''Bound''
          then Some (Errorf ''PVC %s/%s is not bound, phase: %s'' [AStr namespace, AStr pvcName, AStr phase])
          else None)"

definition volumesnapshots_gvr :: gvr where
  [go_defs]: "volumesnapshots_gvr = \<lparr>Group = ''snapshot.storage.k8s.io'', Version = ''v1'', Resource = ''volumesnapshots''\<rparr>"

definition VerifyVolumeSnapshotReady :: "dynamic_client \<Rightarrow> string \<Rightarrow> string \<Rightarrow> go_error option" where
  "VerifyVolumeSnapshotReady dyn namespace snapshotName =
     (let who = [AStr namespace, AStr snapshotName] in
      case ResourceGet dyn volumesnapshots_gvr namespace snapshotName of
        Inl e \<Rightarrow> Some (Errorf ''getting volumesnapshot %s/%s: %w'' (who @ [AExt e]))
      | Inr obj \<Rightarrow>
          (case get_object (uObject obj) ''status'' of
             None \<Rightarrow> Some (Errorf ''volumesnapshot %s/%s has no status'' who)
           | Some status \<Rightarrow>
               (case get_bool status ''readyToUse'' of
                  None \<Rightarrow> Some (Errorf ''volumesnapshot %s/%s has no readyToUse field'' who)
                | Some readyToUse \<Rightarrow>
                    if \<not> readyToUse then Some (Errorf ''volumesnapshot %s/%s is not ready'' who) else None)))"

subsection \<open>Nodes\<close>

text \<open>The loop over a node's conditions has no break; it has the same result.\<close>

fun node_ready :: "(string \<times> string) list \<Rightarrow> bool \<Rightarrow> bool" where
  "node_ready [] nodeIsReady = nodeIsReady"
| "node_ready ((condType, condStatus) # conds) nodeIsReady =
     node_ready conds (if condType = ''Ready'' \<and> condStatus = ''True'' then True else nodeIsReady)"

fun not_ready_nodes :: "node list \<Rightarrow> string list \<Rightarrow> string list" where
  "not_ready_nodes [] notReady = notReady"
| "not_ready_nodes (n # ns) notReady =
     not_ready_nodes ns (if node_ready (nodeConditions n) False then notReady else notReady @ [nodeName n])"

definition verifyAllNodesReady_Name :: string where
  "verifyAllNodesReady_Name = ''VerifyAllNodesReady''"

definition verifyAllNodesReady :: "kube_client \<Rightarrow> go_error option" where
  "verifyAllNodesReady kube =
     (case NodeList kube [] of
        Inl e \<Rightarrow> Some (Errorf ''listing nodes: %w'' [AExt e])
      | Inr items \<Rightarrow>
          if items = [] then Some (Errorf ''no nodes found in the cluster'' [])
          else (let notReadyNodes = not_ready_nodes items [] in
                if notReadyNodes = [] then None
                else Some (Errorf ''nodes not ready: %v'' [AStrs notReadyNodes])))"

definition verifyNodeCount_Name :: "int \<Rightarrow> string" where
  "verifyNodeCount_Name expected = ''VerifyNodeCount('' @ Itoa expected @ '')''"

definition verifyNodeCount :: "int \<Rightarrow> kube_client \<Rightarrow> go_error option" where
  "verifyNodeCount expected kube =
     (case NodeList kube ''node-role.kubernetes.io/worker'' of
        Inl e \<Rightarrow> Some (Errorf ''listing worker nodes: %w'' [AExt e])
      | Inr items \<Rightarrow>
          if int (length items) \<noteq> expected
          then Some (Errorf ''expected %d worker nodes, found %d'' [AInt expected, AInt (int (length items))])
          else None)"

end
