(* ===== verification/Specs.thy ===== *)
theory Specs
  imports Context RunVerifiers Verifiers
begin

text \<open>
  The specs under \<^verbatim>\<open>test/e2e\<close> that run over the OCM connection and the clients of a test
  context: \<^verbatim>\<open>cluster_lifecycle_test.go\<close>, \<^verbatim>\<open>upgrade_test.go\<close>, \<^verbatim>\<open>hostedcluster_health_test.go\<close>,
  \<^verbatim>\<open>managed_operators_test.go\<close>, \<^verbatim>\<open>management_cluster_test.go\<close> and \<^verbatim>\<open>service_cluster_test.go\<close>.

  A spec is a list of stages on the test context and the process state. A stage goes on
  (\<open>Pass\<close>), or ends the spec: with \<open>Skip\<close>, or, when an assertion of gomega does not
  hold, with \<open>Fail\<close> and the error that was asserted to be nil where there is one. \<open>None\<close> is
  a stage that does not return. What \<open>DeferCleanup\<close> registers is returned beside the
  outcome. The titles written with \<open>By\<close> are left out.

  The test framework is not in the repository. What the specs take from it, and from the
  clients they use, is the record \<open>suite\<close>: how ginkgo runs what was deferred, how gomega
  polls in \<open>Eventually\<close>, which schedule the verifiers that run concurrently happen to get,
  and what a client's cluster looks like in a world.
\<close>

subsection \<open>Stages\<close>

datatype outcome = Pass | Skip string | Fail "go_error option"

type_synonym 's stage = "'s \<Rightarrow> (outcome \<times> 's) option"

fun run_stages :: "'s stage list \<Rightarrow> 's stage" where
  "run_stages [] s = Some (Pass, s)"
| "run_stages (stage # stages) s =
     (case stage s of
        None \<Rightarrow> None
      | Some (Pass, s1) \<Rightarrow> run_stages stages s1
      | Some (oc, s1) \<Rightarrow> Some (oc, s1))"

definition outcome_of :: "go_error option \<Rightarrow> outcome" where
  "outcome_of err = (case err of None \<Rightarrow> Pass | Some e \<Rightarrow> Fail (Some e))"

text \<open>\<open>Expect(f()).To(Succeed())\<close>, and the same for a call that may not return.\<close>

definition Expect_success :: "('s \<Rightarrow> go_error option \<times> 's) \<Rightarrow> 's stage" where
  "Expect_success f s = (case f s of (err, s1) \<Rightarrow> Some (outcome_of err, s1))"

definition Expect_return :: "('s \<Rightarrow> (go_error option \<times> 's) option) \<Rightarrow> 's stage" where
  "Expect_return f s = (case f s of None \<Rightarrow> None | Some (err, s1) \<Rightarrow> Some (outcome_of err, s1))"

definition Expect_that :: "('s \<Rightarrow> bool) \<Rightarrow> 's stage" where
  "Expect_that P s = Some (if P s then Pass else Fail None, s)"

text \<open>\<open>if f() { Skip(msg) }\<close>.\<close>

definition Skip_if :: "('s \<Rightarrow> bool \<times> 's) \<Rightarrow> string \<Rightarrow> 's stage" where
  "Skip_if f msg s = (case f s of (b, s1) \<Rightarrow> Some (if b then Skip msg else Pass, s1))"

definition Skip_unless :: "('s \<Rightarrow> bool \<times> 's) \<Rightarrow> string \<Rightarrow> 's stage" where
  "Skip_unless f msg s = (case f s of (b, s1) \<Rightarrow> Some (if b then Pass else Skip msg, s1))"

definition Eventually_succeeds :: "('s \<Rightarrow> outcome \<times> 's) \<Rightarrow> 's stage" where
  "Eventually_succeeds f s = Some (f s)"

text \<open>An operation on the process state, as one on the context and the state.\<close>

definition on_sys :: "('s \<Rightarrow> 'r \<times> 's) \<Rightarrow> 'tc \<times> 's \<Rightarrow> 'r \<times> 'tc \<times> 's" where
  "on_sys f = (\<lambda>(tc, s). case f s of (r, s1) \<Rightarrow> (r, tc, s1))"

definition on_sys_loop :: "('s \<Rightarrow> ('r \<times> 's) option) \<Rightarrow> 'tc \<times> 's \<Rightarrow> ('r \<times> 'tc \<times> 's) option" where
  "on_sys_loop f = (\<lambda>(tc, s). case f s of None \<Rightarrow> None | Some (r, s1) \<Rightarrow> Some (r, tc, s1))"

subsection \<open>The environment of the suite\<close>

record ('w, 'rest, 'kube, 'dyn, 'awscfg, 'ec2, 'ct) suite =
  suiteDeps :: "('w, 'rest, 'kube, 'dyn, 'awscfg, 'ec2, 'ct) deps"
  suiteClock :: "'w clock"
  suiteRuntime :: "'w runtime"
  kubeView :: "'kube \<Rightarrow> 'w \<Rightarrow> kube_client"
  dynView :: "'dyn \<Rightarrow> 'w \<Rightarrow> dynamic_client"
  nestedSlice :: nested_slice
  Schedule :: "verifier list \<Rightarrow> ('w, go_error option) api"
  Eventually :: "nat \<Rightarrow> nat \<Rightarrow> ('w ocm_sys \<Rightarrow> outcome \<times> 'w ocm_sys) \<Rightarrow> 'w ocm_sys \<Rightarrow> outcome \<times> 'w ocm_sys"
  RunDeferred :: "('w ocm_sys \<Rightarrow> 'w ocm_sys) list \<Rightarrow> 'w ocm_sys \<Rightarrow> 'w ocm_sys"

abbreviation suiteConn where
  "suiteConn en \<equiv> tcConn (suiteDeps en)"

text \<open>
  What is documented of it. \<open>RunVerifiers\<close> returns what one of its schedules returns;
  \<open>DeferCleanup\<close> runs each registered function once, the last one first; \<open>Eventually\<close> calls
  its function until it succeeds, and fails with what the last call gave when the time is
  over, or with an error of its own when the context is done.
\<close>

definition schedule_contract :: "(verifier list \<Rightarrow> ('w, go_error option) api) \<Rightarrow> bool" where
  "schedule_contract sched \<longleftrightarrow>
     (\<forall>vs w. \<exists>p. reachable vs p \<and> joined p = Some (fst (fst (sched vs w))))"

definition deferred_contract :: "(('s \<Rightarrow> 's) list \<Rightarrow> 's \<Rightarrow> 's) \<Rightarrow> bool" where
  "deferred_contract rd \<longleftrightarrow> (\<forall>fs s. rd fs s = foldr id fs s)"

definition idle :: "'w ocm_sys \<Rightarrow> 'w ocm_sys \<Rightarrow> bool" where
  "idle s s' \<longleftrightarrow> hist s' = hist s \<and> out s' = out s \<and> now s \<le> now s'"

inductive eventually_run ::
  "('w ocm_sys \<Rightarrow> outcome \<times> 'w ocm_sys) \<Rightarrow> 'w ocm_sys \<Rightarrow> outcome \<Rightarrow> 'w ocm_sys \<Rightarrow> bool" for f where
  succeeds: "f s = (Pass, s') \<Longrightarrow> eventually_run f s Pass s'"
| runs_out: "f s = (oc, s1) \<Longrightarrow> oc \<noteq> Pass \<Longrightarrow> idle s1 s' \<Longrightarrow> eventually_run f s oc s'"
| cancelled: "f s = (oc, s1) \<Longrightarrow> oc \<noteq> Pass \<Longrightarrow> idle s1 s' \<Longrightarrow> eventually_run f s (Fail e) s'"
| retries: "f s = (oc, s1) \<Longrightarrow> oc \<noteq> Pass \<Longrightarrow> idle s1 s2 \<Longrightarrow> eventually_run f s2 r s' \<Longrightarrow>
    eventually_run f s r s'"

definition eventually_contract ::
  "(nat \<Rightarrow> nat \<Rightarrow> ('w ocm_sys \<Rightarrow> outcome \<times> 'w ocm_sys) \<Rightarrow> 'w ocm_sys \<Rightarrow> outcome \<times> 'w ocm_sys) \<Rightarrow> bool" where
  "eventually_contract ev \<longleftrightarrow>
     (\<forall>timeout polling f s r s'. ev timeout polling f s = (r, s') \<longrightarrow> eventually_run f s r s')"

subsection \<open>Checks through a client\<close>

text \<open>The verifiers that a spec runs concurrently, with the results of their checks.\<close>

definition node_checks :: "kube_client \<Rightarrow> int \<Rightarrow> verifier list" where
  "node_checks kube computeNodes =
     [(verifyAllNodesReady_Name, verifyAllNodesReady kube),
      (verifyNodeCount_Name computeNodes, verifyNodeCount computeNodes kube)]"

definition ready_check :: "kube_client \<Rightarrow> verifier list" where
  "ready_check kube = [(verifyAllNodesReady_Name, verifyAllNodesReady kube)]"

definition run_verifiers where
  "run_verifiers en kube checks s =
     (case Schedule en (checks (kubeView en kube (ext s))) (ext s) of
        ((r, d), w) \<Rightarrow> (r, s\<lparr>ext := w, now := now s + d\<rparr>))"

text \<open>
  A verifier called on a client of the context. A call on a nil client panics, which ginkgo
  reports as a failure.
\<close>

definition Expect_verified ::
  "('tc \<Rightarrow> 'c option) \<Rightarrow> ('c \<Rightarrow> 'w \<Rightarrow> 'v) \<Rightarrow> ('tc \<Rightarrow> 'v \<Rightarrow> go_error option) \<Rightarrow> ('tc \<times> 'w ocm_sys) stage" where
  "Expect_verified client view check = (\<lambda>(tc, s).
     Some (case client tc of
             None \<Rightarrow> Fail None
           | Some c \<Rightarrow> outcome_of (check tc (view c (ext s))), tc, s))"

text \<open>\<open>if cfg.ClusterID == "" { Skip(msg) }\<close>, and calls on that cluster.\<close>

definition Skip_without_cluster where
  "Skip_without_cluster msg = Skip_if (\<lambda>(tc, s). (ClusterID (tcCfg tc) = [], tc, s)) msg"

definition of_cluster where
  "of_cluster f = (\<lambda>(tc, s). on_sys (f (ClusterID (tcCfg tc))) (tc, s))"


subsection \<open>A cluster's whole life\<close>

text \<open>The credentials of the new cluster, a client for it, and the node checks.\<close>

definition verify_new_cluster where
  "verify_new_cluster en clusterID = (\<lambda>(tc, s).
     case GetClusterCredentials (RESTConfigFromKubeConfig (suiteDeps en)) (suiteConn en) clusterID s of
       (Inl e, s1) \<Rightarrow> (Some e, tc, s1)
     | (Inr kubeConfig, s1) \<Rightarrow>
         (case NewKubeClient (kubeNewForConfig (suiteDeps en)) kubeConfig of
            Inl e \<Rightarrow> (Some e, tc, s1)
          | Inr kubeClient \<Rightarrow>
              on_sys (run_verifiers en kubeClient (\<lambda>k. node_checks k (ComputeNodes (tcCfg tc)))) (tc, s1)))"

text \<open>What both lifecycle specs do with the cluster they have created.\<close>

definition lifecycle_stages where
  "lifecycle_stages en clusterID timeout =
     [Expect_return (on_sys_loop (WaitForClusterReady (suiteRuntime en) (suiteConn en) clusterID timeout)),
      Expect_success (on_sys (VerifyClusterReady (suiteConn en) clusterID)),
      Expect_success (verify_new_cluster en clusterID),
      Expect_success (on_sys (DeleteCluster (suiteConn en) clusterID)),
      Expect_success (on_sys (VerifyClusterDeleting (suiteConn en) clusterID))]"

text \<open>The function given to \<open>DeferCleanup\<close>: an error is only written.\<close>

definition delete_deferred where
  "delete_deferred en clusterID s =
     (case DeleteCluster (suiteConn en) clusterID s of
        (Some err, s1) \<Rightarrow>
          printf ''Warning: failed to delete cluster %s during cleanup: %v\<newline>'' [AStr clusterID, AWrap err] s1
      | (None, s1) \<Rightarrow> s1)"

definition after_creation where
  "after_creation en created clusterID timeout tc s =
     (case run_stages (lifecycle_stages en clusterID timeout) (tc, printf created [AStr clusterID] s) of
        None \<Rightarrow> None
      | Some (oc, tc1, s1) \<Rightarrow> Some (oc, [delete_deferred en clusterID], tc1, s1))"

definition hcp_lifecycle where
  "hcp_lifecycle en cfg s =
     (let tc = NewTestContext cfg in
      if ClusterID cfg \<noteq> []
      then Some (Skip ''CLUSTER_ID is set, skipping full lifecycle test (use existing cluster tests instead)'', [], tc, s)
      else (case CreateRosaHCPCluster (suiteClock en) (suiteConn en) (tcCfg tc) s of
              (Inl e, cfg1, s1) \<Rightarrow> Some (Fail (Some e), [], tc\<lparr>tcCfg := cfg1\<rparr>, s1)
            | (Inr clusterID, cfg1, s1) \<Rightarrow>
                after_creation en ''Created cluster: %s\<newline>'' clusterID (minutes 45) (tc\<lparr>tcCfg := cfg1\<rparr>) s1))"

definition classic_lifecycle where
  "classic_lifecycle en cfg s =
     (let tc = NewTestContext cfg in
      if ClusterID cfg \<noteq> []
      then Some (Skip ''CLUSTER_ID is set, skipping full lifecycle test (use existing cluster tests instead)'', [], tc, s)
      else (case CreateRosaClassicCluster (suiteClock en) (suiteConn en) (tcCfg tc) s of
              (Inl e, s1) \<Rightarrow> Some (Fail (Some e), [], tc, s1)
            | (Inr clusterID, s1) \<Rightarrow>
                after_creation en ''Created Classic cluster: %s\<newline>'' clusterID (minutes 60) tc s1))"

text \<open>A spec whose body may have deferred something, with what was deferred run at its end.\<close>

definition It where
  "It en body cfg s =
     (case body en cfg s of
        None \<Rightarrow> None
      | Some (oc, deferred, tc, s1) \<Rightarrow> Some (oc, tc, RunDeferred en deferred s1))"

text \<open>A spec that defers nothing.\<close>

definition It_stages where
  "It_stages stages cfg s = run_stages stages (NewTestContext cfg, s)"

subsection \<open>Existing clusters\<close>

definition Expect_nodes_eventually where
  "Expect_nodes_eventually en = (\<lambda>(tc, s).
     case hcKubeClient tc of
       None \<Rightarrow> Some (Fail None, tc, s)
     | Some kubeClient \<Rightarrow>
         Eventually_succeeds (on_sys (Eventually en (minutes 2) (seconds 15)
           (\<lambda>t. case run_verifiers en kubeClient ready_check t of (err, t1) \<Rightarrow> (outcome_of err, t1)))) (tc, s))"

definition existing_hcp where
  "existing_hcp en =
     [Skip_without_cluster ''CLUSTER_ID not set, skipping existing cluster verification'',
      Expect_success (of_cluster (VerifyClusterReady (suiteConn en))),
      Expect_success (\<lambda>(tc, s). InitHCClients (suiteDeps en) tc s),
      Expect_nodes_eventually en]"

definition existing_classic where
  "existing_classic en =
     [Skip_without_cluster ''CLUSTER_ID not set, skipping existing cluster verification'',
      Skip_unless (\<lambda>(tc, s). IsClassic (suiteDeps en) tc s) ''Not a Classic cluster, skipping Classic lifecycle test'',
      Expect_success (of_cluster (VerifyClusterReady (suiteConn en))),
      Expect_success (of_cluster (VerifyMachinePoolsExist (suiteConn en))),
      Expect_success (\<lambda>(tc, s). InitHCClients (suiteDeps en) tc s),
      Expect_nodes_eventually en]"

definition existing_osd_gcp where
  "existing_osd_gcp en =
     [Skip_without_cluster ''CLUSTER_ID not set, skipping existing cluster verification'',
      Skip_unless (\<lambda>(tc, s). IsOSDGCP (suiteDeps en) tc s) ''Not an OSD GCP cluster, skipping OSD GCP lifecycle test'',
      Expect_success (of_cluster (VerifyClusterReady (suiteConn en))),
      Expect_success (of_cluster (VerifyMachinePoolsExist (suiteConn en))),
      Expect_success (\<lambda>(tc, s). InitHCClients (suiteDeps en) tc s),
      Expect_nodes_eventually en]"

subsection \<open>Upgrades\<close>

definition Skip_without_target where
  "Skip_without_target msg = Skip_if (\<lambda>(tc, s). (UpgradeTargetVersion (tcCfg tc) = [], tc, s)) msg"

definition to_target where
  "to_target f = (\<lambda>(tc, s). on_sys (f (ClusterID (tcCfg tc)) (UpgradeTargetVersion (tcCfg tc))) (tc, s))"

definition await_target where
  "await_target en timeout = (\<lambda>(tc, s).
     on_sys_loop (WaitForUpgradeComplete (suiteRuntime en) (suiteConn en) (ClusterID (tcCfg tc))
       (UpgradeTargetVersion (tcCfg tc)) timeout) (tc, s))"

definition upgrade_control_plane where
  "upgrade_control_plane en =
     [Skip_without_cluster ''CLUSTER_ID not set'',
      Skip_without_target ''UPGRADE_TARGET_VERSION not set, skipping upgrade test'',
      Expect_success (to_target (InitiateControlPlaneUpgrade (suiteConn en))),
      Expect_return (await_target en (minutes 60)),
      Expect_success (of_cluster (VerifyClusterReady (suiteConn en)))]"

definition upgrade_classic where
  "upgrade_classic en =
     [Skip_without_cluster ''CLUSTER_ID not set'',
      Skip_without_target ''UPGRADE_TARGET_VERSION not set, skipping upgrade test'',
      Skip_unless (\<lambda>(tc, s). IsClassic (suiteDeps en) tc s) ''Not a Classic cluster, skipping Classic upgrade test'',
      Expect_success (to_target (InitiateClusterUpgrade (suiteConn en))),
      Expect_return (await_target en (minutes 90)),
      Expect_success (of_cluster (VerifyClusterReady (suiteConn en)))]"

definition upgrade_osd_gcp where
  "upgrade_osd_gcp en =
     [Skip_without_cluster ''CLUSTER_ID not set'',
      Skip_without_target ''UPGRADE_TARGET_VERSION not set, skipping upgrade test'',
      Skip_unless (\<lambda>(tc, s). IsOSDGCP (suiteDeps en) tc s) ''Not an OSD GCP cluster, skipping OSD GCP upgrade test'',
      Expect_success (to_target (InitiateClusterUpgrade (suiteConn en))),
      Expect_return (await_target en (minutes 90)),
      Expect_success (of_cluster (VerifyClusterReady (suiteConn en)))]"

text \<open>One round of the wait for a node pool.\<close>

definition node_pool_probe where
  "node_pool_probe en clusterID nodePoolID targetVersion s =
     (case call (EvGetNodePool clusterID nodePoolID) (GetNodePool (suiteConn en) clusterID nodePoolID) s of
        (Inl e, s1) \<Rightarrow> (Fail (Some (Ext e)), s1)
      | (Inr rawID, s1) \<Rightarrow> (if rawID = targetVersion then Pass else Fail None, s1))"

definition node_pool_stages where
  "node_pool_stages en clusterID nodePoolID targetVersion =
     [Expect_success (on_sys (InitiateNodePoolUpgrade (suiteConn en) clusterID nodePoolID targetVersion)),
      Eventually_succeeds (on_sys (Eventually en (minutes 60) (seconds 30)
        (node_pool_probe en clusterID nodePoolID targetVersion))),
      Expect_success (\<lambda>(tc, s). InitHCClients (suiteDeps en) tc s),
      (\<lambda>(tc, s). case hcKubeClient tc of
         None \<Rightarrow> Some (Fail None, tc, s)
       | Some kubeClient \<Rightarrow> Expect_success (on_sys (run_verifiers en kubeClient ready_check)) (tc, s))]"

definition first_node_pool where
  "first_node_pool en = (\<lambda>(tc, s).
     let clusterID = ClusterID (tcCfg tc); targetVersion = UpgradeTargetVersion (tcCfg tc) in
     case call (EvNodePools clusterID) (ListNodePools (suiteConn en) clusterID) s of
       (Inl e, s1) \<Rightarrow> Some (Fail (Some (Ext e)), tc, s1)
     | (Inr (status, items), s1) \<Rightarrow>
         if status \<noteq> 200 then Some (Fail None, tc, s1)
         else (case items of
                 [] \<Rightarrow> Some (Fail None, tc, s1)
               | nodePoolID # _ \<Rightarrow>
                   run_stages (node_pool_stages en clusterID nodePoolID targetVersion)
                     (tc, printf ''Upgrading node pool %s to %s\<newline>'' [AStr nodePoolID, AStr targetVersion] s1)))"

definition upgrade_node_pools where
  "upgrade_node_pools en =
     [Skip_without_cluster ''CLUSTER_ID not set'',
      Skip_without_target ''UPGRADE_TARGET_VERSION not set, skipping nodepool upgrade test'',
      first_node_pool en]"

definition operators_after_upgrade where
  "operators_after_upgrade en =
     [Skip_without_cluster ''CLUSTER_ID not set'',
      Skip_without_target ''UPGRADE_TARGET_VERSION not set, skipping post-upgrade check'',
      Expect_success (\<lambda>(tc, s). InitHCClients (suiteDeps en) tc s),
      Expect_verified hcDynamicClient (dynView en) (\<lambda>tc dyn. VerifyClusterOperatorsHealthy dyn [])]"

subsection \<open>Health of the service\<close>

definition managed_operators where
  "managed_operators en =
     [Skip_without_cluster ''CLUSTER_ID not configured, skipping ClusterOperators test'',
      Expect_success (\<lambda>(tc, s). InitHCClients (suiteDeps en) tc s),
      Expect_verified hcDynamicClient (dynView en)
        (\<lambda>tc dyn. VerifyClusterOperatorsHealthy dyn (ExcludeClusterOperators (tcCfg tc)))]"

text \<open>The specs on the management cluster; those about one hosted cluster need its namespaces.\<close>

definition management_spec where
  "management_spec en msg check =
     [Skip_unless (\<lambda>(tc, s). (HasMCAccess (Getenv (suiteDeps en)) tc, tc, s)) msg,
      Expect_success (\<lambda>(tc, s). InitMCClients (suiteDeps en) tc s),
      check]"

definition hosted_cluster_spec where
  "hosted_cluster_spec en msg check =
     [Skip_unless (\<lambda>(tc, s). (HasMCAccess (Getenv (suiteDeps en)) tc, tc, s)) msg,
      Expect_success (\<lambda>(tc, s). InitMCClients (suiteDeps en) tc s),
      Expect_that (\<lambda>(tc, s). hcpNamespaces tc \<noteq> None),
      check]"

definition in_namespaces where
  "in_namespaces f tc v = 
     (case hcpNamespaces tc of
        None \<Rightarrow> Some (Errorf ''invalid memory address or nil pointer dereference'' [])
      | Some ns \<Rightarrow> f ns v)"

definition hcp_deployments_healthy where
  "hcp_deployments_healthy en =
     hosted_cluster_spec en ''MANAGEMENT_CLUSTER_ID not configured, skipping HCP namespace health test''
       (Expect_verified mcKubeClient (kubeView en)
          (in_namespaces (\<lambda>ns kube. VerifyHCPNamespaceHealthy kube (HCPNamespace ns))))"

definition hosted_cluster_healthy where
  "hosted_cluster_healthy en =
     hosted_cluster_spec en ''MANAGEMENT_CLUSTER_ID not configured, skipping HostedCluster CR test''
       (Expect_verified mcDynamicClient (dynView en)
          (in_namespaces (\<lambda>ns dyn. VerifyHostedClusterHealthy (nestedSlice en) dyn (HCNamespace ns) (HCClusterName ns))))"

definition node_pools_healthy where
  "node_pools_healthy en =
     hosted_cluster_spec en ''MANAGEMENT_CLUSTER_ID not configured, skipping NodePool CR test''
       (Expect_verified mcDynamicClient (dynView en)
          (in_namespaces (\<lambda>ns dyn. VerifyNodePoolHealthy dyn (HCNamespace ns))))"

definition route_monitors where
  "route_monitors en =
     hosted_cluster_spec en ''MANAGEMENT_CLUSTER_ID not configured, skipping RMO test''
       (Expect_verified mcDynamicClient (dynView en)
          (in_namespaces (\<lambda>ns dyn. VerifyRMORouteMonitors dyn (HCPNamespace ns))))"

definition audit_webhook where
  "audit_webhook en =
     hosted_cluster_spec en ''MANAGEMENT_CLUSTER_ID not configured, skipping audit-webhook test''
       (Expect_verified mcKubeClient (kubeView en)
          (in_namespaces (\<lambda>ns kube. VerifyAuditWebhook kube (HCPNamespace ns))))"

definition capi_provider where
  "capi_provider en =
     hosted_cluster_spec en ''MANAGEMENT_CLUSTER_ID not configured''
       (Expect_verified mcKubeClient (kubeView en)
          (in_namespaces (\<lambda>ns kube. VerifyCAPIProvider kube (HCPNamespace ns))))"

definition hypershift_operator where
  "hypershift_operator en =
     management_spec en ''MANAGEMENT_CLUSTER_ID not configured''
       (Expect_verified mcKubeClient (kubeView en) (\<lambda>tc kube. VerifyHyperShiftOperator kube))"

definition external_dns where
  "external_dns en =
     management_spec en ''MANAGEMENT_CLUSTER_ID not configured''
       (Expect_verified mcKubeClient (kubeView en) (\<lambda>tc kube. VerifyExternalDNS kube))"

definition service_spec where
  "service_spec en check =
     [Skip_unless (\<lambda>(tc, s). (HasSCAccess tc, tc, s)) ''SERVICE_CLUSTER_ID not configured'',
      Expect_success (\<lambda>(tc, s). InitSCClients (suiteDeps en) tc s),
      check]"

definition acm_hub where
  "acm_hub en = service_spec en (Expect_verified scDynamicClient (dynView en) (\<lambda>tc dyn. VerifyACMHub dyn))"

definition cert_manager where
  "cert_manager en = service_spec en (Expect_verified scKubeClient (kubeView en) (\<lambda>tc kube. VerifyCertManager kube))"

definition hive_controllers where
  "hive_controllers en = service_spec en (Expect_verified scKubeClient (kubeView en) (\<lambda>tc kube. VerifyHiveControllers kube))"

definition mce_components where
  "mce_components en = service_spec en (Expect_verified scDynamicClient (dynView en) (\<lambda>tc dyn. VerifyMCE dyn))"

end
