(* ===== verification/OcmProperties.thy ===== *)
theory OcmProperties
  imports Ocm
begin

text \<open>
  The properties of the OCM operations: the two waits over the contract of the ticker loop,
  the choice of a provision shard, and what the creation of a cluster sends.
\<close>

subsection \<open>The waits\<close>

interpretation ready_wait: single_probe "ready_probe conn cluster" "EvGetCluster cluster" "ready_verdict cluster"
  for conn :: "'w Connection" and cluster
  by unfold_locales
    (auto simp: ready_probe_def dest: hist_call now_call split: prod.splits sum.splits)

interpretation upgrade_wait: single_probe "upgrade_probe conn cluster v" "EvGetCluster cluster" "upgrade_verdict v"
  for conn :: "'w Connection" and cluster v
  by unfold_locales
    (auto simp: upgrade_probe_def dest: hist_call now_call split: prod.splits sum.splits)

lemma ext_call: "ext (snd (call ev f s)) = snd (f (ext s))"
  by (simp add: call_def split: prod.splits)

lemma ready_probe_ext: "ext (snd (ready_probe conn cluster s)) = snd (GetCluster conn cluster (ext s))"
  using ext_call [of "EvGetCluster cluster" "GetCluster conn cluster" s]
  by (auto simp: ready_probe_def split: prod.splits sum.splits)

lemma upgrade_probe_ext: "ext (snd (upgrade_probe conn cluster v s)) = snd (GetCluster conn cluster (ext s))"
  using ext_call [of "EvGetCluster cluster" "GetCluster conn cluster" s]
  by (auto simp: upgrade_probe_def split: prod.splits sum.splits)

definition settled :: "ocm_cluster \<Rightarrow> bool" where
  "settled c \<longleftrightarrow> ClusterState c \<in> {ClusterStateReady, ClusterStateError, ClusterStateUninstalling}"

lemma ready_verdict_None: "ready_verdict cluster resp = None \<longleftrightarrow> (\<forall>c. resp = Inr c \<longrightarrow> \<not> settled c)"
  by (auto simp: ready_verdict_def settled_def split: sum.splits)

lemma ready_verdict_nil:
  "ready_verdict cluster resp = Some None \<longleftrightarrow> (\<exists>c. resp = Inr c \<and> ClusterState c = ClusterStateReady)"
  by (auto simp: ready_verdict_def split: sum.splits)

lemma first_verdict_last:
  "list_all (\<lambda>e. verdict e = None) (butlast es) \<Longrightarrow>
   first_verdict verdict es = (if es = [] then None else verdict (last es))"
  by (induction es) (auto split: option.splits)

text \<open>
  C18: waiting for a cluster returns, after at most one description per tick of the 30
  second ticker (and the few ticks the scheduler may still deliver after the deadline), and
  failed descriptions or passing states never end it: it returns nil exactly if the last
  description shows the cluster ready, an error if that shows it failed or uninstalling,
  and otherwise the timeout error, not before the timeout (45 minutes when none is given).
\<close>

theorem WaitForClusterReady_spec:
  assumes "fair rt m" and "\<And>w. m (snd (GetCluster conn cluster w)) \<le> m w"
    and "limit = (if timeout = 0 then defaultReadyTimout else timeout)"
  shows "\<exists>r s' resps. WaitForClusterReady rt conn cluster timeout s = Some (r, s') \<and>
     hist s' = hist s @ map (EvGetCluster cluster) resps \<and>
     length resps \<le> (limit - 1) div pollInterval + m (ext s) \<and>
     list_all (\<lambda>resp. \<forall>c. resp = Inr c \<longrightarrow> \<not> settled c) (butlast resps) \<and>
     (r = None \<longleftrightarrow> resps \<noteq> [] \<and> (\<exists>c. last resps = Inr c \<and> ClusterState c = ClusterStateReady)) \<and>
     (resps = [] \<or> (\<forall>c. last resps = Inr c \<longrightarrow> \<not> settled c) \<longrightarrow>
        now s + limit \<le> now s' \<and>
        r = Some (Errorf ''timed out waiting for cluster %s to be ready after %v''
                    [AStr cluster, AInt (int limit)]))"
proof -
  have pos: "0 < pollInterval" by (simp add: pollInterval_def)
  from ready_wait.ticker_total [OF pos assms(1), of conn cluster "now s + limit"
      "Some (Errorf ''timed out waiting for cluster %s to be ready after %v'' [AStr cluster, AInt (int limit)])"
      "now s + pollInterval" s] assms(2)
  obtain r s' resps where
    run: "WaitForClusterReady rt conn cluster timeout s = Some (r, s')" and
    h: "hist s' = hist s @ map (EvGetCluster cluster) resps" and
    l: "length resps \<le> ticks_before pollInterval (now s + limit) (now s + pollInterval) + m (ext s)" and
    p: "polled (ready_verdict cluster) (\<lambda>r. r = Some (Errorf ''timed out waiting for cluster %s to be ready after %v''
          [AStr cluster, AInt (int limit)]) \<and> now s + limit \<le> now s') resps r"
    unfolding WaitForClusterReady_def Let_def assms(3) [symmetric] ready_probe_ext by blast
  from p have b: "list_all (\<lambda>e. ready_verdict cluster e = None) (butlast resps)" by (simp add: polled_def)
  from p have "case (if resps = [] then None else ready_verdict cluster (last resps)) of Some v \<Rightarrow> r = v
      | None \<Rightarrow> r = Some (Errorf ''timed out waiting for cluster %s to be ready after %v''
          [AStr cluster, AInt (int limit)]) \<and> now s + limit \<le> now s'"
    unfolding polled_def first_verdict_last [OF b] by simp
  moreover have "r = None \<longleftrightarrow> resps \<noteq> [] \<and> ready_verdict cluster (last resps) = Some None"
    using calculation by (auto split: if_splits option.splits)
  ultimately have
    "r = None \<longleftrightarrow> resps \<noteq> [] \<and> (\<exists>c. last resps = Inr c \<and> ClusterState c = ClusterStateReady)"
    "resps = [] \<or> (\<forall>c. last resps = Inr c \<longrightarrow> \<not> settled c) \<longrightarrow> now s + limit \<le> now s' \<and>
       r = Some (Errorf ''timed out waiting for cluster %s to be ready after %v'' [AStr cluster, AInt (int limit)])"
    unfolding ready_verdict_nil ready_verdict_None [of cluster, symmetric] by (auto split: if_splits)
  moreover have "length resps \<le> (limit - 1) div pollInterval + m (ext s)"
    using l ticks_before_timeout [OF pos, of "now s" limit] by linarith
  ultimately show ?thesis using run h b unfolding ready_verdict_None by blast
qed

text \<open>A cluster that is installing at first, then ready; the world counts the descriptions.\<close>

definition demo_cluster :: "string \<Rightarrow> string \<Rightarrow> ocm_cluster" where
  "demo_cluster state ver =
     \<lparr>ClusterState = state, RawVersion = ver, CloudProviderID = ''aws'', HypershiftEnabled = True,
      ClusterName = ''rosa'', InfraID = ''rosa-x1'', STSOperatorRolePrefix = ''rosa-op''\<rparr>"

definition demo_ocm :: "nat Connection" where
  "demo_ocm =
     \<lparr>GetHypershift = (\<lambda>_ w. ((Inr ''hs-mc-1'', 0), w)),
      SearchClusters = (\<lambda>_ _ w. ((Inr (1, ''mc-id''), 0), w)),
      GetCluster = (\<lambda>_ w. ((if w < 2 then Inl (plain_error ''503'') else Inr (demo_cluster ''ready'' ''4.19.1''), 0), w + 1)),
      AddCluster = (\<lambda>_ w. ((Inr ''new-id'', 0), w)),
      RemoveCluster = (\<lambda>_ w. ((None, 0), w)),
      GetCredentials = (\<lambda>_ w. ((Inr [], 0), w)),
      SearchVersions = (\<lambda>_ _ _ w. ((Inr [''openshift-v4.19.1''], 0), w)),
      GetServiceClusters = (\<lambda>_ w. ((Inr (Inr (JObj [(''items'', JArr
         [JObj [(''provision_shard_reference'', JObj [(''id'', JStr [])])],
          JObj [(''provision_shard_reference'', JObj [(''id'', JStr ''shard-b'')])]])])), 0), w)),
      GetShardTopology = (\<lambda>_ w. ((Inr ''request-serving-non-dedicated'', 0), w)),
      AddUpgradePolicy = (\<lambda>_ _ w. ((None, 0), w)),
      ListMachinePools = (\<lambda>_ w. ((Inr (200, 1), 0), w)),
      ListNodePools = (\<lambda>_ w. ((Inr (200, [''workers'']), 0), w)),
      GetNodePool = (\<lambda>_ _ w. ((Inr ''4.19.1'', 0), w)),
      BuildCluster = (\<lambda>_. None),
      BuildPolicy = (\<lambda>_. None)\<rparr>"

definition prompt :: "'w runtime" where
  "prompt = \<lparr>slack = (\<lambda>w. (0, w)), coin = (\<lambda>w. (True, w))\<rparr>"

lemma fair_prompt: "fair prompt (\<lambda>_. 0)"
  by (simp add: fair_def prompt_def)

theorem WaitForClusterReady_spec_witness:
  "\<exists>r s' resps. WaitForClusterReady prompt demo_ocm ''c1'' (minutes 2) (start 0) = Some (r, s') \<and>
     hist s' = map (EvGetCluster ''c1'') resps \<and> length resps \<le> 3"
proof -
  have lim: "minutes 2 = (if minutes 2 = 0 then defaultReadyTimout else minutes 2)"
    by (simp add: minutes_def seconds_def)
  have n: "(minutes 2 - 1) div pollInterval = 3"
    by (simp add: minutes_def seconds_def pollInterval_def)
  show ?thesis
    using WaitForClusterReady_spec [OF fair_prompt order_refl lim, of demo_ocm "''c1''" "start 0"]
    unfolding n by auto
qed

text \<open>
  Waiting for an upgrade returns within the same bound; it returns nil exactly if the
  last description shows the target version, never skips a description that does, and
  otherwise returns the timeout error once the timeout has passed.
\<close>

theorem WaitForUpgradeComplete_spec:
  assumes "fair rt m" and "\<And>w. m (snd (GetCluster conn cluster w)) \<le> m w"
  shows "\<exists>r s' resps. WaitForUpgradeComplete rt conn cluster v timeout s = Some (r, s') \<and>
     hist s' = hist s @ map (EvGetCluster cluster) resps \<and>
     length resps \<le> (timeout - 1) div seconds 30 + m (ext s) \<and>
     list_all (\<lambda>resp. \<forall>c. resp = Inr c \<longrightarrow> RawVersion c \<noteq> v) (butlast resps) \<and>
     (r = None \<longleftrightarrow> resps \<noteq> [] \<and> (\<exists>c. last resps = Inr c \<and> RawVersion c = v)) \<and>
     (r \<noteq> None \<longrightarrow> now s + timeout \<le> now s' \<and>
        r = Some (Errorf ''timed out waiting for cluster %s to reach version %s'' [AStr cluster, AStr v]))"
proof -
  let ?t = "Errorf ''timed out waiting for cluster %s to reach version %s'' [AStr cluster, AStr v]"
  have pos: "0 < seconds 30" by simp
  from upgrade_wait.ticker_total [OF pos assms(1), of conn cluster v "now s + timeout" "Some ?t"
      "now s + seconds 30" s] assms(2)
  obtain r s' resps where
    run: "WaitForUpgradeComplete rt conn cluster v timeout s = Some (r, s')" and
    h: "hist s' = hist s @ map (EvGetCluster cluster) resps" and
    l: "length resps \<le> ticks_before (seconds 30) (now s + timeout) (now s + seconds 30) + m (ext s)" and
    p: "polled (upgrade_verdict v) (\<lambda>r. r = Some ?t \<and> now s + timeout \<le> now s') resps r"
    unfolding WaitForUpgradeComplete_def upgrade_probe_ext by blast
  have dec: "upgrade_verdict v x = None \<longleftrightarrow> (\<forall>c. x = Inr c \<longrightarrow> RawVersion c \<noteq> v)"
    "upgrade_verdict v x = Some a \<longleftrightarrow> a = None \<and> (\<exists>c. x = Inr c \<and> RawVersion c = v)" for x a
    by (auto simp: upgrade_verdict_def split: sum.splits)
  from p have b: "list_all (\<lambda>e. upgrade_verdict v e = None) (butlast resps)" by (simp add: polled_def)
  from p have "case (if resps = [] then None else upgrade_verdict v (last resps)) of Some u \<Rightarrow> r = u
      | None \<Rightarrow> r = Some ?t \<and> now s + timeout \<le> now s'"
    unfolding polled_def first_verdict_last [OF b] by simp
  then have
    "r = None \<longleftrightarrow> resps \<noteq> [] \<and> (\<exists>c. last resps = Inr c \<and> RawVersion c = v)"
    "r \<noteq> None \<longrightarrow> now s + timeout \<le> now s' \<and> r = Some ?t"
    by (auto simp: dec split: if_splits option.splits)
  moreover have "length resps \<le> (timeout - 1) div seconds 30 + m (ext s)"
    using l ticks_before_timeout [OF pos, of "now s" timeout] by linarith
  ultimately show ?thesis using run h b unfolding dec(1) by blast
qed

theorem WaitForUpgradeComplete_spec_witness:
  "\<exists>r s' resps. WaitForUpgradeComplete prompt demo_ocm ''c1'' ''4.19.1'' (minutes 2) (start 0) = Some (r, s') \<and>
     hist s' = map (EvGetCluster ''c1'') resps \<and> length resps \<le> 3"
proof -
  have n: "(minutes 2 - 1) div seconds 30 = 3" by (simp add: minutes_def seconds_def)
  show ?thesis
    using WaitForUpgradeComplete_spec [OF fair_prompt order_refl, of demo_ocm "''c1''" "''4.19.1''" "minutes 2" "start 0"]
    unfolding n by auto
qed

subsection \<open>Choosing a provision shard\<close>

text \<open>The answer to a shard's description that makes the search stop at it.\<close>

definition acceptable :: "ext_error + string \<Rightarrow> bool" where
  "acceptable resp = (case resp of Inl _ \<Rightarrow> True | Inr topology \<Rightarrow> dedicated topology)"

text \<open>The shards \<open>ids\<close> were described in order until one was acceptable, the result.\<close>

definition searched :: "string list \<Rightarrow> (ext_error + string) list \<Rightarrow> string option \<Rightarrow> bool" where
  "searched ids resps r \<longleftrightarrow>
     (case r of
        None \<Rightarrow> length resps = length ids \<and> list_all (\<lambda>x. \<not> acceptable x) resps
      | Some i \<Rightarrow> \<exists>pre a. resps = pre @ [a] \<and> list_all (\<lambda>x. \<not> acceptable x) pre \<and> acceptable a \<and>
          length pre < length ids \<and> i = ids ! length pre)"

lemma searched_Nil [simp]: "searched [] [] None"
  by (simp add: searched_def)

lemma searched_stop: "acceptable a \<Longrightarrow> searched (i # ids) [a] (Some i)"
  by (simp add: searched_def)

lemma searched_skip:
  assumes "\<not> acceptable a" and "searched ids resps r"
  shows "searched (i # ids) (a # resps) r"
proof (cases r)
  case (Some x)
  with assms(2) obtain pre b where "resps = pre @ [b]" "list_all (\<lambda>x. \<not> acceptable x) pre" "acceptable b"
    "length pre < length ids" "x = ids ! length pre" by (auto simp: searched_def)
  with Some assms(1) show ?thesis
    by (auto simp: searched_def intro!: exI [where x = "a # pre"])
qed (use assms in \<open>simp add: searched_def\<close>)

lemma find_dedicated_run:
  assumes "find_dedicated conn sector ids s = (r, s')"
  shows "\<exists>resps. hist s' = hist s @ map2 EvShard (filter (\<lambda>i. i \<noteq> []) ids) resps \<and>
     searched (filter (\<lambda>i. i \<noteq> []) ids) resps r"
  using assms
proof (induction conn sector ids s rule: find_dedicated.induct)
  case (2 conn sector shardID ids s)
  show ?case
  proof (cases "shardID = []")
    case True
    with 2 show ?thesis by simp
  next
    case False
    obtain resp s1 where c: "call (EvShard shardID) (GetShardTopology conn shardID) s = (resp, s1)"
      by (cases "call (EvShard shardID) (GetShardTopology conn shardID) s")
    have h1: "hist s1 = hist s @ [EvShard shardID resp]" by (rule hist_call [OF c])
    show ?thesis
    proof (cases "acceptable resp")
      case True
      with 2(3) False c have "r = Some shardID" "hist s' = hist s1"
        by (auto simp: acceptable_def split: sum.splits if_splits)
      with True False h1 show ?thesis by (intro exI [where x = "[resp]"]) (simp add: searched_stop)
    next
      case rejected: False
      then obtain t where t: "resp = Inr t" "\<not> dedicated t"
        by (auto simp: acceptable_def split: sum.splits)
      with 2(3) False c have "find_dedicated conn sector ids s1 = (r, s')" by simp
      from 2(2) [OF False c [symmetric] t this] obtain resps where
        "hist s' = hist s1 @ map2 EvShard (filter (\<lambda>i. i \<noteq> []) ids) resps"
        "searched (filter (\<lambda>i. i \<noteq> []) ids) resps r"
        by blast
      with h1 False rejected show ?thesis
        by (intro exI [where x = "resp # resps"]) (simp add: searched_skip)
    qed
  qed
qed (auto intro!: exI [where x = "[]"])

definition shard_requests :: "ocm_event \<Rightarrow> bool" where
  "shard_requests e \<longleftrightarrow> (case e of EvServiceClusters _ _ \<Rightarrow> True | EvShard _ _ \<Rightarrow> True | _ \<Rightarrow> False)"

lemma find_dedicated_appends:
  "find_dedicated conn sector ids s = (r, s') \<Longrightarrow> appends shard_requests s s'"
proof -
  assume "find_dedicated conn sector ids s = (r, s')"
  from find_dedicated_run [OF this] show ?thesis
    by (auto simp: appends_def shard_requests_def list_all_iff)
qed

lemma findShardForSector_run:
  assumes "findShardForSector conn sector region status s = (r, s')"
  shows "\<exists>answer resps found ids.
     hist s' = hist s @ EvServiceClusters (shard_query sector region status) answer #
                 map2 EvShard (filter (\<lambda>i. i \<noteq> []) ids) resps \<and>
     (case r of
        Inl _ \<Rightarrow> resps = [] \<and> (\<forall>body. answer = Inr (Inr body) \<longrightarrow> (\<exists>e. decode_scResponse body = Inl e))
      | Inr shard \<Rightarrow>
          (\<exists>body. answer = Inr (Inr body) \<and> decode_scResponse body = Inr ids) \<and>
          searched (filter (\<lambda>i. i \<noteq> []) ids) resps found \<and>
          shard = (case found of Some i \<Rightarrow> i | None \<Rightarrow> if ids = [] then [] else hd ids))"
proof -
  let ?q = "shard_query sector region status"
  obtain answer s1 where c: "call (EvServiceClusters ?q) (GetServiceClusters conn ?q) s = (answer, s1)"
    by (cases "call (EvServiceClusters ?q) (GetServiceClusters conn ?q) s")
  have h1: "hist s1 = hist s @ [EvServiceClusters ?q answer]" by (rule hist_call [OF c])
  show ?thesis
  proof (cases "\<exists>body ids. answer = Inr (Inr body) \<and> decode_scResponse body = Inr ids")
    case True
    then obtain body ids where b: "answer = Inr (Inr body)" "decode_scResponse body = Inr ids" by blast
    obtain found s2 where f: "find_dedicated conn sector ids s1 = (found, s2)"
      by (cases "find_dedicated conn sector ids s1")
    from assms c b f have "s' = s2"
      "r = Inr (case found of Some i \<Rightarrow> i | None \<Rightarrow> if ids = [] then [] else hd ids)"
      by (auto simp: findShardForSector_def split: option.splits list.splits)
    with find_dedicated_run [OF f] h1 b show ?thesis by fastforce
  next
    case False
    with assms c have "s' = s1" "\<exists>e. r = Inl e"
      by (auto simp: findShardForSector_def Let_def split: sum.splits)
    with False h1 show ?thesis
      by (intro exI [where x = answer] exI [where x = "[]"])
        (auto split: sum.splits, metis sum.exhaust)
  qed
qed

lemma findShardForSector_appends:
  assumes "findShardForSector conn sector region status s = (r, s')"
  shows "appends shard_requests s s'"
proof -
  from findShardForSector_run [OF assms] obtain answer resps ids where
    "hist s' = hist s @ EvServiceClusters (shard_query sector region status) answer #
       map2 EvShard (filter (\<lambda>i. i \<noteq> []) ids) resps" by blast
  then show ?thesis by (auto simp: appends_def shard_requests_def list_all_iff)
qed

lemma resolveProvisionShard_appends:
  "resolveProvisionShard conn sector region s = (r, s') \<Longrightarrow> appends shard_requests s s'"
  unfolding resolveProvisionShard_def
  by (auto dest!: findShardForSector_appends intro: appends_trans split: prod.splits sum.splits list.splits)

text \<open>
  The shard chosen for a sector: one query for the service clusters in that sector,
  region and status; their shards are described in order, those without an id left out,
  and the first whose description fails or shows a dedicated topology is the result. If
  there is none, all were described and the result is the id of the first item listed
  (possibly empty). An error means the query failed or its body could not be read.
\<close>

theorem findShardForSector_choice:
  assumes "findShardForSector conn sector region status s = (r, s')"
  shows "\<exists>answer resps found ids.
     hist s' = hist s @ EvServiceClusters (shard_query sector region status) answer #
                 map2 EvShard (filter (\<lambda>i. i \<noteq> []) ids) resps \<and>
     (case r of
        Inl _ \<Rightarrow> resps = [] \<and> (\<forall>body. answer = Inr (Inr body) \<longrightarrow> (\<exists>e. decode_scResponse body = Inl e))
      | Inr shard \<Rightarrow>
          (\<exists>body. answer = Inr (Inr body) \<and> decode_scResponse body = Inr ids) \<and>
          searched (filter (\<lambda>i. i \<noteq> []) ids) resps found \<and>
          shard = (case found of Some i \<Rightarrow> i | None \<Rightarrow> if ids = [] then [] else hd ids))"
  using assms by (rule findShardForSector_run)

text \<open>
  A sector whose first service cluster has no shard reference: the search describes the
  second one's shard, finds it is not dedicated, and gives up with an empty id although that
  shard is available.
\<close>

lemma findShardForSector_gives_up:
  "\<exists>s'. findShardForSector demo_ocm ''s'' ''r'' ''ready'' (start 0) = (Inr [], s') \<and>
     EvShard ''shard-b'' (Inr ''request-serving-non-dedicated'') \<in> set (hist s')"
  by (simp add: findShardForSector_def demo_ocm_def call_def decode_scResponse_def decode_field_def
      decode_list_def decode_string_def json_member_def EqualFold_def lower_byte_def dedicated_def)

theorem findShardForSector_choice_witness:
  "\<exists>s' resps. findShardForSector demo_ocm ''s'' ''r'' ''ready'' (start 0) = (Inr [], s') \<and>
     map2 EvShard [''shard-b''] resps = tl (hist s')"
proof -
  have "\<exists>s'. findShardForSector demo_ocm ''s'' ''r'' ''ready'' (start 0) = (Inr [], s') \<and>
      EvServiceClusters (shard_query ''s'' ''r'' ''ready'') (fst (fst (GetServiceClusters demo_ocm [] 0))) = hd (hist s')"
    by (simp add: findShardForSector_def demo_ocm_def call_def decode_scResponse_def decode_field_def
        decode_list_def decode_string_def json_member_def EqualFold_def lower_byte_def dedicated_def)
  then obtain s' where run: "findShardForSector demo_ocm ''s'' ''r'' ''ready'' (start 0) = (Inr [], s')"
    and ev: "EvServiceClusters (shard_query ''s'' ''r'' ''ready'') (fst (fst (GetServiceClusters demo_ocm [] 0))) = hd (hist s')"
    by blast
  have dec: "decode_scResponse (JObj [(''items'', JArr
         [JObj [(''provision_shard_reference'', JObj [(''id'', JStr [])])],
          JObj [(''provision_shard_reference'', JObj [(''id'', JStr ''shard-b'')])]])]) = Inr [[], ''shard-b'']"
    by (simp add: decode_scResponse_def decode_field_def decode_list_def decode_string_def
        json_member_def EqualFold_def lower_byte_def)
  from findShardForSector_choice [OF run] obtain answer resps ids where
    "hist s' = EvServiceClusters (shard_query ''s'' ''r'' ''ready'') answer #
       map2 EvShard (filter (\<lambda>i. i \<noteq> []) ids) resps"
    "\<exists>body. answer = Inr (Inr body) \<and> decode_scResponse body = Inr ids"
    by auto
  with ev dec run show ?thesis by (fastforce simp: demo_ocm_def)
qed

lemma searched_result: "searched ids resps (Some i) \<Longrightarrow> i \<in> set ids"
  by (auto simp: searched_def)

lemma findShardForSector_listed:
  assumes "findShardForSector conn sector region status s = (Inr shard, s')" and "shard \<noteq> []"
  shows "\<exists>evs body ids. hist s' = hist s @ evs \<and> decode_scResponse body = Inr ids \<and> shard \<in> set ids \<and>
    EvServiceClusters (shard_query sector region status) (Inr (Inr body)) \<in> set evs"
proof -
  from findShardForSector_run [OF assms(1)] obtain body resps found ids where
    h: "hist s' = hist s @ EvServiceClusters (shard_query sector region status) (Inr (Inr body)) #
                 map2 EvShard (filter (\<lambda>i. i \<noteq> []) ids) resps" and
    d: "decode_scResponse body = Inr ids" and f: "searched (filter (\<lambda>i. i \<noteq> []) ids) resps found" and
    r: "shard = (case found of Some i \<Rightarrow> i | None \<Rightarrow> if ids = [] then [] else hd ids)" by auto
  have "shard \<in> set ids"
    using r assms(2) f by (cases found) (auto dest: searched_result split: if_splits)
  with h d show ?thesis by force
qed

text \<open>
  The shard a cluster of a sector is pinned to is never empty, and it is a shard the
  fleet service listed for that sector and region, with status ready or, failing that, with
  status maintenance.
\<close>

theorem resolveProvisionShard_listed:
  assumes "resolveProvisionShard conn sector region s = (Inr shard, s')" and "hist s' = hist s @ evs"
  shows "shard \<noteq> [] \<and> (\<exists>status body ids. status \<in> {''ready'', ''maintenance''} \<and>
    EvServiceClusters (shard_query sector region status) (Inr (Inr body)) \<in> set evs \<and>
    decode_scResponse body = Inr ids \<and> shard \<in> set ids)"
proof -
  obtain r1 s1 where f1: "findShardForSector conn sector region ''ready'' s = (r1, s1)"
    by (cases "findShardForSector conn sector region ''ready'' s")
  obtain r2 s2 where f2: "findShardForSector conn sector region ''maintenance'' s1 = (r2, s2)"
    by (cases "findShardForSector conn sector region ''maintenance'' s1")
  obtain e1 where e1: "hist s1 = hist s @ e1"
    using findShardForSector_appends [OF f1] by (auto simp: appends_def)
  consider "r1 = Inr shard" "s' = s1" "shard \<noteq> []" | "r2 = Inr shard" "s' = s2" "shard \<noteq> []"
    using assms(1) f1 f2 by (auto simp: resolveProvisionShard_def split: sum.splits list.splits)
  then show ?thesis
  proof cases
    case 1
    with findShardForSector_listed [of conn sector region "''ready''" s shard s1] f1 assms(2)
    show ?thesis by fastforce
  next
    case 2
    with findShardForSector_listed [of conn sector region "''maintenance''" s1 shard s2] f2 assms(2) e1
    show ?thesis by fastforce
  qed
qed

definition dedicated_ocm :: "nat Connection" where
  "dedicated_ocm = demo_ocm\<lparr>GetShardTopology := (\<lambda>_ w. ((Inr ''dedicated-v2'', 0), w))\<rparr>"

lemmas shard_run_defs =
  resolveProvisionShard_def findShardForSector_def dedicated_ocm_def demo_ocm_def call_def printf_def
  decode_scResponse_def decode_field_def decode_list_def decode_string_def json_member_def
  EqualFold_def lower_byte_def dedicated_def Let_def

theorem resolveProvisionShard_listed_witness:
  "\<exists>s'. resolveProvisionShard dedicated_ocm ''s'' ''r'' (start 0) = (Inr ''shard-b'', s') \<and>
     (\<exists>status body. EvServiceClusters (shard_query ''s'' ''r'' status) (Inr (Inr body)) \<in> set (hist s'))"
proof -
  have "\<exists>s'. resolveProvisionShard dedicated_ocm ''s'' ''r'' (start 0) = (Inr ''shard-b'', s')"
    by (simp add: shard_run_defs)
  then obtain s' where run: "resolveProvisionShard dedicated_ocm ''s'' ''r'' (start 0) = (Inr ''shard-b'', s')"
    by blast
  have h: "hist s' = hist (start 0) @ hist s'" by simp
  from resolveProvisionShard_listed [OF run h] run show ?thesis by blast
qed

subsection \<open>Creating clusters\<close>

fun creates :: "ocm_event \<Rightarrow> bool" where
  "creates (EvAddCluster _ _) = True"
| "creates _ = False"

lemma generateClusterName_hist: "generateClusterName ck pre t s = (name, s') \<Longrightarrow> hist s' = hist s"
  by (auto simp: generateClusterName_def Let_def split: prod.splits)

lemma resolveVersionForTopology_appends:
  "resolveVersionForTopology conn cfg t s = (r, s') \<Longrightarrow> appends (\<lambda>e. \<not> creates e) s s'"
  by (auto simp: resolveVersionForTopology_def Let_def appends_def dest!: hist_call
      split: if_splits prod.splits sum.splits list.splits)

lemma shard_from_sector_appends:
  assumes "shard_from_sector conn cfg s = (r, s')"
  shows "appends (\<lambda>e. \<not> creates e) s s'"
proof -
  have "appends shard_requests s s'"
    using assms unfolding shard_from_sector_def
    by (auto dest: resolveProvisionShard_appends split: if_splits prod.splits sum.splits)
  moreover have "shard_requests e \<Longrightarrow> \<not> creates e" for e by (cases e) (auto simp: shard_requests_def)
  ultimately show ?thesis by (rule appends_weaken)
qed

lemma add_cluster_run:
  assumes "add_cluster conn spec created s = (r, s')"
  shows "(\<exists>e. r = Inl e) \<and> hist s' = hist s \<or>
    (\<exists>answer. hist s' = hist s @ [EvAddCluster spec answer] \<and> (\<forall>i. r = Inr i \<longleftrightarrow> answer = Inr i))"
  using assms by (auto simp: add_cluster_def dest!: hist_call split: option.splits prod.splits sum.splits)

text \<open>What creating a cluster may have done: at most one create request, the last request.\<close>

definition created_once :: "(cluster_spec \<Rightarrow> bool) \<Rightarrow> ocm_event list \<Rightarrow> go_error + string \<Rightarrow> bool" where
  "created_once good evs r \<longleftrightarrow>
     (\<exists>pre post. evs = pre @ post \<and> list_all (\<lambda>e. \<not> creates e) pre \<and>
        (post = [] \<and> (\<exists>e. r = Inl e) \<or>
         (\<exists>spec answer. post = [EvAddCluster spec answer] \<and> good spec \<and> (\<forall>i. r = Inr i \<longleftrightarrow> answer = Inr i))))"

lemma created_once_none: "list_all (\<lambda>e. \<not> creates e) evs \<Longrightarrow> created_once good evs (Inl e)"
  by (auto simp: created_once_def)

lemma created_once_add:
  assumes "appends (\<lambda>e. \<not> creates e) s s1" and "add_cluster conn spec created s1 = (r, s')"
    and "good spec" and "hist s' = hist s @ evs"
  shows "created_once good evs r"
proof -
  from assms(1) obtain pre where "hist s1 = hist s @ pre" "list_all (\<lambda>e. \<not> creates e) pre"
    by (auto simp: appends_def)
  note pre = this
  from add_cluster_run [OF assms(2)] show ?thesis
  proof
    assume "(\<exists>e. r = Inl e) \<and> hist s' = hist s1"
    with pre assms(4) show ?thesis by (auto intro: created_once_none)
  next
    assume "\<exists>answer. hist s' = hist s1 @ [EvAddCluster spec answer] \<and> (\<forall>i. r = Inr i \<longleftrightarrow> answer = Inr i)"
    then obtain answer where "hist s' = hist s1 @ [EvAddCluster spec answer]" "\<forall>i. r = Inr i \<longleftrightarrow> answer = Inr i"
      by blast
    with pre assms(3,4) show ?thesis
      unfolding created_once_def
      by (intro exI [where x = pre] exI [where x = "[EvAddCluster spec answer]"]) simp
  qed
qed

text \<open>Creating a cluster only adds to the requests sent so far.\<close>

lemma add_cluster_appends: "add_cluster conn spec created s = (r, s') \<Longrightarrow> appends (\<lambda>_. True) s s'"
  by (auto simp: appends_def dest!: add_cluster_run)

lemma CreateRosaHCPCluster_appends:
  assumes "CreateRosaHCPCluster ck conn cfg s = (r, cfg', s')"
  shows "\<exists>evs. hist s' = hist s @ evs"
proof -
  obtain name s1 where n: "generateClusterName ck (ClusterNamePrefix cfg) ''hcp'' s = (name, s1)"
    by (cases "generateClusterName ck (ClusterNamePrefix cfg) ''hcp'' s")
  obtain rv s2 where v: "resolveVersionForTopology conn cfg ''hcp'' s1 = (rv, s2)"
    by (cases "resolveVersionForTopology conn cfg ''hcp'' s1")
  obtain rs s3 where sh: "shard_from_sector conn cfg s2 = (rs, s3)"
    by (cases "shard_from_sector conn cfg s2")
  obtain evs2 where 2: "hist s2 = hist s @ evs2"
    using resolveVersionForTopology_appends [OF v] generateClusterName_hist [OF n] by (auto simp: appends_def)
  obtain evs3 where 3: "hist s3 = hist s2 @ evs3"
    using shard_from_sector_appends [OF sh] by (auto simp: appends_def)
  show ?thesis
    using assms n v sh 2 3
    by (auto simp: CreateRosaHCPCluster_def Let_def dest!: add_cluster_appends split: sum.splits prod.splits if_splits)
      (auto simp: appends_def)
qed

lemma CreateRosaClassicCluster_appends:
  assumes "CreateRosaClassicCluster ck conn cfg s = (r, s')"
  shows "\<exists>evs. hist s' = hist s @ evs"
proof -
  obtain name s1 where n: "generateClusterName ck (ClusterNamePrefix cfg) ''classic'' s = (name, s1)"
    by (cases "generateClusterName ck (ClusterNamePrefix cfg) ''classic'' s")
  obtain rv s2 where v: "resolveVersionForTopology conn cfg ''classic'' s1 = (rv, s2)"
    by (cases "resolveVersionForTopology conn cfg ''classic'' s1")
  obtain evs2 where 2: "hist s2 = hist s @ evs2"
    using resolveVersionForTopology_appends [OF v] generateClusterName_hist [OF n] by (auto simp: appends_def)
  show ?thesis
    using assms n v 2
    by (auto simp: CreateRosaClassicCluster_def dest!: add_cluster_appends split: sum.splits) (auto simp: appends_def)
qed

definition pinned_to :: "Config \<Rightarrow> Config \<Rightarrow> bool" where
  "pinned_to cfg cfg' \<longleftrightarrow>
     (if ProvisionShardID cfg = [] \<and> SectorName cfg \<noteq> []
      then \<exists>shard. shard \<noteq> [] \<and> cfg' = cfg\<lparr>ProvisionShardID := shard\<rparr> else cfg' = cfg)"

lemma shard_from_sector_pinned:
  "shard_from_sector conn cfg s = (Inr cfg', s') \<Longrightarrow> pinned_to cfg cfg'"
  by (auto simp: shard_from_sector_def pinned_to_def resolveProvisionShard_def
      split: if_splits prod.splits sum.splits list.splits)

lemma CreateRosaHCPCluster_run:
  assumes "CreateRosaHCPCluster ck conn cfg s = (r, cfg', s')" and "hist s' = hist s @ evs"
  shows "created_once (\<lambda>spec. pinned_to cfg cfg' \<and>
      specHypershift spec = Some True \<and> specOidcConfig spec = Some (OIDCConfigID cfg) \<and>
      specSubnetIDs spec = SubnetIDs cfg \<and> specRegion spec = AWSRegion cfg \<and>
      specRoleARN spec = ''arn:aws:iam::'' @ AWSAccountID cfg @ '':role/'' @ AccountRolePrefix cfg @ ''-Installer-Role'' \<and>
      map_of (specProperties spec) ''rosa_creator_arn'' = Some (CreatorARN cfg) \<and>
      map_of (specProperties spec) ''provision_shard_id'' =
        (if ProvisionShardID cfg' = [] then None else Some (ProvisionShardID cfg'))) evs r"
proof -
  obtain name s1 where n: "generateClusterName ck (ClusterNamePrefix cfg) ''hcp'' s = (name, s1)"
    by (cases "generateClusterName ck (ClusterNamePrefix cfg) ''hcp'' s")
  obtain rv s2 where v: "resolveVersionForTopology conn cfg ''hcp'' s1 = (rv, s2)"
    by (cases "resolveVersionForTopology conn cfg ''hcp'' s1")
  obtain rs s3 where sh: "shard_from_sector conn cfg s2 = (rs, s3)"
    by (cases "shard_from_sector conn cfg s2")
  have a2: "appends (\<lambda>e. \<not> creates e) s s2"
    using appends_same [OF generateClusterName_hist [OF n]] resolveVersionForTopology_appends [OF v]
    by (rule appends_trans)
  have a3: "appends (\<lambda>e. \<not> creates e) s s3"
    using a2 shard_from_sector_appends [OF sh] by (rule appends_trans)
  show ?thesis
  proof (cases "\<exists>versionID cfg1. rv = Inr versionID \<and> rs = Inr cfg1")
    case False
    with assms n v sh have "\<exists>e. r = Inl e" "s' = s2 \<or> s' = s3"
      by (auto simp: CreateRosaHCPCluster_def split: sum.splits)
    with appendsD [OF a2] appendsD [OF a3] assms(2) show ?thesis by (auto intro: created_once_none)
  next
    case True
    then obtain versionID cfg1 where ok: "rv = Inr versionID" "rs = Inr cfg1" by blast
    define s4 where "s4 = (if ProvisionShardID cfg1 \<noteq> []
        then printf ''Using provision shard: %s\<newline>'' [AStr (ProvisionShardID cfg1)] s3 else s3)"
    from assms(1) n v sh ok have "cfg' = cfg1" and
      add: "add_cluster conn (hcp_cluster_spec cfg1 name versionID) ''Cluster %q created with ID %s\<newline>'' s4 = (r, s')"
      by (auto simp: CreateRosaHCPCluster_def s4_def Let_def split: prod.splits)
    have a4: "appends (\<lambda>e. \<not> creates e) s s4" using a3 by (simp add: s4_def)
    have p: "pinned_to cfg cfg1" using shard_from_sector_pinned sh ok by blast
    then have "OIDCConfigID cfg1 = OIDCConfigID cfg" "SubnetIDs cfg1 = SubnetIDs cfg" "AWSRegion cfg1 = AWSRegion cfg"
      "AWSAccountID cfg1 = AWSAccountID cfg" "AccountRolePrefix cfg1 = AccountRolePrefix cfg"
      "CreatorARN cfg1 = CreatorARN cfg"
      by (auto simp: pinned_to_def split: if_splits)
    with p \<open>cfg' = cfg1\<close> show ?thesis
      by (intro created_once_add [OF a4 add _ assms(2)])
        (simp add: hcp_cluster_spec_def sts_cluster_spec_def Let_def)
  qed
qed


text \<open>A configuration with a sector, for concrete inputs.\<close>

definition sector_config :: Config where
  "sector_config = default_config\<lparr>SectorName := ''canary'', CreatorARN := ''arn:c'', OpenShiftVersion := ''4.19.1''\<rparr>"

definition fixed_clock :: "'w clock" where
  "fixed_clock = \<lparr>IntN = (\<lambda>_ w. (0, w)), month_day = (\<lambda>_. (3, 14))\<rparr>"


text \<open>
  The same holds for a ROSA Classic cluster, whose request never asks for a hosted
  control plane, an OIDC configuration or a provision shard.
\<close>

theorem CreateRosaClassicCluster_once:
  assumes "CreateRosaClassicCluster ck conn cfg s = (r, s')" and "hist s' = hist s @ evs"
  shows "created_once (\<lambda>spec. specHypershift spec = None \<and> specOidcConfig spec = None \<and>
      specSubnetIDs spec = SubnetIDs cfg \<and> specRegion spec = AWSRegion cfg \<and>
      specProperties spec = [(''rosa_creator_arn'', CreatorARN cfg)]) evs r"
proof -
  obtain name s1 where n: "generateClusterName ck (ClusterNamePrefix cfg) ''classic'' s = (name, s1)"
    by (cases "generateClusterName ck (ClusterNamePrefix cfg) ''classic'' s")
  obtain rv s2 where v: "resolveVersionForTopology conn cfg ''classic'' s1 = (rv, s2)"
    by (cases "resolveVersionForTopology conn cfg ''classic'' s1")
  have a2: "appends (\<lambda>e. \<not> creates e) s s2"
    using appends_same [OF generateClusterName_hist [OF n]] resolveVersionForTopology_appends [OF v]
    by (rule appends_trans)
  show ?thesis
  proof (cases rv)
    case (Inl e)
    with assms n v have "\<exists>e. r = Inl e" "s' = s2" by (auto simp: CreateRosaClassicCluster_def)
    with appendsD [OF a2] assms(2) show ?thesis by (auto intro: created_once_none)
  next
    case (Inr versionID)
    with assms(1) n v have
      "add_cluster conn (sts_cluster_spec cfg name versionID [(''rosa_creator_arn'', CreatorARN cfg)])
         ''Classic STS cluster %q created with ID %s\<newline>'' s2 = (r, s')"
      by (simp add: CreateRosaClassicCluster_def)
    then show ?thesis
      by (rule created_once_add [OF a2 _ _ assms(2)]) (simp add: sts_cluster_spec_def)
  qed
qed

theorem CreateRosaClassicCluster_once_witness:
  "\<exists>r s'. CreateRosaClassicCluster fixed_clock demo_ocm sector_config (start 0) = (r, s') \<and>
     created_once (\<lambda>spec. specHypershift spec = None) (hist s') r"
proof -
  obtain r s' where run: "CreateRosaClassicCluster fixed_clock demo_ocm sector_config (start 0) = (r, s')"
    by (cases "CreateRosaClassicCluster fixed_clock demo_ocm sector_config (start 0)")
  have h: "hist s' = hist (start 0) @ hist s'" by simp
  from CreateRosaClassicCluster_once [OF run h] run show ?thesis
    unfolding created_once_def by blast
qed

end
