(* ===== verification/ContextProperties.thy ===== *)
theory ContextProperties
  imports Context
begin

text \<open>
  The properties of the test context: how its topology is determined and cached, what
  initialising the management cluster clients does, how the namespaces of a hosted cluster
  are found, and when RHOBS credentials are complete.
\<close>

subsection \<open>Concrete dependencies\<close>

definition demo_conn :: "unit Connection" where
  "demo_conn =
     \<lparr>GetHypershift = (\<lambda>_ w. ((Inr ''hs-mc-1'', 0), w)),
      SearchClusters = (\<lambda>_ _ w. ((Inr (1, ''mc-id''), 0), w)),
      GetCluster = (\<lambda>_ w. ((Inr \<lparr>ClusterState = ''ready'', RawVersion = ''4.19.1'', CloudProviderID = ''aws'',
         HypershiftEnabled = True, ClusterName = ''rosa'', InfraID = ''i-1'', STSOperatorRolePrefix = ''op''\<rparr>, 0), w)),
      AddCluster = (\<lambda>_ w. ((Inr ''new-id'', 0), w)),
      RemoveCluster = (\<lambda>_ w. ((None, 0), w)),
      GetCredentials = (\<lambda>c w. ((Inr (''kubeconfig of '' @ c), 0), w)),
      SearchVersions = (\<lambda>_ _ _ w. ((Inr [], 0), w)),
      GetServiceClusters = (\<lambda>_ w. ((Inr (Inr JNull), 0), w)),
      GetShardTopology = (\<lambda>_ w. ((Inr [], 0), w)),
      AddUpgradePolicy = (\<lambda>_ _ w. ((None, 0), w)),
      ListMachinePools = (\<lambda>_ w. ((Inr (200, 1), 0), w)),
      ListNodePools = (\<lambda>_ w. ((Inr (200, [''workers'']), 0), w)),
      GetNodePool = (\<lambda>_ _ w. ((Inr ''4.19.1'', 0), w)),
      BuildCluster = (\<lambda>_. None),
      BuildPolicy = (\<lambda>_. None)\<rparr>"

definition demo_data :: "(string \<times> string) list" where
  "demo_data = [(''probe-api-url'', ''https://b/hcp/probes''), (''oidc-client-id'', ''id''),
     (''oidc-client-secret'', ''secret''), (''oidc-issuer-url'', ''https://sso'')]"

definition demo_deps :: "(unit, string, string, string, unit, unit, unit) deps" where
  "demo_deps =
     \<lparr>Getenv = (\<lambda>_. []), tcConn = demo_conn,
      RESTConfigFromKubeConfig = Inr, BuildConfigFromFlags = Inr,
      kubeNewForConfig = Inr, dynamicNewForConfig = Inr,
      ListHostedClusters = (\<lambda>_ w. ((Inr [(''ocm-staging-other'', ''other''), (''ocm-staging-c1'', ''rosa'')], 0), w)),
      GetConfigMap = (\<lambda>_ _ _ w. ((Inr demo_data, 0), w)),
      LoadDefaultConfig = (\<lambda>_. Inr ()), RetrieveCredentials = (\<lambda>_ w. ((Inr True, 0), w)),
      ec2NewFromConfig = (\<lambda>_. ()), cloudtrailNewFromConfig = (\<lambda>_. ())\<rparr>"

definition demo_tc :: "(string, string, string, unit, unit) TestContext" where
  "demo_tc = NewTestContext (default_config\<lparr>ClusterID := ''c1''\<rparr>)"

lemma demo_tc_simps:
  "tcCfg demo_tc = default_config\<lparr>ClusterID := ''c1''\<rparr>" "topology demo_tc = []" "mcKubeClient demo_tc = None"
  "ClusterTopology default_config = []" "ManagementClusterID default_config = []"
  "hcpNamespaces demo_tc = None"
  by (simp_all add: demo_tc_def NewTestContext_def default_config_def)

subsection \<open>Topology\<close>

definition cluster_topology :: "ocm_cluster \<Rightarrow> string" where
  "cluster_topology c =
     (if CloudProviderID c = ''gcp'' then ''osd-gcp'' else if HypershiftEnabled c then ''hcp'' else ''classic'')"

lemma DetectClusterTopology_run:
  assumes "DetectClusterTopology conn cluster s = (r, s')"
  shows "\<exists>answer. hist s' = hist s @ [EvGetCluster cluster answer] \<and>
    (case answer of Inl _ \<Rightarrow> \<exists>e. r = Inl e | Inr c \<Rightarrow> r = Inr (cluster_topology c))"
  using assms
  by (auto simp: DetectClusterTopology_def cluster_topology_def dest: hist_call split: prod.splits sum.splits)

lemma Topology_run:
  assumes "Topology dp tc s = (t, tc', s')"
  shows "tc' = (if t = [] then tc else tc\<lparr>topology := t\<rparr>)"
    and "appends (\<lambda>e. \<exists>answer. e = EvGetCluster (ClusterID (tcCfg tc)) answer) s s'"
  using assms
  by (auto simp: Topology_def appends_def split: if_splits prod.splits sum.splits dest!: DetectClusterTopology_run)

text \<open>
  C20: the topology of a test context. An earlier answer wins, then the configured
  topology, both without any request; only then is the cluster described, once, and
  classified by its cloud provider and its control plane. A topology that was determined is
  remembered, so every later call gives the same answer without a request; if none could
  be determined nothing is remembered and a later call tries again.
\<close>

theorem Topology_resolution:
  assumes "Topology dp tc s = (t, tc', s')"
  shows "(if t = [] then tc' = tc else tc' = tc\<lparr>topology := t\<rparr> \<and> Topology dp tc' s2 = (t, tc', s2)) \<and>
    (if topology tc \<noteq> [] then t = topology tc \<and> s' = s
     else if ClusterTopology (tcCfg tc) \<noteq> [] then t = ClusterTopology (tcCfg tc) \<and> s' = s
     else if ClusterID (tcCfg tc) = [] then t = [] \<and> s' = s
     else \<exists>answer. hist s' = hist s @ [EvGetCluster (ClusterID (tcCfg tc)) answer] \<and>
            t = (case answer of Inl _ \<Rightarrow> [] | Inr c \<Rightarrow> cluster_topology c))"
proof -
  have same: "topology tc = t \<Longrightarrow> tc = tc\<lparr>topology := t\<rparr>" by simp
  have ne: "cluster_topology c \<noteq> []" for c by (simp add: cluster_topology_def)
  show ?thesis
  proof (cases "topology tc = [] \<and> ClusterTopology (tcCfg tc) = [] \<and> ClusterID (tcCfg tc) \<noteq> []")
    case True
    obtain r s1 where d: "DetectClusterTopology (tcConn dp) (ClusterID (tcCfg tc)) s = (r, s1)"
      by (cases "DetectClusterTopology (tcConn dp) (ClusterID (tcCfg tc)) s")
    obtain answer where a: "hist s1 = hist s @ [EvGetCluster (ClusterID (tcCfg tc)) answer]"
      "case answer of Inl _ \<Rightarrow> \<exists>e. r = Inl e | Inr c \<Rightarrow> r = Inr (cluster_topology c)"
      using DetectClusterTopology_run [OF d] by blast
    show ?thesis
    proof (cases answer)
      case (Inl e)
      with a assms d True show ?thesis by (auto simp: Topology_def)
    next
      case (Inr c)
      with a assms d True ne [of c] show ?thesis by (auto simp: Topology_def)
    qed
  next
    case False
    then consider "topology tc \<noteq> []" | "topology tc = []" "ClusterTopology (tcCfg tc) \<noteq> []"
      | "topology tc = []" "ClusterTopology (tcCfg tc) = []" "ClusterID (tcCfg tc) = []" by blast
    then show ?thesis
    proof cases
      case 1
      with assms have "t = topology tc" "tc' = tc" "s' = s" by (auto simp: Topology_def)
      with 1 show ?thesis by (simp add: Topology_def)
    next
      case 2
      with assms have "t = ClusterTopology (tcCfg tc)" "tc' = tc\<lparr>topology := t\<rparr>" "s' = s"
        by (auto simp: Topology_def)
      with 2 show ?thesis by (simp add: Topology_def)
    next
      case 3
      with assms show ?thesis by (simp add: Topology_def)
    qed
  qed
qed

theorem Topology_resolution_witness:
  "\<exists>tc' s'. Topology demo_deps demo_tc (start ()) = (''hcp'', tc', s') \<and>
     Topology demo_deps tc' (start ()) = (''hcp'', tc', start ())"
proof -
  have "\<exists>tc' s'. Topology demo_deps demo_tc (start ()) = (''hcp'', tc', s')"
    by (simp add: Topology_def demo_tc_simps DetectClusterTopology_def demo_deps_def demo_conn_def call_def)
  then obtain tc' s' where run: "Topology demo_deps demo_tc (start ()) = (''hcp'', tc', s')" by blast
  from Topology_resolution [OF run, of "start ()", THEN conjunct1]
  have "Topology demo_deps tc' (start ()) = (''hcp'', tc', start ())" by (metis list.distinct(1))
  with run show ?thesis by blast
qed

subsection \<open>Hosted cluster namespaces\<close>

lemma containsID_iff:
  "containsID namespace cluster \<longleftrightarrow> 8 < length cluster \<and> (\<exists>pre. pre \<noteq> [] \<and> namespace = pre @ cluster)"
proof
  assume c: "containsID namespace cluster"
  then have "namespace = take (length namespace - length cluster) namespace @ cluster"
    by (metis append_take_drop_id containsID_def)
  moreover from c have "take (length namespace - length cluster) namespace \<noteq> []"
    by (auto simp: containsID_def)
  moreover from c have "8 < length cluster" by (simp add: containsID_def)
  ultimately show "8 < length cluster \<and> (\<exists>pre. pre \<noteq> [] \<and> namespace = pre @ cluster)" by blast
qed (auto simp: containsID_def)

definition hosts :: "string \<Rightarrow> string \<Rightarrow> string \<times> string \<Rightarrow> bool" where
  "hosts clusterName cluster = (\<lambda>(namespace, name).
     name = clusterName \<or> 8 < length cluster \<and> (\<exists>pre. pre \<noteq> [] \<and> namespace = pre @ cluster))"

lemma match_hosted_cluster_iff:
  "match_hosted_cluster clusterName cluster items =
     map_option (\<lambda>(namespace, name).
         \<lparr>HCNamespace = namespace, HCPNamespace = namespace @ ''-'' @ name, HCClusterName = name\<rparr>)
       (find (hosts clusterName cluster) items)"
  by (induction clusterName cluster items rule: match_hosted_cluster.induct)
    (auto simp: hosts_def containsID_iff)

text \<open>
  The namespaces of a hosted cluster are those of the first HostedCluster listed whose
  name is the cluster's or whose namespace ends in its id, with something before it and the
  id longer than 8 characters; the control plane namespace is the two joined by a dash. If
  no HostedCluster matches, or they cannot be listed, the result is an error.
\<close>

theorem ResolveHCPNamespaces_first:
  "fst (ResolveHCPNamespaces list_hcs clusterName cluster s) =
     (case fst (fst (list_hcs (ext s))) of
        Inl e \<Rightarrow> Inl (Errorf ''listing HostedClusters: %w'' [AExt e])
      | Inr items \<Rightarrow>
          (case find (hosts clusterName cluster) items of
             None \<Rightarrow> Inl (Errorf ''no HostedCluster found matching name=%q or id=%q'' [AStr clusterName, AStr cluster])
           | Some (namespace, name) \<Rightarrow>
               Inr \<lparr>HCNamespace = namespace, HCPNamespace = namespace @ ''-'' @ name, HCClusterName = name\<rparr>))"
  using call_result [of EvListHostedClusters list_hcs s]
  by (auto simp: ResolveHCPNamespaces_def match_hosted_cluster_iff split: prod.splits sum.splits option.splits)

subsection \<open>Management cluster clients\<close>

fun looks_up_mc :: "ocm_event \<Rightarrow> bool" where
  "looks_up_mc (EvHypershift _ _) = True"
| "looks_up_mc (EvSearchClusters _ _ _) = True"
| "looks_up_mc (EvCredentials _ _) = True"
| "looks_up_mc _ = False"

lemma init_namespaces_run:
  assumes "init_namespaces dp d tc s = (tc', s')"
  shows "appends (\<lambda>e. \<not> looks_up_mc e) s s' \<and>
    mcRestConfig tc' = mcRestConfig tc \<and> mcKubeClient tc' = mcKubeClient tc \<and>
    mcDynamicClient tc' = mcDynamicClient tc \<and> hcKubeClient tc' = hcKubeClient tc \<and>
    scKubeClient tc' = scKubeClient tc \<and> tcCfg tc' = tcCfg tc \<and>
    (hcpNamespaces tc' \<noteq> hcpNamespaces tc \<longrightarrow> topology tc' = ''hcp'' \<and> ClusterID (tcCfg tc) \<noteq> [])"
proof (cases "ClusterID (tcCfg tc) = []")
  case True
  with assms show ?thesis by (simp add: init_namespaces_def)
next
  case False
  obtain t tc1 s1 where t: "Topology dp tc s = (t, tc1, s1)" by (cases "Topology dp tc s")
  have a1: "appends (\<lambda>e. \<not> looks_up_mc e) s s1" and tc1: "if t = [] then tc1 = tc else tc1 = tc\<lparr>topology := t\<rparr>"
    using Topology_run [OF t] by (auto intro: appends_weaken)
  show ?thesis
  proof (cases "t = ''hcp''")
    case False
    with assms \<open>ClusterID (tcCfg tc) \<noteq> []\<close> t have "tc' = tc1" "s' = s1" by (auto simp: init_namespaces_def)
    with a1 tc1 show ?thesis by (auto split: if_splits)
  next
    case True
    obtain cn s2 where n: "resolveClusterName (tcConn dp) (ClusterID (tcCfg tc1)) s1 = (cn, s2)"
      by (cases "resolveClusterName (tcConn dp) (ClusterID (tcCfg tc1)) s1")
    obtain r s3 where h: "ResolveHCPNamespaces (ListHostedClusters dp d) cn (ClusterID (tcCfg tc1)) s2 = (r, s3)"
      by (cases "ResolveHCPNamespaces (ListHostedClusters dp d) cn (ClusterID (tcCfg tc1)) s2")
    have a2: "appends (\<lambda>e. \<not> looks_up_mc e) s1 s2"
      using n by (auto simp: resolveClusterName_def appends_def dest!: hist_call split: prod.splits sum.splits)
    have a3: "appends (\<lambda>e. \<not> looks_up_mc e) s2 s3"
      using h by (auto simp: ResolveHCPNamespaces_def appends_def dest!: hist_call
          split: prod.splits sum.splits option.splits)
    from assms \<open>ClusterID (tcCfg tc) \<noteq> []\<close> t True n h have
      "s' = s3" "tc' = tc1 \<or> (\<exists>ns. tc' = tc1\<lparr>hcpNamespaces := Some ns\<rparr>)"
      by (auto simp: init_namespaces_def split: sum.splits)
    with appends_trans [OF a1 appends_trans [OF a2 a3]] tc1 True \<open>ClusterID (tcCfg tc) \<noteq> []\<close>
    show ?thesis by auto
  qed
qed

lemma new_clients_nil:
  "new_clients dp who restCfg = (None, kube, dyn) \<Longrightarrow> kube \<noteq> None \<and> dyn \<noteq> None"
  by (auto simp: new_clients_def split: sum.splits)


lemmas init_run_defs =
  InitMCClients_def management_cluster_id_def ResolveManagementClusterID_def resolveKubeconfig_def
  GetClusterCredentials_def clientConfigFromKubeconfig_def new_clients_def NewKubeClient_def
  init_namespaces_def Topology_def DetectClusterTopology_def resolveClusterName_def
  ResolveHCPNamespaces_def demo_deps_def demo_conn_def call_def Let_def


subsection \<open>RHOBS credentials\<close>

lemma rhobs_from_data_simps:
  "RHOBSProbeAPIURL (rhobs_from_data data cfg) = map_get data ''probe-api-url''"
  "RHOBSOIDCClientID (rhobs_from_data data cfg) = map_get data ''oidc-client-id''"
  "RHOBSOIDCClientSecret (rhobs_from_data data cfg) = map_get data ''oidc-client-secret''"
  "RHOBSOIDCIssuerURL (rhobs_from_data data cfg) = map_get data ''oidc-issuer-url''"
  "ClusterID (rhobs_from_data data cfg) = ClusterID cfg"
  "OCMToken (rhobs_from_data data cfg) = OCMToken cfg"
  by (simp_all add: rhobs_from_data_def derive_metrics_url_def)

text \<open>
  Loading the RHOBS credentials from the management cluster returns nil exactly if the
  context then has all four settings. Settings that are complete are left alone without a
  request; otherwise all four come from the ConfigMap, never a mixture, and the rest of the
  configuration but the metrics URL is unchanged.
\<close>

theorem LoadRHOBSCredentialsFromMC_complete:
  assumes "LoadRHOBSCredentialsFromMC dp tc s = (r, tc', s')"
  shows "(r = None \<longleftrightarrow> HasRHOBSAccess tc') \<and>
    (HasRHOBSAccess tc \<longrightarrow> tc' = tc \<and> s' = s) \<and>
    (\<not> HasRHOBSAccess tc \<and> r = None \<longrightarrow>
       (\<exists>data. hist s' = hist s @ [EvGetConfigMap ''openshift-route-monitor-operator'' ''route-monitor-operator-config'' (Inr data)] \<and>
          RHOBSProbeAPIURL (tcCfg tc') = map_get data ''probe-api-url'' \<and>
          RHOBSOIDCClientID (tcCfg tc') = map_get data ''oidc-client-id'' \<and>
          RHOBSOIDCClientSecret (tcCfg tc') = map_get data ''oidc-client-secret'' \<and>
          RHOBSOIDCIssuerURL (tcCfg tc') = map_get data ''oidc-issuer-url'' \<and>
          ClusterID (tcCfg tc') = ClusterID (tcCfg tc) \<and> OCMToken (tcCfg tc') = OCMToken (tcCfg tc)))"
proof (cases "HasRHOBSAccess tc")
  case True
  with assms show ?thesis by (auto simp: LoadRHOBSCredentialsFromMC_def)
next
  case False
  show ?thesis
  proof (cases "mcKubeClient tc")
    case None
    with False assms show ?thesis by (auto simp: LoadRHOBSCredentialsFromMC_def)
  next
    case (Some kube)
    let ?ev = "EvGetConfigMap ''openshift-route-monitor-operator'' ''route-monitor-operator-config''"
    obtain answer s1 where c: "call ?ev (GetConfigMap dp kube ''openshift-route-monitor-operator'' ''route-monitor-operator-config'') s = (answer, s1)"
      by (cases "call ?ev (GetConfigMap dp kube ''openshift-route-monitor-operator'' ''route-monitor-operator-config'') s")
    have h: "hist s1 = hist s @ [?ev answer]" by (rule hist_call [OF c])
    show ?thesis
    proof (cases answer)
      case (Inl e)
      with assms False Some c show ?thesis by (auto simp: LoadRHOBSCredentialsFromMC_def)
    next
      case (Inr data)
      define tc1 where "tc1 = tc\<lparr>tcCfg := rhobs_from_data data (tcCfg tc)\<rparr>"
      have "tc' = tc1" "s' = s1" "r = None \<longleftrightarrow> HasRHOBSAccess tc1"
        using assms by (simp_all add: LoadRHOBSCredentialsFromMC_def False Some c Inr tc1_def [symmetric]
            split: if_splits) auto
      with False h Inr show ?thesis
        by (simp add: tc1_def rhobs_from_data_simps)
    qed
  qed
qed

definition mc_tc :: "(string, string, string, unit, unit) TestContext" where
  "mc_tc = (NewTestContext (default_config\<lparr>RHOBSProbeAPIURL := ''https://a/hcp/probes'',
      RHOBSMetricsAPIURL := ''https://a/hcp''\<rparr>))\<lparr>mcKubeClient := Some ''mc''\<rparr>"

lemma mc_tc_loads:
  "\<exists>tc' s'. LoadRHOBSCredentialsFromMC demo_deps mc_tc (start ()) = (None, tc', s') \<and>
     RHOBSProbeAPIURL (tcCfg tc') = ''https://b/hcp/probes'' \<and> RHOBSMetricsAPIURL (tcCfg tc') = ''https://a/hcp''"
  by (simp add: LoadRHOBSCredentialsFromMC_def HasRHOBSAccess_def mc_tc_def NewTestContext_def default_config_def
      demo_deps_def demo_data_def call_def rhobs_from_data_def derive_metrics_url_def map_get_def Let_def)

theorem LoadRHOBSCredentialsFromMC_complete_witness:
  "\<exists>tc' s'. LoadRHOBSCredentialsFromMC demo_deps mc_tc (start ()) = (None, tc', s') \<and> HasRHOBSAccess tc'"
proof -
  obtain tc' s' where run: "LoadRHOBSCredentialsFromMC demo_deps mc_tc (start ()) = (None, tc', s')"
    using mc_tc_loads by blast
  with LoadRHOBSCredentialsFromMC_complete [OF run] show ?thesis by blast
qed

text \<open>
  The configuration in \<open>mc_tc\<close> is what \<open>Load\<close> makes of an environment that sets the probe
  URL alone: its metrics URL was derived from that. After the credentials have been loaded
  from the management cluster the metrics URL still belongs to the old probe URL.
\<close>

lemma mc_tc_metrics_derived:
  "RHOBSMetricsAPIURL (tcCfg mc_tc) = RHOBSMetricsAPIURL (derive_metrics_url ((tcCfg mc_tc)\<lparr>RHOBSMetricsAPIURL := []\<rparr>))"
  by (simp add: mc_tc_def NewTestContext_def derive_metrics_url_def TrimSuffix_def HasSuffix_def)

end
