(* ===== verification/VerifierProperties.thy ===== *)
theory VerifierProperties
  imports Verifiers
begin

text \<open>
  When the snapshot verifiers return nil: each loop is characterised by what it collects,
  and each verifier by a condition on the objects it read.
\<close>

subsection \<open>Conditions\<close>

definition has_condition :: "(string \<times> json) list list \<Rightarrow> string \<Rightarrow> string \<Rightarrow> bool" where
  "has_condition conds ty st \<longleftrightarrow> list_ex (\<lambda>c. str_of c ''type'' = ty \<and> str_of c ''status'' = st) conds"

lemma has_condition_simps [simp]:
  "\<not> has_condition [] ty st"
  "has_condition (c # cs) ty st \<longleftrightarrow> str_of c ''type'' = ty \<and> str_of c ''status'' = st \<or> has_condition cs ty st"
  by (simp_all add: has_condition_def)

lemma operator_conditions_result:
  "fst (operator_conditions conds a d det) = (a \<or> has_condition conds ''Available'' ''True'')"
  "fst (snd (operator_conditions conds a d det)) = (d \<and> \<not> has_condition conds ''Degraded'' ''False'')"
  by (induction conds arbitrary: a d det) (auto simp: Let_def)

lemma nodepool_conditions_result:
  "fst (nodepool_conditions conds r n det) = (r \<or> has_condition conds ''Ready'' ''True'')"
  "fst (snd (nodepool_conditions conds r n det)) = (n \<or> has_condition conds ''AllNodesHealthy'' ''True'')"
  by (induction conds arbitrary: r n det) (auto simp: Let_def)

lemma condition_true_iff: "condition_true ty conds \<longleftrightarrow> (ty, ''True'') \<in> set conds"
  by (induction ty conds rule: condition_true.induct) auto

lemma node_ready_iff: "node_ready conds b \<longleftrightarrow> b \<or> (''Ready'', ''True'') \<in> set conds"
  by (induction conds b rule: node_ready.induct) auto

definition cond_maps :: "json list \<Rightarrow> (string \<times> json) list list" where
  "cond_maps conds = List.map_filter as_object conds"

lemma cond_maps_simps [simp]:
  "cond_maps [] = []"
  "cond_maps (c # cs) = (case as_object c of None \<Rightarrow> cond_maps cs | Some m \<Rightarrow> m # cond_maps cs)"
  by (simp_all add: cond_maps_def map_filter_simps split: option.split)

definition statuses :: "string \<Rightarrow> json list \<Rightarrow> string list" where
  "statuses ty conds = map (\<lambda>m. str_of m ''status'') (filter (\<lambda>m. str_of m ''type'' = ty) (cond_maps conds))"

subsection \<open>ClusterOperators\<close>

definition operator_healthy :: "uobject \<Rightarrow> bool" where
  "operator_healthy item \<longleftrightarrow>
     (case getConditions (uObject item) of
        Inr (Some conds) \<Rightarrow> has_condition conds ''Available'' ''True'' \<and> has_condition conds ''Degraded'' ''False''
      | _ \<Rightarrow> False)"

lemma check_operators_nil:
  "check_operators excluded items unhealthy = Inr [] \<longleftrightarrow>
     unhealthy = [] \<and> list_all (\<lambda>item. excluded (uName item) \<or> operator_healthy item) items"
proof (induction items arbitrary: unhealthy)
  case (Cons item items)
  show ?case
  proof (cases "excluded (uName item) \<or> \<not> (\<exists>conds. getConditions (uObject item) = Inr (Some conds))")
    case True
    with Cons show ?thesis
      by (auto simp: Let_def operator_healthy_def split: sum.splits option.splits)
  next
    case False
    then obtain conds where ex: "\<not> excluded (uName item)" and g: "getConditions (uObject item) = Inr (Some conds)"
      by blast
    obtain a d det where o: "operator_conditions conds False True [] = (a, d, det)"
      by (cases "operator_conditions conds False True []")
    then have "operator_healthy item \<longleftrightarrow> a \<and> \<not> d"
      using operator_conditions_result [of conds False True "[]"] g by (simp add: operator_healthy_def)
    with ex g o Cons show ?thesis by (auto simp: Let_def)
  qed
qed simp

text \<open>
  C31: the ClusterOperators are reported healthy exactly if they could be listed, there is
  at least one, and every one whose name is not in the (trimmed) exclusion list has
  readable conditions with Available=True and Degraded=False among them.
\<close>

theorem VerifyClusterOperatorsHealthy_nil_iff:
  "VerifyClusterOperatorsHealthy dyn excludeOperators = None \<longleftrightarrow>
     (\<exists>items. ResourceList dyn clusteroperators_gvr [] = Inr items \<and> items \<noteq> [] \<and>
        list_all (\<lambda>item. uName item \<in> TrimSpace ` set excludeOperators \<or> operator_healthy item) items)"
proof (cases "ResourceList dyn clusteroperators_gvr []")
  case (Inr items)
  with check_operators_nil [of "\<lambda>n. n \<in> set (map TrimSpace excludeOperators)" items "[]"] show ?thesis
    by (cases "check_operators (\<lambda>n. n \<in> set (map TrimSpace excludeOperators)) items []")
      (auto simp: VerifyClusterOperatorsHealthy_def Let_def split: list.splits)
qed (simp add: VerifyClusterOperatorsHealthy_def Let_def)

subsection \<open>HostedClusters and NodePools\<close>

lemma condition_issues_result:
  assumes "condition_issues conds issues a d = (issues', a', d')"
  shows "(issues' = [] \<longleftrightarrow> issues = [] \<and> list_all (\<lambda>st. st = ''True'') (statuses ''Available'' conds) \<and>
            list_all (\<lambda>st. st = ''False'') (statuses ''Degraded'' conds)) \<and>
         (a' \<longleftrightarrow> a \<or> statuses ''Available'' conds \<noteq> []) \<and> (d' \<longleftrightarrow> d \<or> statuses ''Degraded'' conds \<noteq> [])"
  using assms
proof (induction conds issues a d rule: condition_issues.induct)
  case (2 cond conds issues a d)
  show ?case
  proof (cases "as_object cond")
    case None
    with 2 show ?thesis by (simp add: statuses_def)
  next
    case (Some m)
    from 2(2) [OF Some refl refl refl refl refl] 2(3) Some show ?thesis
      by (auto simp: statuses_def Let_def)
  qed
qed (simp add: statuses_def)

text \<open>
  A HostedCluster is reported healthy exactly if it could be read, its conditions are
  there, it has an Available condition and each of them is True, and it has a Degraded
  condition and each of them is False.
\<close>

theorem VerifyHostedClusterHealthy_nil_iff:
  "VerifyHostedClusterHealthy nested dyn namespace name = None \<longleftrightarrow>
     (\<exists>hc conds. ResourceGet dyn hostedClusterGVR namespace name = Inr hc \<and>
        nested (uObject hc) [''status'', ''conditions''] = Inr (Some conds) \<and>
        statuses ''Available'' conds \<noteq> [] \<and> list_all (\<lambda>st. st = ''True'') (statuses ''Available'' conds) \<and>
        statuses ''Degraded'' conds \<noteq> [] \<and> list_all (\<lambda>st. st = ''False'') (statuses ''Degraded'' conds))"
proof -
  have "verifyConditions nested hc kind namespace name = None \<longleftrightarrow>
     (\<exists>conds. nested (uObject hc) [''status'', ''conditions''] = Inr (Some conds) \<and>
        statuses ''Available'' conds \<noteq> [] \<and> list_all (\<lambda>st. st = ''True'') (statuses ''Available'' conds) \<and>
        statuses ''Degraded'' conds \<noteq> [] \<and> list_all (\<lambda>st. st = ''False'') (statuses ''Degraded'' conds))" for hc kind
  proof (cases "\<exists>conds. nested (uObject hc) [''status'', ''conditions''] = Inr (Some conds)")
    case True
    then obtain conds where n: "nested (uObject hc) [''status'', ''conditions''] = Inr (Some conds)" by blast
    obtain issues a d where c: "condition_issues conds [] False False = (issues, a, d)"
      by (cases "condition_issues conds [] False False")
    from condition_issues_result [OF c] n c show ?thesis
      by (auto simp: verifyConditions_def Let_def)
  next
    case False
    then show ?thesis by (auto simp: verifyConditions_def Let_def split: sum.splits option.splits)
  qed
  then show ?thesis by (auto simp: VerifyHostedClusterHealthy_def split: sum.splits)
qed

definition nodepool_healthy :: "uobject \<Rightarrow> bool" where
  "nodepool_healthy np \<longleftrightarrow>
     (case getConditions (uObject np) of
        Inr (Some conds) \<Rightarrow> has_condition conds ''Ready'' ''True'' \<and> has_condition conds ''AllNodesHealthy'' ''True''
      | _ \<Rightarrow> False)"

lemma check_nodepools_length:
  "length (check_nodepools namespace nps unhealthy) = length unhealthy + length (filter (\<lambda>np. \<not> nodepool_healthy np) nps)"
proof (induction nps arbitrary: unhealthy)
  case (Cons np nps)
  show ?case
  proof (cases "\<exists>conds. getConditions (uObject np) = Inr (Some conds)")
    case True
    then obtain conds where g: "getConditions (uObject np) = Inr (Some conds)" by blast
    obtain r n det where o: "nodepool_conditions conds False False [] = (r, n, det)"
      by (cases "nodepool_conditions conds False False []")
    then have "r = has_condition conds ''Ready'' ''True''" "n = has_condition conds ''AllNodesHealthy'' ''True''"
      using nodepool_conditions_result [of conds False False "[]"] by simp_all
    with g o Cons show ?thesis by (simp add: Let_def nodepool_healthy_def)
  next
    case False
    with Cons show ?thesis
      by (auto simp: Let_def nodepool_healthy_def split: sum.splits option.splits)
  qed
qed simp

text \<open>
  The NodePools of a namespace are reported healthy exactly if they could be listed,
  there is one, and each has readable conditions with Ready=True and AllNodesHealthy=True;
  otherwise the error counts those that are not.
\<close>

theorem VerifyNodePoolHealthy_spec:
  "(VerifyNodePoolHealthy dyn namespace = None \<longleftrightarrow>
     (\<exists>items. ResourceList dyn nodePoolGVR namespace = Inr items \<and> items \<noteq> [] \<and> list_all nodepool_healthy items)) \<and>
   (ResourceList dyn nodePoolGVR namespace = Inr items \<and> items \<noteq> [] \<and> \<not> list_all nodepool_healthy items \<longrightarrow>
     (\<exists>lines. VerifyNodePoolHealthy dyn namespace = Some (Errorf ''%d unhealthy NodePools:\<newline>%s''
        [AInt (int (length (filter (\<lambda>np. \<not> nodepool_healthy np) items))), ALines lines])))"
proof -
  have nil: "check_nodepools namespace xs [] = [] \<longleftrightarrow> list_all nodepool_healthy xs" for xs
    using check_nodepools_length [of namespace xs "[]"]
    by (metis (no_types, lifting) add_0 filter_empty_conv length_0_conv list.size(3) list_all_iff)
  then show ?thesis
    using check_nodepools_length [of namespace items "[]"]
    by (auto simp: VerifyNodePoolHealthy_def Let_def split: sum.splits)
qed

definition sick_pool :: dynamic_client where
  "sick_pool =
     \<lparr>ResourceList = (\<lambda>_ _. Inr [\<lparr>uName = ''workers'', uObject = [(''status'', JObj [(''conditions'', JArr
         [JObj [(''type'', JStr ''Ready''), (''status'', JStr ''False'')]])])]\<rparr>]),
      ResourceGet = (\<lambda>_ _ _. Inl (plain_error ''not found''))\<rparr>"

theorem VerifyNodePoolHealthy_spec_witness:
  "\<exists>lines. VerifyNodePoolHealthy sick_pool ''ns'' = Some (Errorf ''%d unhealthy NodePools:\<newline>%s'' [AInt 1, ALines lines])"
proof -
  define items where "items = [\<lparr>uName = ''workers'', uObject = [(''status'', JObj [(''conditions'', JArr
         [JObj [(''type'', JStr ''Ready''), (''status'', JStr ''False'')]])])]\<rparr>]"
  have l: "ResourceList sick_pool nodePoolGVR ''ns'' = Inr items" by (simp add: sick_pool_def items_def)
  have h: "list_all (\<lambda>np. \<not> nodepool_healthy np) items"
    by (simp add: items_def nodepool_healthy_def getConditions_def get_object_def get_array_def obj_get_def
        str_of_def get_string_def as_object_def)
  then have "\<not> list_all nodepool_healthy items" "filter (\<lambda>np. \<not> nodepool_healthy np) items = items" "length items = 1"
    by (simp_all add: items_def)
  with l VerifyNodePoolHealthy_spec [of sick_pool "''ns''" items] show ?thesis by auto
qed

subsection \<open>VpcEndpoints\<close>

definition endpoint_ready :: "json list \<Rightarrow> bool" where
  "endpoint_ready conds \<longleftrightarrow>
     (case find (\<lambda>m. endpoint_ready_type (str_of m ''type'')) (cond_maps conds) of
        None \<Rightarrow> False | Some m \<Rightarrow> EqualFold (str_of m ''status'') ''true'')"

lemma endpoint_conditions_result:
  assumes "endpoint_conditions name conds un found = (un', found')"
  shows "(un' \<noteq> [] \<longleftrightarrow> un \<noteq> [] \<or>
     (\<exists>m. find (\<lambda>m. endpoint_ready_type (str_of m ''type'')) (cond_maps conds) = Some m \<and>
        \<not> EqualFold (str_of m ''status'') ''true'')) \<and>
     (found' \<longleftrightarrow> found \<or> find (\<lambda>m. endpoint_ready_type (str_of m ''type'')) (cond_maps conds) \<noteq> None)"
  using assms
proof (induction name conds un found rule: endpoint_conditions.induct)
  case (2 name cond conds un found)
  show ?case
  proof (cases "as_object cond")
    case None
    with 2 show ?thesis by simp
  next
    case (Some m)
    with 2 show ?thesis by (auto simp: Let_def split: if_splits)
  qed
qed auto

lemma check_endpoints_nil:
  "check_endpoints nested vpes un = Inr [] \<longleftrightarrow> un = [] \<and>
     list_all (\<lambda>vpe. \<exists>conds. nested (uObject vpe) [''status'', ''conditions''] = Inr (Some conds) \<and> endpoint_ready conds) vpes"
proof (induction vpes arbitrary: un)
  case (Cons vpe vpes)
  show ?case
  proof (cases "\<exists>conds. nested (uObject vpe) [''status'', ''conditions''] = Inr (Some conds)")
    case True
    then obtain conds where n: "nested (uObject vpe) [''status'', ''conditions''] = Inr (Some conds)" by blast
    obtain un' f where e: "endpoint_conditions (uName vpe) conds un False = (un', f)"
      by (cases "endpoint_conditions (uName vpe) conds un False")
    have "check_endpoints nested (vpe # vpes) un = Inr [] \<longleftrightarrow> un' = [] \<and> f \<and>
        list_all (\<lambda>vpe. \<exists>conds. nested (uObject vpe) [''status'', ''conditions''] = Inr (Some conds) \<and> endpoint_ready conds) vpes"
      by (simp add: n e Cons.IH)
    moreover have "un' = [] \<and> f \<longleftrightarrow> un = [] \<and> endpoint_ready conds"
      using endpoint_conditions_result [OF e] by (auto simp: endpoint_ready_def split: option.splits)
    ultimately show ?thesis by (auto simp: n)
  next
    case False
    with Cons show ?thesis by (auto simp: Let_def split: sum.splits option.splits)
  qed
qed simp

text \<open>
  The VpcEndpoints of a namespace are reported available exactly if they could be
  listed, there is one, and for each the conditions are there and the first that is about
  readiness (\<open>AWSVpcEndpointReady\<close>, or \<open>available\<close> in any case) has status true.
\<close>

theorem VerifyAVOVpcEndpoints_nil_iff:
  "VerifyAVOVpcEndpoints nested dyn namespace = None \<longleftrightarrow>
     (\<exists>items. ResourceList dyn vpcEndpointGVR namespace = Inr items \<and> items \<noteq> [] \<and>
        list_all (\<lambda>vpe. \<exists>conds. nested (uObject vpe) [''status'', ''conditions''] = Inr (Some conds) \<and>
          endpoint_ready conds) items)"
proof (cases "ResourceList dyn vpcEndpointGVR namespace")
  case (Inr items)
  with check_endpoints_nil [of nested items "[]"] show ?thesis
    by (cases "check_endpoints nested items []")
      (auto simp: VerifyAVOVpcEndpoints_def split: list.splits)
qed (simp add: VerifyAVOVpcEndpoints_def)

subsection \<open>Deployments and nodes\<close>

lemma check_deployments_nil:
  "check_deployments ds un = [] \<longleftrightarrow> un = [] \<and>
     list_all (\<lambda>d. depSpecReplicas d = Some 0 \<or> (''Available'', ''True'') \<in> set (depConditions d)) ds"
  by (induction ds un rule: check_deployments.induct) (auto simp: condition_true_iff)

lemma not_ready_nodes_result:
  "not_ready_nodes ns acc =
     acc @ map nodeName (filter (\<lambda>n. (''Ready'', ''True'') \<notin> set (nodeConditions n)) ns)"
  by (induction ns acc rule: not_ready_nodes.induct) (simp_all add: node_ready_iff)

text \<open>
  The deployments of a hosted control plane's namespace are reported healthy exactly if
  they could be listed, there is one, and each is scaled to zero or has the condition
  Available=True; a deployment without a replica count counts as not scaled to zero.
\<close>

theorem VerifyHCPNamespaceHealthy_nil_iff:
  "VerifyHCPNamespaceHealthy kube namespace = None \<longleftrightarrow>
     (\<exists>items. DeploymentList kube namespace = Inr items \<and> items \<noteq> [] \<and>
        list_all (\<lambda>d. depSpecReplicas d = Some 0 \<or> (''Available'', ''True'') \<in> set (depConditions d)) items)"
  by (auto simp: VerifyHCPNamespaceHealthy_def Let_def check_deployments_nil split: sum.splits)

text \<open>
  All nodes are reported ready exactly if they could be listed, there is one, and each
  has the condition Ready=True; otherwise, if nodes were listed, the error names exactly the
  nodes that have not, in the order listed.
\<close>

theorem verifyAllNodesReady_spec:
  "verifyAllNodesReady kube =
     (case NodeList kube [] of
        Inl e \<Rightarrow> Some (Errorf ''listing nodes: %w'' [AExt e])
      | Inr ns \<Rightarrow>
          (if ns = [] then Some (Errorf ''no nodes found in the cluster'' [])
           else if list_all (\<lambda>n. (''Ready'', ''True'') \<in> set (nodeConditions n)) ns then None
           else Some (Errorf ''nodes not ready: %v''
                  [AStrs (map nodeName (filter (\<lambda>n. (''Ready'', ''True'') \<notin> set (nodeConditions n)) ns))])))"
  by (auto simp: verifyAllNodesReady_def not_ready_nodes_result Let_def list_all_iff filter_empty_conv
      split: sum.splits)

end
