(* ===== verification/SpecProperties.thy ===== *)
theory SpecProperties
  imports Specs OcmProperties ContextProperties VerifierProperties
begin

text \<open>
  What the specs do. The first part is about stages in general: which requests a list of
  stages sends, and that it returns. Then: a cluster that a lifecycle spec has created is
  deleted whatever happens, and what it takes to pass; the specs that look at a cluster
  never change one; an upgrade is asked for at most once.
\<close>

subsection \<open>Requests of stages\<close>

named_theorems stage_intros "stages that return, and only send requests of a kind"

text \<open>An operation, or a stage, that returns, sends only requests \<open>P\<close> and keeps the configuration.\<close>

type_synonym ('w, 'rest, 'kube, 'dyn, 'ec2, 'ct) spec_state =
  "('rest, 'kube, 'dyn, 'ec2, 'ct) TestContext \<times> 'w ocm_sys"

definition operates ::
  "(ocm_event \<Rightarrow> bool) \<Rightarrow> (('w, 'rest, 'kube, 'dyn, 'ec2, 'ct) spec_state \<Rightarrow>
     'r \<times> ('w, 'rest, 'kube, 'dyn, 'ec2, 'ct) spec_state) \<Rightarrow> bool" where
  "operates P f \<longleftrightarrow> (\<forall>tc s r tc' s'. f (tc, s) = (r, tc', s') \<longrightarrow> appends P s s' \<and> tcCfg tc' = tcCfg tc)"

definition proceeds ::
  "(ocm_event \<Rightarrow> bool) \<Rightarrow> ('w, 'rest, 'kube, 'dyn, 'ec2, 'ct) spec_state stage \<Rightarrow> bool" where
  "proceeds P st \<longleftrightarrow> (\<forall>tc s. \<exists>oc tc' s'. st (tc, s) = Some (oc, tc', s') \<and> appends P s s' \<and> tcCfg tc' = tcCfg tc)"

lemma proceedsE:
  assumes "proceeds P st"
  obtains oc tc' s' where "st (tc, s) = Some (oc, tc', s')" "appends P s s'" "tcCfg tc' = tcCfg tc"
  using assms unfolding proceeds_def by blast

lemma proceeds_stages: "list_all (proceeds P) sts \<Longrightarrow> proceeds P (run_stages sts)"
proof (induction sts)
  case (Cons st sts)
  then have st: "proceeds P st" and sts: "proceeds P (run_stages sts)" by simp_all
  show ?case
    unfolding proceeds_def
  proof (intro allI)
    fix tc s
    obtain oc tc1 s1 where 1: "st (tc, s) = Some (oc, tc1, s1)" "appends P s s1" "tcCfg tc1 = tcCfg tc"
      using proceedsE [OF st] .
    obtain oc2 tc2 s2 where 2: "run_stages sts (tc1, s1) = Some (oc2, tc2, s2)" "appends P s1 s2" "tcCfg tc2 = tcCfg tc1"
      using proceedsE [OF sts] .
    show "\<exists>oc tc' s'. run_stages (st # sts) (tc, s) = Some (oc, tc', s') \<and> appends P s s' \<and> tcCfg tc' = tcCfg tc"
      using 1 2 appends_trans [OF 1(2) 2(2)] by (cases oc) auto
  qed
qed (simp add: proceeds_def)

lemma proceeds_success [stage_intros]: "operates P f \<Longrightarrow> proceeds P (Expect_success f)"
  unfolding proceeds_def operates_def Expect_success_def by (metis (no_types, lifting) case_prod_conv surj_pair)

lemma proceeds_skip [stage_intros]:
  "operates P f \<Longrightarrow> proceeds P (Skip_if f msg)" "operates P f \<Longrightarrow> proceeds P (Skip_unless f msg)"
  unfolding proceeds_def operates_def Skip_if_def Skip_unless_def by (metis (no_types, lifting) case_prod_conv surj_pair)+

lemma proceeds_eventually [stage_intros]: "operates P f \<Longrightarrow> proceeds P (Eventually_succeeds f)"
  unfolding proceeds_def operates_def Eventually_succeeds_def by (metis surj_pair)

lemma proceeds_that [stage_intros]: "proceeds P (Expect_that Q)"
  by (simp add: proceeds_def Expect_that_def)

lemma proceeds_verified [stage_intros]: "proceeds P (Expect_verified client view check)"
  by (simp add: proceeds_def Expect_verified_def)

lemma proceeds_without_cluster [stage_intros]: "proceeds P (Skip_without_cluster msg)"
  unfolding Skip_without_cluster_def by (rule proceeds_skip) (simp add: operates_def)

lemma proceeds_without_target [stage_intros]: "proceeds P (Skip_without_target msg)"
  unfolding Skip_without_target_def by (rule proceeds_skip) (simp add: operates_def)

lemma operates_on_sys [stage_intros]: "(\<And>s r s'. f s = (r, s') \<Longrightarrow> appends P s s') \<Longrightarrow> operates P (on_sys f)"
  by (auto simp: operates_def on_sys_def split: prod.splits)

lemma operates_of_cluster [stage_intros]:
  "(\<And>cluster s r s'. f cluster s = (r, s') \<Longrightarrow> appends P s s') \<Longrightarrow> operates P (of_cluster f)"
  by (auto simp: operates_def of_cluster_def on_sys_def split: prod.splits)

subsection \<open>Operations that only read\<close>

fun changes :: "ocm_event \<Rightarrow> bool" where
  "changes (EvAddCluster _ _) = True"
| "changes (EvRemoveCluster _ _) = True"
| "changes (EvUpgrade _ _ _) = True"
| "changes _ = False"

abbreviation reads :: "ocm_event \<Rightarrow> bool" where
  "reads e \<equiv> \<not> changes e"

lemma verify_cluster_state_reads:
  "verify_cluster_state st conn cluster s = (r, s') \<Longrightarrow> appends reads s s'"
  by (auto simp: verify_cluster_state_def appends_def dest!: hist_call split: prod.splits sum.splits)

lemma VerifyClusterReady_reads: "VerifyClusterReady conn cluster s = (r, s') \<Longrightarrow> appends reads s s'"
  unfolding VerifyClusterReady_def by (rule verify_cluster_state_reads)

lemma VerifyMachinePoolsExist_reads: "VerifyMachinePoolsExist conn cluster s = (r, s') \<Longrightarrow> appends reads s s'"
  by (auto simp: VerifyMachinePoolsExist_def appends_def dest!: hist_call split: prod.splits sum.splits)

lemma resolveKubeconfig_reads: "resolveKubeconfig dp env cluster s = (r, s') \<Longrightarrow> appends reads s s'"
  by (auto simp: resolveKubeconfig_def GetClusterCredentials_def Let_def appends_def dest!: hist_call
      split: if_splits prod.splits sum.splits)

lemma Topology_reads:
  assumes "Topology dp tc s = (t, tc', s')"
  shows "appends reads s s' \<and> tcCfg tc' = tcCfg tc"
  using Topology_run [OF assms] by (auto intro: appends_weaken)

lemma operates_topology [stage_intros]:
  "operates reads (\<lambda>(tc, s). IsClassic dp tc s)" "operates reads (\<lambda>(tc, s). IsOSDGCP dp tc s)"
  using Topology_reads by (fastforce simp: operates_def IsClassic_def IsOSDGCP_def split: prod.splits)+

lemma InitHCClients_reads [stage_intros]: "operates reads (\<lambda>(tc, s). InitHCClients dp tc s)"
  by (auto simp: operates_def InitHCClients_def dest: resolveKubeconfig_reads split: prod.splits sum.splits)

lemma InitSCClients_reads [stage_intros]: "operates reads (\<lambda>(tc, s). InitSCClients dp tc s)"
  by (auto simp: operates_def InitSCClients_def dest: resolveKubeconfig_reads split: prod.splits sum.splits)

lemma management_cluster_id_reads: "management_cluster_id dp cfg s = (r, s') \<Longrightarrow> appends reads s s'"
  by (auto simp: management_cluster_id_def ResolveManagementClusterID_def Let_def appends_def dest!: hist_call
      split: if_splits prod.splits sum.splits)

lemma init_namespaces_reads:
  assumes "init_namespaces dp d tc s = (tc', s')"
  shows "appends reads s s' \<and> tcCfg tc' = tcCfg tc"
proof -
  obtain t tc1 s1 where t: "Topology dp tc s = (t, tc1, s1)" by (cases "Topology dp tc s")
  obtain cn s2 where n: "resolveClusterName (tcConn dp) (ClusterID (tcCfg tc1)) s1 = (cn, s2)"
    by (cases "resolveClusterName (tcConn dp) (ClusterID (tcCfg tc1)) s1")
  obtain r s3 where h: "ResolveHCPNamespaces (ListHostedClusters dp d) cn (ClusterID (tcCfg tc1)) s2 = (r, s3)"
    by (cases "ResolveHCPNamespaces (ListHostedClusters dp d) cn (ClusterID (tcCfg tc1)) s2")
  have a1: "appends reads s s1" "tcCfg tc1 = tcCfg tc" using Topology_reads [OF t] by auto
  have a2: "appends reads s1 s2"
    using n by (auto simp: resolveClusterName_def appends_def dest!: hist_call split: prod.splits sum.splits)
  have a3: "appends reads s2 s3"
    using h by (auto simp: ResolveHCPNamespaces_def appends_def dest!: hist_call
        split: prod.splits sum.splits option.splits)
  have "(s' = s \<or> s' = s1 \<or> s' = s3) \<and> tcCfg tc' = tcCfg tc"
    using assms t n h a1(2) by (auto simp: init_namespaces_def split: sum.splits if_splits)
  with a1(1) appends_trans [OF a1(1) appends_trans [OF a2 a3]] show ?thesis by auto
qed

lemma InitMCClients_reads [stage_intros]: "operates reads (\<lambda>(tc, s). InitMCClients dp tc s)"
proof -
  have "appends reads s s' \<and> tcCfg tc' = tcCfg tc" if run: "InitMCClients dp tc s = (r, tc', s')" for tc s r tc' s'
  proof -
    obtain m s1 where m: "management_cluster_id dp (tcCfg tc) s = (m, s1)"
      by (cases "management_cluster_id dp (tcCfg tc) s")
    obtain k s2 where k: "resolveKubeconfig dp ''MC_KUBECONFIG'' (case m of Inr i \<Rightarrow> i) s1 = (k, s2)"
      by (cases "resolveKubeconfig dp ''MC_KUBECONFIG'' (case m of Inr i \<Rightarrow> i) s1")
    have a1: "appends reads s s1" by (rule management_cluster_id_reads [OF m])
    have a2: "appends reads s s2" by (rule appends_trans [OF a1 resolveKubeconfig_reads [OF k]])
    show ?thesis
    proof (cases "\<exists>mcID restCfg. m = Inr mcID \<and> k = Inr restCfg")
      case False
      with run m k a1 a2 show ?thesis by (auto simp: InitMCClients_def split: sum.splits prod.splits)
    next
      case True
      then obtain restCfg where ok: "m = Inr (case m of Inr i \<Rightarrow> i)" "k = Inr restCfg" by auto
      obtain err kube dyn where c: "new_clients dp ''MC'' restCfg = (err, kube, dyn)"
        by (cases "new_clients dp ''MC'' restCfg")
      define tc1 where "tc1 = tc\<lparr>mcRestConfig := Some restCfg, mcKubeClient := set_if kube (mcKubeClient tc),
          mcDynamicClient := set_if dyn (mcDynamicClient tc)\<rparr>"
      have cfg: "tcCfg tc1 = tcCfg tc" by (simp add: tc1_def)
      have "(tc' = tc1 \<and> s' = s2) \<or> (\<exists>d. init_namespaces dp d tc1 s2 = (tc', s'))"
        using run m k ok c
        by (auto simp: InitMCClients_def tc1_def Let_def split: option.splits prod.splits sum.splits)
      with a2 cfg show ?thesis by (auto dest!: init_namespaces_reads intro: appends_trans)
    qed
  qed
  then show ?thesis by (auto simp: operates_def)
qed

lemma run_verifiers_hist: "run_verifiers en kube checks s = (r, s') \<Longrightarrow> hist s' = hist s"
  by (auto simp: run_verifiers_def split: prod.splits)

lemma eventually_run_appends:
  "eventually_run f s r s' \<Longrightarrow> (\<And>s r s'. f s = (r, s') \<Longrightarrow> appends P s s') \<Longrightarrow> appends P s s'"
proof (induction rule: eventually_run.induct)
  case (retries s oc s1 s2 r s')
  have "appends P s s1" using retries by blast
  moreover have "appends P s1 s2" using retries.hyps by (simp add: idle_def appends_same)
  ultimately show ?case using retries appends_trans by blast
qed (auto simp: idle_def appends_def)

lemma Eventually_appends:
  assumes "eventually_contract ev" and "\<And>s r s'. f s = (r, s') \<Longrightarrow> appends P s s'" and "ev t p f s = (r, s')"
  shows "appends P s s'"
  using assms eventually_run_appends [of f s r s' P] unfolding eventually_contract_def by blast

lemma nodes_eventually_reads:
  assumes ev: "eventually_contract (Eventually en)"
  shows "proceeds reads (Expect_nodes_eventually en)"
proof -
  have "operates reads (on_sys (Eventually en t p (\<lambda>s. case run_verifiers en kube ready_check s of
      (err, s1) \<Rightarrow> (outcome_of err, s1))))" for t p kube
    by (rule operates_on_sys, rule Eventually_appends [OF ev])
      (auto simp: appends_same run_verifiers_hist split: prod.splits)
  then have "proceeds reads (Eventually_succeeds (on_sys (Eventually en t p
      (\<lambda>s. case run_verifiers en kube ready_check s of (err, s1) \<Rightarrow> (outcome_of err, s1)))))" for t p kube
    by (rule proceeds_eventually)
  then show ?thesis
    unfolding proceeds_def Expect_nodes_eventually_def by (fastforce split: option.splits)
qed

subsection \<open>Specs that look at a cluster\<close>

definition monitoring_specs where
  "monitoring_specs en =
     [existing_hcp en, existing_classic en, existing_osd_gcp en, operators_after_upgrade en, managed_operators en,
      hcp_deployments_healthy en, hosted_cluster_healthy en, node_pools_healthy en, route_monitors en,
      audit_webhook en, capi_provider en, hypershift_operator en, external_dns en,
      acm_hub en, cert_manager en, hive_controllers en, mce_components en]"

lemmas monitoring_defs =
  existing_hcp_def existing_classic_def existing_osd_gcp_def operators_after_upgrade_def managed_operators_def
  hcp_deployments_healthy_def hosted_cluster_healthy_def node_pools_healthy_def route_monitors_def
  audit_webhook_def capi_provider_def hypershift_operator_def external_dns_def
  acm_hub_def cert_manager_def hive_controllers_def mce_components_def
  hosted_cluster_spec_def management_spec_def service_spec_def

lemma monitoring_proceeds:
  assumes ev: "eventually_contract (Eventually en)" and "sts \<in> set (monitoring_specs en)"
  shows "list_all (proceeds reads) sts"
proof -
  have access: "operates reads (\<lambda>(tc, s). (b tc, tc, s))" for b by (simp add: operates_def)
  note intros = access stage_intros nodes_eventually_reads [OF ev]
  have "list_all (list_all (proceeds reads)) (monitoring_specs en)"
    by (simp only: monitoring_specs_def monitoring_defs list.pred_inject)
      (intro conjI TrueI intros; erule VerifyClusterReady_reads VerifyMachinePoolsExist_reads)
  with assms(2) show ?thesis by (simp add: list_all_iff)
qed

text \<open>
  C16: the specs that look at an existing cluster, its management cluster or its service
  cluster always return; they never create, delete or upgrade a cluster, whatever the
  services answer, and leave the configuration that all specs share as it is.
\<close>

theorem monitoring_specs_read_only:
  assumes "eventually_contract (Eventually en)" and "sts \<in> set (monitoring_specs en)"
  shows "\<exists>oc tc s' evs. It_stages sts cfg s = Some (oc, tc, s') \<and> hist s' = hist s @ evs \<and>
     list_all (\<lambda>e. case e of EvAddCluster _ _ \<Rightarrow> False | EvRemoveCluster _ _ \<Rightarrow> False | EvUpgrade _ _ _ \<Rightarrow> False
                   | _ \<Rightarrow> True) evs \<and> tcCfg tc = cfg"
proof -
  have "proceeds reads (run_stages sts)"
    by (rule proceeds_stages [OF monitoring_proceeds [OF assms]])
  then obtain oc tc s' where run: "It_stages sts cfg s = Some (oc, tc, s')" "appends reads s s'" "tcCfg tc = cfg"
    unfolding It_stages_def by (rule proceedsE [where tc = "NewTestContext cfg" and s = s]) (simp add: NewTestContext_def)
  have "reads e = (case e of EvAddCluster _ _ \<Rightarrow> False | EvRemoveCluster _ _ \<Rightarrow> False | EvUpgrade _ _ _ \<Rightarrow> False
      | _ \<Rightarrow> True)" for e by (cases e) simp_all
  then show ?thesis using run by (auto simp: appends_def)
qed

subsection \<open>Stages that pass\<close>

lemma run_stages_Pass [simp]:
  "run_stages (st # sts) s = Some (Pass, s') \<longleftrightarrow> (\<exists>s1. st s = Some (Pass, s1) \<and> run_stages sts s1 = Some (Pass, s'))"
  by (auto split: option.splits prod.splits outcome.splits)

lemma outcome_of_Pass [simp]: "outcome_of err = Pass \<longleftrightarrow> err = None"
  by (simp add: outcome_of_def split: option.splits)

lemma Expect_success_Pass: "Expect_success f s = Some (Pass, s') \<longleftrightarrow> f s = (None, s')"
  by (auto simp: Expect_success_def split: prod.splits)

lemma Expect_return_Pass: "Expect_return f s = Some (Pass, s') \<longleftrightarrow> f s = Some (None, s')"
  by (auto simp: Expect_return_def split: option.splits prod.splits)

lemma on_sys_eq: "on_sys f (tc, s) = (r, x) \<longleftrightarrow> (\<exists>s1. f s = (r, s1) \<and> x = (tc, s1))"
  by (auto simp: on_sys_def split: prod.splits)

lemma on_sys_loop_eq: "on_sys_loop f (tc, s) = Some (r, x) \<longleftrightarrow> (\<exists>s1. f s = Some (r, s1) \<and> x = (tc, s1))"
  by (auto simp: on_sys_loop_def split: option.splits prod.splits)

lemmas stage_passes = Expect_success_Pass Expect_return_Pass on_sys_eq on_sys_loop_eq

subsection \<open>The hosted cluster of a spec\<close>

lemma Skip_unless_Skip:
  "run_stages (Skip_unless (\<lambda>(tc, s). (b tc, tc, s)) msg # sts) (tc, s) =
     (if b tc then run_stages sts (tc, s) else Some (Skip msg, tc, s))"
  by (simp add: Skip_unless_def)

lemma Expect_verified_Pass:
  "Expect_verified client view check (tc, s) = Some (Pass, x) \<longleftrightarrow>
     (\<exists>c. client tc = Some c \<and> check tc (view c (ext s)) = None) \<and> x = (tc, s)"
  by (auto simp: Expect_verified_def split: option.splits)

lemma Expect_that_Pass: "Expect_that P s = Some (Pass, x) \<longleftrightarrow> P s \<and> x = s"
  by (auto simp: Expect_that_def)

text \<open>
  C32: the spec on the health of the hosted cluster is skipped, without a request, exactly if
  no management cluster is configured. It passes exactly if the management clients could be
  made, the namespaces of the cluster were found, and the HostedCluster object in them has
  readable conditions, of which Available occurs and is always True, and Degraded occurs and
  is always False.
\<close>

theorem hosted_cluster_healthy_outcome:
  "((\<exists>msg. It_stages (hosted_cluster_healthy en) cfg s = Some (Skip msg, NewTestContext cfg, s)) \<longleftrightarrow>
      Getenv (suiteDeps en) ''MC_KUBECONFIG'' = [] \<and> ManagementClusterID cfg = []) \<and>
   (It_stages (hosted_cluster_healthy en) cfg s = Some (Pass, tc, s') \<longleftrightarrow>
      \<not> (Getenv (suiteDeps en) ''MC_KUBECONFIG'' = [] \<and> ManagementClusterID cfg = []) \<and>
      InitMCClients (suiteDeps en) (NewTestContext cfg) s = (None, tc, s') \<and>
      (\<exists>ns dyn hc conds. hcpNamespaces tc = Some ns \<and> mcDynamicClient tc = Some dyn \<and>
         ResourceGet (dynView en dyn (ext s')) hostedClusterGVR (HCNamespace ns) (HCClusterName ns) = Inr hc \<and>
         nestedSlice en (uObject hc) [''status'', ''conditions''] = Inr (Some conds) \<and>
         statuses ''Available'' conds \<noteq> [] \<and> list_all (\<lambda>st. st = ''True'') (statuses ''Available'' conds) \<and>
         statuses ''Degraded'' conds \<noteq> [] \<and> list_all (\<lambda>st. st = ''False'') (statuses ''Degraded'' conds)))"
proof -
  have tc0: "tcCfg (NewTestContext cfg) = cfg" by (simp add: NewTestContext_def)
  let ?rest = "[Expect_success (\<lambda>(tc, s). InitMCClients (suiteDeps en) tc s), Expect_that (\<lambda>(tc, s). hcpNamespaces tc \<noteq> None),
      Expect_verified mcDynamicClient (dynView en) (in_namespaces (\<lambda>ns dyn.
        VerifyHostedClusterHealthy (nestedSlice en) dyn (HCNamespace ns) (HCClusterName ns)))]"
  have run: "It_stages (hosted_cluster_healthy en) cfg s =
      (if Getenv (suiteDeps en) ''MC_KUBECONFIG'' \<noteq> [] \<or> ManagementClusterID cfg \<noteq> [] then run_stages ?rest (NewTestContext cfg, s)
       else Some (Skip ''MANAGEMENT_CLUSTER_ID not configured, skipping HostedCluster CR test'', NewTestContext cfg, s))"
    by (simp only: It_stages_def hosted_cluster_healthy_def hosted_cluster_spec_def Skip_unless_Skip HasMCAccess_def tc0)
  have "run_stages ?rest x \<noteq> Some (Skip msg, y)" for x msg y
    by (auto simp: Expect_success_def Expect_that_def Expect_verified_def outcome_of_def
        split: prod.splits option.splits if_splits)
  moreover have "run_stages ?rest (NewTestContext cfg, s) = Some (Pass, tc, s') \<longleftrightarrow>
      InitMCClients (suiteDeps en) (NewTestContext cfg) s = (None, tc, s') \<and>
      (\<exists>ns dyn. hcpNamespaces tc = Some ns \<and> mcDynamicClient tc = Some dyn \<and>
         VerifyHostedClusterHealthy (nestedSlice en) (dynView en dyn (ext s')) (HCNamespace ns) (HCClusterName ns) = None)"
    unfolding run_stages_Pass run_stages.simps(1)
    by (auto simp: Expect_success_Pass Expect_that_Pass Expect_verified_Pass in_namespaces_def)
  ultimately show ?thesis
    unfolding run VerifyHostedClusterHealthy_nil_iff by auto
qed

end
