(* ===== verification/LifecycleProperties.thy ===== *)
theory LifecycleProperties
  imports SpecProperties
begin

text \<open>
  The specs that create and upgrade clusters. A cluster that a lifecycle spec creates is
  asked to be deleted at its end, whatever happened in between; a lifecycle spec that passes
  has seen the cluster ready, its nodes healthy and the deletion begun; an upgrade spec asks
  for at most one upgrade.
\<close>

subsection \<open>What the operations have read when they succeed\<close>

lemma cluster_state_nil:
  "verify_cluster_state st conn cluster s = (None, s') \<Longrightarrow>
     \<exists>c. hist s' = hist s @ [EvGetCluster cluster (Inr c)] \<and> ClusterState c = st"
  by (auto simp: verify_cluster_state_def dest!: hist_call split: prod.splits sum.splits if_splits)

lemma WaitForClusterReady_returns:
  assumes "fair rt m" and "\<And>w. m (snd (GetCluster conn cluster w)) \<le> m w"
  shows "\<exists>r s'. WaitForClusterReady rt conn cluster timeout s = Some (r, s')"
proof -
  have "0 < pollInterval" by (simp add: pollInterval_def)
  from ready_wait.ticker_returns [OF this assms(1), of conn cluster] assms(2) show ?thesis
    unfolding WaitForClusterReady_def Let_def ready_probe_ext by blast
qed

lemma WaitForClusterReady_run:
  assumes "WaitForClusterReady rt conn cluster timeout s = Some (r, s')"
  shows "\<exists>resps. hist s' = hist s @ map (EvGetCluster cluster) resps \<and>
    (r = None \<longrightarrow> (\<exists>seen c. resps = seen @ [Inr c] \<and> ClusterState c = ClusterStateReady))"
proof -
  from ready_wait.ticker_run [OF assms [unfolded WaitForClusterReady_def Let_def]] obtain resps rest where
    h: "hist s' = hist s @ map (EvGetCluster cluster) resps" and
    p: "polled (ready_verdict cluster) rest resps r" and no: "r = None \<Longrightarrow> \<not> rest r" by fastforce
  have "\<exists>seen c. resps = seen @ [Inr c] \<and> ClusterState c = ClusterStateReady" if "r = None"
    using polled_result [OF p no [OF that]] ready_verdict_nil that by metis
  with h show ?thesis by blast
qed

text \<open>A cluster seen through a client: all nodes ready, and as many workers as configured.\<close>

definition nodes_healthy :: "kube_client \<Rightarrow> int \<Rightarrow> bool" where
  "nodes_healthy kube computeNodes \<longleftrightarrow>
    (\<exists>nodes workers. NodeList kube [] = Inr nodes \<and> nodes \<noteq> [] \<and>
       list_all (\<lambda>n. (''Ready'', ''True'') \<in> set (nodeConditions n)) nodes \<and>
       NodeList kube ''node-role.kubernetes.io/worker'' = Inr workers \<and> int (length workers) = computeNodes)"

lemma node_checks_spec:
  "list_all (\<lambda>v. snd v = None) (node_checks kube computeNodes) \<longleftrightarrow> nodes_healthy kube computeNodes"
  by (auto simp: node_checks_def nodes_healthy_def verifyAllNodesReady_spec verifyNodeCount_def
      split: sum.splits if_splits)

lemma run_verifiers_nil:
  assumes "schedule_contract (Schedule en)" and "run_verifiers en kube checks s = (None, s')"
  shows "list_all (\<lambda>v. snd v = None) (checks (kubeView en kube (ext s)))"
proof -
  let ?vs = "checks (kubeView en kube (ext s))"
  from assms(1) obtain p where "reachable ?vs p" "joined p = Some (fst (fst (Schedule en ?vs (ext s))))"
    unfolding schedule_contract_def by blast
  moreover from assms(2) have "fst (fst (Schedule en ?vs (ext s))) = None"
    by (auto simp: run_verifiers_def split: prod.splits)
  ultimately show ?thesis using finished_nil_iff by metis
qed

lemma verify_new_cluster_nil:
  assumes "schedule_contract (Schedule en)" and "verify_new_cluster en cluster (tc, s) = (None, tc', s')"
  shows "\<exists>kubeconfig kube w. hist s' = hist s @ [EvCredentials cluster (Inr kubeconfig)] \<and>
    nodes_healthy (kubeView en kube w) (ComputeNodes (tcCfg tc)) \<and> tc' = tc"
proof -
  obtain rest s1 where g: "GetClusterCredentials (RESTConfigFromKubeConfig (suiteDeps en)) (suiteConn en) cluster s = (Inr rest, s1)"
    using assms(2) by (auto simp: verify_new_cluster_def split: prod.splits sum.splits)
  then obtain kubeconfig where h1: "hist s1 = hist s @ [EvCredentials cluster (Inr kubeconfig)]"
    by (auto simp: GetClusterCredentials_def dest!: hist_call split: prod.splits sum.splits if_splits)
  obtain kube where "NewKubeClient (kubeNewForConfig (suiteDeps en)) rest = Inr kube"
    and r: "run_verifiers en kube (\<lambda>k. node_checks k (ComputeNodes (tcCfg tc))) s1 = (None, s')" "tc' = tc"
    using assms(2) g by (auto simp: verify_new_cluster_def on_sys_eq split: sum.splits)
  from run_verifiers_nil [OF assms(1) r(1)] have "nodes_healthy (kubeView en kube (ext s1)) (ComputeNodes (tcCfg tc))"
    by (simp add: node_checks_spec)
  with h1 run_verifiers_hist [OF r(1)] r(2) show ?thesis by auto
qed

lemma DeleteCluster_run:
  "DeleteCluster conn cluster s = (r, s') \<Longrightarrow>
     \<exists>answer. hist s' = hist s @ [EvRemoveCluster cluster answer] \<and> (r = None \<longleftrightarrow> answer = None)"
  by (auto simp: DeleteCluster_def dest!: hist_call split: prod.splits option.splits)

lemma delete_deferred_hist: "\<exists>answer. hist (delete_deferred en cluster s) = hist s @ [EvRemoveCluster cluster answer]"
  using DeleteCluster_run [of "suiteConn en" cluster s]
  by (auto simp: delete_deferred_def split: prod.splits option.splits)

subsection \<open>A created cluster\<close>

lemma creates_changes: "reads e \<Longrightarrow> \<not> creates e"
  by (cases e) auto

lemma proceeds_return [stage_intros]:
  "(\<And>s. \<exists>r s'. f s = Some (r, s') \<and> appends P s s') \<Longrightarrow> proceeds P (Expect_return (on_sys_loop f))"
proof -
  assume f: "\<And>s. \<exists>r s'. f s = Some (r, s') \<and> appends P s s'"
  have "\<exists>oc tc' s'. Expect_return (on_sys_loop f) (tc, s) = Some (oc, tc', s') \<and> appends P s s' \<and> tcCfg tc' = tcCfg tc" for tc s
  proof -
    from f obtain r s' where "f s = Some (r, s')" "appends P s s'" by blast
    then show ?thesis by (simp add: Expect_return_def on_sys_loop_def)
  qed
  then show ?thesis unfolding proceeds_def by blast
qed

lemma DeleteCluster_creates_none:
  "DeleteCluster conn cluster s = (r, s') \<Longrightarrow> appends (\<lambda>e. \<not> creates e) s s'"
  by (auto simp: appends_def dest!: DeleteCluster_run)

lemma GetClusterCredentials_reads:
  "GetClusterCredentials parse conn cluster s = (r, s') \<Longrightarrow> appends reads s s'"
  by (auto simp: GetClusterCredentials_def appends_def dest!: hist_call split: prod.splits sum.splits if_splits)

lemma verify_new_cluster_reads: "operates reads (verify_new_cluster en cluster)"
proof -
  have "appends reads s s' \<and> tcCfg tc' = tcCfg tc" if run: "verify_new_cluster en cluster (tc, s) = (r, tc', s')" for tc s r tc' s'
  proof -
    obtain g s1 where g: "GetClusterCredentials (RESTConfigFromKubeConfig (suiteDeps en)) (suiteConn en) cluster s = (g, s1)"
      by (cases "GetClusterCredentials (RESTConfigFromKubeConfig (suiteDeps en)) (suiteConn en) cluster s")
    with run have "hist s' = hist s1" "tc' = tc"
      by (auto simp: verify_new_cluster_def on_sys_eq dest: run_verifiers_hist split: sum.splits)
    with GetClusterCredentials_reads [OF g] show ?thesis by (simp add: appends_def)
  qed
  then show ?thesis unfolding operates_def by blast
qed

lemma proceeds_weaken: "proceeds P st \<Longrightarrow> (\<And>e. P e \<Longrightarrow> Q e) \<Longrightarrow> proceeds Q st"
  unfolding proceeds_def by (meson appends_weaken)

lemma proceeds_creates_none: "proceeds reads st \<Longrightarrow> proceeds (\<lambda>e. \<not> creates e) st"
  by (erule proceeds_weaken) (rule creates_changes)

lemma lifecycle_proceeds:
  assumes "fair (suiteRuntime en) m" and "\<And>c w. m (snd (GetCluster (suiteConn en) c w)) \<le> m w"
  shows "proceeds (\<lambda>e. \<not> creates e) (run_stages (lifecycle_stages en cluster timeout))"
proof -
  have wait: "\<exists>r s'. WaitForClusterReady (suiteRuntime en) (suiteConn en) cluster timeout s = Some (r, s') \<and>
      appends reads s s'" for s
  proof -
    obtain r s' where run: "WaitForClusterReady (suiteRuntime en) (suiteConn en) cluster timeout s = Some (r, s')"
      using WaitForClusterReady_returns [OF assms] by blast
    from WaitForClusterReady_run [OF run] run show ?thesis by (auto simp: appends_def list_all_iff)
  qed
  have r1: "proceeds reads (Expect_return (on_sys_loop (WaitForClusterReady (suiteRuntime en) (suiteConn en) cluster timeout)))"
    by (rule proceeds_return [OF wait])
  have r2: "proceeds reads (Expect_success (on_sys (VerifyClusterReady (suiteConn en) cluster)))"
    by (rule proceeds_success, rule operates_on_sys, rule VerifyClusterReady_reads)
  have r3: "proceeds reads (Expect_success (verify_new_cluster en cluster))"
    by (rule proceeds_success [OF verify_new_cluster_reads])
  have r4: "proceeds reads (Expect_success (on_sys (VerifyClusterDeleting (suiteConn en) cluster)))"
    by (rule proceeds_success, rule operates_on_sys) (simp add: VerifyClusterDeleting_def verify_cluster_state_reads)
  have "proceeds (\<lambda>e. \<not> creates e) (Expect_success (on_sys (DeleteCluster (suiteConn en) cluster)))"
    by (intro stage_intros) (rule DeleteCluster_creates_none)
  with r1 [THEN proceeds_creates_none] r2 [THEN proceeds_creates_none] r3 [THEN proceeds_creates_none]
    r4 [THEN proceeds_creates_none] show ?thesis
    by (intro proceeds_stages) (simp add: lifecycle_stages_def)
qed

text \<open>What a body has created, and what it has deferred for it.\<close>

lemma created_last:
  assumes "created_once good evs r"
  shows "length (filter creates evs) \<le> 1 \<and>
    (\<forall>sp i. EvAddCluster sp (Inr i) \<in> set evs \<longrightarrow> r = Inr i) \<and>
    (\<forall>i. r = Inr i \<longrightarrow> (\<exists>pre sp. evs = pre @ [EvAddCluster sp (Inr i)] \<and> list_all (\<lambda>e. \<not> creates e) pre))"
proof -
  from assms obtain pre post where evs: "evs = pre @ post" and pre: "list_all (\<lambda>e. \<not> creates e) pre"
    and post: "post = [] \<and> (\<exists>e. r = Inl e) \<or>
       (\<exists>sp answer. post = [EvAddCluster sp answer] \<and> good sp \<and> (\<forall>i. r = Inr i \<longleftrightarrow> answer = Inr i))"
    unfolding created_once_def by blast
  have "filter creates pre = []" "\<forall>sp a. EvAddCluster sp a \<notin> set pre"
    using pre by (auto simp: list_all_iff filter_empty_conv)
  with evs pre post show ?thesis by auto
qed

definition lifecycle_specs where
  "lifecycle_specs = [hcp_lifecycle, classic_lifecycle]"

text \<open>A body either ends without a cluster, or has created one and goes on with it.\<close>

definition ends_without_cluster ::
  "Config \<Rightarrow> 'w ocm_sys \<Rightarrow> (outcome \<times> ('w ocm_sys \<Rightarrow> 'w ocm_sys) list \<times> ('rest, 'kube, 'dyn, 'ec2, 'ct) TestContext \<times> 'w ocm_sys) option \<Rightarrow>
   bool" where
  "ends_without_cluster cfg s res \<longleftrightarrow>
     (\<exists>oc tc s1 evs. res = Some (oc, [], tc, s1) \<and> hist s1 = hist s @ evs \<and> oc \<noteq> Pass \<and>
        (\<forall>sp i. EvAddCluster sp (Inr i) \<notin> set evs) \<and> length (filter creates evs) \<le> 1 \<and>
        (ClusterID cfg \<noteq> [] \<longrightarrow> evs = []))"

definition goes_on_with_cluster where
  "goes_on_with_cluster en cfg s res \<longleftrightarrow>
     (\<exists>pre sp cluster created timeout tc s1. hist s1 = hist s @ pre @ [EvAddCluster sp (Inr cluster)] \<and>
        list_all (\<lambda>e. \<not> creates e) pre \<and> ClusterID cfg = [] \<and> ComputeNodes (tcCfg tc) = ComputeNodes cfg \<and>
        res = after_creation en created cluster timeout tc s1)"

lemma created_appends: "created_once good evs r \<Longrightarrow> hist s' = hist s @ evs \<Longrightarrow> r = Inr i \<Longrightarrow>
    \<exists>pre sp. hist s' = hist s @ pre @ [EvAddCluster sp (Inr i)] \<and> list_all (\<lambda>e. \<not> creates e) pre"
  using created_last [of good evs r] by auto

lemma skipped_body:
  "ends_without_cluster cfg s (Some (Skip msg, [], tc, s))"
  by (auto simp: ends_without_cluster_def)

lemma failed_body:
  assumes "created_once good evs (Inl e)" and "hist s1 = hist s @ evs" and "ClusterID cfg = []"
  shows "ends_without_cluster cfg s (Some (Fail x, [], tc, s1))"
  using created_last [OF assms(1)] assms(2,3) by (auto simp: ends_without_cluster_def)

lemma created_body:
  assumes "created_once good evs (Inr i)" and "hist s1 = hist s @ evs" and "ClusterID cfg = []"
    and "ComputeNodes (tcCfg tc) = ComputeNodes cfg"
  shows "goes_on_with_cluster en cfg s (after_creation en created i timeout tc s1)"
proof -
  from created_appends [OF assms(1,2) refl] obtain pre sp where
    "hist s1 = hist s @ pre @ [EvAddCluster sp (Inr i)]" "list_all (\<lambda>e. \<not> creates e) pre" by blast
  with assms(3,4) show ?thesis unfolding goes_on_with_cluster_def by blast
qed

lemma hcp_lifecycle_body:
  "ends_without_cluster cfg s (hcp_lifecycle en cfg s) \<or> goes_on_with_cluster en cfg s (hcp_lifecycle en cfg s)"
proof (cases "ClusterID cfg = []")
  case False
  then show ?thesis by (simp add: hcp_lifecycle_def skipped_body)
next
  case True
  obtain r cfg1 s1 where c: "CreateRosaHCPCluster (suiteClock en) (suiteConn en) cfg s = (r, cfg1, s1)"
    by (cases "CreateRosaHCPCluster (suiteClock en) (suiteConn en) cfg s")
  obtain evs where h: "hist s1 = hist s @ evs" using CreateRosaHCPCluster_appends [OF c] by blast
  note once = CreateRosaHCPCluster_run [OF c h]
  have tc: "tcCfg (NewTestContext cfg) = cfg" by (simp add: NewTestContext_def)
  show ?thesis
  proof (cases r)
    case (Inl e)
    have eq: "hcp_lifecycle en cfg s = Some (Fail (Some e), [], (NewTestContext cfg)\<lparr>tcCfg := cfg1\<rparr>, s1)"
      using True c Inl by (simp add: hcp_lifecycle_def tc)
    show ?thesis unfolding eq by (rule disjI1) (rule failed_body [OF once [unfolded Inl] h True])
  next
    case (Inr i)
    have "pinned_to cfg cfg1" using once Inr by (auto simp: created_once_def)
    then have cn: "ComputeNodes (tcCfg ((NewTestContext cfg)\<lparr>tcCfg := cfg1\<rparr>)) = ComputeNodes cfg"
      by (auto simp: pinned_to_def split: if_splits)
    have eq: "hcp_lifecycle en cfg s =
        after_creation en ''Created cluster: %s\<newline>'' i (minutes 45) ((NewTestContext cfg)\<lparr>tcCfg := cfg1\<rparr>) s1"
      using True c Inr by (simp add: hcp_lifecycle_def tc)
    show ?thesis unfolding eq by (rule disjI2) (rule created_body [OF once [unfolded Inr] h True cn])
  qed
qed

lemma classic_lifecycle_body:
  "ends_without_cluster cfg s (classic_lifecycle en cfg s) \<or> goes_on_with_cluster en cfg s (classic_lifecycle en cfg s)"
proof (cases "ClusterID cfg = []")
  case False
  then show ?thesis by (simp add: classic_lifecycle_def skipped_body)
next
  case True
  obtain r s1 where c: "CreateRosaClassicCluster (suiteClock en) (suiteConn en) cfg s = (r, s1)"
    by (cases "CreateRosaClassicCluster (suiteClock en) (suiteConn en) cfg s")
  obtain evs where h: "hist s1 = hist s @ evs" using CreateRosaClassicCluster_appends [OF c] by blast
  note once = CreateRosaClassicCluster_once [OF c h]
  have tc: "tcCfg (NewTestContext cfg) = cfg" by (simp add: NewTestContext_def)
  show ?thesis
  proof (cases r)
    case (Inl e)
    have eq: "classic_lifecycle en cfg s = Some (Fail (Some e), [], NewTestContext cfg, s1)"
      using True c Inl by (simp add: classic_lifecycle_def tc)
    show ?thesis unfolding eq by (rule disjI1) (rule failed_body [OF once [unfolded Inl] h True])
  next
    case (Inr i)
    then have eq: "classic_lifecycle en cfg s =
        after_creation en ''Created Classic cluster: %s\<newline>'' i (minutes 60) (NewTestContext cfg) s1"
      using True c by (simp add: classic_lifecycle_def tc)
    have cn: "ComputeNodes (tcCfg (NewTestContext cfg)) = ComputeNodes cfg" by (simp add: tc)
    show ?thesis unfolding eq by (rule disjI2) (rule created_body [OF once [unfolded Inr] h True cn])
  qed
qed

lemma lifecycle_body:
  assumes "body \<in> set lifecycle_specs"
  shows "ends_without_cluster cfg s (body en cfg s) \<or> goes_on_with_cluster en cfg s (body en cfg s)"
  using assms hcp_lifecycle_body [of cfg s en] classic_lifecycle_body [of cfg s en]
  by (auto simp: lifecycle_specs_def)

lemma deferred_run:
  "deferred_contract rd \<Longrightarrow> rd [] s = s" "deferred_contract rd \<Longrightarrow> rd [f] s = f s"
  by (simp_all add: deferred_contract_def)

text \<open>
  C4: a lifecycle spec, for a hosted or a classic cluster, returns, with any outcome, whatever
  OCM answers. It creates at most one cluster, and none when a cluster is given; and when
  the creation was accepted, the last request of the spec is to delete that cluster.
\<close>

theorem lifecycle_deletes_cluster:
  assumes "fair (suiteRuntime en) m" and "\<And>c w. m (snd (GetCluster (suiteConn en) c w)) \<le> m w"
    and "deferred_contract (RunDeferred en)" and "body \<in> set lifecycle_specs"
  shows "\<exists>oc tc s' evs. It en body cfg s = Some (oc, tc, s') \<and> hist s' = hist s @ evs \<and>
     length (filter creates evs) \<le> 1 \<and> (ClusterID cfg \<noteq> [] \<longrightarrow> evs = []) \<and>
     (\<forall>sp cluster. EvAddCluster sp (Inr cluster) \<in> set evs \<longrightarrow> (\<exists>answer. last evs = EvRemoveCluster cluster answer))"
proof -
  from lifecycle_body [OF assms(4), of cfg s en] show ?thesis
  proof
    assume "ends_without_cluster cfg s (body en cfg s)"
    then show ?thesis
      unfolding ends_without_cluster_def It_def by (auto simp: deferred_run [OF assms(3)])
  next
    assume "goes_on_with_cluster en cfg s (body en cfg s)"
    then obtain pre sp cluster created timeout tc s1 where
      h1: "hist s1 = hist s @ pre @ [EvAddCluster sp (Inr cluster)]" and pre: "list_all (\<lambda>e. \<not> creates e) pre"
      and cfg: "ClusterID cfg = []" and body: "body en cfg s = after_creation en created cluster timeout tc s1"
      unfolding goes_on_with_cluster_def by blast
    obtain oc tc2 s2 where run: "run_stages (lifecycle_stages en cluster timeout) (tc, printf created [AStr cluster] s1) = Some (oc, tc2, s2)"
      and "appends (\<lambda>e. \<not> creates e) (printf created [AStr cluster] s1) s2"
      using proceedsE [OF lifecycle_proceeds [OF assms(1,2)]] by metis
    then obtain mid where mid: "hist s2 = hist s1 @ mid" "list_all (\<lambda>e. \<not> creates e) mid" by (auto simp: appends_def)
    obtain answer where h3: "hist (delete_deferred en cluster s2) = hist s2 @ [EvRemoveCluster cluster answer]"
      using delete_deferred_hist by blast
    let ?evs = "pre @ [EvAddCluster sp (Inr cluster)] @ mid @ [EvRemoveCluster cluster answer]"
    have "It en body cfg s = Some (oc, tc2, delete_deferred en cluster s2)"
      by (simp add: It_def body after_creation_def run deferred_run [OF assms(3)])
    moreover have "hist (delete_deferred en cluster s2) = hist s @ ?evs" using h1 mid(1) h3 by simp
    moreover have none: "filter creates pre = []" "filter creates mid = []"
      using pre mid(2) by (auto simp: list_all_iff filter_empty_conv)
    moreover have "EvAddCluster sp' (Inr i) \<in> set ?evs \<longrightarrow> i = cluster" for sp' i
      using none by (auto simp: filter_empty_conv)
    ultimately show ?thesis
      using cfg by (intro exI [where x = oc] exI [where x = tc2] exI [where x = "delete_deferred en cluster s2"]
          exI [where x = ?evs]) auto
  qed
qed


end
