(* ===== verification/UpgradeProperties.thy ===== *)
theory UpgradeProperties
  imports LifecycleProperties
begin

text \<open>
  The upgrade specs: at most one upgrade is asked for, of the configured cluster and to the
  configured version, and a spec that passes has seen that version.
\<close>

subsection \<open>Traces with at most one upgrade\<close>

fun upgraded_cluster :: "upgrade_target \<Rightarrow> string" where
  "upgraded_cluster (ControlPlaneOf cluster) = cluster"
| "upgraded_cluster (ClusterOf cluster) = cluster"
| "upgraded_cluster (NodePoolOf cluster _) = cluster"

definition upgrade_trace :: "string \<Rightarrow> string \<Rightarrow> ocm_event list \<Rightarrow> bool" where
  "upgrade_trace cluster version evs \<longleftrightarrow>
     (\<exists>pre mid post. evs = pre @ mid @ post \<and> list_all reads pre \<and> list_all reads post \<and>
        (mid = [] \<or> (\<exists>target policy answer. mid = [EvUpgrade target policy answer] \<and>
           upgraded_cluster target = cluster \<and> policyVersion policy = version)))"

lemma reads_trace: "list_all reads evs \<Longrightarrow> upgrade_trace cluster version evs"
  unfolding upgrade_trace_def by (intro exI [where x = evs] exI [where x = "[]"]) simp

lemma trace_around:
  assumes "upgrade_trace cluster version mid" and "list_all reads pre" and "list_all reads post"
  shows "upgrade_trace cluster version (pre @ mid @ post)"
proof -
  from assms(1) obtain a b c where abc: "mid = a @ b @ c" "list_all reads a" "list_all reads c"
    "b = [] \<or> (\<exists>target policy answer. b = [EvUpgrade target policy answer] \<and>
           upgraded_cluster target = cluster \<and> policyVersion policy = version)"
    unfolding upgrade_trace_def by blast
  then show ?thesis
    unfolding upgrade_trace_def using assms(2,3)
    by (intro exI [where x = "pre @ a"] exI [where x = b] exI [where x = "c @ post"]) simp
qed

definition upgrading ::
  "string \<Rightarrow> string \<Rightarrow> ('w, 'rest, 'kube, 'dyn, 'ec2, 'ct) spec_state stage \<Rightarrow> bool" where
  "upgrading cluster version st \<longleftrightarrow>
     (\<forall>tc s. ClusterID (tcCfg tc) = cluster \<longrightarrow> UpgradeTargetVersion (tcCfg tc) = version \<longrightarrow>
        (\<exists>oc tc' s' evs. st (tc, s) = Some (oc, tc', s') \<and> hist s' = hist s @ evs \<and>
           upgrade_trace cluster version evs \<and> tcCfg tc' = tcCfg tc))"

lemma upgradingE:
  assumes "upgrading cluster version st" "ClusterID (tcCfg tc) = cluster" "UpgradeTargetVersion (tcCfg tc) = version"
  obtains oc tc' s' evs where "st (tc, s) = Some (oc, tc', s')" "hist s' = hist s @ evs"
    "upgrade_trace cluster version evs" "tcCfg tc' = tcCfg tc"
  using assms unfolding upgrading_def by blast

lemma upgrading_then:
  fixes st :: "('w, 'rest, 'kube, 'dyn, 'ec2, 'ct) spec_state stage"
  assumes st: "upgrading cluster version st" and post: "list_all (proceeds reads) post"
  shows "upgrading cluster version (run_stages (st # post))"
  unfolding upgrading_def
proof (intro allI impI)
  fix tc :: "('rest, 'kube, 'dyn, 'ec2, 'ct) TestContext" and s :: "'w ocm_sys"
  assume cfg: "ClusterID (tcCfg tc) = cluster" "UpgradeTargetVersion (tcCfg tc) = version"
  obtain oc tc1 s1 evs where 1: "st (tc, s) = Some (oc, tc1, s1)" "hist s1 = hist s @ evs"
    "upgrade_trace cluster version evs" "tcCfg tc1 = tcCfg tc"
    using upgradingE [OF st cfg] .
  obtain oc2 tc2 s2 where 2: "run_stages post (tc1, s1) = Some (oc2, tc2, s2)" "appends reads s1 s2" "tcCfg tc2 = tcCfg tc1"
    using proceedsE [OF proceeds_stages [OF post]] .
  obtain more where more: "hist s2 = hist s1 @ more" "list_all reads more" using 2(2) by (auto simp: appends_def)
  have "upgrade_trace cluster version (evs @ more)" using trace_around [OF 1(3) _ more(2), of "[]"] by simp
  with 1 2 more show "\<exists>oc tc' s' evs. run_stages (st # post) (tc, s) = Some (oc, tc', s') \<and> hist s' = hist s @ evs \<and>
      upgrade_trace cluster version evs \<and> tcCfg tc' = tcCfg tc"
    by (cases oc) auto
qed

lemma upgrading_after:
  fixes st :: "('w, 'rest, 'kube, 'dyn, 'ec2, 'ct) spec_state stage"
  assumes pre: "proceeds reads st" and sts: "upgrading cluster version (run_stages sts)"
  shows "upgrading cluster version (run_stages (st # sts))"
  unfolding upgrading_def
proof (intro allI impI)
  fix tc :: "('rest, 'kube, 'dyn, 'ec2, 'ct) TestContext" and s :: "'w ocm_sys"
  assume cfg: "ClusterID (tcCfg tc) = cluster" "UpgradeTargetVersion (tcCfg tc) = version"
  obtain oc tc1 s1 where 1: "st (tc, s) = Some (oc, tc1, s1)" "appends reads s s1" "tcCfg tc1 = tcCfg tc"
    using proceedsE [OF pre] .
  with cfg have cfg1: "ClusterID (tcCfg tc1) = cluster" "UpgradeTargetVersion (tcCfg tc1) = version" by simp_all
  obtain oc2 tc2 s2 evs where 2: "run_stages sts (tc1, s1) = Some (oc2, tc2, s2)" "hist s2 = hist s1 @ evs"
    "upgrade_trace cluster version evs" "tcCfg tc2 = tcCfg tc1"
    using upgradingE [OF sts cfg1] .
  obtain before where before: "hist s1 = hist s @ before" "list_all reads before" using 1(2) by (auto simp: appends_def)
  have "upgrade_trace cluster version (before @ evs)" using trace_around [OF 2(3) before(2), of "[]"] by simp
  with 1 2 before reads_trace [OF before(2)] show "\<exists>oc tc' s' evs. run_stages (st # sts) (tc, s) = Some (oc, tc', s') \<and>
      hist s' = hist s @ evs \<and> upgrade_trace cluster version evs \<and> tcCfg tc' = tcCfg tc"
    by (cases oc) auto
qed

subsection \<open>The stages of the upgrade specs\<close>

text \<open>A request for an upgrade: it is sent at most once, and was accepted if nil is returned.\<close>

definition requested :: "upgrade_target \<Rightarrow> string \<Rightarrow> 'w ocm_sys \<Rightarrow> go_error option \<times> 'w ocm_sys \<Rightarrow> bool" where
  "requested target version s res \<longleftrightarrow>
     (\<exists>evs policy. hist (snd res) = hist s @ evs \<and> policyVersion policy = version \<and>
        (evs = [] \<or> (\<exists>answer. evs = [EvUpgrade target policy answer])) \<and>
        (fst res = None \<longrightarrow> evs = [EvUpgrade target policy None]))"

lemma initiate_upgrade_requested:
  "requested target (policyVersion policy) s (initiate_upgrade conn target policy buildFmt createFmt s)"
  unfolding requested_def
  by (auto simp: initiate_upgrade_def dest!: hist_call split: prod.splits option.splits)

lemma Initiate_requested:
  "requested (ControlPlaneOf cluster) version s (InitiateControlPlaneUpgrade conn cluster version s)"
  "requested (ClusterOf cluster) version s (InitiateClusterUpgrade conn cluster version s)"
  "requested (NodePoolOf cluster pool) version s (InitiateNodePoolUpgrade conn cluster pool version s)"
proof -
  have *: "requested target version s (case initiate_upgrade conn target (manual_policy version kind s) f1 f2 s of
      (Some e, s1) \<Rightarrow> (Some e, s1) | (None, s1) \<Rightarrow> (None, printf f3 args s1))" for target kind f1 f2 f3 args
    using initiate_upgrade_requested [of target "manual_policy version kind s" s conn f1 f2]
    by (auto simp: requested_def manual_policy_def split: prod.splits option.splits)
  show "requested (ControlPlaneOf cluster) version s (InitiateControlPlaneUpgrade conn cluster version s)"
    "requested (ClusterOf cluster) version s (InitiateClusterUpgrade conn cluster version s)"
    "requested (NodePoolOf cluster pool) version s (InitiateNodePoolUpgrade conn cluster pool version s)"
    unfolding InitiateControlPlaneUpgrade_def InitiateClusterUpgrade_def InitiateNodePoolUpgrade_def by (rule *)+
qed

lemma requested_trace:
  assumes "requested target version s (r, s')" and "upgraded_cluster target = cluster"
  shows "\<exists>evs. hist s' = hist s @ evs \<and> upgrade_trace cluster version evs"
proof -
  from assms(1) obtain evs policy where evs: "hist s' = hist s @ evs" "policyVersion policy = version"
    "evs = [] \<or> (\<exists>answer. evs = [EvUpgrade target policy answer])"
    unfolding requested_def by auto
  then have "upgrade_trace cluster version evs"
    unfolding upgrade_trace_def using assms(2) by (intro exI [where x = "[]"] exI [where x = evs]) auto
  with evs(1) show ?thesis by blast
qed

lemma upgrading_target:
  assumes "\<And>s. requested (target cluster) version s (f cluster version s)" "upgraded_cluster (target cluster) = cluster"
  shows "upgrading cluster version (Expect_success (to_target f))"
  unfolding upgrading_def
proof (intro allI impI)
  fix tc s
  assume cfg: "ClusterID (tcCfg tc) = cluster" "UpgradeTargetVersion (tcCfg tc) = version"
  obtain r s' where f: "f cluster version s = (r, s')" by (cases "f cluster version s")
  with requested_trace [of "target cluster" version s r s' cluster] assms obtain evs where
    "hist s' = hist s @ evs" "upgrade_trace cluster version evs" by metis
  then show "\<exists>oc tc' s' evs. Expect_success (to_target f) (tc, s) = Some (oc, tc', s') \<and> hist s' = hist s @ evs \<and>
      upgrade_trace cluster version evs \<and> tcCfg tc' = tcCfg tc"
    using cfg f by (auto simp: Expect_success_def to_target_def on_sys_def)
qed

lemma upgrading_pool:
  "upgrading cluster version (Expect_success (on_sys (InitiateNodePoolUpgrade conn cluster pool version)))"
  unfolding upgrading_def
proof (intro allI impI)
  fix tc s
  obtain r s' where f: "InitiateNodePoolUpgrade conn cluster pool version s = (r, s')"
    by (cases "InitiateNodePoolUpgrade conn cluster pool version s")
  with requested_trace [OF Initiate_requested(3) [of cluster pool version s conn, unfolded f], of cluster] obtain evs where
    "hist s' = hist s @ evs" "upgrade_trace cluster version evs" by auto
  then show "\<exists>oc tc' s' evs. Expect_success (on_sys (InitiateNodePoolUpgrade conn cluster pool version)) (tc, s) =
      Some (oc, tc', s') \<and> hist s' = hist s @ evs \<and> upgrade_trace cluster version evs \<and> tcCfg tc' = tcCfg tc"
    using f by (auto simp: Expect_success_def on_sys_def)
qed

lemma WaitForUpgradeComplete_run:
  assumes "fair rt m" and "\<And>w. m (snd (GetCluster conn cluster w)) \<le> m w"
  shows "\<exists>r s' resps. WaitForUpgradeComplete rt conn cluster v timeout s = Some (r, s') \<and>
     hist s' = hist s @ map (EvGetCluster cluster) resps \<and>
     (r = None \<longrightarrow> (\<exists>seen c. resps = seen @ [Inr c] \<and> RawVersion c = v))"
proof -
  from WaitForUpgradeComplete_spec [OF assms, of v timeout s] obtain r s' resps where
    1: "WaitForUpgradeComplete rt conn cluster v timeout s = Some (r, s')" "hist s' = hist s @ map (EvGetCluster cluster) resps"
    "r = None \<longleftrightarrow> resps \<noteq> [] \<and> (\<exists>c. last resps = Inr c \<and> RawVersion c = v)"
    by (elim exE conjE) (rule that; assumption)
  have "\<exists>seen c. resps = seen @ [Inr c] \<and> RawVersion c = v" if "r = None"
    using 1(3) that by (metis append_butlast_last_id)
  with 1(1,2) show ?thesis by blast
qed

lemma await_target_reads:
  assumes "fair (suiteRuntime en) m" and "\<And>c w. m (snd (GetCluster (suiteConn en) c w)) \<le> m w"
  shows "proceeds reads (Expect_return (await_target en timeout))"
  unfolding proceeds_def
proof (intro allI)
  fix tc s
  obtain r s' resps where run: "WaitForUpgradeComplete (suiteRuntime en) (suiteConn en) (ClusterID (tcCfg tc))
      (UpgradeTargetVersion (tcCfg tc)) timeout s = Some (r, s')" and
    h: "hist s' = hist s @ map (EvGetCluster (ClusterID (tcCfg tc))) resps"
    using WaitForUpgradeComplete_run [OF assms] by blast
  have "appends reads s s'" using h by (auto simp: appends_def list_all_iff)
  then show "\<exists>oc tc' s'. Expect_return (await_target en timeout) (tc, s) = Some (oc, tc', s') \<and> appends reads s s' \<and>
      tcCfg tc' = tcCfg tc"
    using run by (simp add: Expect_return_def await_target_def on_sys_loop_def)
qed

lemma node_pool_probe_reads: "node_pool_probe en cluster pool version s = (r, s') \<Longrightarrow> appends reads s s'"
  by (auto simp: node_pool_probe_def appends_def dest!: hist_call split: prod.splits sum.splits)

lemma of_cluster_ready_reads: "proceeds reads (Expect_success (of_cluster (VerifyClusterReady conn)))"
  by (intro stage_intros) (rule VerifyClusterReady_reads)

text \<open>The stages of the node pool spec, and their listing of the pools before.\<close>

lemma node_pool_upgrading:
  assumes "eventually_contract (Eventually en)"
  shows "upgrading cluster version (run_stages (node_pool_stages en cluster pool version))"
proof -
  have wait: "proceeds reads (Eventually_succeeds (on_sys (Eventually en t p (node_pool_probe en cluster pool version))))" for t p
    by (intro stage_intros) (rule Eventually_appends [OF assms node_pool_probe_reads])
  have "operates reads (on_sys (run_verifiers en kube ready_check))" for kube
    by (rule operates_on_sys) (simp add: appends_same run_verifiers_hist)
  then have nodes: "proceeds reads (\<lambda>(tc, s). case hcKubeClient tc of None \<Rightarrow> Some (Fail None, tc, s)
      | Some kubeClient \<Rightarrow> Expect_success (on_sys (run_verifiers en kubeClient ready_check)) (tc, s))"
    using proceeds_success unfolding proceeds_def by (fastforce split: option.splits)
  show ?thesis
    unfolding node_pool_stages_def
    by (rule upgrading_then [OF upgrading_pool])
      (simp add: wait nodes proceeds_success [OF InitHCClients_reads])
qed

lemma first_node_pool_upgrading:
  fixes en :: "('w, 'rest, 'kube, 'dyn, 'awscfg, 'ec2, 'ct, 'more) suite_scheme"
  assumes "eventually_contract (Eventually en)"
  shows "upgrading cluster version (first_node_pool en)"
  unfolding upgrading_def
proof (intro allI impI)
  fix tc :: "('rest, 'kube, 'dyn, 'ec2, 'ct) TestContext" and s :: "'w ocm_sys"
  assume cfg: "ClusterID (tcCfg tc) = cluster" "UpgradeTargetVersion (tcCfg tc) = version"
  obtain r s1 where l: "call (EvNodePools cluster) (ListNodePools (suiteConn en) cluster) s = (r, s1)"
    by (cases "call (EvNodePools cluster) (ListNodePools (suiteConn en) cluster) s")
  then have h1: "hist s1 = hist s @ [EvNodePools cluster r]" by (rule hist_call)
  have listed: "upgrade_trace cluster version [EvNodePools cluster r]" by (rule reads_trace) simp
  show "\<exists>oc tc' s' evs. first_node_pool en (tc, s) = Some (oc, tc', s') \<and> hist s' = hist s @ evs \<and>
      upgrade_trace cluster version evs \<and> tcCfg tc' = tcCfg tc"
  proof (cases "\<exists>pool pools. r = Inr (200, pool # pools)")
    case False
    with l cfg listed h1 show ?thesis
      by (auto simp: first_node_pool_def split: sum.splits list.splits)
  next
    case True
    then obtain pool pools where r: "r = Inr (200, pool # pools)" by blast
    let ?s = "printf ''Upgrading node pool %s to %s\<newline>'' [AStr pool, AStr version] s1"
    obtain oc tc' s' evs where run: "run_stages (node_pool_stages en cluster pool version) (tc, ?s) = Some (oc, tc', s')"
      and h: "hist s' = hist ?s @ evs" "upgrade_trace cluster version evs" "tcCfg tc' = tcCfg tc"
      using upgradingE [OF node_pool_upgrading [OF assms] cfg] .
    have "upgrade_trace cluster version ([EvNodePools cluster r] @ evs)"
      using trace_around [OF h(2), of "[EvNodePools cluster r]" "[]"] by simp
    moreover have "first_node_pool en (tc, s) = Some (oc, tc', s')"
      using l r cfg run by (simp add: first_node_pool_def Let_def)
    ultimately show ?thesis
      using h h1 by (intro exI [where x = oc] exI [where x = tc'] exI [where x = s'] exI [where x = "[EvNodePools cluster r] @ evs"]) simp
  qed
qed

subsection \<open>The upgrade specs\<close>

definition upgrade_specs where
  "upgrade_specs en = [upgrade_control_plane en, upgrade_classic en, upgrade_osd_gcp en, upgrade_node_pools en]"

lemma upgrade_specs_upgrading:
  assumes "fair (suiteRuntime en) m" and "\<And>c w. m (snd (GetCluster (suiteConn en) c w)) \<le> m w"
    and "eventually_contract (Eventually en)" and "sts \<in> set (upgrade_specs en)"
  shows "upgrading cluster version (run_stages sts)"
proof -
  note after = upgrading_after [OF proceeds_without_cluster] upgrading_after [OF proceeds_without_target]
    upgrading_after [OF proceeds_skip(2) [OF operates_topology(1)]]
    upgrading_after [OF proceeds_skip(2) [OF operates_topology(2)]]
  have rest: "list_all (proceeds reads) [Expect_return (await_target en timeout),
      Expect_success (of_cluster (VerifyClusterReady (suiteConn en)))]" for timeout
    by (simp add: await_target_reads [OF assms(1,2)] of_cluster_ready_reads)
  have "upgrading cluster version (Expect_success (to_target (InitiateControlPlaneUpgrade (suiteConn en))))"
    "upgrading cluster version (Expect_success (to_target (InitiateClusterUpgrade (suiteConn en))))"
    by (rule upgrading_target [where target = ControlPlaneOf]; simp add: Initiate_requested)
      (rule upgrading_target [where target = ClusterOf]; simp add: Initiate_requested)
  note sends = this [THEN upgrading_then, OF rest]
  have "upgrading cluster version (run_stages (upgrade_control_plane en))"
    unfolding upgrade_control_plane_def by (intro after sends)
  moreover have "upgrading cluster version (run_stages (upgrade_classic en))"
    unfolding upgrade_classic_def by (intro after sends)
  moreover have "upgrading cluster version (run_stages (upgrade_osd_gcp en))"
    unfolding upgrade_osd_gcp_def by (intro after sends)
  moreover have "upgrading cluster version (run_stages (upgrade_node_pools en))"
    unfolding upgrade_node_pools_def
    by (intro after upgrading_then [OF first_node_pool_upgrading [OF assms(3)]]) simp
  ultimately show ?thesis using assms(4) by (auto simp: upgrade_specs_def)
qed

text \<open>A spec starts with the two skips.\<close>

lemma skips_first:
  assumes "sts \<in> set (upgrade_specs en)" and "ClusterID cfg = [] \<or> UpgradeTargetVersion cfg = []"
  shows "\<exists>msg. It_stages sts cfg s = Some (Skip msg, NewTestContext cfg, s)"
proof -
  from assms(1) obtain m1 m2 rest where sts: "sts = Skip_without_cluster m1 # Skip_without_target m2 # rest"
    by (auto simp: upgrade_specs_def upgrade_control_plane_def upgrade_classic_def upgrade_osd_gcp_def
        upgrade_node_pools_def)
  show ?thesis
    using assms(2)
    by (auto simp: sts It_stages_def Skip_without_cluster_def Skip_without_target_def Skip_if_def NewTestContext_def)
qed

text \<open>
  C6: an upgrade spec, of a control plane, a classic or an OSD cluster, or a node pool, always
  returns. It asks for at most one upgrade, of the configured cluster or its node pool
  and to the configured version, and otherwise only reads; without a cluster or a version
  configured it sends nothing at all and is skipped.
\<close>

theorem upgrade_specs_upgrade_once:
  assumes "fair (suiteRuntime en) m" and "\<And>c w. m (snd (GetCluster (suiteConn en) c w)) \<le> m w"
    and "eventually_contract (Eventually en)" and "sts \<in> set (upgrade_specs en)"
  shows "\<exists>oc tc s' evs. It_stages sts cfg s = Some (oc, tc, s') \<and> hist s' = hist s @ evs \<and> tcCfg tc = cfg \<and>
     upgrade_trace (ClusterID cfg) (UpgradeTargetVersion cfg) evs \<and>
     (ClusterID cfg = [] \<or> UpgradeTargetVersion cfg = [] \<longrightarrow> evs = [] \<and> (\<exists>msg. oc = Skip msg))"
proof (cases "ClusterID cfg = [] \<or> UpgradeTargetVersion cfg = []")
  case False
  have tc: "tcCfg (NewTestContext cfg) = cfg" by (simp add: NewTestContext_def)
  obtain oc tc' s' evs where "run_stages sts (NewTestContext cfg, s) = Some (oc, tc', s')" "hist s' = hist s @ evs"
    "upgrade_trace (ClusterID cfg) (UpgradeTargetVersion cfg) evs" "tcCfg tc' = cfg"
    using upgradingE [OF upgrade_specs_upgrading [OF assms], where tc = "NewTestContext cfg" and s = s] tc by metis
  with False show ?thesis unfolding It_stages_def by blast
next
  case True
  with skips_first [OF assms(4)] obtain msg where "It_stages sts cfg s = Some (Skip msg, NewTestContext cfg, s)" by blast
  then show ?thesis
    by (intro exI [where x = "Skip msg"] exI [where x = "NewTestContext cfg"] exI [where x = s] exI [where x = "[]"])
      (simp add: NewTestContext_def reads_trace)
qed

text \<open>The last three stages of a cluster's upgrade, when they pass.\<close>

lemma upgrade_stages_pass:
  assumes run: "run_stages [Expect_success (to_target f), Expect_return (await_target en timeout),
      Expect_success (of_cluster (VerifyClusterReady (suiteConn en)))] (tc, s) = Some (Pass, tc', s')"
    and f: "\<And>s. requested target (UpgradeTargetVersion (tcCfg tc)) s (f (ClusterID (tcCfg tc)) (UpgradeTargetVersion (tcCfg tc)) s)"
    and "fair (suiteRuntime en) m" and "\<And>c w. m (snd (GetCluster (suiteConn en) c w)) \<le> m w"
  shows "\<exists>policy seen c0 c1. hist s' = hist s @ EvUpgrade target policy None #
     map (EvGetCluster (ClusterID (tcCfg tc))) (seen @ [Inr c0, Inr c1]) \<and>
     policyVersion policy = UpgradeTargetVersion (tcCfg tc) \<and> RawVersion c0 = UpgradeTargetVersion (tcCfg tc) \<and>
     ClusterState c1 = ''ready''"
proof -
  let ?cl = "ClusterID (tcCfg tc)" and ?v = "UpgradeTargetVersion (tcCfg tc)"
  from run obtain s1 s2 where
    u: "f ?cl ?v s = (None, s1)" and
    w: "WaitForUpgradeComplete (suiteRuntime en) (suiteConn en) ?cl ?v timeout s1 = Some (None, s2)" and
    r: "VerifyClusterReady (suiteConn en) ?cl s2 = (None, s')"
    unfolding run_stages_Pass run_stages.simps(1)
    by (auto simp: Expect_success_Pass Expect_return_Pass to_target_def await_target_def of_cluster_def on_sys_eq on_sys_loop_eq)
  obtain policy where "hist s1 = hist s @ [EvUpgrade target policy None]" "policyVersion policy = ?v"
    using f [of s] u by (auto simp: requested_def)
  moreover obtain seen c0 where "hist s2 = hist s1 @ map (EvGetCluster ?cl) (seen @ [Inr c0])" "RawVersion c0 = ?v"
    using WaitForUpgradeComplete_run [OF assms(3,4), of ?cl ?v timeout s1] w by auto
  moreover obtain c1 where "hist s' = hist s2 @ [EvGetCluster ?cl (Inr c1)]" "ClusterState c1 = ''ready''"
    using cluster_state_nil [OF r [unfolded VerifyClusterReady_def]] by (auto simp: ClusterStateReady_def)
  ultimately show ?thesis
    by (intro exI [where x = policy] exI [where x = seen] exI [where x = c0] exI [where x = c1]) simp
qed

lemma skips_pass:
  "Skip_without_cluster msg (tc, s) = Some (Pass, x) \<longleftrightarrow> ClusterID (tcCfg tc) \<noteq> [] \<and> x = (tc, s)"
  "Skip_without_target msg (tc, s) = Some (Pass, x) \<longleftrightarrow> UpgradeTargetVersion (tcCfg tc) \<noteq> [] \<and> x = (tc, s)"
  by (auto simp: Skip_without_cluster_def Skip_without_target_def Skip_if_def)

lemma past_skips:
  "run_stages (Skip_without_cluster m1 # Skip_without_target m2 # sts) (tc, s) = Some (Pass, x) \<Longrightarrow>
     run_stages sts (tc, s) = Some (Pass, x)"
  by (auto simp: skips_pass simp del: run_stages.simps(2))

lemma past_topology:
  "run_stages (Skip_unless P msg # sts) (tc, s) = Some (Pass, x) \<Longrightarrow>
     \<exists>tc1 s1. Skip_unless P msg (tc, s) = Some (Pass, tc1, s1) \<and> run_stages sts (tc1, s1) = Some (Pass, x)"
  by (auto simp del: run_stages.simps(2))

lemma topology_pass:
  assumes "Skip_unless (\<lambda>(tc, s). IsClassic dp tc s) msg (tc, s) = Some (Pass, tc', s') \<or>
     Skip_unless (\<lambda>(tc, s). IsOSDGCP dp tc s) msg (tc, s) = Some (Pass, tc', s')"
  shows "\<exists>pre. hist s' = hist s @ pre \<and> list_all reads pre \<and> tcCfg tc' = tcCfg tc"
  using assms operates_topology [of dp]
  by (fastforce simp: Skip_unless_def operates_def appends_def split: prod.splits if_splits)

definition cluster_upgrades where
  "cluster_upgrades en = [(upgrade_control_plane en, ControlPlaneOf), (upgrade_classic en, ClusterOf),
     (upgrade_osd_gcp en, ClusterOf)]"

text \<open>
  C7: an upgrade spec of a whole cluster that passes has had its upgrade accepted, of the
  control plane for a hosted cluster, and of the cluster otherwise; its last description
  before the final check showed the version asked for, and the final one the cluster ready.
\<close>

theorem cluster_upgrades_pass:
  assumes "fair (suiteRuntime en) m" and "\<And>c w. m (snd (GetCluster (suiteConn en) c w)) \<le> m w"
    and "(sts, target) \<in> set (cluster_upgrades en)" and "It_stages sts cfg s = Some (Pass, tc, s')"
  shows "\<exists>pre policy seen c0 c1. hist s' = hist s @ pre @ EvUpgrade (target (ClusterID cfg)) policy None #
       map (EvGetCluster (ClusterID cfg)) (seen @ [Inr c0, Inr c1]) \<and> list_all reads pre \<and>
     policyVersion policy = UpgradeTargetVersion cfg \<and> RawVersion c0 = UpgradeTargetVersion cfg \<and>
     ClusterState c1 = ''ready''"
proof -
  have tc0: "tcCfg (NewTestContext cfg) = cfg" by (simp add: NewTestContext_def)
  consider
      (hosted) "sts = upgrade_control_plane en" "target = ControlPlaneOf"
    | (classic) "sts = upgrade_classic en" "target = ClusterOf"
    | (osd) "sts = upgrade_osd_gcp en" "target = ClusterOf"
    using assms(3) by (auto simp: cluster_upgrades_def)
  then obtain f timeout tc1 s1 pre where
    run: "run_stages [Expect_success (to_target f), Expect_return (await_target en timeout),
      Expect_success (of_cluster (VerifyClusterReady (suiteConn en)))] (tc1, s1) = Some (Pass, tc, s')" and
    f: "\<And>v s. requested (target (ClusterID cfg)) v s (f (ClusterID cfg) v s)" and
    pre: "hist s1 = hist s @ pre" "list_all reads pre" "tcCfg tc1 = cfg"
  proof cases
    case hosted
    from assms(4) [unfolded It_stages_def hosted(1) upgrade_control_plane_def, THEN past_skips] that show ?thesis
      by (simp only: hosted(2)) (metis Initiate_requested(1) append_Nil2 list.pred_inject(1) tc0)
  next
    case classic
    from past_topology [OF assms(4) [unfolded It_stages_def classic(1) upgrade_classic_def, THEN past_skips]]
    obtain tc1 s1 where 1: "Skip_unless (\<lambda>(tc, s). IsClassic (suiteDeps en) tc s)
        ''Not a Classic cluster, skipping Classic upgrade test'' (NewTestContext cfg, s) = Some (Pass, tc1, s1)" and
      r: "run_stages [Expect_success (to_target (InitiateClusterUpgrade (suiteConn en))),
        Expect_return (await_target en (minutes 90)), Expect_success (of_cluster (VerifyClusterReady (suiteConn en)))]
        (tc1, s1) = Some (Pass, tc, s')" by blast
    from topology_pass [OF disjI1, OF 1] tc0 obtain pre where
      "hist s1 = hist s @ pre" "list_all reads pre" "tcCfg tc1 = cfg" by auto
    with that [OF r] show ?thesis by (simp add: classic(2) Initiate_requested)
  next
    case osd
    from past_topology [OF assms(4) [unfolded It_stages_def osd(1) upgrade_osd_gcp_def, THEN past_skips]]
    obtain tc1 s1 where 1: "Skip_unless (\<lambda>(tc, s). IsOSDGCP (suiteDeps en) tc s)
        ''Not an OSD GCP cluster, skipping OSD GCP upgrade test'' (NewTestContext cfg, s) = Some (Pass, tc1, s1)" and
      r: "run_stages [Expect_success (to_target (InitiateClusterUpgrade (suiteConn en))),
        Expect_return (await_target en (minutes 90)), Expect_success (of_cluster (VerifyClusterReady (suiteConn en)))]
        (tc1, s1) = Some (Pass, tc, s')" by blast
    from topology_pass [OF disjI2, OF 1] tc0 obtain pre where
      "hist s1 = hist s @ pre" "list_all reads pre" "tcCfg tc1 = cfg" by auto
    with that [OF r] show ?thesis by (simp add: osd(2) Initiate_requested)
  qed
  from upgrade_stages_pass [OF run _ assms(1,2), of "target (ClusterID cfg)"] f pre show ?thesis
    by (fastforce simp del: append.simps(2))
qed

subsection \<open>The node pool spec\<close>

text \<open>\<open>Eventually\<close> has succeeded only after a call that succeeded.\<close>

lemma eventually_run_pass:
  assumes "eventually_run f s r s'" and "\<And>s r s'. f s = (r, s') \<Longrightarrow> appends P s s'" and "r = Pass"
  shows "\<exists>s0. appends P s s0 \<and> f s0 = (Pass, s')"
  using assms
proof (induction rule: eventually_run.induct)
  case (succeeds s s')
  then show ?case using appends_same [of s s] by blast
next
  case (retries s oc s1 s2 r s')
  then obtain s0 where "appends P s2 s0" "f s0 = (Pass, s')" by blast
  moreover have "appends P s s1" using retries by blast
  moreover have "appends P s1 s2" using retries.hyps by (simp add: idle_def appends_same)
  ultimately show ?case using appends_trans by blast
qed auto

lemma node_pool_probe_pass:
  "node_pool_probe en cluster pool version s = (Pass, s') \<Longrightarrow> hist s' = hist s @ [EvGetNodePool cluster pool (Inr version)]"
  by (auto simp: node_pool_probe_def dest!: hist_call split: prod.splits sum.splits if_splits)

lemma node_pool_wait_pass:
  assumes "eventually_contract (Eventually en)"
    and "Eventually en t p (node_pool_probe en cluster pool version) s = (Pass, s')"
  shows "\<exists>evs. hist s' = hist s @ evs \<and> EvGetNodePool cluster pool (Inr version) \<in> set evs"
proof -
  from assms have "eventually_run (node_pool_probe en cluster pool version) s Pass s'"
    unfolding eventually_contract_def by blast
  then obtain s0 where "appends reads s s0" "node_pool_probe en cluster pool version s0 = (Pass, s')"
    using eventually_run_pass [where P = reads] node_pool_probe_reads by metis
  then show ?thesis by (fastforce simp: appends_def dest: node_pool_probe_pass)
qed

text \<open>
  C15: the node pool spec passes only if the cluster's first node pool was listed, its upgrade
  accepted, a later description of this pool showed the version asked for, and after that
  all nodes of the cluster were ready, whichever way gomega polled in between.
\<close>

theorem upgrade_node_pools_pass:
  assumes "eventually_contract (Eventually en)" and "schedule_contract (Schedule en)"
    and "It_stages (upgrade_node_pools en) cfg s = Some (Pass, tc, s')"
  shows "\<exists>pool pools policy evs kube w nodes.
     hist s' = hist s @ EvNodePools (ClusterID cfg) (Inr (200, pool # pools)) #
       EvUpgrade (NodePoolOf (ClusterID cfg) pool) policy None # evs \<and>
     policyVersion policy = UpgradeTargetVersion cfg \<and>
     EvGetNodePool (ClusterID cfg) pool (Inr (UpgradeTargetVersion cfg)) \<in> set evs \<and>
     hcKubeClient tc = Some kube \<and> NodeList (kubeView en kube w) [] = Inr nodes \<and> nodes \<noteq> [] \<and>
     list_all (\<lambda>n. (''Ready'', ''True'') \<in> set (nodeConditions n)) nodes"
proof -
  let ?cl = "ClusterID cfg" and ?v = "UpgradeTargetVersion cfg"
  have tc0: "tcCfg (NewTestContext cfg) = cfg" by (simp add: NewTestContext_def)
  from assms(3) [unfolded It_stages_def upgrade_node_pools_def, THEN past_skips]
  have first: "first_node_pool en (NewTestContext cfg, s) = Some (Pass, tc, s')"
    by (auto simp del: run_stages.simps(2))
  then obtain pool pools s1 where
    l: "call (EvNodePools ?cl) (ListNodePools (suiteConn en) ?cl) s = (Inr (200, pool # pools), s1)" and
    run: "run_stages (node_pool_stages en ?cl pool ?v)
      (NewTestContext cfg, printf ''Upgrading node pool %s to %s\<newline>'' [AStr pool, AStr ?v] s1) = Some (Pass, tc, s')"
    by (auto simp: first_node_pool_def tc0 Let_def split: prod.splits sum.splits if_splits list.splits)
  from run obtain s2 s3 s4 tc4 where
    u: "InitiateNodePoolUpgrade (suiteConn en) ?cl pool ?v
      (printf ''Upgrading node pool %s to %s\<newline>'' [AStr pool, AStr ?v] s1) = (None, s2)" and
    e: "Eventually en (minutes 60) (seconds 30) (node_pool_probe en ?cl pool ?v) s2 = (Pass, s3)" and
    i: "InitHCClients (suiteDeps en) (NewTestContext cfg) s3 = (None, tc4, s4)" and
    v: "(case hcKubeClient tc4 of None \<Rightarrow> Some (Fail None, tc4, s4)
       | Some kubeClient \<Rightarrow> Expect_success (on_sys (run_verifiers en kubeClient ready_check)) (tc4, s4)) = Some (Pass, tc, s')"
    unfolding node_pool_stages_def run_stages_Pass run_stages.simps(1)
    by (auto simp: Expect_success_Pass on_sys_eq Eventually_succeeds_def)
  from v obtain kube where k: "hcKubeClient tc4 = Some kube" and r: "run_verifiers en kube ready_check s4 = (None, s')"
    and tc: "tc = tc4"
    by (auto simp: Expect_success_Pass on_sys_eq split: option.splits)
  obtain policy where "hist s2 = hist s1 @ [EvUpgrade (NodePoolOf ?cl pool) policy None]" "policyVersion policy = ?v"
    using Initiate_requested(3) [of ?cl pool ?v _ "suiteConn en"] u unfolding requested_def by (metis fst_conv snd_conv hist_printf)
  moreover obtain polls where "hist s3 = hist s2 @ polls" "EvGetNodePool ?cl pool (Inr ?v) \<in> set polls"
    using node_pool_wait_pass [OF assms(1) e] by blast
  moreover obtain inits where "hist s4 = hist s3 @ inits"
    using InitHCClients_reads [of "suiteDeps en"] i unfolding operates_def appends_def by fastforce
  moreover have "hist s' = hist s4" by (rule run_verifiers_hist [OF r])
  moreover have "hist s1 = hist s @ [EvNodePools ?cl (Inr (200, pool # pools))]" by (rule hist_call [OF l])
  moreover obtain nodes where "NodeList (kubeView en kube (ext s4)) [] = Inr nodes" "nodes \<noteq> []"
    "list_all (\<lambda>n. (''Ready'', ''True'') \<in> set (nodeConditions n)) nodes"
    using run_verifiers_nil [OF assms(2) r] by (auto simp: ready_check_def verifyAllNodesReady_spec split: sum.splits if_splits)
  ultimately show ?thesis
    using k tc
    by (intro exI [where x = pool] exI [where x = pools] exI [where x = policy] exI [where x = "polls @ inits"]
        exI [where x = kube] exI [where x = "ext s4"] exI [where x = nodes]) simp
qed

end
