(* ===== verification/SpecWitnesses.thy ===== *)
theory SpecWitnesses
  imports UpgradeProperties
begin

text \<open>
  A suite whose services answer promptly, for runs of the specs on concrete inputs. Its world
  is whether a cluster's deletion was asked for; a cluster is ready before and uninstalling
  after. It shows that the contracts of the test framework can be met together.
\<close>

subsection \<open>A prompt suite\<close>

definition demo_description :: "bool \<Rightarrow> ocm_cluster" where
  "demo_description deleting =
     \<lparr>ClusterState = (if deleting then ''uninstalling'' else ''ready''), RawVersion = ''4.19.1'', CloudProviderID = ''aws'',
      HypershiftEnabled = True, ClusterName = ''rosa'', InfraID = ''i-1'', STSOperatorRolePrefix = ''op''\<rparr>"

definition spec_conn :: "bool Connection" where
  "spec_conn =
     \<lparr>GetHypershift = (\<lambda>_ w. ((Inr ''hs-mc-1'', 0), w)),
      SearchClusters = (\<lambda>_ _ w. ((Inr (1, ''mc-id''), 0), w)),
      GetCluster = (\<lambda>_ w. ((Inr (demo_description w), 0), w)),
      AddCluster = (\<lambda>_ w. ((Inr ''new-id'', 0), w)),
      RemoveCluster = (\<lambda>_ w. ((None, 0), True)),
      GetCredentials = (\<lambda>_ w. ((Inr ''kubeconfig'', 0), w)),
      SearchVersions = (\<lambda>_ _ _ w. ((Inr [''openshift-v4.19.1''], 0), w)),
      GetServiceClusters = (\<lambda>_ w. ((Inr (Inr JNull), 0), w)),
      GetShardTopology = (\<lambda>_ w. ((Inr [], 0), w)),
      AddUpgradePolicy = (\<lambda>_ _ w. ((None, 0), w)),
      ListMachinePools = (\<lambda>_ w. ((Inr (200, 1), 0), w)),
      ListNodePools = (\<lambda>_ w. ((Inr (200, [''workers'']), 0), w)),
      GetNodePool = (\<lambda>_ _ w. ((Inr ''4.19.1'', 0), w)),
      BuildCluster = (\<lambda>_. None),
      BuildPolicy = (\<lambda>_. None)\<rparr>"

definition spec_deps :: "(bool, string, string, string, unit, unit, unit) deps" where
  "spec_deps =
     \<lparr>Getenv = (\<lambda>_. []), tcConn = spec_conn,
      RESTConfigFromKubeConfig = Inr, BuildConfigFromFlags = Inr,
      kubeNewForConfig = Inr, dynamicNewForConfig = Inr,
      ListHostedClusters = (\<lambda>_ w. ((Inr [(''ocm-staging-c1'', ''rosa'')], 0), w)),
      GetConfigMap = (\<lambda>_ _ _ w. ((Inr [], 0), w)),
      LoadDefaultConfig = (\<lambda>_. Inr ()), RetrieveCredentials = (\<lambda>_ w. ((Inr True, 0), w)),
      ec2NewFromConfig = (\<lambda>_. ()), cloudtrailNewFromConfig = (\<lambda>_. ())\<rparr>"

definition three_nodes :: kube_client where
  "three_nodes =
     \<lparr>DeploymentGet = (\<lambda>_ _. Inl (plain_error ''not found'')), DeploymentList = (\<lambda>_. Inr []),
      NodeList = (\<lambda>_. Inr (map (\<lambda>n. \<lparr>nodeName = n, nodeConditions = [(''Ready'', ''True'')]\<rparr>) [''a'', ''b'', ''c''])),
      PVCPhase = (\<lambda>_ _. Inr ''Bound'')\<rparr>"

text \<open>A hosted cluster that is available, and what reads its conditions.\<close>

definition one_hosted_cluster :: dynamic_client where
  "one_hosted_cluster =
     \<lparr>ResourceList = (\<lambda>_ _. Inr []),
      ResourceGet = (\<lambda>_ _ name. Inr \<lparr>uName = name, uObject = [(''status'', JObj [(''conditions'', JArr
         [JObj [(''type'', JStr ''Available''), (''status'', JStr ''True'')],
          JObj [(''type'', JStr ''Degraded''), (''status'', JStr ''False'')]])])]\<rparr>)\<rparr>"

definition nested_conditions :: nested_slice where
  "nested_conditions obj path =
     Inr (case path of [a, b] \<Rightarrow> (case get_object obj a of None \<Rightarrow> None | Some m \<Rightarrow> get_array m b) | _ \<Rightarrow> None)"

definition spec_suite :: "(bool, string, string, string, unit, unit, unit) suite" where
  "spec_suite =
     \<lparr>suiteDeps = spec_deps, suiteClock = fixed_clock, suiteRuntime = prompt,
      kubeView = (\<lambda>_ _. three_nodes), dynView = (\<lambda>_ _. one_hosted_cluster), nestedSlice = nested_conditions,
      Schedule = (\<lambda>vs w. ((run_in_order vs [], 0), w)),
      Eventually = (\<lambda>_ _ f s. f s), RunDeferred = (\<lambda>fs s. foldr id fs s)\<rparr>"

lemma spec_suite_contracts:
  "schedule_contract (Schedule spec_suite)" "deferred_contract (RunDeferred spec_suite)"
  "eventually_contract (Eventually spec_suite)"
proof -
  have "\<exists>p. reachable vs p \<and> joined p = Some (run_in_order vs [])" for vs
    using any_order [OF pool_inv_init, of vs "all_errors vs"]
    by (auto simp: init_pool_def pending_unborn reachable_steps run_in_order_errors)
  then show "schedule_contract (Schedule spec_suite)" by (simp add: schedule_contract_def spec_suite_def)
  show "deferred_contract (RunDeferred spec_suite)" by (simp add: deferred_contract_def spec_suite_def)
  have "eventually_run f s r s'" if "f s = (r, s')" for f :: "bool ocm_sys \<Rightarrow> outcome \<times> bool ocm_sys" and s r s'
  proof (cases "r = Pass")
    case True
    with that show ?thesis by (auto intro: eventually_run.succeeds)
  next
    case False
    with that show ?thesis by (rule eventually_run.runs_out) (simp add: idle_def)
  qed
  then show "eventually_contract (Eventually spec_suite)" by (simp add: eventually_contract_def spec_suite_def)
qed

definition spec_config :: Config where
  "spec_config = default_config\<lparr>CreatorARN := ''arn:c'', OpenShiftVersion := ''4.19.1'', ComputeNodes := 3\<rparr>"

subsection \<open>Runs of the specs\<close>

lemmas suite_defs = spec_suite_def spec_deps_def spec_conn_def demo_description_def prompt_def fixed_clock_def

lemma demo_wait:
  "ext s = False \<Longrightarrow> pollInterval < timeout \<Longrightarrow>
     \<exists>s'. WaitForClusterReady prompt spec_conn cluster timeout s = Some (None, s') \<and> ext s' = False"
  unfolding WaitForClusterReady_def
  by (subst poll_ticker.simps)
    (simp add: tick_select_def block_until_def ready_probe_def ready_verdict_def call_def printf_def
      ClusterStateReady_def Let_def spec_conn_def demo_description_def prompt_def pollInterval_def)

lemma suite_simps [simp]:
  "suiteConn spec_suite = spec_conn" "suiteClock spec_suite = fixed_clock" "suiteRuntime spec_suite = prompt"
  "kubeView spec_suite c w = three_nodes" "Schedule spec_suite vs w = ((run_in_order vs [], 0), w)"
  "RESTConfigFromKubeConfig (suiteDeps spec_suite) = Inr" "kubeNewForConfig (suiteDeps spec_suite) = Inr"
  by (simp_all add: spec_suite_def spec_deps_def)

lemma suite_deps_simps [simp]:
  "Getenv (suiteDeps spec_suite) v = []" "dynamicNewForConfig (suiteDeps spec_suite) = Inr"
  "Eventually spec_suite timeout polling f = f"
  by (simp_all add: spec_suite_def spec_deps_def)

lemma spec_conn_simps [simp]:
  "GetCredentials spec_conn c w = ((Inr ''kubeconfig'', 0), w)"
  "ListNodePools spec_conn c w = ((Inr (200, [''workers'']), 0), w)"
  "GetNodePool spec_conn c pool w = ((Inr ''4.19.1'', 0), w)"
  "BuildPolicy spec_conn policy = None" "AddUpgradePolicy spec_conn target policy w = ((None, 0), w)"
  by (simp_all add: spec_conn_def)

lemma demo_state:
  "\<exists>s'. verify_cluster_state (if ext s then ''uninstalling'' else ''ready'') spec_conn cluster s = (None, s') \<and> ext s' = ext s"
  by (simp add: verify_cluster_state_def call_def spec_conn_def demo_description_def)

lemma demo_delete: "\<exists>s'. DeleteCluster spec_conn cluster s = (None, s') \<and> ext s' = True"
  by (simp add: DeleteCluster_def call_def printf_def spec_conn_def)

lemma demo_nodes: "run_in_order (node_checks three_nodes 3) [] = None"
  by (simp add: run_in_order_errors Join_errors_None all_errors_Nil node_checks_spec)
    (simp add: nodes_healthy_def three_nodes_def)

lemma demo_new_cluster:
  "ComputeNodes (tcCfg tc) = 3 \<Longrightarrow> \<exists>s'. verify_new_cluster spec_suite cluster (tc, s) = (None, tc, s') \<and> ext s' = ext s"
  by (simp add: verify_new_cluster_def GetClusterCredentials_def clientConfigFromKubeconfig_def NewKubeClient_def
      run_verifiers_def demo_nodes on_sys_def call_def)

text \<open>What comes after the creation of a cluster passes.\<close>

lemma demo_stages:
  assumes "ext s = False" and "pollInterval < timeout" and "ComputeNodes (tcCfg tc) = 3"
  shows "\<exists>s'. run_stages (lifecycle_stages spec_suite cluster timeout) (tc, s) = Some (Pass, tc, s')"
proof -
  obtain s1 where 1: "WaitForClusterReady prompt spec_conn cluster timeout s = Some (None, s1)" "ext s1 = False"
    using demo_wait [OF assms(1,2)] by blast
  obtain s2 where 2: "VerifyClusterReady spec_conn cluster s1 = (None, s2)" "ext s2 = False"
    using demo_state [of s1 cluster] 1(2) by (auto simp: VerifyClusterReady_def ClusterStateReady_def)
  obtain s3 where 3: "verify_new_cluster spec_suite cluster (tc, s2) = (None, tc, s3)"
    using demo_new_cluster [OF assms(3)] by blast
  obtain s4 where 4: "DeleteCluster spec_conn cluster s3 = (None, s4)" "ext s4 = True"
    using demo_delete by blast
  obtain s5 where 5: "VerifyClusterDeleting spec_conn cluster s4 = (None, s5)"
    using demo_state [of s4 cluster] 4(2) by (auto simp: VerifyClusterDeleting_def ClusterStateUninstalling_def)
  have "Expect_success (on_sys (VerifyClusterDeleting spec_conn cluster)) (tc, s4) = Some (Pass, tc, s5)"
    using 5 by (simp add: stage_passes)
  moreover have "Expect_success (on_sys (DeleteCluster spec_conn cluster)) (tc, s3) = Some (Pass, tc, s4)"
    using 4(1) by (simp add: stage_passes)
  moreover have "Expect_success (verify_new_cluster spec_suite cluster) (tc, s2) = Some (Pass, tc, s3)"
    using 3 by (simp add: stage_passes)
  moreover have "Expect_success (on_sys (VerifyClusterReady spec_conn cluster)) (tc, s1) = Some (Pass, tc, s2)"
    using 2(1) by (simp add: stage_passes)
  moreover have "Expect_return (on_sys_loop (WaitForClusterReady prompt spec_conn cluster timeout)) (tc, s) = Some (Pass, tc, s1)"
    using 1(1) by (simp add: stage_passes)
  ultimately have "run_stages (lifecycle_stages spec_suite cluster timeout) (tc, s) = Some (Pass, tc, s5)"
    unfolding lifecycle_stages_def suite_simps by (simp del: run_stages_Pass)
  then show ?thesis by blast
qed

lemma monitoring_specs_read_only_witness:
  "\<exists>oc tc s' evs. It_stages (hosted_cluster_healthy spec_suite) spec_config (start False) = Some (oc, tc, s') \<and>
     hist s' = evs \<and> tcCfg tc = spec_config"
proof -
  have "hosted_cluster_healthy spec_suite \<in> set (monitoring_specs spec_suite)" by (simp add: monitoring_specs_def)
  from monitoring_specs_read_only [OF spec_suite_contracts(3) this, of spec_config "start False"] show ?thesis by auto
qed

lemma hcp_created:
  "\<exists>cfg1 s1 sp. CreateRosaHCPCluster fixed_clock spec_conn spec_config (start False) = (Inr ''new-id'', cfg1, s1) \<and>
     ext s1 = False \<and> hist s1 = [EvAddCluster sp (Inr ''new-id'')] \<and> ComputeNodes cfg1 = 3"
  by (simp add: CreateRosaHCPCluster_def generateClusterName_def resolveVersionForTopology_def
      shard_from_sector_def add_cluster_def spec_config_def default_config_def fixed_clock_def
      spec_conn_def call_def printf_def eval_nat_numeral split: prod.splits)

type_synonym demo_context = "(string, string, string, unit, unit) TestContext"

lemma demo_run:
  "\<exists>(tc :: demo_context) s' sp. It spec_suite hcp_lifecycle spec_config (start False) = Some (Pass, tc, s') \<and>
     EvAddCluster sp (Inr ''new-id'') \<in> set (hist s')"
proof -
  obtain cfg1 s1 sp where c: "CreateRosaHCPCluster fixed_clock spec_conn spec_config (start False) = (Inr ''new-id'', cfg1, s1)"
    and s1: "ext s1 = False" "hist s1 = [EvAddCluster sp (Inr ''new-id'')]" and n: "ComputeNodes cfg1 = 3"
    using hcp_created by blast
  define tc :: demo_context where "tc = (NewTestContext spec_config)\<lparr>tcCfg := cfg1\<rparr>"
  define s where "s = printf ''Created cluster: %s\<newline>'' [AStr ''new-id''] s1"
  have cfg: "tcCfg (NewTestContext spec_config) = spec_config" "ClusterID spec_config = []"
    by (simp_all add: NewTestContext_def spec_config_def default_config_def)
  have "ext s = False" "pollInterval < minutes 45" "ComputeNodes (tcCfg tc) = 3"
    using s1 n by (simp_all add: s_def tc_def pollInterval_def minutes_def seconds_def)
  then obtain s2 where run: "run_stages (lifecycle_stages spec_suite ''new-id'' (minutes 45)) (tc, s) = Some (Pass, tc, s2)"
    using demo_stages by blast
  have fair: "fair (suiteRuntime spec_suite) (\<lambda>_. 0)" by (simp add: fair_prompt)
  from proceedsE [OF lifecycle_proceeds [OF fair order_refl, of "''new-id''" "minutes 45"], where tc = tc and s = s] run
  obtain mid where "hist s2 = hist s @ mid" by (auto simp: appends_def)
  then have "EvAddCluster sp (Inr ''new-id'') \<in> set (hist (delete_deferred spec_suite ''new-id'' s2))"
    using s1(2) delete_deferred_hist [of spec_suite "''new-id''" s2] by (auto simp: s_def)
  moreover have "after_creation spec_suite ''Created cluster: %s\<newline>'' ''new-id'' (minutes 45) tc s1 =
      Some (Pass, [delete_deferred spec_suite ''new-id''], tc, s2)"
    using run by (simp add: after_creation_def s_def)
  then have "hcp_lifecycle spec_suite spec_config (start False) = Some (Pass, [delete_deferred spec_suite ''new-id''], tc, s2)"
    using c by (simp add: hcp_lifecycle_def Let_def cfg tc_def)
  then have "It spec_suite hcp_lifecycle spec_config (start False) = Some (Pass, tc, delete_deferred spec_suite ''new-id'' s2)"
    by (simp add: It_def deferred_run [OF spec_suite_contracts(2)])
  ultimately show ?thesis by blast
qed

theorem lifecycle_deletes_cluster_witness:
  "\<exists>(tc :: demo_context) s' sp answer. It spec_suite hcp_lifecycle spec_config (start False) = Some (Pass, tc, s') \<and>
     EvAddCluster sp (Inr ''new-id'') \<in> set (hist s') \<and> last (hist s') = EvRemoveCluster ''new-id'' answer"
proof -
  obtain tc :: demo_context and s' sp where run: "It spec_suite hcp_lifecycle spec_config (start False) = Some (Pass, tc, s')"
    and sp: "EvAddCluster sp (Inr ''new-id'') \<in> set (hist s')"
    using demo_run by blast
  have fair: "fair (suiteRuntime spec_suite) (\<lambda>_. 0)" by (simp add: fair_prompt)
  have "hcp_lifecycle \<in> set lifecycle_specs" by (simp add: lifecycle_specs_def)
  from lifecycle_deletes_cluster [where en = spec_suite and m = "\<lambda>_. 0" and cfg = spec_config and s = "start False",
      OF fair order_refl spec_suite_contracts(2) this] run
  obtain evs where "hist s' = evs" "\<forall>sp cluster. EvAddCluster sp (Inr cluster) \<in> set evs \<longrightarrow>
      (\<exists>answer. last evs = EvRemoveCluster cluster answer)"
    by (metis (no_types, lifting) Pair_inject append_Nil option.inject start_simps(3))
  with sp obtain answer where "last (hist s') = EvRemoveCluster ''new-id'' answer" by blast
  with run sp show ?thesis by blast
qed


subsection \<open>An upgrade\<close>

definition upgrade_config :: Config where
  "upgrade_config = default_config\<lparr>ClusterID := ''c1'', UpgradeTargetVersion := ''4.19.1''\<rparr>"

lemma demo_version:
  "\<exists>s'. WaitForUpgradeComplete prompt spec_conn cluster ''4.19.1'' (minutes 60) s = Some (None, s') \<and> ext s' = ext s"
  unfolding WaitForUpgradeComplete_def
  by (subst poll_ticker.simps)
    (simp add: tick_select_def block_until_def upgrade_probe_def upgrade_verdict_def call_def printf_def
      spec_conn_def demo_description_def prompt_def minutes_def seconds_def)

lemma demo_upgrade:
  "\<exists>s'. It_stages (upgrade_control_plane spec_suite) upgrade_config (start False) =
     Some (Pass, NewTestContext upgrade_config :: demo_context, s')"
proof -
  define tc :: demo_context where "tc = NewTestContext upgrade_config"
  have tc: "ClusterID (tcCfg tc) = ''c1''" "UpgradeTargetVersion (tcCfg tc) = ''4.19.1''"
    by (simp_all add: tc_def NewTestContext_def upgrade_config_def)
  obtain s1 where 1: "InitiateControlPlaneUpgrade spec_conn ''c1'' ''4.19.1'' (start False) = (None, s1)" "ext s1 = False"
    by (simp add: InitiateControlPlaneUpgrade_def initiate_upgrade_def call_def spec_conn_def)
  obtain s2 where 2: "WaitForUpgradeComplete prompt spec_conn ''c1'' ''4.19.1'' (minutes 60) s1 = Some (None, s2)" "ext s2 = False"
    using demo_version [of "''c1''" s1] 1(2) by auto
  obtain s3 where 3: "VerifyClusterReady spec_conn ''c1'' s2 = (None, s3)"
    using demo_state [of s2 "''c1''"] 2(2) by (auto simp: VerifyClusterReady_def ClusterStateReady_def)
  have "Expect_success (to_target (InitiateControlPlaneUpgrade spec_conn)) (tc, start False) = Some (Pass, tc, s1)"
    using 1(1) by (simp add: Expect_success_Pass to_target_def on_sys_def tc)
  moreover have "Expect_return (await_target spec_suite (minutes 60)) (tc, s1) = Some (Pass, tc, s2)"
    using 2(1) by (simp add: Expect_return_Pass await_target_def on_sys_loop_def tc)
  moreover have "Expect_success (of_cluster (VerifyClusterReady spec_conn)) (tc, s2) = Some (Pass, tc, s3)"
    using 3 by (simp add: Expect_success_Pass of_cluster_def on_sys_def tc)
  ultimately have "run_stages (upgrade_control_plane spec_suite) (tc, start False) = Some (Pass, tc, s3)"
    by (simp add: upgrade_control_plane_def Skip_without_cluster_def Skip_without_target_def Skip_if_def tc
        del: run_stages_Pass)
  then show ?thesis by (auto simp: It_stages_def tc_def)
qed

theorem cluster_upgrades_pass_witness:
  "\<exists>(tc :: demo_context) s' policy. It_stages (upgrade_control_plane spec_suite) upgrade_config (start False) = Some (Pass, tc, s') \<and>
     EvUpgrade (ControlPlaneOf ''c1'') policy None \<in> set (hist s') \<and> policyVersion policy = ''4.19.1''"
proof -
  obtain s' where run: "It_stages (upgrade_control_plane spec_suite) upgrade_config (start False) =
      Some (Pass, NewTestContext upgrade_config :: demo_context, s')"
    using demo_upgrade by blast
  have fair: "fair (suiteRuntime spec_suite) (\<lambda>_. 0)" by (simp add: fair_prompt)
  have "(upgrade_control_plane spec_suite, ControlPlaneOf) \<in> set (cluster_upgrades spec_suite)"
    by (simp add: cluster_upgrades_def)
  from cluster_upgrades_pass [OF fair order_refl this run] run show ?thesis
    by (fastforce simp: upgrade_config_def)
qed

theorem upgrade_specs_upgrade_once_witness:
  "\<exists>oc (tc :: demo_context) s'. It_stages (upgrade_control_plane spec_suite) upgrade_config (start False) = Some (oc, tc, s') \<and>
     upgrade_trace ''c1'' ''4.19.1'' (hist s')"
proof -
  have fair: "fair (suiteRuntime spec_suite) (\<lambda>_. 0)" by (simp add: fair_prompt)
  have "upgrade_control_plane spec_suite \<in> set (upgrade_specs spec_suite)" by (simp add: upgrade_specs_def)
  from upgrade_specs_upgrade_once [OF fair order_refl spec_suite_contracts(3) this, of upgrade_config "start False"]
  show ?thesis by (fastforce simp: upgrade_config_def)
qed

text \<open>The first node pool of the demonstration is at the version asked for.\<close>

lemma demo_clients:
  "\<exists>tc' s'. InitHCClients (suiteDeps spec_suite) tc s = (None, tc', s') \<and> hcKubeClient tc' = Some ''kubeconfig''"
  by (simp add: InitHCClients_def resolveKubeconfig_def GetClusterCredentials_def clientConfigFromKubeconfig_def
      new_clients_def NewKubeClient_def set_if_def call_def)

lemma demo_node_pools:
  "\<exists>(tc :: demo_context) s'. It_stages (upgrade_node_pools spec_suite) upgrade_config (start False) = Some (Pass, tc, s')"
proof -
  define tc :: demo_context where "tc = NewTestContext upgrade_config"
  have tc: "ClusterID (tcCfg tc) = ''c1''" "UpgradeTargetVersion (tcCfg tc) = ''4.19.1''"
    by (simp_all add: tc_def NewTestContext_def upgrade_config_def)
  obtain s1 where l: "call (EvNodePools ''c1'') (ListNodePools spec_conn ''c1'') (start False) = (Inr (200, [''workers'']), s1)"
    by (simp add: call_def)
  obtain s2 where u: "InitiateNodePoolUpgrade spec_conn ''c1'' ''workers'' ''4.19.1''
      (printf ''Upgrading node pool %s to %s\<newline>'' [AStr ''workers'', AStr ''4.19.1''] s1) = (None, s2)"
    by (simp add: InitiateNodePoolUpgrade_def initiate_upgrade_def call_def)
  obtain s3 where e: "Eventually spec_suite (minutes 60) (seconds 30)
      (node_pool_probe spec_suite ''c1'' ''workers'' ''4.19.1'') s2 = (Pass, s3)"
    by (simp add: node_pool_probe_def call_def)
  obtain tc1 s4 where i: "InitHCClients (suiteDeps spec_suite) tc s3 = (None, tc1, s4)" "hcKubeClient tc1 = Some ''kubeconfig''"
    using demo_clients by blast
  have "run_in_order (ready_check three_nodes) [] = None"
    by (simp add: ready_check_def run_in_order_errors Join_errors_None all_errors_Nil verifyAllNodesReady_spec three_nodes_def)
  then obtain s5 where r: "run_verifiers spec_suite ''kubeconfig'' ready_check s4 = (None, s5)"
    by (simp add: run_verifiers_def)
  have "run_stages (node_pool_stages spec_suite ''c1'' ''workers'' ''4.19.1'')
      (tc, printf ''Upgrading node pool %s to %s\<newline>'' [AStr ''workers'', AStr ''4.19.1''] s1) = Some (Pass, tc1, s5)"
    unfolding node_pool_stages_def run_stages.simps suite_simps
    by (simp only: Expect_success_def on_sys_def outcome_of_def Eventually_succeeds_def u e i r prod.case option.case outcome.case)
  then have "first_node_pool spec_suite (tc, start False) = Some (Pass, tc1, s5)"
    by (simp add: first_node_pool_def tc l del: run_stages.simps)
  then have "run_stages (upgrade_node_pools spec_suite) (tc, start False) = Some (Pass, tc1, s5)"
    by (simp add: upgrade_node_pools_def Skip_without_cluster_def Skip_without_target_def Skip_if_def tc)
  then show ?thesis by (auto simp: It_stages_def tc_def)
qed

theorem upgrade_node_pools_pass_witness:
  "\<exists>(tc :: demo_context) s' pool policy. It_stages (upgrade_node_pools spec_suite) upgrade_config (start False) = Some (Pass, tc, s') \<and>
     EvUpgrade (NodePoolOf ''c1'' pool) policy None \<in> set (hist s') \<and> EvGetNodePool ''c1'' pool (Inr ''4.19.1'') \<in> set (hist s')"
proof -
  obtain tc :: demo_context and s' where
    run: "It_stages (upgrade_node_pools spec_suite) upgrade_config (start False) = Some (Pass, tc, s')"
    using demo_node_pools by blast
  have "ClusterID upgrade_config = ''c1''" "UpgradeTargetVersion upgrade_config = ''4.19.1''"
    by (simp_all add: upgrade_config_def)
  with upgrade_node_pools_pass [OF spec_suite_contracts(3,1) run] run show ?thesis by fastforce
qed

end
