(* ===== verification/DataSpecs.thy ===== *)
theory DataSpecs
  imports Specs TestResources
begin

text \<open>
  The specs that create something in a cluster: \<^verbatim>\<open>test/e2e/workload_test.go\<close>,
  \<^verbatim>\<open>storage_test.go\<close>, \<^verbatim>\<open>networking_test.go\<close>, the network policies of
  \<^verbatim>\<open>customer_features_test.go\<close> and the workload of the post-upgrade checks in
  \<^verbatim>\<open>upgrade_test.go\<close>. They send requests to OCM and to the cluster; the history of a
  spec has both, in order, and \<open>within\<close> runs an operation that knows one of them only.
  What these specs take from their environment in addition is the record \<open>data_suite\<close>.
\<close>

subsection \<open>Two services\<close>

datatype suite_event = OcmEvent ocm_event | ClusterEvent cluster_event

type_synonym 'w suite_sys = "('w, suite_event) sys"

definition within :: "('ev \<Rightarrow> 'all) \<Rightarrow> (('w, 'ev) sys \<Rightarrow> 'r \<times> ('w, 'ev) sys) \<Rightarrow> ('w, 'all) sys \<Rightarrow> 'r \<times> ('w, 'all) sys" where
  "within event f s =
     (case f \<lparr>ext = ext s, now = now s, hist = [], out = []\<rparr> of (r, s1) \<Rightarrow>
        (r, \<lparr>ext = ext s1, now = now s1, hist = hist s @ map event (hist s1), out = out s @ out s1\<rparr>))"

text \<open>An operation on the context and OCM, and one on the cluster.\<close>

definition with_ocm :: "('tc \<Rightarrow> 'w ocm_sys \<Rightarrow> 'r \<times> 'tc \<times> 'w ocm_sys) \<Rightarrow> 'tc \<times> 'w suite_sys \<Rightarrow> 'r \<times> 'tc \<times> 'w suite_sys" where
  "with_ocm f = (\<lambda>(tc, s).
     case within OcmEvent (\<lambda>t. case f tc t of (r, tc1, t1) \<Rightarrow> ((r, tc1), t1)) s of ((r, tc1), s1) \<Rightarrow> (r, tc1, s1))"

definition with_cluster :: "('w cluster_sys \<Rightarrow> 'r \<times> 'w cluster_sys) \<Rightarrow> 'tc \<times> 'w suite_sys \<Rightarrow> 'r \<times> 'tc \<times> 'w suite_sys" where
  "with_cluster f = on_sys (within ClusterEvent f)"

subsection \<open>Cleanups\<close>

text \<open>
  A function given to \<open>DeferCleanup\<close> may return an error, which fails the spec. All that were
  registered are run, the last one first.
\<close>

type_synonym 'w cleanup = "'w suite_sys \<Rightarrow> go_error option \<times> 'w suite_sys"

text \<open>The client of a cluster, for what the specs request themselves.\<close>

record 'w pod_client =
  CreateCommandPod :: "string \<Rightarrow> command_pod \<Rightarrow> ('w, ext_error option) api"
  GetPodPhase :: "string \<Rightarrow> string \<Rightarrow> ('w, ext_error + string) api"
  GetLogs :: "string \<Rightarrow> string \<Rightarrow> ('w, ext_error + string) api"
  CreateNetworkPolicy :: "string \<Rightarrow> network_policy \<Rightarrow> ('w, ext_error option) api"

record ('w, 'rest, 'kube, 'dyn, 'awscfg, 'ec2, 'ct) data_suite = "('w, 'rest, 'kube, 'dyn, 'awscfg, 'ec2, 'ct) suite" +
  apiErrors :: api_errors
  Poll :: "'w poller"
  clusterClient :: "'kube \<Rightarrow> 'w cluster_client"
  podClient :: "'kube \<Rightarrow> 'w pod_client"
  RunCleanups :: "'w cleanup list \<Rightarrow> 'w suite_sys \<Rightarrow> go_error option \<times> 'w suite_sys"

fun run_cleanups :: "'w cleanup list \<Rightarrow> 'w suite_sys \<Rightarrow> go_error list \<times> 'w suite_sys" where
  "run_cleanups [] s = ([], s)"
| "run_cleanups (f # fs) s =
     (case run_cleanups fs s of (errs, s1) \<Rightarrow>
        (case f s1 of (None, s2) \<Rightarrow> (errs, s2) | (Some e, s2) \<Rightarrow> (errs @ [e], s2)))"

definition cleanups_contract :: "('w cleanup list \<Rightarrow> 'w suite_sys \<Rightarrow> go_error option \<times> 'w suite_sys) \<Rightarrow> bool" where
  "cleanups_contract rc \<longleftrightarrow>
     (\<forall>fs s. snd (rc fs s) = snd (run_cleanups fs s) \<and> (fst (rc fs s) = None \<longleftrightarrow> fst (run_cleanups fs s) = []))"

text \<open>The stages before anything is deferred, and the part of a spec that may defer.\<close>

definition then_create where
  "then_create stages create x =
     (case run_stages stages x of
        None \<Rightarrow> None
      | Some (Pass, y) \<Rightarrow> create y
      | Some (oc, tc, s) \<Rightarrow> Some (oc, [], tc, s))"

definition It_creating where
  "It_creating en stages create cfg s =
     (case then_create stages create (NewTestContext cfg, s) of
        None \<Rightarrow> None
      | Some (oc, deferred, tc, s1) \<Rightarrow>
          (case RunCleanups en deferred s1 of (err, s2) \<Rightarrow>
             Some (if oc = Pass then outcome_of err else oc, tc, s2)))"

definition hosted_clients where
  "hosted_clients en = Expect_success (with_ocm (InitHCClients (suiteDeps en)))"

text \<open>
  Both kinds of creation with what follows them: \<open>use\<close> is the rest of the spec, which has
  the client of the hosted cluster.
\<close>

definition with_workload where
  "with_workload en namespace use = (\<lambda>(tc, s).
     case hcKubeClient tc of
       None \<Rightarrow> Some (Fail None, [], tc, s)
     | Some kube \<Rightarrow>
         (case with_cluster (DeployTestWorkload (apiErrors en) (Poll en) (clusterClient en kube) namespace) (tc, s) of
            (Inl e, tc1, s1) \<Rightarrow> Some (Fail (Some e), [], tc1, s1)
          | (Inr cleanup, tc1, s1) \<Rightarrow>
              (case use kube (tc1, s1) of
                 None \<Rightarrow> None
               | Some (oc, tc2, s2) \<Rightarrow> Some (oc, [within ClusterEvent (\<lambda>t. (None, cleanup t))], tc2, s2))))"

definition with_namespace where
  "with_namespace en namespace use = (\<lambda>(tc, s).
     case hcKubeClient tc of
       None \<Rightarrow> Some (Fail None, [], tc, s)
     | Some kube \<Rightarrow>
         (case with_cluster (CreateTestNamespace (apiErrors en) (Poll en) (clusterClient en kube) namespace) (tc, s) of
            (Inl e, tc1, s1) \<Rightarrow> Some (Fail (Some e), [], tc1, s1)
          | (Inr cleanup, tc1, s1) \<Rightarrow>
              (case use kube (tc1, s1) of
                 None \<Rightarrow> None
               | Some (oc, tc2, s2) \<Rightarrow> Some (oc, [within ClusterEvent cleanup], tc2, s2))))"

subsection \<open>Workloads\<close>

definition Expect_deployment_available where
  "Expect_deployment_available en namespace kube = (\<lambda>(tc, s).
     Some (outcome_of (VerifyDeploymentAvailable (kubeView en kube (ext s)) namespace ''test-nginx''), tc, s))"

definition workload_spec where
  "workload_spec en =
     It_creating en
       [Skip_without_cluster ''CLUSTER_ID not set, skipping data plane test'', hosted_clients en]
       (with_workload en ''e2e-workload-test'' (Expect_deployment_available en ''e2e-workload-test''))"

definition workload_after_upgrade where
  "workload_after_upgrade en =
     It_creating en
       [Skip_without_cluster ''CLUSTER_ID not set'',
        Skip_without_target ''UPGRADE_TARGET_VERSION not set, skipping post-upgrade workload check'', hosted_clients en]
       (with_workload en ''e2e-post-upgrade'' (Expect_deployment_available en ''e2e-post-upgrade''))"

subsection \<open>Storage\<close>

text \<open>\<open>gp3-csi\<close>, and the default class on OSD GCP.\<close>

definition storage_class where
  "storage_class en x =
     (case with_ocm (IsOSDGCP (suiteDeps en)) x of (gcp, y) \<Rightarrow> (if gcp then [] else ''gp3-csi'', y))"

definition Expect_pvc_bound where
  "Expect_pvc_bound en kube namespace claim = (\<lambda>(tc, s).
     case within OcmEvent (Eventually en (seconds 1) (seconds 1 div 100) (\<lambda>t.
            (outcome_of (VerifyPVCBound (kubeView en kube (ext t)) namespace claim), t))) s of
       (oc, s1) \<Rightarrow> Some (oc, tc, s1))"

definition bind_storage where
  "bind_storage en kube namespace x =
     (case storage_class en x of (class, y) \<Rightarrow>
       (case with_cluster (CreateTestPVC (clusterClient en kube) namespace class) y of
          (Inl e, z) \<Rightarrow> Some (Fail (Some e), z)
        | (Inr claim, z) \<Rightarrow>
            (case with_cluster (CreateTestPodWithPVC (clusterClient en kube) namespace claim) z of
               (Inl e, z1) \<Rightarrow> Some (Fail (Some e), z1)
             | (Inr _, z1) \<Rightarrow> Expect_pvc_bound en kube namespace claim z1)))"

definition storage_spec where
  "storage_spec en =
     It_creating en
       [Skip_without_cluster ''CLUSTER_ID not set, skipping storage test'', hosted_clients en]
       (with_namespace en ''e2e-storage-test'' (\<lambda>kube. bind_storage en kube ''e2e-storage-test''))"

subsection \<open>Networking\<close>

definition restrictedSecurityContext :: security_context where
  "restrictedSecurityContext =
     \<lparr>scAllowPrivilegeEscalation = False, scRunAsNonRoot = True, scSeccompProfile = ''RuntimeDefault'',
      scDropCapabilities = [''ALL'']\<rparr>"

definition command_pod_of :: "string \<Rightarrow> string \<Rightarrow> string \<Rightarrow> string list \<Rightarrow> command_pod" where
  "command_pod_of namespace pod_name containerName command =
     \<lparr>cpName = pod_name, cpNamespace = namespace,
      cpContainers =
        [\<lparr>ccName = containerName, ccImage = ''registry.access.redhat.com/ubi9/ubi-minimal:latest'',
          ccCommand = command, ccSecurityContext = restrictedSecurityContext\<rparr>],
      cpRestartPolicy = ''Never''\<rparr>"

definition dns_pod :: "string \<Rightarrow> command_pod" where
  "dns_pod namespace =
     command_pod_of namespace ''dns-test-pod'' ''dns-test''
       [''sh'', ''-c'', ''getent hosts kubernetes.default.svc.cluster.local && echo DNS_OK'']"

text \<open>The escapes of a line end in the argument of \<open>echo -e\<close>, and a quote.\<close>

definition escaped_crlf :: string where
  "escaped_crlf = [CHR 0x5C, CHR ''r'', CHR 0x5C, CHR ''n'']"

definition connectivity_pod :: "string \<Rightarrow> command_pod" where
  "connectivity_pod namespace =
     command_pod_of namespace ''connectivity-test-pod'' ''connectivity-test''
       [''bash'', ''-c'',
        ''echo -e '' @ CHR 0x27 # ''GET / HTTP/1.0'' @ escaped_crlf @ ''Host: test-nginx-svc'' @ escaped_crlf @ escaped_crlf @
        CHR 0x27 # '' > /dev/tcp/test-nginx-svc/80 && echo CONNECTIVITY_OK || echo CONNECTIVITY_FAILED'']"

definition phase_verdict :: "ext_error + string \<Rightarrow> go_error + bool" where
  "phase_verdict answer =
     (case answer of Inl e \<Rightarrow> Inl (Ext e) | Inr phase \<Rightarrow> Inr (phase = ''Succeeded'' \<or> phase = ''Failed''))"

definition pod_condition :: "'w pod_client \<Rightarrow> string \<Rightarrow> string \<Rightarrow> 'w condition" where
  "pod_condition pods namespace pod_name s =
     (case call (EvGetPod namespace pod_name) (GetPodPhase pods namespace pod_name) s of
        (answer, s1) \<Rightarrow> (phase_verdict answer, s1))"

text \<open>A pod that is created, waited for and then looked at once more.\<close>

definition run_pod :: "'w poller \<Rightarrow> 'w pod_client \<Rightarrow> string \<Rightarrow> command_pod \<Rightarrow> 'w cluster_sys \<Rightarrow> outcome \<times> 'w cluster_sys" where
  "run_pod poll pods namespace pod s =
     (case call (EvCreateCommandPod namespace pod) (CreateCommandPod pods namespace pod) s of
        (Some e, s1) \<Rightarrow> (Fail (Some (Ext e)), s1)
      | (None, s1) \<Rightarrow>
          (case poll (seconds 5) (minutes 3) True (pod_condition pods namespace (cpName pod)) s1 of
             (Some err, s2) \<Rightarrow> (Fail (Some err), s2)
           | (None, s2) \<Rightarrow>
               (case call (EvGetPod namespace (cpName pod)) (GetPodPhase pods namespace (cpName pod)) s2 of
                  (Inl e, s3) \<Rightarrow> (Fail (Some (Ext e)), s3)
                | (Inr phase, s3) \<Rightarrow> (if phase = ''Succeeded'' then Pass else Fail None, s3))))"

definition Expect_logged :: "'w pod_client \<Rightarrow> string \<Rightarrow> string \<Rightarrow> string \<Rightarrow> 'w cluster_sys \<Rightarrow> outcome \<times> 'w cluster_sys" where
  "Expect_logged pods namespace pod_name expected s =
     (case call (EvGetLogs namespace pod_name) (GetLogs pods namespace pod_name) s of
        (Inl e, s1) \<Rightarrow> (Fail (Some (Ext e)), s1)
      | (Inr logs, s1) \<Rightarrow> (if Contains (TrimSpace logs) expected then Pass else Fail None, s1))"

definition Expect_on_cluster :: "('w cluster_sys \<Rightarrow> outcome \<times> 'w cluster_sys) \<Rightarrow> ('tc \<times> 'w suite_sys) stage" where
  "Expect_on_cluster f x = Some (with_cluster f x)"

definition dns_spec where
  "dns_spec en =
     It_creating en
       [Skip_without_cluster ''CLUSTER_ID not set, skipping data plane test'', hosted_clients en]
       (with_namespace en ''e2e-dns-test'' (\<lambda>kube.
          Expect_on_cluster (run_pod (Poll en) (podClient en kube) ''e2e-dns-test'' (dns_pod ''e2e-dns-test''))))"

definition connect_to_service where
  "connect_to_service en namespace kube =
     run_stages
       [Expect_on_cluster (run_pod (Poll en) (podClient en kube) namespace (connectivity_pod namespace)),
        Expect_on_cluster (Expect_logged (podClient en kube) namespace ''connectivity-test-pod'' ''CONNECTIVITY_OK'')]"

definition connectivity_spec where
  "connectivity_spec en =
     It_creating en
       [Skip_without_cluster ''CLUSTER_ID not set, skipping data plane test'', hosted_clients en]
       (with_workload en ''e2e-network-test'' (connect_to_service en ''e2e-network-test''))"

text \<open>From \<^verbatim>\<open>customer_features_test.go\<close>.\<close>

definition deny_all :: "string \<Rightarrow> network_policy" where
  "deny_all namespace =
     \<lparr>npName = ''deny-all'', npNamespace = namespace, npPodSelector = [], npPolicyTypes = [''Ingress'', ''Egress'']\<rparr>"

definition create_policy :: "'w pod_client \<Rightarrow> string \<Rightarrow> 'w cluster_sys \<Rightarrow> outcome \<times> 'w cluster_sys" where
  "create_policy pods namespace s =
     (case call (EvCreateNetworkPolicy namespace (deny_all namespace)) (CreateNetworkPolicy pods namespace (deny_all namespace)) s of
        (Some e, s1) \<Rightarrow> (Fail (Some (Ext e)), s1)
      | (None, s1) \<Rightarrow> (Pass, s1))"

definition network_policy_spec where
  "network_policy_spec en =
     It_creating en
       [Skip_without_cluster ''CLUSTER_ID not set'', hosted_clients en]
       (with_namespace en ''e2e-netpol-test'' (\<lambda>kube. Expect_on_cluster (create_policy (podClient en kube) ''e2e-netpol-test'')))"

end
