(* ===== verification/DataSpecProperties.thy ===== *)
theory DataSpecProperties
  imports DataSpecs LifecycleProperties TestResourceProperties
begin

text \<open>
  What the specs that create something in a cluster leave behind. A spec that starts with a
  namespace always deletes it; one that starts with a workload does so exactly if its
  deployment became available, since the cleanup comes from the call that waits for it.
\<close>

subsection \<open>Histories of two services\<close>

lemma within_run:
  assumes "within event f s = (r, s')"
  shows "\<exists>t t'. f t = (r, t') \<and> hist t = [] \<and> ext t = ext s \<and> hist s' = hist s @ map event (hist t') \<and> ext s' = ext t'"
  using assms by (auto simp: within_def split: prod.splits) (metis sys.select_convs(1,3))

lemma with_ocm_run:
  assumes "with_ocm f (tc, s) = (r, tc', s')"
  shows "\<exists>evs. hist s' = hist s @ map OcmEvent evs"
  using assms by (auto simp: with_ocm_def split: prod.splits dest!: within_run)

lemma with_cluster_run:
  assumes "with_cluster f (tc, s) = (r, tc', s')"
  shows "\<exists>t t'. f t = (r, t') \<and> hist t = [] \<and> hist s' = hist s @ map ClusterEvent (hist t') \<and> tc' = tc"
  using assms by (auto simp: with_cluster_def on_sys_def split: prod.splits dest!: within_run)

text \<open>The stages before anything is created, which only read from OCM.\<close>

lemma hosted_clients_run:
  "\<exists>oc tc' s' evs. hosted_clients en (tc, s) = Some (oc, tc', s') \<and> hist s' = hist s @ map OcmEvent evs"
proof -
  obtain r tc' s' where i: "with_ocm (InitHCClients (suiteDeps en)) (tc, s) = (r, tc', s')"
    by (cases "with_ocm (InitHCClients (suiteDeps en)) (tc, s)")
  from with_ocm_run [OF i] i show ?thesis by (auto simp: hosted_clients_def Expect_success_def)
qed

definition quiet :: "('tc \<times> 'w suite_sys) stage \<Rightarrow> bool" where
  "quiet st \<longleftrightarrow> (\<forall>tc s. \<exists>oc tc' s' evs. st (tc, s) = Some (oc, tc', s') \<and> hist s' = hist s @ map OcmEvent evs)"

lemma quiet_stages: "list_all quiet sts \<Longrightarrow> quiet (run_stages sts)"
proof (induction sts)
  case Nil
  have "hist s = hist s @ map OcmEvent []" for s :: "'w suite_sys" by simp
  then show ?case unfolding quiet_def by (metis run_stages.simps(1))
next
  case (Cons st sts)
  show ?case
    unfolding quiet_def
  proof (intro allI)
    fix tc s
    from Cons.prems obtain oc tc1 s1 evs where 1: "st (tc, s) = Some (oc, tc1, s1)" "hist s1 = hist s @ map OcmEvent evs"
      unfolding quiet_def list.pred_inject by blast
    from Cons obtain oc2 tc2 s2 more where 2: "run_stages sts (tc1, s1) = Some (oc2, tc2, s2)"
      "hist s2 = hist s1 @ map OcmEvent more" unfolding quiet_def list.pred_inject by blast
    have h: "hist s2 = hist s @ map OcmEvent (evs @ more)" using 1 2 by simp
    have "run_stages (st # sts) (tc, s) = (if oc = Pass then Some (oc2, tc2, s2) else Some (oc, tc1, s1))"
      using 1(1) 2(1) by (cases oc) simp_all
    with 1(2) h show "\<exists>oc tc' s' evs. run_stages (st # sts) (tc, s) = Some (oc, tc', s') \<and> hist s' = hist s @ map OcmEvent evs"
      by metis
  qed
qed

lemma quiet_skips: "quiet (Skip_without_cluster msg)" "quiet (Skip_without_target msg)" "quiet (hosted_clients en)"
  using hosted_clients_run
  by (auto simp: quiet_def Skip_without_cluster_def Skip_without_target_def Skip_if_def)

text \<open>
  A spec over such stages and a part that creates: what that part guarantees of its outcome,
  its requests and what it has deferred, with the cleanups run after it.
\<close>

definition creates_as ::
  "(outcome \<Rightarrow> suite_event list \<Rightarrow> 'w cleanup list \<Rightarrow> bool) \<Rightarrow>
   ('tc \<times> 'w suite_sys \<Rightarrow> (outcome \<times> 'w cleanup list \<times> 'tc \<times> 'w suite_sys) option) \<Rightarrow> bool" where
  "creates_as Q create \<longleftrightarrow>
     (\<forall>tc s. \<exists>oc deferred tc' s' evs. create (tc, s) = Some (oc, deferred, tc', s') \<and> hist s' = hist s @ evs \<and> Q oc evs deferred)"

lemma It_creating_run:
  assumes create: "creates_as Q create" and stages: "list_all quiet stages"
    and idle_ok: "\<And>oc. oc \<noteq> Pass \<Longrightarrow> Q oc [] []"
  shows "\<exists>oc deferred evs1 evs2 err tc s1 s'. It_creating en stages create cfg s =
      Some (if oc = Pass then outcome_of err else oc, tc, s') \<and>
     hist s1 = hist s @ map OcmEvent evs1 @ evs2 \<and> Q oc evs2 deferred \<and> RunCleanups en deferred s1 = (err, s')"
proof -
  obtain oc1 tc1 t1 evs1 where 1: "run_stages stages (NewTestContext cfg, s) = Some (oc1, tc1, t1)"
    "hist t1 = hist s @ map OcmEvent evs1"
    using quiet_stages [OF stages] unfolding quiet_def by blast
  show ?thesis
  proof (cases "oc1 = Pass")
    case True
    obtain oc deferred tc s1 evs2 where 2: "create (tc1, t1) = Some (oc, deferred, tc, s1)" "hist s1 = hist t1 @ evs2"
      "Q oc evs2 deferred" using create unfolding creates_as_def by blast
    obtain err s' where 3: "RunCleanups en deferred s1 = (err, s')" by (cases "RunCleanups en deferred s1")
    have "It_creating en stages create cfg s = Some (if oc = Pass then outcome_of err else oc, tc, s')"
      using 1 2 3 True by (simp add: It_creating_def then_create_def)
    moreover have "hist s1 = hist s @ map OcmEvent evs1 @ evs2" using 1 2 by simp
    ultimately show ?thesis using 2(3) 3 by (intro exI conjI)
  next
    case False
    obtain err s' where 3: "RunCleanups en [] t1 = (err, s')" by (cases "RunCleanups en [] t1")
    have "It_creating en stages create cfg s = Some (if oc1 = Pass then outcome_of err else oc1, tc1, s')"
      using 1 3 False by (cases oc1) (simp_all add: It_creating_def then_create_def)
    moreover have "hist t1 = hist s @ map OcmEvent evs1 @ []" using 1 by simp
    moreover have "Q oc1 [] []" by (rule idle_ok [OF False])
    ultimately show ?thesis using 3 by blast
  qed
qed

text \<open>The one cleanup of these specs.\<close>

lemma cleanup_run:
  assumes "cleanups_contract rc"
  shows "rc [] s = (err, s') \<Longrightarrow> err = None \<and> s' = s"
    and "rc [f] s = (err, s') \<Longrightarrow> f s = (e, t) \<Longrightarrow> s' = t \<and> (err = None \<longleftrightarrow> e = None)"
proof -
  have c: "snd (rc fs s) = snd (run_cleanups fs s)" "fst (rc fs s) = None \<longleftrightarrow> fst (run_cleanups fs s) = []" for fs
    using assms by (simp_all add: cleanups_contract_def)
  show "rc [] s = (err, s') \<Longrightarrow> err = None \<and> s' = s" using c [of "[]"] by simp
  show "rc [f] s = (err, s') \<Longrightarrow> f s = (e, t) \<Longrightarrow> s' = t \<and> (err = None \<longleftrightarrow> e = None)"
    using c [of "[f]"] by (cases e) simp_all
qed

subsection \<open>What follows a creation\<close>

definition deletes :: "string \<Rightarrow> suite_event \<Rightarrow> bool" where
  "deletes namespace e \<longleftrightarrow> (\<exists>a. e = ClusterEvent (EvDeleteNamespace namespace a))"

definition creates :: "suite_event \<Rightarrow> bool" where
  "creates e \<longleftrightarrow> (\<exists>ns a. e = ClusterEvent (EvCreateNamespace ns a))"

definition harmless :: "string \<Rightarrow> suite_event list \<Rightarrow> bool" where
  "harmless namespace evs \<longleftrightarrow> list_all (\<lambda>e. \<not> deletes namespace e \<and> \<not> creates e) evs"

text \<open>
  A part of a spec that returns, leaves namespaces alone, and passes only with evidence in
  its requests.
\<close>

definition yields :: "string \<Rightarrow> (suite_event list \<Rightarrow> bool) \<Rightarrow> ('tc \<times> 'w suite_sys) stage \<Rightarrow> bool" where
  "yields namespace evidence st \<longleftrightarrow>
     (\<forall>tc s. \<exists>oc tc' s' evs. st (tc, s) = Some (oc, tc', s') \<and> hist s' = hist s @ evs \<and> harmless namespace evs \<and>
        (oc = Pass \<longrightarrow> evidence evs))"

lemma yieldsI:
  assumes "\<And>tc s. \<exists>oc tc' s' evs. st (tc, s) = Some (oc, tc', s') \<and> hist s' = hist s @ evs \<and> harmless namespace evs \<and>
     (oc = Pass \<longrightarrow> evidence evs)"
  shows "yields namespace evidence st"
  using assms by (simp add: yields_def)

lemma yields_on_cluster:
  assumes "\<And>t oc t'. f t = (oc, t') \<Longrightarrow> hist t = [] \<Longrightarrow>
     harmless namespace (map ClusterEvent (hist t')) \<and> (oc = Pass \<longrightarrow> evidence (map ClusterEvent (hist t')))"
  shows "yields namespace evidence (Expect_on_cluster f)"
proof (rule yieldsI)
  fix tc s
  obtain oc tc1 s1 where run: "with_cluster f (tc, s) = (oc, tc1, s1)" by (cases "with_cluster f (tc, s)")
  from with_cluster_run [OF run] assms show "\<exists>oc tc' s' evs. Expect_on_cluster f (tc, s) = Some (oc, tc', s') \<and>
      hist s' = hist s @ evs \<and> harmless namespace evs \<and> (oc = Pass \<longrightarrow> evidence evs)"
    unfolding Expect_on_cluster_def run by blast
qed

lemma yields_both:
  assumes "yields namespace P st1" and "yields namespace Q st2"
  shows "yields namespace (\<lambda>evs. \<exists>xs ys. evs = xs @ ys \<and> P xs \<and> Q ys) (run_stages [st1, st2])"
proof (rule yieldsI)
  fix tc s
  obtain oc1 tc1 s1 xs where 1: "st1 (tc, s) = Some (oc1, tc1, s1)" "hist s1 = hist s @ xs" "harmless namespace xs"
    "oc1 = Pass \<longrightarrow> P xs" using assms(1) unfolding yields_def by blast
  obtain oc2 tc2 s2 ys where 2: "st2 (tc1, s1) = Some (oc2, tc2, s2)" "hist s2 = hist s1 @ ys" "harmless namespace ys"
    "oc2 = Pass \<longrightarrow> Q ys" using assms(2) unfolding yields_def by blast
  show "\<exists>oc tc' s' evs. run_stages [st1, st2] (tc, s) = Some (oc, tc', s') \<and> hist s' = hist s @ evs \<and>
      harmless namespace evs \<and> (oc = Pass \<longrightarrow> (\<exists>xs ys. evs = xs @ ys \<and> P xs \<and> Q ys))"
  proof (cases "oc1 = Pass")
    case True
    have "run_stages [st1, st2] (tc, s) = Some (oc2, tc2, s2)" using 1(1) 2(1) True by (cases oc2) simp_all
    moreover have "harmless namespace (xs @ ys)" using 1(3) 2(3) by (simp add: harmless_def)
    moreover have "hist s2 = hist s @ (xs @ ys)" using 1(2) 2(2) by simp
    moreover have "oc2 = Pass \<longrightarrow> (\<exists>x y. xs @ ys = x @ y \<and> P x \<and> Q y)" using 1(4) 2(4) True by blast
    ultimately show ?thesis by blast
  next
    case False
    with 1(1) have "run_stages [st1, st2] (tc, s) = Some (oc1, tc1, s1)" by (cases oc1) simp_all
    with 1(2,3) False show ?thesis by blast
  qed
qed

subsection \<open>After a workload\<close>

definition seen_available :: "string \<Rightarrow> suite_event \<Rightarrow> bool" where
  "seen_available namespace e \<longleftrightarrow>
     (\<exists>answer. e = ClusterEvent (EvGetDeployment namespace ''test-nginx'' answer) \<and> available answer)"

text \<open>What such a spec sends, and what it defers.\<close>

definition deploys :: "string \<Rightarrow> (suite_event list \<Rightarrow> bool) \<Rightarrow> outcome \<Rightarrow> suite_event list \<Rightarrow> 'w cleanup list \<Rightarrow> bool" where
  "deploys namespace evidence oc evs deferred \<longleftrightarrow>
     (\<exists>sent used. evs = map ClusterEvent sent @ used \<and> (oc = Pass \<longrightarrow> evidence used) \<and> harmless namespace used \<and>
        (\<forall>ns a. EvCreateNamespace ns a \<in> set sent \<longrightarrow> nsName ns = namespace) \<and>
        list_all (\<lambda>e. \<not> deletes namespace e) (map ClusterEvent sent) \<and>
        (if list_ex (seen_available namespace) (map ClusterEvent sent)
         then \<exists>cleanup. deferred = [cleanup] \<and>
           (\<forall>s. \<exists>a s'. cleanup s = (None, s') \<and> hist s' = hist s @ [ClusterEvent (EvDeleteNamespace namespace a)])
         else used = [] \<and> deferred = [] \<and> oc \<noteq> Pass))"

lemma discard_cleanup:
  "\<exists>a s'. within ClusterEvent (\<lambda>t. (None, discard_namespace cl namespace t)) s = (None, s') \<and>
     hist s' = hist s @ [ClusterEvent (EvDeleteNamespace namespace a)]"
  by (simp add: within_def discard_namespace_def call_def split: prod.splits)

text \<open>The requests of a deployment, as the specs need them.\<close>

lemma DeployTestWorkload_sent:
  assumes "poll_contract poll" and "DeployTestWorkload k poll cl namespace t = (r, t')" and "hist t = []"
  shows "(\<forall>ns a. EvCreateNamespace ns a \<in> set (hist t') \<longrightarrow> nsName ns = namespace) \<and>
    list_all (\<lambda>e. \<not> deletes namespace e) (map ClusterEvent (hist t')) \<and>
    (list_ex (seen_available namespace) (map ClusterEvent (hist t')) \<longleftrightarrow> (\<exists>cleanup. r = Inr cleanup)) \<and>
    (\<forall>cleanup. r = Inr cleanup \<longrightarrow> cleanup = discard_namespace cl namespace)"
proof -
  have c: "r = Inr cleanup \<Longrightarrow> cleanup = discard_namespace cl namespace" for cleanup
    using assms(2) by (auto simp: DeployTestWorkload_def Let_def split: prod.splits option.splits if_splits)
  have last: "(\<exists>x \<in> set gets. available x) \<longleftrightarrow> available (last gets)"
    if "gets \<noteq> []" "list_all unavailable (butlast gets)" for gets
  proof -
    have "set gets = insert (last gets) (set (butlast gets))"
      using that(1) by (metis append_butlast_last_id list.simps(15) rotate1.simps(2) set_rotate1)
    then have "(\<exists>x \<in> set gets. available x) \<longleftrightarrow> available (last gets) \<or> (\<exists>x \<in> set (butlast gets). available x)" by simp
    moreover have "unavailable x \<Longrightarrow> \<not> available x" for x
      by (simp add: available_def unavailable_def split: sum.splits)
    ultimately show ?thesis using that(2) by (auto simp: list_all_iff)
  qed
  show ?thesis
    using DeployTestWorkload_run [OF assms(1,2)]
  proof (elim exE, goal_cases)
    case (1 a1 a2 a3 gets)
    note h = 1 [unfolded Let_def assms(3) append_Nil]
    show ?case
    proof (cases "created k a1 \<and> a2 = None \<and> a3 = None")
      case True
      with h have g: "gets \<noteq> []" "list_all unavailable (butlast gets)" "(\<exists>cleanup. r = Inr cleanup) \<longleftrightarrow> available (last gets)"
        "hist t' = [EvCreateNamespace \<lparr>nsName = namespace, nsLabels = []\<rparr> a1,
          EvCreateDeployment namespace (nginx_deployment namespace) a2, EvCreateService namespace (nginx_service namespace) a3] @
          map (EvGetDeployment namespace ''test-nginx'') gets" by simp_all
      show ?thesis
        unfolding g(4) using last [OF g(1,2)] g(3) c
        by (auto simp: deletes_def seen_available_def list_all_iff list_ex_iff)
    next
      case False
      with h have "(\<exists>e. r = Inl e) \<and> (\<exists>n \<le> 3. hist t' = take n [EvCreateNamespace \<lparr>nsName = namespace, nsLabels = []\<rparr> a1,
          EvCreateDeployment namespace (nginx_deployment namespace) a2, EvCreateService namespace (nginx_service namespace) a3])"
        by (auto split: if_splits intro: exI [where x = 1] exI [where x = 2] exI [where x = 3])
      then have "\<exists>e. r = Inl e" and "set (hist t') \<subseteq> set [EvCreateNamespace \<lparr>nsName = namespace, nsLabels = []\<rparr> a1,
          EvCreateDeployment namespace (nginx_deployment namespace) a2, EvCreateService namespace (nginx_service namespace) a3]"
        by (metis set_take_subset)+
      then show ?thesis by (auto simp: deletes_def seen_available_def list_all_iff list_ex_iff)
    qed
  qed
qed

lemma with_workload_deploys:
  assumes "poll_contract (Poll en)" and use: "\<And>kube. yields namespace evidence (use kube)"
  shows "creates_as (deploys namespace evidence) (with_workload en namespace use)"
  unfolding creates_as_def
proof (intro allI)
  fix tc s
  show "\<exists>oc deferred tc' s' evs. with_workload en namespace use (tc, s) = Some (oc, deferred, tc', s') \<and>
      hist s' = hist s @ evs \<and> deploys namespace evidence oc evs deferred"
  proof (cases "hcKubeClient tc")
    case None
    have "deploys namespace evidence (Fail None) [] []" by (simp add: deploys_def harmless_def)
    with None show ?thesis by (auto simp: with_workload_def)
  next
    case (Some kube)
    let ?deploy = "DeployTestWorkload (apiErrors en) (Poll en) (clusterClient en kube) namespace"
    obtain r tc1 s1 where d: "with_cluster ?deploy (tc, s) = (r, tc1, s1)"
      by (cases "with_cluster ?deploy (tc, s)")
    from with_cluster_run [OF d] obtain t t' where t: "?deploy t = (r, t')" "hist t = []"
      "hist s1 = hist s @ map ClusterEvent (hist t')" "tc1 = tc" by blast
    note sent = DeployTestWorkload_sent [OF assms(1) t(1,2)]
    show ?thesis
    proof (cases r)
      case (Inl e)
      with sent have "deploys namespace evidence (Fail (Some e)) (map ClusterEvent (hist t') @ []) []"
        unfolding deploys_def by (intro exI [where x = "hist t'"] exI [where x = "[]"]) (simp add: harmless_def)
      with Some d Inl t(3) show ?thesis by (auto simp: with_workload_def)
    next
      case (Inr cleanup)
      obtain oc tc2 s2 evs where u: "use kube (tc1, s1) = Some (oc, tc2, s2)" "hist s2 = hist s1 @ evs"
        "harmless namespace evs" "oc = Pass \<longrightarrow> evidence evs" using use unfolding yields_def by blast
      have "cleanup = discard_namespace (clusterClient en kube) namespace" using sent Inr by blast
      then have "deploys namespace evidence oc (map ClusterEvent (hist t') @ evs) [within ClusterEvent (\<lambda>t. (None, cleanup t))]"
        using sent Inr discard_cleanup u(3,4) unfolding deploys_def
        by (intro exI [where x = "hist t'"] exI [where x = evs]) auto
      moreover have "with_workload en namespace use (tc, s) =
          Some (oc, [within ClusterEvent (\<lambda>t. (None, cleanup t))], tc2, s2)"
        using Some d Inr u(1) by (simp add: with_workload_def)
      ultimately show ?thesis using t(3) u(2) by (metis append.assoc)
    qed
  qed
qed

subsection \<open>After a namespace\<close>

text \<open>The requests for a namespace, and the answers to the request to delete it that do.\<close>

definition asked :: "string \<Rightarrow> ext_error option list \<Rightarrow> suite_event list" where
  "asked namespace answers = map (ClusterEvent \<circ> EvCreateNamespace (test_namespace namespace)) answers"

definition gone :: "api_errors \<Rightarrow> ext_error option \<Rightarrow> bool" where
  "gone k answer \<longleftrightarrow> (case answer of None \<Rightarrow> True | Some e \<Rightarrow> IsNotFound k e)"

definition owns where
  "owns k namespace evidence oc evs deferred \<longleftrightarrow>
     (\<exists>answers used. evs = asked namespace answers @ used \<and> list_all (transient k) (butlast answers) \<and>
       (if answers \<noteq> [] \<and> created k (last answers)
        then harmless namespace used \<and> (oc = Pass \<longrightarrow> evidence used) \<and>
          (\<exists>cleanup. deferred = [cleanup] \<and> (\<forall>s e s'. cleanup s = (e, s') \<longrightarrow>
            (\<exists>a. hist s' = hist s @ [ClusterEvent (EvDeleteNamespace namespace a)] \<and> (e = None \<longleftrightarrow> gone k a))))
        else used = [] \<and> deferred = [] \<and> oc \<noteq> Pass))"

lemma with_namespace_owns:
  assumes "poll_contract (Poll en)" and use: "\<And>kube. yields namespace evidence (use kube)"
  shows "creates_as (owns (apiErrors en) namespace evidence) (with_namespace en namespace use)"
  unfolding creates_as_def
proof (intro allI)
  fix tc s
  let ?k = "apiErrors en"
  show "\<exists>oc deferred tc' s' evs. with_namespace en namespace use (tc, s) = Some (oc, deferred, tc', s') \<and>
      hist s' = hist s @ evs \<and> owns ?k namespace evidence oc evs deferred"
  proof (cases "hcKubeClient tc")
    case None
    have "owns ?k namespace evidence (Fail None) [] []" by (auto simp: owns_def asked_def)
    with None show ?thesis by (auto simp: with_namespace_def)
  next
    case (Some kube)
    let ?op = "CreateTestNamespace ?k (Poll en) (clusterClient en kube) namespace"
    obtain r tc1 s1 where c: "with_cluster ?op (tc, s) = (r, tc1, s1)" by (cases "with_cluster ?op (tc, s)")
    from with_cluster_run [OF c] obtain t t' where t: "?op t = (r, t')" "hist t = []"
      "hist s1 = hist s @ map ClusterEvent (hist t')" "tc1 = tc" by blast
    from CreateTestNamespace_run [OF assms(1) t(1)] obtain answers where
      answers: "answers \<noteq> []" "hist t' = map (EvCreateNamespace (test_namespace namespace)) answers"
        "list_all (transient ?k) (butlast answers)"
        "(\<exists>cleanup. r = Inr cleanup) \<longleftrightarrow> created ?k (last answers)" and
      cleanup: "\<And>cleanup t err t'. r = Inr cleanup \<Longrightarrow> cleanup t = (err, t') \<Longrightarrow>
        \<exists>a. hist t' = hist t @ [EvDeleteNamespace namespace a] \<and>
          (err = None \<longleftrightarrow> (\<forall>e. a = Some e \<longrightarrow> IsNotFound ?k e))"
      unfolding t(2) append_Nil by blast
    have h1: "hist s1 = hist s @ asked namespace answers" using t(3) answers(2) by (simp add: asked_def)
    show ?thesis
    proof (cases r)
      case (Inl e)
      with answers have "owns ?k namespace evidence (Fail (Some e)) (asked namespace answers) []" by (auto simp: owns_def)
      moreover have "with_namespace en namespace use (tc, s) = Some (Fail (Some e), [], tc1, s1)"
        using Some c Inl by (simp add: with_namespace_def)
      ultimately show ?thesis using h1 by blast
    next
      case (Inr discard)
      obtain oc tc2 s2 evs where u: "use kube (tc1, s1) = Some (oc, tc2, s2)" "hist s2 = hist s1 @ evs"
        "harmless namespace evs" "oc = Pass \<longrightarrow> evidence evs" using use unfolding yields_def by blast
      have d: "\<exists>a. hist s' = hist s @ [ClusterEvent (EvDeleteNamespace namespace a)] \<and> (e = None \<longleftrightarrow> gone ?k a)"
        if w: "within ClusterEvent discard s = (e, s')" for s e s'
      proof -
        from within_run [OF w] obtain u u' where u: "discard u = (e, u')" "hist u = []"
          "hist s' = hist s @ map ClusterEvent (hist u')" by blast
        with cleanup [OF Inr u(1)] show ?thesis by (auto simp: gone_def split: option.splits)
      qed
      have "owns ?k namespace evidence oc (asked namespace answers @ evs) [within ClusterEvent discard]"
        unfolding owns_def using answers Inr u(3,4) d
        by (intro exI [where x = answers] exI [where x = evs]) simp
      moreover have "with_namespace en namespace use (tc, s) = Some (oc, [within ClusterEvent discard], tc2, s2)"
        using Some c Inr u(1) by (simp add: with_namespace_def)
      ultimately show ?thesis using h1 u(2) by (metis append.assoc)
    qed
  qed
qed

subsection \<open>Storage\<close>

text \<open>A claim and a pod that mounts it were accepted, and the claim was seen bound.\<close>

definition volume_bound where
  "volume_bound en namespace evs \<longleftrightarrow>
     (\<exists>sclass \<in> {[], ''gp3-csi''}. ClusterEvent (EvCreatePVC namespace (test_pvc namespace sclass) None) \<in> set evs) \<and>
     ClusterEvent (EvCreatePod namespace (test_pod namespace ''test-pvc'') None) \<in> set evs \<and>
     (\<exists>kube w. VerifyPVCBound (kubeView en kube w) namespace ''test-pvc'' = None)"

lemma Expect_pvc_bound_run:
  assumes "eventually_contract (Eventually en)" and "Expect_pvc_bound en kube namespace claim (tc, s) = Some (oc, tc', s')"
  shows "\<exists>evs. hist s' = hist s @ map OcmEvent evs \<and>
    (oc = Pass \<longrightarrow> (\<exists>w. VerifyPVCBound (kubeView en kube w) namespace claim = None))"
proof -
  let ?f = "\<lambda>t. (outcome_of (VerifyPVCBound (kubeView en kube (ext t)) namespace claim), t)"
  have w: "within OcmEvent (Eventually en (seconds 1) (seconds 1 div 100) ?f) s = (oc, s')"
    using assms(2) by (auto simp: Expect_pvc_bound_def split: prod.splits)
  from within_run [OF w] obtain t t' where t: "Eventually en (seconds 1) (seconds 1 div 100) ?f t = (oc, t')"
    "hist s' = hist s @ map OcmEvent (hist t')" by blast
  from assms(1) t(1) have "eventually_run ?f t oc t'" by (auto simp: eventually_contract_def)
  then have "oc = Pass \<Longrightarrow> \<exists>w. VerifyPVCBound (kubeView en kube w) namespace claim = None"
    by (induction rule: eventually_run.induct) (auto simp: outcome_of_def split: option.splits)
  with t(2) show ?thesis by blast
qed

lemma storage_class_run:
  assumes "storage_class en (tc, s) = (sclass, tc', s')"
  shows "sclass \<in> {[], ''gp3-csi''} \<and> (\<exists>evs. hist s' = hist s @ map OcmEvent evs)"
  using assms by (auto simp: storage_class_def split: prod.splits if_splits dest: with_ocm_run)

lemma CreateTestPVC_run:
  assumes "CreateTestPVC cl namespace sclass t = (r, t')"
  shows "\<exists>a. hist t' = hist t @ [EvCreatePVC namespace (test_pvc namespace sclass) a] \<and>
    (case r of Inl _ \<Rightarrow> a \<noteq> None | Inr claim \<Rightarrow> a = None \<and> claim = ''test-pvc'')"
  using assms by (auto simp: CreateTestPVC_def Let_def dest!: hist_call split: prod.splits option.splits)

lemma CreateTestPodWithPVC_run:
  assumes "CreateTestPodWithPVC cl namespace claim t = (r, t')"
  shows "\<exists>a. hist t' = hist t @ [EvCreatePod namespace (test_pod namespace claim) a] \<and> ((\<exists>x. r = Inr x) \<longleftrightarrow> a = None)"
  using assms by (auto simp: CreateTestPodWithPVC_def Let_def dest!: hist_call split: prod.splits option.splits)

lemma bind_storage_yields:
  assumes "eventually_contract (Eventually en)"
  shows "yields namespace (volume_bound en namespace) (bind_storage en kube namespace)"
proof (rule yieldsI)
  fix tc s
  obtain sclass tc1 s1 where 1: "storage_class en (tc, s) = (sclass, tc1, s1)" by (cases "storage_class en (tc, s)")
  from storage_class_run [OF 1] obtain ocm where sclass: "sclass \<in> {[], ''gp3-csi''}" "hist s1 = hist s @ map OcmEvent ocm" by blast
  let ?pvc_op = "CreateTestPVC (clusterClient en kube) namespace sclass"
  let ?pvc = "with_cluster ?pvc_op"
  obtain r tc2 s2 where 2: "?pvc (tc1, s1) = (r, tc2, s2)" by (cases "?pvc (tc1, s1)")
  from with_cluster_run [OF 2] obtain t t' where t: "?pvc_op t = (r, t')" "hist t = []"
    "hist s2 = hist s1 @ map ClusterEvent (hist t')" by blast
  with CreateTestPVC_run [OF t(1)] obtain a where
    pvc: "hist s2 = hist s1 @ [ClusterEvent (EvCreatePVC namespace (test_pvc namespace sclass) a)]"
      "case r of Inl _ \<Rightarrow> a \<noteq> None | Inr claim \<Rightarrow> a = None \<and> claim = ''test-pvc''" by auto
  show "\<exists>oc tc' s' evs. bind_storage en kube namespace (tc, s) = Some (oc, tc', s') \<and> hist s' = hist s @ evs \<and>
      harmless namespace evs \<and> (oc = Pass \<longrightarrow> volume_bound en namespace evs)"
  proof (cases r)
    case (Inl e)
    let ?evs = "map OcmEvent ocm @ [ClusterEvent (EvCreatePVC namespace (test_pvc namespace sclass) a)]"
    have "bind_storage en kube namespace (tc, s) = Some (Fail (Some e), tc2, s2)" using 1 2 Inl by (simp add: bind_storage_def)
    moreover have "hist s2 = hist s @ ?evs" using sclass(2) pvc(1) by simp
    moreover have "harmless namespace ?evs" by (auto simp: harmless_def deletes_def creates_def list_all_iff)
    ultimately show ?thesis by blast
  next
    case (Inr claim)
    with pvc have a: "a = None" "claim = ''test-pvc''" by simp_all
    let ?pod_op = "CreateTestPodWithPVC (clusterClient en kube) namespace ''test-pvc''"
    let ?pod = "with_cluster ?pod_op"
    obtain r2 tc3 s3 where 3: "?pod (tc2, s2) = (r2, tc3, s3)" by (cases "?pod (tc2, s2)")
    from with_cluster_run [OF 3] obtain t t' where t: "?pod_op t = (r2, t')" "hist t = []"
      "hist s3 = hist s2 @ map ClusterEvent (hist t')" by blast
    with CreateTestPodWithPVC_run [OF t(1)] obtain b where
      pod: "hist s3 = hist s2 @ [ClusterEvent (EvCreatePod namespace (test_pod namespace ''test-pvc'') b)]"
        "(\<exists>x. r2 = Inr x) \<longleftrightarrow> b = None" by auto
    let ?sent = "map OcmEvent ocm @ [ClusterEvent (EvCreatePVC namespace (test_pvc namespace sclass) None),
        ClusterEvent (EvCreatePod namespace (test_pod namespace ''test-pvc'') b)]"
    have h3: "hist s3 = hist s @ ?sent" using sclass(2) pvc(1) pod(1) a by simp
    show ?thesis
    proof (cases r2)
      case (Inl e)
      then have "bind_storage en kube namespace (tc, s) = Some (Fail (Some e), tc3, s3)"
        using 1 2 3 Inr a by (simp add: bind_storage_def)
      moreover have "harmless namespace ?sent" by (auto simp: harmless_def deletes_def creates_def list_all_iff)
      ultimately show ?thesis using h3 by blast
    next
      case r2: (Inr x)
      obtain oc tc4 s4 where 4: "Expect_pvc_bound en kube namespace ''test-pvc'' (tc3, s3) = Some (oc, tc4, s4)"
        by (auto simp: Expect_pvc_bound_def case_prod_beta)
      from Expect_pvc_bound_run [OF assms 4] obtain more where
        bound: "hist s4 = hist s3 @ map OcmEvent more"
          "oc = Pass \<longrightarrow> (\<exists>w. VerifyPVCBound (kubeView en kube w) namespace ''test-pvc'' = None)" by blast
      have run: "bind_storage en kube namespace (tc, s) = Some (oc, tc4, s4)"
        using 1 2 3 4 Inr r2 a by (simp add: bind_storage_def)
      have "oc = Pass \<longrightarrow> volume_bound en namespace (?sent @ map OcmEvent more)"
        using bound(2) pod(2) r2 sclass(1) by (auto simp: volume_bound_def)
      moreover have "harmless namespace (?sent @ map OcmEvent more)"
        by (auto simp: harmless_def deletes_def creates_def list_all_iff)
      moreover have "hist s4 = hist s @ (?sent @ map OcmEvent more)" using h3 bound(1) by simp
      ultimately show ?thesis using run by blast
    qed
  qed
qed
subsection \<open>Networking\<close>

definition running :: "ext_error + string \<Rightarrow> bool" where
  "running answer \<longleftrightarrow> (case answer of Inl _ \<Rightarrow> False | Inr phase \<Rightarrow> phase \<noteq> ''Succeeded'' \<and> phase \<noteq> ''Failed'')"

text \<open>The pod was created, seen to run until it was done, and then seen to have succeeded.\<close>

definition pod_succeeded :: "string \<Rightarrow> command_pod \<Rightarrow> suite_event list \<Rightarrow> bool" where
  "pod_succeeded namespace pod evs \<longleftrightarrow>
     (\<exists>answers. evs = ClusterEvent (EvCreateCommandPod namespace pod None) #
          map (ClusterEvent \<circ> EvGetPod namespace (cpName pod)) (answers @ [Inr ''Succeeded'']) \<and>
        answers \<noteq> [] \<and> list_all running (butlast answers) \<and> \<not> running (last answers))"

definition logged :: "string \<Rightarrow> string \<Rightarrow> string \<Rightarrow> suite_event list \<Rightarrow> bool" where
  "logged namespace pod_name expected evs \<longleftrightarrow>
     (\<exists>logs. evs = [ClusterEvent (EvGetLogs namespace pod_name (Inr logs))] \<and> sublist expected (TrimSpace logs))"

definition connected :: "string \<Rightarrow> suite_event list \<Rightarrow> bool" where
  "connected namespace evs \<longleftrightarrow>
     (\<exists>xs ys. evs = xs @ ys \<and> pod_succeeded namespace (connectivity_pod namespace) xs \<and>
        logged namespace ''connectivity-test-pod'' ''CONNECTIVITY_OK'' ys)"

definition policy_accepted :: "string \<Rightarrow> suite_event list \<Rightarrow> bool" where
  "policy_accepted namespace evs \<longleftrightarrow> evs = [ClusterEvent (EvCreateNetworkPolicy namespace (deny_all namespace) None)]"

interpretation pod_phase: request_condition "pod_condition pods namespace pod_name"
    "EvGetPod namespace pod_name" phase_verdict
  by unfold_locales (auto simp: pod_condition_def dest: hist_call split: prod.splits)

lemma phase_verdict_iff:
  "phase_verdict a = Inr False \<longleftrightarrow> running a" "phase_verdict a = Inr True \<Longrightarrow> \<not> running a"
  by (auto simp: phase_verdict_def running_def split: sum.splits)

lemma run_pod_run:
  assumes "poll_contract poll" and "run_pod poll pods namespace pod t = (oc, t')" and "hist t = []"
  shows "\<exists>a answers. hist t' = EvCreateCommandPod namespace pod a # map (EvGetPod namespace (cpName pod)) answers \<and>
    (oc = Pass \<longrightarrow> pod_succeeded namespace pod (map ClusterEvent (hist t')))"
proof -
  obtain a s1 where 1: "call (EvCreateCommandPod namespace pod) (CreateCommandPod pods namespace pod) t = (a, s1)"
    by (cases "call (EvCreateCommandPod namespace pod) (CreateCommandPod pods namespace pod) t")
  from hist_call [OF 1] assms(3) have h1: "hist s1 = [EvCreateCommandPod namespace pod a]" by simp
  show ?thesis
  proof (cases a)
    case (Some e)
    with assms(2) 1 h1 show ?thesis by (auto simp: run_pod_def)
  next
    case None
    let ?poll = "poll (seconds 5) (minutes 3) True (pod_condition pods namespace (cpName pod))"
    obtain p s2 where 2: "?poll s1 = (p, s2)" by (cases "?poll s1")
    with assms(1) have "poll_run (pod_condition pods namespace (cpName pod)) s1 p s2" by (auto simp: poll_contract_def)
    from pod_phase.condition_run [OF this] obtain gets where gets: "gets \<noteq> []"
      "hist s2 = hist s1 @ map (EvGetPod namespace (cpName pod)) gets" "list_all running (butlast gets)"
      "p = None \<longleftrightarrow> phase_verdict (last gets) = Inr True" by (auto simp: phase_verdict_iff)
    show ?thesis
    proof (cases p)
      case (Some e)
      with assms(2) 1 2 None have "oc = Fail (Some e)" "t' = s2" by (simp_all add: run_pod_def)
      with h1 gets(2) show ?thesis by auto
    next
      case p: None
      let ?get = "call (EvGetPod namespace (cpName pod)) (GetPodPhase pods namespace (cpName pod))"
      obtain b s3 where 3: "?get s2 = (b, s3)" by (cases "?get s2")
      have h3: "hist s3 = EvCreateCommandPod namespace pod None # map (EvGetPod namespace (cpName pod)) (gets @ [b])"
        using hist_call [OF 3] h1 gets(2) None by simp
      have "t' = s3" "oc = Pass \<longrightarrow> b = Inr ''Succeeded''"
        using assms(2) 1 2 3 None p by (auto simp: run_pod_def split: sum.splits if_splits)
      moreover have "\<not> running (last gets)" using gets(4) p phase_verdict_iff(2) by blast
      then have "b = Inr ''Succeeded'' \<Longrightarrow> pod_succeeded namespace pod (map ClusterEvent (hist s3))"
        unfolding pod_succeeded_def h3 using gets(1,3) by (intro exI [where x = gets]) simp
      ultimately show ?thesis using h3 by blast
    qed
  qed
qed

lemma run_pod_yields:
  assumes "poll_contract poll"
  shows "yields namespace (pod_succeeded namespace pod) (Expect_on_cluster (run_pod poll pods namespace pod))"
proof (rule yields_on_cluster)
  fix t :: "'a cluster_sys" and oc t'
  assume "run_pod poll pods namespace pod t = (oc, t')" and "hist t = []"
  from run_pod_run [OF assms this] obtain a answers where
    h: "hist t' = EvCreateCommandPod namespace pod a # map (EvGetPod namespace (cpName pod)) answers"
    and p: "oc = Pass \<longrightarrow> pod_succeeded namespace pod (map ClusterEvent (hist t'))" by blast
  from h have "harmless namespace (map ClusterEvent (hist t'))"
    by (auto simp: harmless_def deletes_def creates_def list_all_iff)
  with p show "harmless namespace (map ClusterEvent (hist t')) \<and>
      (oc = Pass \<longrightarrow> pod_succeeded namespace pod (map ClusterEvent (hist t')))" by blast
qed

lemma Expect_logged_yields:
  "yields namespace (logged namespace pod_name expected) (Expect_on_cluster (Expect_logged pods namespace pod_name expected))"
  by (rule yields_on_cluster)
    (auto simp: Expect_logged_def logged_def harmless_def deletes_def creates_def Contains_iff dest!: hist_call
      split: prod.splits sum.splits if_splits)

lemma create_policy_yields:
  "yields namespace (policy_accepted namespace) (Expect_on_cluster (create_policy pods namespace))"
  by (rule yields_on_cluster)
    (auto simp: create_policy_def policy_accepted_def harmless_def deletes_def creates_def dest!: hist_call
      split: prod.splits option.splits)

lemma connect_yields:
  assumes "poll_contract (Poll en)"
  shows "yields namespace (connected namespace) (connect_to_service en namespace kube)"
  using yields_both [OF run_pod_yields [OF assms] Expect_logged_yields]
  by (simp add: connect_to_service_def connected_def yields_def del: run_stages.simps)

definition deployment_available where
  "deployment_available en namespace (evs :: suite_event list) \<longleftrightarrow>
     evs = [] \<and> (\<exists>kube w. VerifyDeploymentAvailable (kubeView en kube w) namespace ''test-nginx'' = None)"

lemma deployment_available_yields:
  "yields namespace (deployment_available en namespace) (Expect_deployment_available en namespace kube)"
proof (rule yieldsI, goal_cases)
  case (1 tc s)
  let ?err = "VerifyDeploymentAvailable (kubeView en kube (ext s)) namespace ''test-nginx''"
  have "outcome_of ?err = Pass \<longrightarrow> deployment_available en namespace []"
    by (auto simp: deployment_available_def outcome_of_def split: option.splits)
  moreover have "harmless namespace []" "hist s = hist s @ []" by (simp_all add: harmless_def)
  moreover have "Expect_deployment_available en namespace kube (tc, s) = Some (outcome_of ?err, tc, s)"
    by (simp add: Expect_deployment_available_def)
  ultimately show ?case by blast
qed

subsection \<open>What the specs guarantee\<close>

definition workload_specs where
  "workload_specs en =
     [(workload_spec en, ''e2e-workload-test'', deployment_available en ''e2e-workload-test''),
      (workload_after_upgrade en, ''e2e-post-upgrade'', deployment_available en ''e2e-post-upgrade''),
      (connectivity_spec en, ''e2e-network-test'', connected ''e2e-network-test'')]"

definition namespace_specs where
  "namespace_specs en =
     [(storage_spec en, ''e2e-storage-test'', volume_bound en ''e2e-storage-test''),
      (dns_spec en, ''e2e-dns-test'', pod_succeeded ''e2e-dns-test'' (dns_pod ''e2e-dns-test'')),
      (network_policy_spec en, ''e2e-netpol-test'', policy_accepted ''e2e-netpol-test'')]"

lemma workload_form:
  assumes "list_all quiet sts" and "\<And>kube. yields namespace evidence (f kube)"
  shows "\<exists>stages use. It_creating en sts (with_workload en namespace f) = It_creating en stages (with_workload en namespace use) \<and>
    list_all quiet stages \<and> (\<forall>kube. yields namespace evidence (use kube))"
  using assms by blast

lemma workload_specs_form:
  assumes "poll_contract (Poll en)" and "(spec, namespace, evidence) \<in> set (workload_specs en)"
  shows "\<exists>stages use. spec = It_creating en stages (with_workload en namespace use) \<and> list_all quiet stages \<and>
    (\<forall>kube. yields namespace evidence (use kube))"
proof -
  from assms(2) consider
      "spec = workload_spec en" "namespace = ''e2e-workload-test''" "evidence = deployment_available en namespace"
    | "spec = workload_after_upgrade en" "namespace = ''e2e-post-upgrade''" "evidence = deployment_available en namespace"
    | "spec = connectivity_spec en" "namespace = ''e2e-network-test''" "evidence = connected namespace"
    by (auto simp: workload_specs_def)
  then show ?thesis
  proof cases
    case 1
    show ?thesis unfolding 1 workload_spec_def by (rule workload_form) (simp add: quiet_skips, rule deployment_available_yields)
  next
    case 2
    show ?thesis unfolding 2 workload_after_upgrade_def by (rule workload_form) (simp add: quiet_skips, rule deployment_available_yields)
  next
    case 3
    show ?thesis unfolding 3 connectivity_spec_def by (rule workload_form) (simp add: quiet_skips, rule connect_yields [OF assms(1)])
  qed
qed

lemma namespace_form:
  assumes "list_all quiet sts" and "\<And>kube. yields namespace evidence (f kube)"
  shows "\<exists>stages use. It_creating en sts (with_namespace en namespace f) = It_creating en stages (with_namespace en namespace use) \<and>
    list_all quiet stages \<and> (\<forall>kube. yields namespace evidence (use kube))"
  using assms by blast

lemma namespace_specs_form:
  assumes "poll_contract (Poll en)" and "eventually_contract (Eventually en)"
    and "(spec, namespace, evidence) \<in> set (namespace_specs en)"
  shows "\<exists>stages use. spec = It_creating en stages (with_namespace en namespace use) \<and> list_all quiet stages \<and>
    (\<forall>kube. yields namespace evidence (use kube))"
proof -
  from assms(3) consider
      "spec = storage_spec en" "namespace = ''e2e-storage-test''" "evidence = volume_bound en namespace"
    | "spec = dns_spec en" "namespace = ''e2e-dns-test''" "evidence = pod_succeeded namespace (dns_pod namespace)"
    | "spec = network_policy_spec en" "namespace = ''e2e-netpol-test''" "evidence = policy_accepted namespace"
    by (auto simp: namespace_specs_def)
  then show ?thesis
  proof cases
    case 1
    show ?thesis unfolding 1 storage_spec_def by (rule namespace_form) (simp add: quiet_skips, rule bind_storage_yields [OF assms(2)])
  next
    case 2
    show ?thesis unfolding 2 dns_spec_def by (rule namespace_form) (simp add: quiet_skips, rule run_pod_yields [OF assms(1)])
  next
    case 3
    show ?thesis unfolding 3 network_policy_spec_def by (rule namespace_form) (simp add: quiet_skips, rule create_policy_yields)
  qed
qed


text \<open>
  C8: a spec that starts with a namespace returns. It sends the same request to create the
  namespace one or more times, all but the last with a transient error. If the namespace then
  exists, the spec deletes it, once and as its last request, whatever happened in between;
  otherwise it sends nothing more and does not pass. It passes only if what it checks held
  (the claim was seen bound, the pod that resolves a name succeeded, the policy was accepted)
  and the namespace was deleted or already gone.
\<close>

theorem namespace_specs_clean_up:
  assumes "poll_contract (Poll en)" and "eventually_contract (Eventually en)" and "cleanups_contract (RunCleanups en)"
    and "(spec, namespace, evidence) \<in> set (namespace_specs en)"
  shows "\<exists>oc tc s' before answers rest. spec cfg s = Some (oc, tc, s') \<and>
     hist s' = hist s @ map OcmEvent before @ asked namespace answers @ rest \<and>
     list_all (transient (apiErrors en)) (butlast answers) \<and>
     (if answers \<noteq> [] \<and> created (apiErrors en) (last answers)
      then \<exists>used a. rest = used @ [ClusterEvent (EvDeleteNamespace namespace a)] \<and> harmless namespace used \<and>
        (oc = Pass \<longrightarrow> evidence used \<and> gone (apiErrors en) a)
      else rest = [] \<and> oc \<noteq> Pass)"
proof -
  from namespace_specs_form [OF assms(1,2,4)] obtain stages use where
    spec: "spec = It_creating en stages (with_namespace en namespace use)" and quiet: "list_all quiet stages"
    and use: "\<And>kube. yields namespace evidence (use kube)" by blast
  let ?k = "apiErrors en"
  have none: "owns ?k namespace evidence oc [] []" if "oc \<noteq> Pass" for oc using that by (auto simp: owns_def asked_def)
  from It_creating_run [where en = en and cfg = cfg and s = s, OF with_namespace_owns [where use = use, OF assms(1) use] quiet none]
  obtain oc deferred before evs err tc s1 s' where
    run: "spec cfg s = Some (if oc = Pass then outcome_of err else oc, tc, s')"
      "hist s1 = hist s @ map OcmEvent before @ evs" "RunCleanups en deferred s1 = (err, s')" and
    st: "owns ?k namespace evidence oc evs deferred"
    unfolding spec by blast
  from st obtain answers used where a: "evs = asked namespace answers @ used" "list_all (transient ?k) (butlast answers)"
    and branches: "if answers \<noteq> [] \<and> created ?k (last answers)
        then harmless namespace used \<and> (oc = Pass \<longrightarrow> evidence used) \<and>
          (\<exists>cleanup. deferred = [cleanup] \<and> (\<forall>s e s'. cleanup s = (e, s') \<longrightarrow>
            (\<exists>a. hist s' = hist s @ [ClusterEvent (EvDeleteNamespace namespace a)] \<and> (e = None \<longleftrightarrow> gone ?k a))))
        else used = [] \<and> deferred = [] \<and> oc \<noteq> Pass"
    unfolding owns_def by blast
  show ?thesis
  proof (cases "answers \<noteq> [] \<and> created ?k (last answers)")
    case True
    with branches obtain cleanup where b: "harmless namespace used" "oc = Pass \<longrightarrow> evidence used" "deferred = [cleanup]"
      and d: "\<And>s e s'. cleanup s = (e, s') \<Longrightarrow>
        \<exists>a. hist s' = hist s @ [ClusterEvent (EvDeleteNamespace namespace a)] \<and> (e = None \<longleftrightarrow> gone ?k a)" by auto
    obtain e s2 where c: "cleanup s1 = (e, s2)" by (cases "cleanup s1")
    from cleanup_run(2) [OF assms(3) run(3) [unfolded b(3)] c] have s2: "s' = s2" "err = None \<longleftrightarrow> e = None" by simp_all
    from d [OF c] obtain x where x: "hist s2 = hist s1 @ [ClusterEvent (EvDeleteNamespace namespace x)]" "e = None \<longleftrightarrow> gone ?k x"
      by blast
    have "outcome_of err = Pass \<Longrightarrow> gone ?k x"
      using s2(2) x(2) by (cases err) (simp_all add: outcome_of_def)
    with run(1,2) s2(1) x(1) a True b show ?thesis
      by (intro exI [where x = "if oc = Pass then outcome_of err else oc"] exI [where x = tc] exI [where x = s']
          exI [where x = before] exI [where x = answers] exI [where x = "used @ [ClusterEvent (EvDeleteNamespace namespace x)]"])
        (auto split: if_splits)
  next
    case False
    with branches have n: "used = []" "deferred = []" "oc \<noteq> Pass" by (simp_all split: if_splits)
    from cleanup_run(1) [OF assms(3)] run(3) n(2) have "s' = s1" by blast
    with run(1,2) a n False show ?thesis
      by (intro exI [where x = oc] exI [where x = tc] exI [where x = s'] exI [where x = before] exI [where x = answers]
          exI [where x = used]) simp
  qed
qed

end
