(* ===== verification/DataSpecWitnesses.thy ===== *)
theory DataSpecWitnesses
  imports SpecWitnesses DataSpecProperties
begin

text \<open>
  Runs of the specs that create something in a cluster, on the suite of \<open>SpecWitnesses\<close> with
  a cluster whose first answer is a transient error and which then answers promptly.
\<close>

definition data_kube :: kube_client where
  "data_kube = three_nodes\<lparr>DeploymentGet := (\<lambda>namespace name. Inr
     \<lparr>depNamespace = namespace, depName = name, depAnnotations = [], depSpecReplicas = Some 1,
       depConditions = [(''Available'', ''True'')], depReadyReplicas = 1, depReplicas = 1\<rparr>)\<rparr>"

text \<open>Its world is whether a request was sent before.\<close>

definition prompt_cluster :: "bool cluster_client" where
  "prompt_cluster =
     \<lparr>CreateNamespace = (\<lambda>_ w. ((if w then None else Some (plain_error ''no such host''), 0), True)),
      DeleteNamespace = (\<lambda>_ w. ((None, 0), w)),
      CreateDeployment = (\<lambda>_ _ w. ((None, 0), w)), GetDeployment = (\<lambda>_ _ w. ((Inr [(''Available'', ''True'')], 0), w)),
      CreateService = (\<lambda>_ _ w. ((None, 0), w)), CreatePVC = (\<lambda>_ _ w. ((None, 0), w)), CreatePod = (\<lambda>_ _ w. ((None, 0), w))\<rparr>"

definition prompt_pods :: "bool pod_client" where
  "prompt_pods =
     \<lparr>CreateCommandPod = (\<lambda>_ _ w. ((None, 0), w)), GetPodPhase = (\<lambda>_ _ w. ((Inr ''Succeeded'', 0), w)),
      GetLogs = (\<lambda>_ _ w. ((Inr ''CONNECTIVITY_OK'', 0), w)), CreateNetworkPolicy = (\<lambda>_ _ w. ((None, 0), w))\<rparr>"

definition first_cleanup_error :: "bool cleanup list \<Rightarrow> bool suite_sys \<Rightarrow> go_error option \<times> bool suite_sys" where
  "first_cleanup_error fs s = (case run_cleanups fs s of (errs, s1) \<Rightarrow> (case errs of [] \<Rightarrow> None | e # _ \<Rightarrow> Some e, s1))"

definition demo_data_suite :: "(bool, string, string, string, unit, unit, unit) data_suite" where
  "demo_data_suite =
     \<lparr>suiteDeps = spec_deps, suiteClock = fixed_clock, suiteRuntime = prompt,
      kubeView = (\<lambda>_ _. data_kube), dynView = (\<lambda>_ _. one_hosted_cluster), nestedSlice = nested_conditions,
      Schedule = Schedule spec_suite, Eventually = Eventually spec_suite, RunDeferred = RunDeferred spec_suite,
      apiErrors = demo_errors, Poll = counting_poller, clusterClient = (\<lambda>_. prompt_cluster), podClient = (\<lambda>_. prompt_pods),
      RunCleanups = first_cleanup_error\<rparr>"

lemma demo_data_contracts:
  "poll_contract (Poll demo_data_suite)" "eventually_contract (Eventually demo_data_suite)"
  "cleanups_contract (RunCleanups demo_data_suite)"
proof -
  show "poll_contract (Poll demo_data_suite)" by (simp add: demo_data_suite_def counting_poller_contract)
  show "eventually_contract (Eventually demo_data_suite)" using spec_suite_contracts(3) by (simp add: demo_data_suite_def)
  show "cleanups_contract (RunCleanups demo_data_suite)"
    by (auto simp: cleanups_contract_def demo_data_suite_def first_cleanup_error_def split: prod.splits list.splits)
qed

lemma demo_data_simps [simp]:
  "suiteDeps demo_data_suite = suiteDeps spec_suite" "kubeView demo_data_suite c w = data_kube"
  "apiErrors demo_data_suite = demo_errors" "Poll demo_data_suite = counting_poller"
  "clusterClient demo_data_suite c = prompt_cluster" "podClient demo_data_suite c = prompt_pods" "RunCleanups demo_data_suite = first_cleanup_error"
  "Eventually demo_data_suite timeout polling f = f"
  by (simp_all add: demo_data_suite_def spec_suite_def)

lemma demo_hosted:
  "\<exists>tc' s'. hosted_clients demo_data_suite (tc, s) = Some (Pass, tc', s') \<and> hcKubeClient tc' = Some ''kubeconfig'' \<and>
     ext s' = ext s"
  by (simp add: hosted_clients_def Expect_success_def with_ocm_def within_def InitHCClients_def resolveKubeconfig_def
      GetClusterCredentials_def clientConfigFromKubeconfig_def new_clients_def NewKubeClient_def set_if_def call_def
      outcome_of_def)

text \<open>Both kinds of specs pass.\<close>

lemma demo_bind: "\<exists>tc' s'. bind_storage demo_data_suite kube namespace (tc, s) = Some (Pass, tc', s')"
  by (cases "storage_class demo_data_suite (tc, s)")
    (simp add: bind_storage_def with_cluster_def on_sys_def within_def CreateTestPVC_def CreateTestPodWithPVC_def call_def
      prompt_cluster_def Expect_pvc_bound_def VerifyPVCBound_def data_kube_def three_nodes_def outcome_of_def)

lemma demo_storage:
  assumes "hcKubeClient tc = Some ''kubeconfig''" and "ext s = False"
  shows "\<exists>tc' s'. with_namespace demo_data_suite namespace (\<lambda>kube. bind_storage demo_data_suite kube namespace) (tc, s) =
    Some (Pass, [within ClusterEvent (delete_test_namespace demo_errors prompt_cluster namespace)], tc', s')"
proof -
  let ?op = "CreateTestNamespace demo_errors counting_poller prompt_cluster namespace"
  obtain s1 where "with_cluster ?op (tc, s) = (Inr (delete_test_namespace demo_errors prompt_cluster namespace), tc, s1)"
    using assms(2)
    by (simp add: with_cluster_def on_sys_def within_def CreateTestNamespace_def counting_poller_def
        demo_rounds poll_rounds.simps namespace_condition_def call_def prompt_cluster_def creation_verdict_def demo_transient)
  moreover obtain tc2 s2 where "bind_storage demo_data_suite ''kubeconfig'' namespace (tc, s1) = Some (Pass, tc2, s2)"
    using demo_bind by blast
  ultimately show ?thesis using assms(1) by (simp add: with_namespace_def)
qed

lemma demo_connected:
  "\<exists>s'. connect_to_service demo_data_suite namespace kube (tc, s) = Some (Pass, tc, s')"
proof -
  have "minutes 3 div seconds 5 = 36" by (simp add: minutes_def seconds_def)
  then have "\<exists>s'. Expect_on_cluster (run_pod counting_poller prompt_pods namespace pod) (tc, s) = Some (Pass, tc, s')" for pod s
    by (simp add: Expect_on_cluster_def with_cluster_def on_sys_def within_def run_pod_def pod_condition_def phase_verdict_def
        call_def prompt_pods_def counting_poller_def poll_rounds.simps)
  moreover have "TrimSpace ''CONNECTIVITY_OK'' = ''CONNECTIVITY_OK''" by code_simp
  then have "\<exists>s'. Expect_on_cluster (Expect_logged prompt_pods namespace name ''CONNECTIVITY_OK'') (tc, s) = Some (Pass, tc, s')"
    for name s
    by (simp add: Expect_on_cluster_def with_cluster_def on_sys_def within_def Expect_logged_def call_def prompt_pods_def
        Contains_iff)
  ultimately obtain s1 s2 where
    "Expect_on_cluster (run_pod counting_poller prompt_pods namespace (connectivity_pod namespace)) (tc, s) = Some (Pass, tc, s1)"
    "Expect_on_cluster (Expect_logged prompt_pods namespace ''connectivity-test-pod'' ''CONNECTIVITY_OK'') (tc, s1) = Some (Pass, tc, s2)"
    by metis
  then show ?thesis by (simp add: connect_to_service_def del: run_stages_Pass)
qed

lemma demo_workload:
  assumes "hcKubeClient tc = Some ''kubeconfig''" and "ext s = True"
  shows "\<exists>tc' s'. with_workload demo_data_suite namespace (connect_to_service demo_data_suite namespace) (tc, s) =
    Some (Pass, [within ClusterEvent (\<lambda>t. (None, discard_namespace prompt_cluster namespace t))], tc', s')"
proof -
  let ?op = "DeployTestWorkload demo_errors counting_poller prompt_cluster namespace"
  obtain s1 where "with_cluster ?op (tc, s) = (Inr (discard_namespace prompt_cluster namespace), tc, s1)"
    using assms(2)
    by (simp add: with_cluster_def on_sys_def within_def DeployTestWorkload_def counting_poller_def
        demo_rounds poll_rounds.simps deployment_condition_def deployment_verdict_def call_def prompt_cluster_def Let_def)
  moreover obtain s2 where "connect_to_service demo_data_suite namespace ''kubeconfig'' (tc, s1) = Some (Pass, tc, s2)"
    using demo_connected [of namespace "''kubeconfig''" tc s1] by blast
  ultimately show ?thesis using assms(1) by (simp add: with_workload_def)
qed

lemma demo_cleanup:
  "\<exists>s'. first_cleanup_error [within ClusterEvent (delete_test_namespace demo_errors prompt_cluster namespace)] s = (None, s')"
  "\<exists>s'. first_cleanup_error [within ClusterEvent (\<lambda>t. (None, discard_namespace prompt_cluster namespace t))] s = (None, s')"
  by (simp_all add: first_cleanup_error_def within_def delete_test_namespace_def call_def prompt_cluster_def case_prod_beta)

lemma demo_It_creating:
  assumes "run_stages stages (NewTestContext cfg, s) = Some (Pass, tc, s1)"
    and "create (tc, s1) = Some (Pass, deferred, tc', s2)" and "first_cleanup_error deferred s2 = (None, s')"
  shows "It_creating demo_data_suite stages create cfg s = Some (Pass, tc', s')"
  using assms by (simp add: It_creating_def then_create_def outcome_of_def)

lemma demo_hosted_stages:
  "ClusterID cfg \<noteq> [] \<Longrightarrow> \<exists>tc s1. run_stages [Skip_without_cluster msg, hosted_clients demo_data_suite] (NewTestContext cfg, s) =
     Some (Pass, tc :: demo_context, s1) \<and> hcKubeClient tc = Some ''kubeconfig'' \<and> ext s1 = ext s"
  using demo_hosted [of "NewTestContext cfg" s]
  by (auto simp: Skip_without_cluster_def Skip_if_def NewTestContext_def)

theorem namespace_specs_clean_up_witness:
  "\<exists>(tc :: demo_context) s' before answers used a.
     storage_spec demo_data_suite upgrade_config (start False) = Some (Pass, tc, s') \<and>
     hist s' = map OcmEvent before @ asked ''e2e-storage-test'' answers @
       used @ [ClusterEvent (EvDeleteNamespace ''e2e-storage-test'' a)] \<and>
     volume_bound demo_data_suite ''e2e-storage-test'' used"
proof -
  have id: "ClusterID upgrade_config \<noteq> []" by (simp add: upgrade_config_def)
  obtain tc :: demo_context and s1 where 1: "run_stages [Skip_without_cluster ''CLUSTER_ID not set, skipping storage test'',
      hosted_clients demo_data_suite] (NewTestContext upgrade_config, start False) = Some (Pass, tc, s1)"
    "hcKubeClient tc = Some ''kubeconfig''" "ext s1 = False" using demo_hosted_stages [OF id] by fastforce
  obtain tc2 s2 s3 where run: "storage_spec demo_data_suite upgrade_config (start False) = Some (Pass, tc2 :: demo_context, s3)"
    using demo_storage [OF 1(2,3)] demo_cleanup(1) demo_It_creating [OF 1(1)] unfolding storage_spec_def by metis
  have "(storage_spec demo_data_suite, ''e2e-storage-test'', volume_bound demo_data_suite ''e2e-storage-test'') \<in>
      set (namespace_specs demo_data_suite)" by (simp add: namespace_specs_def)
  from namespace_specs_clean_up [OF demo_data_contracts this, of upgrade_config "start False"] run show ?thesis
    by (fastforce split: if_splits)
qed


end
