(* ===== verification/Reporting.thy ===== *)
theory Reporting
  imports Prelude
begin

text \<open>
  The signals for Sippy: \<^verbatim>\<open>pkg/reporting/sippy.go\<close>, which writes a JUnit file of two or three
  test cases, and \<open>analyzeSuiteReport\<close> of \<^verbatim>\<open>test/e2e/sippy_signals.go\<close>, which condenses the
  report of a run of the suite into them. \<open>xml.MarshalIndent\<close> is the parameter \<open>marshal\<close>; of
  a spec report of ginkgo the model has what the code reads.
\<close>

subsection \<open>Signals\<close>

record SignalResult =
  InstallPassed :: bool
  InfrastructurePassed :: bool
  UpgradeRan :: bool
  UpgradePassed :: bool
  InstallFailureMsg :: string
  InfraFailureMsg :: string
  UpgradeFailureMsg :: string

definition InstallTestName :: string where
  [go_defs]: "InstallTestName = ''install should succeed: overall''"

definition InfrastructureTestName :: string where
  [go_defs]: "InfrastructureTestName = ''install should succeed: infrastructure''"

definition UpgradeTestName :: string where
  [go_defs]: "UpgradeTestName = ''[sig-sippy] upgrade should work''"

definition suiteName :: string where
  [go_defs]: "suiteName = ''rosa-e2e-sippy-signals''"

subsection \<open>The JUnit document\<close>

record junitFailure =
  Message :: string
  FailureText :: string

record junitTestCase =
  CaseName :: string
  ClassName :: string
  CaseStatus :: string
  CaseTime :: string
  CaseFailure :: "junitFailure option"

record junitTestSuite =
  SuiteName :: string
  SuiteTests :: int
  SuiteFailures :: int
  SuiteCases :: "junitTestCase list"

record junitTestSuites =
  Tests :: int
  Failures :: int
  Suites :: "junitTestSuite list"

definition makeTestCase :: "string \<Rightarrow> bool \<Rightarrow> string \<Rightarrow> junitTestCase" where
  "makeTestCase name passed failureMsg =
     (let tc = \<lparr>CaseName = name, ClassName = suiteName, CaseStatus = ''passed'', CaseTime = ''0'', CaseFailure = None\<rparr>
      in if \<not> passed then
           tc\<lparr>CaseStatus := ''failed'', CaseFailure := Some \<lparr>Message = failureMsg, FailureText = failureMsg\<rparr>\<rparr>
         else tc)"

definition signal_cases :: "SignalResult \<Rightarrow> junitTestCase list \<times> int" where
  "signal_cases result =
     (let cases = [makeTestCase InstallTestName (InstallPassed result) (InstallFailureMsg result)];
          failures = (if \<not> InstallPassed result then 1 else 0);
          cases = cases @ [makeTestCase InfrastructureTestName (InfrastructurePassed result) (InfraFailureMsg result)];
          failures = (if \<not> InfrastructurePassed result then failures + 1 else failures)
      in if UpgradeRan result then
           (cases @ [makeTestCase UpgradeTestName (UpgradePassed result) (UpgradeFailureMsg result)],
            if \<not> UpgradePassed result then failures + 1 else failures)
         else (cases, failures))"

definition signal_suites :: "SignalResult \<Rightarrow> junitTestSuites" where
  "signal_suites result =
     (case signal_cases result of (cases, failures) \<Rightarrow>
        \<lparr>Tests = int (length cases), Failures = failures,
         Suites = [\<lparr>SuiteName = suiteName, SuiteTests = int (length cases), SuiteFailures = failures,
                    SuiteCases = cases\<rparr>]\<rparr>)"

datatype report_event = EvWriteFile string string "ext_error option"

type_synonym 'w report_sys = "('w, report_event) sys"

text \<open>\<open>xml.Header\<close>.\<close>

definition xml_header :: string where
  "xml_header =
     ''<?xml version='' @ CHR 0x22 # ''1.0'' @ CHR 0x22 # '' encoding='' @ CHR 0x22 # ''UTF-8'' @ CHR 0x22 # ''?>\<newline>''"

definition WriteSippyJUnit ::
  "(junitTestSuites \<Rightarrow> ext_error + string) \<Rightarrow> (string \<Rightarrow> string \<Rightarrow> ('w, ext_error option) api) \<Rightarrow>
   SignalResult \<Rightarrow> string \<Rightarrow> 'w report_sys \<Rightarrow> ext_error option \<times> 'w report_sys" where
  "WriteSippyJUnit marshal write_file result outputPath s =
     (case marshal (signal_suites result) of
        Inl e \<Rightarrow> (Some e, s)
      | Inr data \<Rightarrow>
          (let contents = xml_header @ data
           in call (EvWriteFile outputPath contents) (write_file outputPath contents) s))"

subsection \<open>The report of a run\<close>

datatype node_type = BeforeSuiteNode | ItNode | OtherNode

datatype spec_state = StateSkipped | StatePending | StateOther

record spec_report =
  LeafNodeType :: node_type
  State :: spec_state
  SpecFailed :: bool \<comment> \<open>what \<open>spec.Failed()\<close> returns\<close>
  SpecLabels :: "string list"
  FullText :: string
  FailureMessage :: string

record analysis =
  signals :: SignalResult
  infraSpecsRan :: bool
  upgradeAnyFailed :: bool

definition spec_text :: "spec_report \<Rightarrow> string" where
  "spec_text spec = FullText spec @ '': '' @ FailureMessage spec"

definition note_upgrade :: "spec_report \<Rightarrow> analysis \<Rightarrow> analysis" where
  "note_upgrade spec a =
     (if ''Area:Upgrade'' \<in> set (SpecLabels spec) then
        (let r = (signals a)\<lparr>UpgradeRan := True\<rparr>
         in if SpecFailed spec then
              a\<lparr>signals := (if UpgradeFailureMsg r = [] then r\<lparr>UpgradeFailureMsg := spec_text spec\<rparr> else r),
                upgradeAnyFailed := True\<rparr>
            else a\<lparr>signals := r\<rparr>)
      else a)"

definition note_infrastructure :: "spec_report \<Rightarrow> analysis \<Rightarrow> analysis" where
  "note_infrastructure spec a =
     (if ''Area:ManagedService'' \<in> set (SpecLabels spec) \<or> ''Area:ClusterLifecycle'' \<in> set (SpecLabels spec) then
        (if SpecFailed spec then
           (let r = (signals a)\<lparr>InfrastructurePassed := False\<rparr>
            in a\<lparr>signals := (if InfraFailureMsg r = [] then r\<lparr>InfraFailureMsg := spec_text spec\<rparr> else r),
                 infraSpecsRan := True\<rparr>)
         else a\<lparr>infraSpecsRan := True\<rparr>)
      else a)"

text \<open>The loop; \<open>Inl\<close> is the return from within it.\<close>

fun analyze_specs :: "spec_report list \<Rightarrow> analysis \<Rightarrow> SignalResult + analysis" where
  "analyze_specs [] a = Inr a"
| "analyze_specs (spec # specs) a =
     (if LeafNodeType spec = BeforeSuiteNode \<and> SpecFailed spec then
        Inl ((signals a)\<lparr>InstallPassed := False, InfrastructurePassed := False,
                InstallFailureMsg := ''BeforeSuite failed: '' @ FailureMessage spec,
                InfraFailureMsg := ''cluster unreachable (BeforeSuite failed)''\<rparr>)
      else if LeafNodeType spec \<noteq> ItNode then analyze_specs specs a
      else if State spec = StateSkipped \<or> State spec = StatePending then analyze_specs specs a
      else analyze_specs specs (note_infrastructure spec (note_upgrade spec a)))"

definition initial_analysis :: analysis where
  "initial_analysis =
     \<lparr>signals = \<lparr>InstallPassed = True, InfrastructurePassed = True, UpgradeRan = False, UpgradePassed = False,
                 InstallFailureMsg = [], InfraFailureMsg = [], UpgradeFailureMsg = []\<rparr>,
      infraSpecsRan = False, upgradeAnyFailed = False\<rparr>"

definition analyzeSuiteReport :: "spec_report list \<Rightarrow> SignalResult" where
  "analyzeSuiteReport specs =
     (case analyze_specs specs initial_analysis of
        Inl result \<Rightarrow> result
      | Inr a \<Rightarrow>
          (let result = signals a;
               result = (if UpgradeRan result then result\<lparr>UpgradePassed := \<not> upgradeAnyFailed a\<rparr> else result)
           in if \<not> infraSpecsRan a then result\<lparr>InfrastructurePassed := True\<rparr> else result))"

subsection \<open>What the signals say\<close>

text \<open>The specs that count, and those of them with a label.\<close>

definition counted :: "spec_report \<Rightarrow> bool" where
  "counted spec \<longleftrightarrow> LeafNodeType spec = ItNode \<and> State spec \<noteq> StateSkipped \<and> State spec \<noteq> StatePending"

definition upgrade_spec :: "spec_report \<Rightarrow> bool" where
  "upgrade_spec spec \<longleftrightarrow> counted spec \<and> ''Area:Upgrade'' \<in> set (SpecLabels spec)"

definition infra_spec :: "spec_report \<Rightarrow> bool" where
  "infra_spec spec \<longleftrightarrow> counted spec \<and>
     (''Area:ManagedService'' \<in> set (SpecLabels spec) \<or> ''Area:ClusterLifecycle'' \<in> set (SpecLabels spec))"

definition suite_failure :: "spec_report \<Rightarrow> bool" where
  "suite_failure spec \<longleftrightarrow> LeafNodeType spec = BeforeSuiteNode \<and> SpecFailed spec"

definition failed_in :: "(spec_report \<Rightarrow> bool) \<Rightarrow> spec_report list \<Rightarrow> bool" where
  "failed_in P specs \<longleftrightarrow> list_ex (\<lambda>spec. P spec \<and> SpecFailed spec) specs"

text \<open>What the analysis has found in the specs it has seen.\<close>

definition analysis_of :: "spec_report list \<Rightarrow> analysis \<Rightarrow> bool" where
  "analysis_of seen a \<longleftrightarrow>
     InstallPassed (signals a) \<and> \<not> UpgradePassed (signals a) \<and>
     (InfrastructurePassed (signals a) \<longleftrightarrow> \<not> failed_in infra_spec seen) \<and>
     (UpgradeRan (signals a) \<longleftrightarrow> list_ex upgrade_spec seen) \<and>
     (upgradeAnyFailed a \<longleftrightarrow> failed_in upgrade_spec seen) \<and>
     (infraSpecsRan a \<longleftrightarrow> list_ex infra_spec seen)"

lemma analysis_of_initial: "analysis_of [] initial_analysis"
  by (simp add: analysis_of_def initial_analysis_def failed_in_def)

lemma analysis_of_ignored:
  "\<not> counted spec \<Longrightarrow> analysis_of seen a \<Longrightarrow> analysis_of (seen @ [spec]) a"
  by (simp add: analysis_of_def failed_in_def upgrade_spec_def infra_spec_def)

lemma analysis_of_counted:
  assumes "counted spec" and "analysis_of seen a"
  shows "analysis_of (seen @ [spec]) (note_infrastructure spec (note_upgrade spec a))"
proof -
  have u: "upgrade_spec spec \<longleftrightarrow> ''Area:Upgrade'' \<in> set (SpecLabels spec)"
      "infra_spec spec \<longleftrightarrow> ''Area:ManagedService'' \<in> set (SpecLabels spec) \<or> ''Area:ClusterLifecycle'' \<in> set (SpecLabels spec)"
    using assms(1) by (simp_all add: upgrade_spec_def infra_spec_def)
  show ?thesis
    using assms(2)
    by (cases "upgrade_spec spec"; cases "infra_spec spec"; cases "SpecFailed spec")
      (simp_all add: analysis_of_def failed_in_def note_infrastructure_def note_upgrade_def u Let_def)
qed

lemma analyze_specs_Inr:
  "analyze_specs specs a = Inr a' \<Longrightarrow> analysis_of seen a \<Longrightarrow>
     \<not> list_ex suite_failure specs \<and> analysis_of (seen @ specs) a'"
proof (induction specs arbitrary: seen a)
  case (Cons spec specs)
  have nf: "\<not> suite_failure spec" using Cons.prems(1) by (auto simp: suite_failure_def)
  show ?case
  proof (cases "counted spec")
    case True
    with nf Cons.prems(1) have "analyze_specs specs (note_infrastructure spec (note_upgrade spec a)) = Inr a'"
      by (auto simp: counted_def)
    from Cons.IH [OF this analysis_of_counted [OF True Cons.prems(2)]] nf show ?thesis by simp
  next
    case False
    with Cons.prems(1) nf have "analyze_specs specs a = Inr a'"
      by (auto simp: counted_def suite_failure_def split: if_splits)
    from Cons.IH [OF this analysis_of_ignored [OF False Cons.prems(2)]] nf show ?thesis by simp
  qed
qed simp

lemma analyze_specs_Inl:
  "analyze_specs specs a = Inl r \<Longrightarrow>
     list_ex suite_failure specs \<and> \<not> InstallPassed r \<and> \<not> InfrastructurePassed r"
  by (induction specs arbitrary: a) (auto simp: suite_failure_def split: if_splits)

text \<open>
  The signals of a run: the installation counts as failed exactly if a BeforeSuite node
  failed; the infrastructure exactly if that happened or a spec that ran with one of its two
  labels failed; without such a failure the upgrade counts as run exactly if a spec labelled
  so ran, and then as passed exactly if none of them failed.
\<close>

theorem analyzeSuiteReport_signals:
  "let r = analyzeSuiteReport specs; broken = list_ex suite_failure specs
   in (InstallPassed r \<longleftrightarrow> \<not> broken) \<and>
      (InfrastructurePassed r \<longleftrightarrow> \<not> (broken \<or> failed_in infra_spec specs)) \<and>
      (broken \<or> ((UpgradeRan r \<longleftrightarrow> list_ex upgrade_spec specs) \<and>
                 (UpgradePassed r \<longleftrightarrow> list_ex upgrade_spec specs \<and> \<not> failed_in upgrade_spec specs)))"
proof (cases "analyze_specs specs initial_analysis")
  case (Inl r)
  from analyze_specs_Inl [OF Inl] Inl show ?thesis by (simp add: analyzeSuiteReport_def)
next
  case (Inr a)
  from analyze_specs_Inr [OF Inr analysis_of_initial]
  have a: "\<not> list_ex suite_failure specs" "analysis_of specs a" by simp_all
  have "\<not> list_ex infra_spec specs \<Longrightarrow> \<not> failed_in infra_spec specs"
    by (auto simp: failed_in_def list_ex_iff)
  with a Inr show ?thesis
    by (auto simp: analyzeSuiteReport_def analysis_of_def Let_def)
qed

text \<open>A document is consistent: its counts are those of its cases.\<close>

definition case_failed :: "junitTestCase \<Rightarrow> bool" where
  "case_failed c \<longleftrightarrow> CaseFailure c \<noteq> None"

definition consistent_suite :: "junitTestSuite \<Rightarrow> bool" where
  "consistent_suite su \<longleftrightarrow>
     SuiteTests su = int (length (SuiteCases su)) \<and>
     SuiteFailures su = int (length (filter case_failed (SuiteCases su))) \<and>
     distinct (map CaseName (SuiteCases su)) \<and>
     list_all (\<lambda>c. CaseStatus c = (if case_failed c then ''failed'' else ''passed'') \<and> ClassName c = SuiteName su) (SuiteCases su)"

definition consistent_document :: "junitTestSuites \<Rightarrow> bool" where
  "consistent_document d \<longleftrightarrow>
     Tests d = sum_list (map SuiteTests (Suites d)) \<and> Failures d = sum_list (map SuiteFailures (Suites d)) \<and>
     list_all consistent_suite (Suites d)"

text \<open>
  C35: every document that is written is consistent: the numbers of tests and failures are
  those of the cases in it, each case is marked as failed exactly if it has a failure, and
  the case of a name is there once. The failed cases are those of the signals that did not
  pass, and an upgrade that did not run has no case.
\<close>

theorem signal_suites_consistent:
  "consistent_document (signal_suites result) \<and>
   map (\<lambda>c. (CaseName c, case_failed c)) (concat (map SuiteCases (Suites (signal_suites result)))) =
     [(InstallTestName, \<not> InstallPassed result), (InfrastructureTestName, \<not> InfrastructurePassed result)] @
     (if UpgradeRan result then [(UpgradeTestName, \<not> UpgradePassed result)] else [])"
  by (simp add: consistent_document_def consistent_suite_def signal_suites_def signal_cases_def makeTestCase_def
      case_failed_def go_defs Let_def)

text \<open>The file is written at most once, with the document of the signals.\<close>

lemma WriteSippyJUnit_writes:
  assumes "WriteSippyJUnit marshal write_file result path s = (r, s')"
  shows "r = None \<longleftrightarrow> (\<exists>data. marshal (signal_suites result) = Inr data \<and>
     hist s' = hist s @ [EvWriteFile path (xml_header @ data) None])"
  using assms by (auto simp: WriteSippyJUnit_def Let_def dest: hist_call split: sum.splits)

end
