(* ===== verification/SuiteLabels.thy ===== *)
theory SuiteLabels
  imports Reporting
begin

text \<open>
  \<^verbatim>\<open>pkg/labels/labels.go\<close> and the containers of the suite: the text and the labels of every
  \<open>Describe\<close> under \<^verbatim>\<open>test/e2e\<close>, in the order of the files, and the labels of single specs.
  \<open>ginkgo.Label\<close> makes a list of strings, and a spec has the labels of its container and its
  own. Shown: which containers decide which signal of the report, and which labels every
  container has.
\<close>

subsection \<open>Labels\<close>

definition Label :: "string \<Rightarrow> string list" where
  "Label text = [text]"

definition Low :: "string list" where "Low = Label ''Importance:Low''"
definition Medium :: "string list" where "Medium = Label ''Importance:Medium''"
definition High :: "string list" where "High = Label ''Importance:High''"
definition Critical :: "string list" where "Critical = Label ''Importance:Critical''"
definition Positive :: "string list" where "Positive = Label ''Positivity:Positive''"
definition Negative :: "string list" where "Negative = Label ''Positivity:Negative''"
definition Slow :: "string list" where "Slow = Label ''Speed:Slow''"
definition HCP :: "string list" where "HCP = Label ''Platform:HCP''"
definition Classic :: "string list" where "Classic = Label ''Platform:Classic''"
definition OSDAWS :: "string list" where "OSDAWS = Label ''Platform:OSD-AWS''"
definition OSDGCP :: "string list" where "OSDGCP = Label ''Platform:OSD-GCP''"
definition MCAccess :: "string list" where "MCAccess = Label ''Access:MC''"
definition PublicAPIAccess :: "string list" where "PublicAPIAccess = Label ''Access:PublicAPI''"
definition Informing :: "string list" where "Informing = Label ''Lifecycle:informing''"
definition ClusterLifecycle :: "string list" where "ClusterLifecycle = Label ''Area:ClusterLifecycle''"
definition DataPlane :: "string list" where "DataPlane = Label ''Area:DataPlane''"
definition ManagedService :: "string list" where "ManagedService = Label ''Area:ManagedService''"
definition CustomerFeatures :: "string list" where "CustomerFeatures = Label ''Area:CustomerFeatures''"
definition Infrastructure :: "string list" where "Infrastructure = Label ''Area:Infrastructure''"
definition ManagementPlane :: "string list" where "ManagementPlane = Label ''Area:ManagementPlane''"
definition Upgrade :: "string list" where "Upgrade = Label ''Area:Upgrade''"

lemmas label_defs =
  Label_def Low_def Medium_def High_def Critical_def Positive_def Negative_def Slow_def HCP_def
  Classic_def OSDAWS_def OSDGCP_def MCAccess_def PublicAPIAccess_def Informing_def
  ClusterLifecycle_def DataPlane_def ManagedService_def CustomerFeatures_def Infrastructure_def
  ManagementPlane_def Upgrade_def

subsection \<open>Containers\<close>

text \<open>The text of a \<open>Describe\<close> and its labels.\<close>

type_synonym describe = "string \<times> string list"

definition cluster_lifecycle_containers :: "describe list" where
  "cluster_lifecycle_containers =
     [(''ROSA HCP Cluster Lifecycle: Full'',
        Critical @ Positive @ Slow @ HCP @ ClusterLifecycle),
      (''ROSA HCP Cluster Lifecycle: Existing Cluster'',
        Critical @ Positive @ HCP @ ClusterLifecycle),
      (''ROSA Classic Cluster Lifecycle: Full'',
        Critical @ Positive @ Slow @ Classic @ ClusterLifecycle),
      (''ROSA Classic Cluster Lifecycle: Existing Cluster'',
        Critical @ Positive @ Classic @ ClusterLifecycle),
      (''OSD GCP Cluster Lifecycle: Existing Cluster'',
        Critical @ Positive @ OSDGCP @ ClusterLifecycle)]"

definition customer_features_containers :: "describe list" where
  "customer_features_containers =
     [(''Customer Features: Machine Pools'',
        High @ Positive @ HCP @ CustomerFeatures),
      (''Customer Features: Cluster Admin RBAC'',
        High @ Positive @ HCP @ Classic @ OSDGCP @ CustomerFeatures),
      (''Customer Features: Network Policies'',
        High @ Positive @ HCP @ Classic @ OSDGCP @ CustomerFeatures),
      (''Customer Features: Ingress'',
        High @ Positive @ HCP @ Classic @ OSDGCP @ CustomerFeatures),
      (''Customer Features: Log Forwarding'',
        Medium @ Positive @ HCP @ Classic @ OSDGCP @ CustomerFeatures),
      (''Customer Features: External Auth Provider'',
        Medium @ Positive @ HCP @ CustomerFeatures),
      (''Customer Features: KMS Encryption'',
        Medium @ Positive @ HCP @ Classic @ OSDGCP @ CustomerFeatures),
      (''Customer Features: PrivateLink'',
        Medium @ Positive @ HCP @ Classic @ OSDGCP @ CustomerFeatures),
      (''Customer Features: Machine Pools (Classic/OSD-GCP)'',
        High @ Positive @ Classic @ OSDGCP @ CustomerFeatures)]"

definition deployment_revision_containers :: "describe list" where
  "deployment_revision_containers =
     [(''Deployment Revision Stability'',
        High @ Positive @ Classic @ OSDGCP @ ManagedService),
      (''HCP Namespace Deployment Revision Stability'',
        High @ Positive @ HCP @ ManagedService @ MCAccess)]"

definition hostedcluster_health_containers :: "describe list" where
  "hostedcluster_health_containers =
     [(''ROSA HCP HostedCluster Health'',
        Critical @ Positive @ HCP @ ManagedService @ MCAccess)]"

definition iam_validation_containers :: "describe list" where
  "iam_validation_containers =
     [(''ROSA IAM Validation'',
        Critical @ Positive @ HCP @ Classic @ ManagedService)]"

definition infrastructure_tags_containers :: "describe list" where
  "infrastructure_tags_containers =
     [(''ROSA Infrastructure Tags'',
        High @ Positive @ HCP @ Classic @ ManagedService)]"

definition managed_operators_containers :: "describe list" where
  "managed_operators_containers =
     [(''ROSA Managed Operators: ClusterOperators'',
        Critical @ Positive @ HCP @ Classic @ OSDGCP @ ManagedService),
      (''ROSA HCP Managed Operators: MC Components'',
        Critical @ Positive @ HCP @ ManagedService @ MCAccess)]"

definition management_cluster_containers :: "describe list" where
  "management_cluster_containers =
     [(''Infrastructure: Management Cluster Health'',
        High @ Positive @ HCP @ Infrastructure @ MCAccess)]"

definition management_plane_containers :: "describe list" where
  "management_plane_containers =
     [(''Management Plane: OCM API Health'',
        Critical @ Positive @ HCP @ Classic @ OSDGCP @ ManagementPlane),
      (''Management Plane: OSDFM Health'',
        Critical @ Positive @ HCP @ ManagementPlane),
      (''Management Plane: Cluster Service Health'',
        High @ Positive @ HCP @ Classic @ OSDGCP @ ManagementPlane),
      (''Management Plane: Cluster Health Indicators'',
        High @ Positive @ HCP @ Classic @ OSDGCP @ ManagementPlane)]"

definition networking_containers :: "describe list" where
  "networking_containers =
     [(''Data Plane: Networking'',
        High @ Positive @ HCP @ Classic @ OSDGCP @ DataPlane)]"

definition ocm_role_containers :: "describe list" where
  "ocm_role_containers =
     [(''Management Plane: OCM Role Linkage'',
        High @ Positive @ HCP @ Classic @ ManagementPlane)]"

definition rhobs_cardinality_containers :: "describe list" where
  "rhobs_cardinality_containers =
     [(''RHOBS Cardinality Gate'',
        Label ''rhobs-cardinality'' @ High @ Positive)]"

definition rhobs_synthetic_monitoring_containers :: "describe list" where
  "rhobs_synthetic_monitoring_containers =
     [(''RHOBS Synthetic Monitoring'',
        High @ Positive @ HCP @ ManagedService @ MCAccess)]"

definition service_cluster_containers :: "describe list" where
  "service_cluster_containers =
     [(''Infrastructure: Service Cluster Health'',
        High @ Positive @ HCP @ Infrastructure)]"

definition storage_containers :: "describe list" where
  "storage_containers =
     [(''Data Plane: Storage'',
        High @ Positive @ HCP @ Classic @ OSDGCP @ DataPlane)]"

definition upgrade_containers :: "describe list" where
  "upgrade_containers =
     [(''Upgrade: Control Plane'',
        Critical @ Positive @ Slow @ HCP @ Upgrade),
      (''Upgrade: NodePool'',
        Critical @ Positive @ Slow @ HCP @ Upgrade),
      (''Upgrade: Classic Cluster'',
        Critical @ Positive @ Slow @ Classic @ Upgrade),
      (''Upgrade: Post-Upgrade Verification'',
        High @ Positive @ HCP @ Classic @ OSDGCP @ Upgrade),
      (''Upgrade: OSD GCP Cluster'',
        Critical @ Positive @ Slow @ OSDGCP @ Upgrade)]"

definition workload_containers :: "describe list" where
  "workload_containers =
     [(''Data Plane: Workload Deployment'',
        High @ Positive @ HCP @ Classic @ OSDGCP @ DataPlane)]"

lemmas containers_defs =
  cluster_lifecycle_containers_def customer_features_containers_def
  deployment_revision_containers_def hostedcluster_health_containers_def
  iam_validation_containers_def infrastructure_tags_containers_def managed_operators_containers_def
  management_cluster_containers_def management_plane_containers_def networking_containers_def
  ocm_role_containers_def rhobs_cardinality_containers_def rhobs_synthetic_monitoring_containers_def
  service_cluster_containers_def storage_containers_def upgrade_containers_def
  workload_containers_def

definition suite_containers :: "describe list" where
  "suite_containers = concat
     [cluster_lifecycle_containers, customer_features_containers,
      deployment_revision_containers, hostedcluster_health_containers,
      iam_validation_containers, infrastructure_tags_containers, managed_operators_containers,
      management_cluster_containers, management_plane_containers, networking_containers,
      ocm_role_containers, rhobs_cardinality_containers, rhobs_synthetic_monitoring_containers,
      service_cluster_containers, storage_containers, upgrade_containers, workload_containers]"

text \<open>The labels that single specs add.\<close>

definition item_labels :: "string list" where
  "item_labels = PublicAPIAccess @ Informing"

text \<open>A spec as it is reported: it has the labels of its container and perhaps some of its own.\<close>

definition reported :: "describe \<Rightarrow> spec_report \<Rightarrow> bool" where
  "reported c spec \<longleftrightarrow> c \<in> set suite_containers \<and>
     set (snd c) \<subseteq> set (SpecLabels spec) \<and> set (SpecLabels spec) \<subseteq> set (snd c) \<union> set item_labels"

subsection \<open>Which containers decide the signals\<close>

definition infrastructure_containers :: "describe list" where
  "infrastructure_containers = concat
     [cluster_lifecycle_containers, deployment_revision_containers, hostedcluster_health_containers,
      iam_validation_containers, infrastructure_tags_containers, managed_operators_containers,
      rhobs_synthetic_monitoring_containers]"

definition labelled :: "string list \<Rightarrow> describe \<Rightarrow> bool" where
  "labelled label c \<longleftrightarrow> list_all (\<lambda>l. l \<in> set (snd c)) label"

lemma labelled_containers:
  "filter (labelled Upgrade) suite_containers = upgrade_containers"
  "filter (\<lambda>c. labelled ManagedService c \<or> labelled ClusterLifecycle c) suite_containers = infrastructure_containers"
  by code_simp+

lemma reported_label:
  assumes "reported c spec" and "l \<notin> set item_labels"
  shows "l \<in> set (SpecLabels spec) \<longleftrightarrow> labelled (Label l) c"
  using assms by (auto simp: reported_def labelled_def Label_def)

lemma reported_own: "c \<in> set suite_containers \<Longrightarrow> SpecLabels spec = snd c \<Longrightarrow> reported c spec"
  by (simp add: reported_def)

lemma container_signals:
  assumes "reported c spec" and "counted spec"
  shows "upgrade_spec spec \<longleftrightarrow> c \<in> set upgrade_containers"
    and "infra_spec spec \<longleftrightarrow> c \<in> set infrastructure_containers"
proof -
  have own: "''Area:Upgrade'' \<notin> set item_labels" "''Area:ManagedService'' \<notin> set item_labels"
    "''Area:ClusterLifecycle'' \<notin> set item_labels"
    by (simp_all add: item_labels_def label_defs)
  note area = own [THEN reported_label [OF assms(1)], folded Upgrade_def ManagedService_def ClusterLifecycle_def]
  have "c \<in> set suite_containers" using assms(1) by (simp add: reported_def)
  then have "c \<in> set upgrade_containers \<longleftrightarrow> labelled Upgrade c"
    "c \<in> set infrastructure_containers \<longleftrightarrow> labelled ManagedService c \<or> labelled ClusterLifecycle c"
    by (simp_all flip: labelled_containers)
  then show "upgrade_spec spec \<longleftrightarrow> c \<in> set upgrade_containers" "infra_spec spec \<longleftrightarrow> c \<in> set infrastructure_containers"
    using assms(2) area by (simp_all add: upgrade_spec_def infra_spec_def)
qed

text \<open>
  C34: over the reports of the suite's own specs, the installation signal fails exactly if a
  BeforeSuite node failed. Without that, the infrastructure signal fails exactly if a spec
  failed that is in a container on cluster lifecycles, deployment revisions, hosted cluster health, IAM, tags,
  managed operators or synthetic monitoring, and the upgrade signal is there exactly if a
  spec of the upgrade file ran, and fails exactly if one failed. All other specs, networking, storage, workloads,
  customer features, the management plane, and management and service clusters, decide nothing.
\<close>

theorem signals_of_containers:
  assumes "list_all (\<lambda>(c, spec). LeafNodeType spec = ItNode \<longrightarrow> reported c spec) run"
  shows "let r = analyzeSuiteReport (map snd run);
      broken = list_ex (\<lambda>(_, spec). LeafNodeType spec = BeforeSuiteNode \<and> SpecFailed spec) run;
      ran_in = (\<lambda>cs. filter (\<lambda>(c, spec). counted spec \<and> c \<in> set cs) run)
    in (InstallPassed r \<longleftrightarrow> \<not> broken) \<and>
       (InfrastructurePassed r \<longleftrightarrow> \<not> broken \<and> list_all (\<lambda>(_, spec). \<not> SpecFailed spec) (ran_in infrastructure_containers)) \<and>
       (broken \<or> (UpgradeRan r \<longleftrightarrow> ran_in upgrade_containers \<noteq> [])) \<and>
       (broken \<or> (UpgradePassed r \<longleftrightarrow> ran_in upgrade_containers \<noteq> [] \<and>
          list_all (\<lambda>(_, spec). \<not> SpecFailed spec) (ran_in upgrade_containers)))"
proof -
  have rep: "reported c spec" if "(c, spec) \<in> set run" "counted spec" for c spec
    using assms that by (auto simp: list_all_iff counted_def)
  have u: "upgrade_spec spec \<longleftrightarrow> counted spec \<and> c \<in> set upgrade_containers" if "(c, spec) \<in> set run" for c spec
    using container_signals(1) [OF rep [OF that]] by (auto simp: upgrade_spec_def)
  have i: "infra_spec spec \<longleftrightarrow> counted spec \<and> c \<in> set infrastructure_containers" if "(c, spec) \<in> set run" for c spec
    using container_signals(2) [OF rep [OF that]] by (auto simp: infra_spec_def)
  have "failed_in infra_spec (map snd run) \<longleftrightarrow>
      \<not> list_all (\<lambda>(_, spec). \<not> SpecFailed spec) (filter (\<lambda>(c, spec). counted spec \<and> c \<in> set infrastructure_containers) run)"
    unfolding failed_in_def list_ex_iff list_all_iff set_map set_filter using i by fastforce
  moreover have "failed_in upgrade_spec (map snd run) \<longleftrightarrow>
      \<not> list_all (\<lambda>(_, spec). \<not> SpecFailed spec) (filter (\<lambda>(c, spec). counted spec \<and> c \<in> set upgrade_containers) run)"
    unfolding failed_in_def list_ex_iff list_all_iff set_map set_filter using u by fastforce
  moreover have "list_ex upgrade_spec (map snd run) \<longleftrightarrow>
      filter (\<lambda>(c, spec). counted spec \<and> c \<in> set upgrade_containers) run \<noteq> []"
    unfolding list_ex_iff filter_empty_conv set_map using u by fastforce
  moreover have "list_ex suite_failure (map snd run) \<longleftrightarrow>
      list_ex (\<lambda>(_, spec). LeafNodeType spec = BeforeSuiteNode \<and> SpecFailed spec) run"
    unfolding list_ex_iff suite_failure_def set_map bex_simps by (simp add: case_prod_beta)
  ultimately show ?thesis using analyzeSuiteReport_signals [of "map snd run"] unfolding Let_def by argo
qed

text \<open>A run in which a lifecycle spec passed and a networking spec failed.\<close>

definition demo_spec :: "describe \<Rightarrow> bool \<Rightarrow> describe \<times> spec_report" where
  "demo_spec c failed = (c, \<lparr>LeafNodeType = ItNode, State = StateOther, SpecFailed = failed, SpecLabels = snd c,
     FullText = fst c, FailureMessage = (if failed then ''timeout'' else [])\<rparr>)"

definition demo_run_report :: "(describe \<times> spec_report) list" where
  "demo_run_report = [demo_spec (hd cluster_lifecycle_containers) False, demo_spec (hd networking_containers) True]"

theorem signals_of_containers_witness:
  "InstallPassed (analyzeSuiteReport (map snd demo_run_report)) \<and>
   InfrastructurePassed (analyzeSuiteReport (map snd demo_run_report)) \<and>
   \<not> UpgradeRan (analyzeSuiteReport (map snd demo_run_report))"
proof -
  have hyp: "list_all (\<lambda>(c, spec). LeafNodeType spec = ItNode \<longrightarrow> reported c spec) demo_run_report"
    by (auto simp: demo_run_report_def demo_spec_def suite_containers_def containers_defs intro!: reported_own)
  have "hd networking_containers \<notin> set infrastructure_containers"
    "hd networking_containers \<notin> set upgrade_containers" "hd cluster_lifecycle_containers \<notin> set upgrade_containers"
    by code_simp+
  with signals_of_containers [OF hyp] show ?thesis
    by (simp add: demo_run_report_def demo_spec_def Let_def)
qed

text \<open>
  Every container has exactly one label for its importance and one for its positivity, and
  exactly one area and a platform, except the cardinality gate, which has neither of these.
\<close>

definition of_kind :: "string \<Rightarrow> describe \<Rightarrow> string list" where
  "of_kind kind c = filter (\<lambda>l. take (length kind) l = kind) (snd c)"

lemma containers_labelled:
  "list_all (\<lambda>c. length (of_kind ''Importance:'' c) = 1 \<and> length (of_kind ''Positivity:'' c) = 1) suite_containers \<and>
   list_all (\<lambda>c. length (of_kind ''Area:'' c) = 1 \<and> of_kind ''Platform:'' c \<noteq> [])
     (filter (\<lambda>c. c \<notin> set rhobs_cardinality_containers) suite_containers) \<and>
   list_all (\<lambda>c. of_kind ''Area:'' c = [] \<and> of_kind ''Platform:'' c = []) rhobs_cardinality_containers"
  by code_simp

end
