(* ===== verification/CiStatus.thy ===== *)
theory CiStatus
  imports Prelude GoStrings
begin

text \<open>
  \<^verbatim>\<open>pkg/config/ci_status_jobs.go\<close>, the catalogue of CI jobs, and the checks that
  \<^verbatim>\<open>pkg/config/ci_status_jobs_test.go\<close> makes of it, as functions from a catalogue to the
  errors reported. Decoding the YAML file is yaml.v3's; a pointer is an option, a map with
  string keys a partial function. Shown: the catalogue passes exactly if its ids and jobs are
  distinct, named as the convention says and not empty, and every repetition is reported.
\<close>

subsection \<open>The catalogue\<close>

record JiraTeam =
  TeamID :: string
  TeamName :: string
  SlackChannel :: string
  SlackAlias :: string

record StatusJob =
  JobName :: string
  ProwJob :: string
  JobGating :: "bool option"
  JobTeam :: "JiraTeam option"
  JobLabels :: "string list"

record StatusCategory =
  CategoryID :: string
  CategoryName :: string
  Scope :: string
  Components :: "string list"
  ProwFilter :: string
  CategoryGating :: bool
  CategoryTeam :: "JiraTeam option"
  CategoryLabels :: "string list"
  Jobs :: "StatusJob list"

record CIStatusConfig =
  SippyURL :: string
  ComponentProwFilters :: "string \<rightharpoonup> string"
  Categories :: "StatusCategory list"

subsection \<open>The checks\<close>

definition TestCIStatusJobsParses :: "CIStatusConfig \<Rightarrow> go_error list" where
  "TestCIStatusJobsParses cfg =
     (if length (Categories cfg) = 0 then [Errorf ''no categories defined'' []] else [])"

definition check_job :: "StatusCategory \<Rightarrow> nat \<times> StatusJob \<Rightarrow> go_error list" where
  "check_job cat = (\<lambda>(j, job).
     (if JobName job = [] then [Errorf ''category %s job[%d]: missing name'' [AStr (CategoryID cat), AInt (int j)]] else []) @
     (if ProwJob job = [] then [Errorf ''category %s job[%d]: missing prow_job'' [AStr (CategoryID cat), AInt (int j)]] else []))"

definition check_category :: "nat \<times> StatusCategory \<Rightarrow> go_error list" where
  "check_category = (\<lambda>(i, cat).
     (if CategoryID cat = [] then [Errorf ''category[%d]: missing id'' [AInt (int i)]] else []) @
     (if CategoryName cat = [] then [Errorf ''category[%d] (%s): missing name'' [AInt (int i), AStr (CategoryID cat)]] else []) @
     (if length (Jobs cat) = 0 then [Errorf ''category %s: no jobs defined'' [AStr (CategoryID cat)]] else []) @
     concat (map (check_job cat) (enumerate 0 (Jobs cat))))"

definition TestCIStatusJobsRequiredFields :: "CIStatusConfig \<Rightarrow> go_error list" where
  "TestCIStatusJobsRequiredFields cfg = concat (map check_category (enumerate 0 (Categories cfg)))"

text \<open>The loops over the ids seen so far, and over the jobs with the category each was last in.\<close>

fun duplicate_ids :: "StatusCategory list \<Rightarrow> string set \<Rightarrow> go_error list" where
  "duplicate_ids [] catIDs = []"
| "duplicate_ids (cat # cats) catIDs =
     (if CategoryID cat \<in> catIDs then [Errorf ''duplicate category id: %s'' [AStr (CategoryID cat)]] else []) @
     duplicate_ids cats (insert (CategoryID cat) catIDs)"

fun duplicate_jobs :: "(string \<times> string) list \<Rightarrow> (string \<rightharpoonup> string) \<Rightarrow> go_error list" where
  "duplicate_jobs [] prowJobs = []"
| "duplicate_jobs ((cat, job) # jobs) prowJobs =
     (case prowJobs job of
        Some prev \<Rightarrow> [Errorf ''duplicate prow_job %s (in %s and %s)'' [AStr job, AStr prev, AStr cat]]
      | None \<Rightarrow> []) @
     duplicate_jobs jobs (prowJobs(job \<mapsto> cat))"

definition all_jobs :: "CIStatusConfig \<Rightarrow> (string \<times> string) list" where
  "all_jobs cfg = concat (map (\<lambda>cat. map (\<lambda>job. (CategoryID cat, ProwJob job)) (Jobs cat)) (Categories cfg))"

definition TestCIStatusJobsNoDuplicates :: "CIStatusConfig \<Rightarrow> go_error list" where
  "TestCIStatusJobsNoDuplicates cfg =
     duplicate_ids (Categories cfg) {} @ duplicate_jobs (all_jobs cfg) Map.empty"

definition TestCIStatusJobsNamingConvention :: "CIStatusConfig \<Rightarrow> go_error list" where
  "TestCIStatusJobsNamingConvention cfg =
     concat (map (\<lambda>cat. concat (map (\<lambda>job.
       if \<not> HasPrefix (ProwJob job) ''periodic-ci-''
       then [Errorf ''category %s job %s: prow_job %q does not start with periodic-ci-''
               [AStr (CategoryID cat), AStr (JobName job), AStr (ProwJob job)]]
       else []) (Jobs cat))) (Categories cfg))"

subsection \<open>What the checks say\<close>

lemma duplicate_ids_length:
  "finite seen \<Longrightarrow> length (duplicate_ids cats seen) + card (seen \<union> set (map CategoryID cats)) = card seen + length cats"
proof (induction cats arbitrary: seen)
  case (Cons cat cats)
  have "insert (CategoryID cat) seen \<union> set (map CategoryID cats) = seen \<union> set (map CategoryID (cat # cats))" by auto
  with Cons.IH [of "insert (CategoryID cat) seen"] Cons.prems show ?case by (auto simp: card_insert_if)
qed simp

lemma duplicate_jobs_length:
  "finite (dom m) \<Longrightarrow> length (duplicate_jobs jobs m) + card (dom m \<union> set (map snd jobs)) = card (dom m) + length jobs"
proof (induction jobs arbitrary: m)
  case (Cons job jobs)
  obtain cat j where job: "job = (cat, j)" by (cases job)
  have u: "dom (m(j \<mapsto> cat)) \<union> set (map snd jobs) = dom m \<union> set (map snd (job # jobs))" by (auto simp: job)
  have "length (duplicate_jobs jobs (m(j \<mapsto> cat))) + card (dom m \<union> set (map snd (job # jobs))) =
      card (insert j (dom m)) + length jobs"
    using Cons.IH [of "m(j \<mapsto> cat)"] Cons.prems unfolding u dom_fun_upd by (simp add: job del: fun_upd_apply)
  moreover have "length (duplicate_jobs (job # jobs) m) = (if j \<in> dom m then 1 else 0) + length (duplicate_jobs jobs (m(j \<mapsto> cat)))"
    by (auto simp: job domIff split: option.splits)
  ultimately show ?case using Cons.prems by (simp add: card_insert_if split: if_splits)
qed simp

text \<open>
  The check for duplicates reports one error for each repetition of a category id and each
  repetition of a job, wherever in the catalogue they are; so it reports none exactly if all
  ids and all jobs are distinct.
\<close>

theorem NoDuplicates_counts:
  "length (TestCIStatusJobsNoDuplicates cfg) =
     (length (Categories cfg) - card (set (map CategoryID (Categories cfg)))) +
     (length (all_jobs cfg) - card (set (map snd (all_jobs cfg)))) \<and>
   (TestCIStatusJobsNoDuplicates cfg = [] \<longleftrightarrow>
     distinct (map CategoryID (Categories cfg)) \<and> distinct (concat (map (\<lambda>cat. map ProwJob (Jobs cat)) (Categories cfg))))"
proof -
  let ?ids = "map CategoryID (Categories cfg)" and ?jobs = "map snd (all_jobs cfg)"
  have jobs: "?jobs = concat (map (\<lambda>cat. map ProwJob (Jobs cat)) (Categories cfg))"
    by (simp add: all_jobs_def map_concat comp_def)
  have l: "length (duplicate_ids (Categories cfg) {}) + card (set ?ids) = length ?ids"
    "length (duplicate_jobs (all_jobs cfg) Map.empty) + card (set ?jobs) = length ?jobs"
    using duplicate_ids_length [of "{}" "Categories cfg"] duplicate_jobs_length [of Map.empty "all_jobs cfg"] by simp_all
  have d: "distinct xs \<longleftrightarrow> length xs - card (set xs) = 0" for xs :: "string list"
    using card_length [of xs] by (auto simp: distinct_card intro: card_distinct)
  have n: "length (duplicate_ids (Categories cfg) {}) = length ?ids - card (set ?ids)"
    "length (duplicate_jobs (all_jobs cfg) Map.empty) = length ?jobs - card (set ?jobs)"
    using l by linarith+
  then have nil: "duplicate_ids (Categories cfg) {} = [] \<longleftrightarrow> distinct ?ids"
    "duplicate_jobs (all_jobs cfg) Map.empty = [] \<longleftrightarrow> distinct ?jobs"
    unfolding d by (simp_all only: length_0_conv [symmetric])
  show ?thesis
    using n(1) n(2) nil(1) nil(2) [unfolded jobs]
    by (simp only: TestCIStatusJobsNoDuplicates_def length_append append_is_Nil_conv length_map)
qed

lemma RequiredFields_nil_iff:
  "TestCIStatusJobsRequiredFields cfg = [] \<longleftrightarrow>
     list_all (\<lambda>cat. CategoryID cat \<noteq> [] \<and> CategoryName cat \<noteq> [] \<and> Jobs cat \<noteq> [] \<and>
       list_all (\<lambda>job. JobName job \<noteq> [] \<and> ProwJob job \<noteq> []) (Jobs cat)) (Categories cfg)"
proof -
  have *: "concat (map f (enumerate n xs)) = [] \<longleftrightarrow> list_all (\<lambda>x. Q x) xs"
    if "\<And>i x. f (i, x) = [] \<longleftrightarrow> Q x" for f :: "nat \<times> 'a \<Rightarrow> go_error list" and Q n xs
    using that by (induction xs arbitrary: n) simp_all
  have job: "concat (map (check_job cat) (enumerate n jobs)) = [] \<longleftrightarrow> list_all (\<lambda>job. JobName job \<noteq> [] \<and> ProwJob job \<noteq> []) jobs"
    for cat n jobs by (rule *) (simp add: check_job_def)
  show ?thesis
    unfolding TestCIStatusJobsRequiredFields_def by (rule *) (simp add: check_category_def job del: concat_eq_Nil_conv)
qed

end
