(* ===== verification/Spec2Isabelle.thy ===== *)
theory Spec2Isabelle
  imports VpcProperties ReadinessProperties AwsChecks OcmAccess RhobsWitnesses TestResourceProperties
    SpecWitnesses DataSpecWitnesses SuiteLabels CiStatus
begin

text \<open>
  A model of \<^verbatim>\<open>rosa-e2e\<close>, the end-to-end suite for ROSA and OSD clusters: its configuration,
  its framework (clusters, clients, cleanup, test resources), its verifiers and its reports.
  File names below are relative to the repository.

  \<^bold>\<open>The program.\<close> \<open>config.Load\<close> merges defaults, a YAML file and the environment. The
  framework opens the OCM connection, creates, waits for, upgrades and deletes clusters,
  keeps the test context with its clients, and removes what is left in a VPC. The verifiers
  look at a cluster or a service and return an error or nil; \<open>RunVerifiers\<close> runs several
  concurrently. \<open>reporting\<close> turns the outcome of a run into a JUnit file.

  \<^bold>\<open>How it is modelled.\<close> State is passed explicitly. \<open>sys\<close> (theory \<open>Prelude\<close>) has the outside
  world (any type), the monotonic clock, the history of all requests with their answers, and
  the lines written; a client is a record of \<open>api\<close> functions from the world to an answer, the
  time it took and the world after it. What is not in the repository (SDKs, client-go,
  apimachinery, ginkgo) is such a parameter, and so are the scanners of \<open>encoding/json\<close> and
  \<open>encoding/xml\<close>; the rest of the Go library that is used is modelled. An error is its format
  string and arguments, as at the place that makes it. A Go map is a list of entries in the
  order of the iteration, or a map with a parameter that lists its keys.

  \<^bold>\<open>Theories.\<close>
  \<^item> \<open>Prelude\<close>, \<open>GoStrings\<close>, \<open>GoJson\<close>, \<open>GoUrl\<close>, \<open>GoFloat\<close>: errors, process state, and the parts of
    Go's \<open>strings\<close>, \<open>strconv\<close>, \<open>encoding/json\<close> (decoding of parsed documents), \<open>net/url\<close> and
    64-bit floats. Their lemmas are inverse laws (\<open>Atoi\<close> and \<open>Itoa\<close>, \<open>Split\<close> and \<open>Join\<close>,
    escaping and unescaping) and facts on rounding.
  \<^item> \<open>Polling\<close>: the two polling loops, as partial functions, and the locale \<open>single_probe\<close> of
    what they rely on. Its lemmas say when they return, after how many probes, and with what.
  \<^item> \<open>Config\<close>: \<^verbatim>\<open>pkg/config/config.go\<close>; the record \<open>Config\<close> has the fields of the structure.
    Shown: where each field comes from, when loading fails, where secrets come from.
  \<^item> \<open>Ocm\<close>, \<open>OcmProperties\<close>: \<^verbatim>\<open>pkg/framework/ocm.go\<close>, \<^verbatim>\<open>upgrade.go\<close>, \<^verbatim>\<open>kube.go\<close>,
    \<^verbatim>\<open>pkg/verifiers/cluster.go\<close> and \<^verbatim>\<open>classic.go\<close>. Shown: the waits return and decide by the first
    decisive answer; a cluster is created by at most one request, with the resolved shard.
  \<^item> \<open>Context\<close>, \<open>ContextProperties\<close>: \<^verbatim>\<open>pkg/framework/context.go\<close> and \<^verbatim>\<open>hcp.go\<close>. Shown: the
    topology is determined once; which clients and credentials are set when.
  \<^item> \<open>VpcCleanup\<close>, \<open>VpcProperties\<close>: \<^verbatim>\<open>pkg/framework/vpc_cleanup.go\<close>; both deletion loops interpret
    the locale \<open>best_effort\<close>. Shown: order of the requests,
    completeness on success, the default group is spared, bounds on waits and retries.
  \<^item> \<open>TestResources\<close>, \<open>TestResourceProperties\<close>: \<^verbatim>\<open>pkg/framework/namespace.go\<close>, \<^verbatim>\<open>workload.go\<close> and
    \<^verbatim>\<open>storage.go\<close>. \<open>wait.PollUntilContextTimeout\<close> is a parameter under \<open>poll_contract\<close>, the
    relation \<open>poll_run\<close> of its documented runs; the locale \<open>request_condition\<close> is a poll over
    one request. Shown: what is created in which order, what is retried, what success means.
  \<^item> \<open>Kube\<close>, \<open>Verifiers\<close>, \<open>VerifierProperties\<close>: unstructured objects and the verifiers that
    read one snapshot (\<^verbatim>\<open>pkg/verifiers/clusteroperators.go\<close>, \<^verbatim>\<open>hostedcluster.go\<close>,
    \<^verbatim>\<open>managed_operators.go\<close>, \<^verbatim>\<open>hcp_namespace.go\<close>, \<^verbatim>\<open>management_cluster.go\<close>, \<^verbatim>\<open>service_cluster.go\<close>,
    \<^verbatim>\<open>workload.go\<close>, \<^verbatim>\<open>storage.go\<close>, \<^verbatim>\<open>nodes.go\<close>). Shown: exactly when each returns nil.
  \<^item> \<open>Readiness\<close>, \<open>ReadinessProperties\<close>: \<^verbatim>\<open>oauth_readiness.go\<close> and \<^verbatim>\<open>revision.go\<close>.
  \<^item> \<open>AwsChecks\<close>: \<^verbatim>\<open>tags.go\<close> and \<^verbatim>\<open>cloudtrail.go\<close>. \<open>OcmAccess\<close>: \<^verbatim>\<open>ocm_role.go\<close> and \<^verbatim>\<open>external_auth.go\<close>.
  \<^item> \<open>RhobsApi\<close>, \<open>Rhobs\<close>, \<open>RhobsProperties\<close>, \<open>RhobsGates\<close>, \<open>RhobsWitnesses\<close>: \<^verbatim>\<open>rhobs.go\<close>: tokens with
    retries, probe and metrics queries (both interpret the locale \<open>authorized_query\<close>), the
    verifiers over them, and concrete runs.
  \<^item> \<open>RunVerifiers\<close>: \<^verbatim>\<open>verifier.go\<close> as a step relation on goroutines, channel and wait group, with
    its invariant, progress, the result under every schedule, and the equivalence with
    running the verifiers one after the other in some order.
  \<^item> \<open>Reporting\<close>: \<^verbatim>\<open>pkg/reporting/sippy.go\<close> and \<open>analyzeSuiteReport\<close> of \<^verbatim>\<open>test/e2e/sippy_signals.go\<close>.
    \<open>SuiteLabels\<close>: \<^verbatim>\<open>pkg/labels/labels.go\<close> and the containers of the suite. Shown: which of them
    decide which signal. \<open>CiStatus\<close>: \<^verbatim>\<open>pkg/config/ci_status_jobs.go\<close> and the checks of its test.
  \<^item> \<open>Specs\<close>: the specs of \<^verbatim>\<open>cluster_lifecycle_test.go\<close>, \<^verbatim>\<open>upgrade_test.go\<close>,
    \<^verbatim>\<open>hostedcluster_health_test.go\<close>, \<^verbatim>\<open>managed_operators_test.go\<close>, \<^verbatim>\<open>management_cluster_test.go\<close> and
    \<^verbatim>\<open>service_cluster_test.go\<close> under \<^verbatim>\<open>test/e2e\<close>, as stages over the test context and the OCM
    state that end in \<open>Pass\<close>, \<open>Skip\<close> or \<open>Fail\<close>. ginkgo and gomega are the fields of the record
    \<open>suite\<close>, under \<open>schedule_contract\<close>, \<open>deferred_contract\<close> and \<open>eventually_contract\<close>.
    \<open>SpecProperties\<close>, \<open>LifecycleProperties\<close>, \<open>UpgradeProperties\<close>, \<open>SpecWitnesses\<close>: a cluster that a spec
    creates is asked to be deleted; what a spec that passes has seen; at most one upgrade is
    asked for; the other specs never change a cluster; and a suite that meets all contracts.
  \<^item> \<open>DataSpecs\<close>, \<open>DataSpecProperties\<close>, \<open>DataSpecWitnesses\<close>: the specs that create something in a
    cluster: \<^verbatim>\<open>workload_test.go\<close>, \<^verbatim>\<open>storage_test.go\<close>, \<^verbatim>\<open>networking_test.go\<close>, the network policies of
    \<^verbatim>\<open>customer_features_test.go\<close> and the workload after an upgrade. The history of a spec has the
    requests to all services; \<open>within\<close> runs an operation that knows one of them. Shown: which
    namespaces a spec leaves behind, and what one that passes has seen.
  \<^item> This theory: what holds across components.

  \<^bold>\<open>Loops and bounds.\<close> \<open>poll_deadline\<close> and \<open>poll_ticker\<close> have no fuel: a result \<open>None\<close> is a loop
  that does not return, and that they return is proved. The first needs a positive interval;
  the second in addition a measure on the world that falls each time the runtime picks the
  ticker although the context is done, since Go's choice between ready channels is random.
  All other loops of the code are structural recursion, counted down from the constants of
  the code (five pages, four token requests, the retries of the cleanup).

  \<^bold>\<open>Not modelled.\<close> Of the specs under \<^verbatim>\<open>test/e2e\<close>, those on other customer features, the
  management plane, RHOBS, tags, IAM, roles and revisions, and the namespace listing of the management cluster: they combine functions modelled here with
  requests of their own to other services. The entry points in \<^verbatim>\<open>e2e_test.go\<close> and \<^verbatim>\<open>setup.go\<close>
  are glue to ginkgo. Scripts, pipelines and
  configuration files are not Go code. Hexadecimal floats and underscores in numbers, JSON
  objects that repeat a key and letters beyond ASCII in comparisons without case are outside
  the model, as the theories concerned say.
\<close>

subsection \<open>Credentials from the management cluster to the RHOBS API\<close>

lemma loaded_access:
  "LoadRHOBSCredentialsFromMC dp tc s = (None, tc', s') \<Longrightarrow> HasRHOBSAccess tc'"
  by (auto simp: LoadRHOBSCredentialsFromMC_def Let_def split: if_splits option.splits prod.splits sum.splits)

lemma IsConfigured_access: "IsConfigured (NewRHOBSConfig (tcCfg tc)) \<longleftrightarrow> HasRHOBSAccess tc"
  by (simp add: IsConfigured_def NewRHOBSConfig_def HasRHOBSAccess_def)

lemma escaped_selector: "QueryEscape (cluster_selector clusterID) = ''cluster-id%3D'' @ QueryEscape clusterID"
proof -
  have "QueryEscape ''cluster-id='' = ''cluster-id%3D''" by code_simp
  then show ?thesis by (simp add: cluster_selector_def QueryEscape_def)
qed



end
